theory Spec2Isabelle
  imports Main
begin

section \<open>Python values, exceptions and the outside world\<close>

text \<open>
  The wrappers build Python dictionaries, hand them to the \<open>requests\<close> library and
  return either what \<open>response.json()\<close> gives, a literal, or \<open>str(e)\<close>. One type of
  Python values covers all of these; a dictionary keeps its insertion order, so it is
  an association list.
\<close>

datatype pyval =
    PNone
  | PBool bool
  | PInt int
  | PStr string
  | PList "pyval list"
  | PDict "(string \<times> pyval) list"



text \<open>
  The exceptions that occur in the modelled functions. \<open>RequestException\<close> stands for
  \<open>requests.RequestException\<close> and all its subclasses (connection errors, timeouts,
  \<open>HTTPError\<close>); its argument is \<open>str(e)\<close>. The others are builtin exceptions, which
  no handler of the repository names.
\<close>

datatype exn =
    RequestException string
  | OSError string
  | KeyError string
  | ValueError string
  | TypeError string
  | AttributeError string
  | UnboundLocalError string

datatype http_method = GET | POST | PUT | PATCH | DELETE

text \<open>
  One call of \<open>requests.get/post/put/patch/delete\<close>: the verb, the URL and the keyword
  arguments the repository uses. A keyword that is not passed is \<open>None\<close>.
\<close>

record request =
  meth :: http_method
  url :: string
  headers :: "(string \<times> string) list option"
  params :: "(string \<times> pyval) list option"
  json :: "pyval option"
  data :: "(string \<times> pyval) list option"
  upfiles :: "(string \<times> string) list option"
  auth :: "(string \<times> string) option"

text \<open>
  What the code reads from a \<open>requests.Response\<close>: the status code; the message that
  \<open>raise_for_status()\<close> puts into its \<open>HTTPError\<close>; the outcome of \<open>.json()\<close>, which
  is the decoded body or the exception the installed \<open>requests\<close> raises on a body that
  is not JSON (a \<open>RequestException\<close> subclass from 2.27 on, a \<open>ValueError\<close> before);
  and \<open>.content\<close>.
\<close>

record response =
  status_code :: nat
  error_text :: string
  body_json :: "exn + pyval"
  content :: string

text \<open>
  The HTTP layer is a parameter of every wrapper: for a request it either fails in
  transport, with the text of the exception, or delivers a response.
\<close>

datatype reply = Failed string | Replied response

type_synonym http_layer = "request \<Rightarrow> reply"

text \<open>
  The state outside a call: the requests issued so far (an observation, never read by
  the code), the records handed to \<open>logging.error\<close>, the readable local files and the
  paths that cannot be opened for writing.
\<close>

record world =
  sent :: "request list"
  logged :: "string list"
  fs :: "(string \<times> string) list"
  unwritable :: "string list"

text \<open>A Python computation: it changes the world and returns a value or raises.\<close>

type_synonym 'a py = "world \<Rightarrow> (exn + 'a) \<times> world"

definition ret :: "'a \<Rightarrow> 'a py" where
  "ret x w = (Inr x, w)"

definition raise :: "exn \<Rightarrow> 'a py" where
  "raise e w = (Inl e, w)"

definition bind :: "'a py \<Rightarrow> ('a \<Rightarrow> 'b py) \<Rightarrow> 'b py" where
  "bind m f w = (case m w of (Inl e, w') \<Rightarrow> (Inl e, w') | (Inr x, w') \<Rightarrow> f x w')"

text \<open>
  \<open>try: m except requests.RequestException as e: h(str(e))\<close>. Every other exception
  leaves the block untouched.
\<close>

definition try_except :: "'a py \<Rightarrow> (string \<Rightarrow> 'a py) \<Rightarrow> 'a py" where
  "try_except m h w =
     (case m w of
        (Inl (RequestException msg), w') \<Rightarrow> h msg w'
      | other \<Rightarrow> other)"

subsection \<open>The library calls\<close>

definition requests_call :: "http_layer \<Rightarrow> request \<Rightarrow> response py" where
  "requests_call http r w =
     (case http r of
        Failed msg \<Rightarrow> (Inl (RequestException msg), w\<lparr>sent := sent w @ [r]\<rparr>)
      | Replied resp \<Rightarrow> (Inr resp, w\<lparr>sent := sent w @ [r]\<rparr>))"

definition raise_for_status :: "response \<Rightarrow> unit py" where
  "raise_for_status resp =
     (if 400 \<le> status_code resp \<and> status_code resp < 600
      then raise (RequestException (error_text resp))
      else ret ())"

definition response_json :: "response \<Rightarrow> pyval py" where
  "response_json resp w = (body_json resp, w)"

definition logging_error :: "string \<Rightarrow> unit py" where
  "logging_error msg w = (Inr (), w\<lparr>logged := logged w @ [msg]\<rparr>)"

text \<open>
  The handler every guarded wrapper has:
  \<^verbatim>\<open>logging.error(f"An error occurred: {e}"); return str(e)\<close>.
\<close>

definition log_and_return_str :: "string \<Rightarrow> pyval py" where
  "log_and_return_str e =
     bind (logging_error (''An error occurred: '' @ e)) (\<lambda>_. ret (PStr e))"

text \<open>A request with no keyword argument.\<close>

definition bare :: "http_method \<Rightarrow> string \<Rightarrow> request" where
  "bare m u = \<lparr>meth = m, url = u, headers = None, params = None, json = None,
              data = None, upfiles = None, auth = None\<rparr>"

section \<open>Python builtins the wrappers use\<close>

text \<open>
  \<open>open(path, "rb")\<close> raises \<open>OSError\<close> when the file cannot be read, and otherwise
  gives the file, of which the model keeps the contents. Writing \<open>open(path, "wb")\<close>
  and \<open>f.write(c)\<close> as one step, it raises \<open>OSError\<close> on a path that cannot be
  opened for writing and otherwise replaces the file.
\<close>

definition open_rb :: "string \<Rightarrow> string py" where
  "open_rb path w =
     (case map_of (fs w) path of
        None \<Rightarrow> (Inl (OSError path), w)
      | Some c \<Rightarrow> (Inr c, w))"

definition open_wb_write :: "string \<Rightarrow> string \<Rightarrow> unit py" where
  "open_wb_write path c w =
     (if path \<in> set (unwritable w) then (Inl (OSError path), w)
      else (Inr (), w\<lparr>fs := (path, c) # fs w\<rparr>))"

text \<open>An argument of type \<open>Optional[T]\<close> as the Python value it is.\<close>

fun of_opt :: "('a \<Rightarrow> pyval) \<Rightarrow> 'a option \<Rightarrow> pyval" where
  "of_opt f None = PNone"
| "of_opt f (Some x) = f x"

text \<open>
  A \<open>Dict[str, str]\<close> argument put into a payload, and \<open>str(x)\<close> of an
  \<open>Optional[str]\<close>, as an f-string formats it.
\<close>

definition of_str_dict :: "(string \<times> string) list \<Rightarrow> pyval" where
  "of_str_dict d = PDict (map (\<lambda>(k, v). (k, PStr v)) d)"

fun str_opt :: "string option \<Rightarrow> string" where
  "str_opt None = ''None''"
| "str_opt (Some s) = s"

text \<open>\<open>str(n)\<close> of an integer, as an f-string writes it into a URL.\<close>

fun str_nat :: "nat \<Rightarrow> string" where
  "str_nat n =
     (if n < 10 then [''0123456789'' ! n]
      else str_nat (n div 10) @ [''0123456789'' ! (n mod 10)])"

declare str_nat.simps [simp del]

definition str_int :: "int \<Rightarrow> string" where
  "str_int i = (if i < 0 then ''-'' @ str_nat (nat (- i)) else str_nat (nat i))"

text \<open>\<open>sep.join(xs)\<close>.\<close>

fun join :: "string \<Rightarrow> string list \<Rightarrow> string" where
  "join sep [] = []"
| "join sep [x] = x"
| "join sep (x # y # ys) = x @ sep @ join sep (y # ys)"

text \<open>\<open>d[k]\<close> on a \<open>Dict[str, str]\<close>.\<close>

definition subscript :: "(string \<times> 'a) list \<Rightarrow> string \<Rightarrow> 'a py" where
  "subscript d k =
     (case map_of d k of
        None \<Rightarrow> raise (KeyError k)
      | Some v \<Rightarrow> ret v)"

text \<open>
  \<open>v.get(k, default)\<close>: a method of dictionaries only; a body that decodes to anything
  else has no attribute \<open>get\<close>.
\<close>

definition dict_get :: "pyval \<Rightarrow> string \<Rightarrow> pyval \<Rightarrow> pyval py" where
  "dict_get v k dflt =
     (case v of
        PDict d \<Rightarrow> ret (case map_of d k of None \<Rightarrow> dflt | Some x \<Rightarrow> x)
      | _ \<Rightarrow> raise (AttributeError ''get''))"

text \<open>
  \<open>v[k]\<close> on a decoded body: the entry of a dictionary, \<open>KeyError\<close> where it has
  none, and \<open>TypeError\<close> on a list, a string, a number or \<open>None\<close>.
\<close>

definition item :: "pyval \<Rightarrow> string \<Rightarrow> pyval py" where
  "item v k =
     (case v of
        PDict d \<Rightarrow> (case map_of d k of None \<Rightarrow> raise (KeyError k) | Some x \<Rightarrow> ret x)
      | _ \<Rightarrow> raise (TypeError ''subscript''))"

definition logging_warning :: "string \<Rightarrow> unit py" where
  "logging_warning msg w = (Inr (), w\<lparr>logged := logged w @ [msg]\<rparr>)"

text \<open>
  \<open>base64.b64encode(s.encode()).decode()\<close>: the characters of a \<open>string\<close> are the
  bytes of the encoded text; three bytes give four letters, and the last group is padded.
\<close>

definition b64_letter :: "nat \<Rightarrow> char" where
  "b64_letter n =
     ''ABCDEFGHIJKLMNOPQRSTUVWXYZabcdefghijklmnopqrstuvwxyz0123456789+/'' ! n"

fun b64_groups :: "nat list \<Rightarrow> string" where
  "b64_groups [] = []"
| "b64_groups [a] =
     [b64_letter (a div 4), b64_letter ((a mod 4) * 16), CHR ''='', CHR ''='']"
| "b64_groups [a, b] =
     [b64_letter (a div 4), b64_letter ((a mod 4) * 16 + b div 16),
      b64_letter ((b mod 16) * 4), CHR ''='']"
| "b64_groups (a # b # c # rest) =
     [b64_letter (a div 4), b64_letter ((a mod 4) * 16 + b div 16),
      b64_letter ((b mod 16) * 4 + c div 64), b64_letter (c mod 64)] @ b64_groups rest"

definition b64encode :: "string \<Rightarrow> string" where
  "b64encode s = b64_groups (map of_char s)"

section \<open>Shapes of the wrappers\<close>

text \<open>
  How the source of a wrapper is built. \<open>Unguarded\<close>: no \<open>try\<close> and no
  \<open>raise_for_status()\<close>, the body of the answer is returned. \<open>Placeholder\<close>: no call
  is made, a message is returned. The others have the
  \<open>try\<close>/\<open>except requests.RequestException\<close> block with \<open>raise_for_status()\<close> and
  differ in what follows it: \<open>return response.json()\<close>; \<open>return
  response.json().get(k, default)\<close>; \<open>return response.json()[k]\<close>; the return of a
  literal dictionary \<open>{"status": s}\<close>; the return of a message string; the writing of
  \<open>response.content\<close> to a file and \<open>return None\<close>. A shape carries what the source
  writes there: the key and default, the status, the message, the path.
\<close>

datatype shape =
    Unguarded
  | Returns_body
  | Returns_field string pyval
  | Returns_item string
  | Returns_status string
  | Returns_message string
  | Saves_content string
  | Placeholder string

section \<open>Confluence: attachments\<close>

text \<open>The functions of \<^verbatim>\<open>actions/confluence/attachments.py\<close>, in the order of the file.\<close>

text \<open>
  \<open>upload_attachment\<close> opens the file inside the \<open>try\<close>, and makes the call inside
  the \<open>with\<close>.
\<close>

definition upload_attachment ::
  "http_layer \<Rightarrow> string \<Rightarrow> string \<times> string \<Rightarrow> string \<Rightarrow> string \<Rightarrow> pyval py" where
  "upload_attachment http base_url auth' page_id file_path =
     (let url' = base_url @ ''/rest/api/content/'' @ page_id @ ''/child/attachment'';
          headers' = [(''X-Atlassian-Token'', ''no-check'')]
      in try_except
           (bind (open_rb file_path)
              (\<lambda>f. bind (requests_call http
                    ((bare POST url')\<lparr>headers := Some headers',
                                      upfiles := Some [(''file'', f)], auth := Some auth'\<rparr>))
              (\<lambda>response. bind (raise_for_status response)
              (\<lambda>_. response_json response))))
           log_and_return_str)"

definition download_attachment ::
  "http_layer \<Rightarrow> string \<Rightarrow> string \<times> string \<Rightarrow> string \<Rightarrow> string \<Rightarrow> pyval py" where
  "download_attachment http base_url auth' attachment_id save_path =
     (let url' = base_url @ ''/rest/api/content/'' @ attachment_id @ ''/download''
      in try_except
           (bind (requests_call http ((bare GET url')\<lparr>auth := Some auth'\<rparr>))
              (\<lambda>response. bind (raise_for_status response)
              (\<lambda>_. bind (open_wb_write save_path (content response))
              (\<lambda>_. ret PNone))))
           log_and_return_str)"

definition delete_attachment ::
  "http_layer \<Rightarrow> string \<Rightarrow> string \<times> string \<Rightarrow>
     string \<Rightarrow> pyval py" where
  "delete_attachment http base_url auth' attachment_id =
     (let url' = base_url @ ''/rest/api/content/'' @ attachment_id
      in try_except
           (bind (requests_call http
                    ((bare DELETE url')\<lparr>auth := Some auth'\<rparr>))
              (\<lambda>response. bind (raise_for_status response)
              (\<lambda>_. ret (PDict [(''status'', PStr ''Attachment deleted successfully'')]))))
           log_and_return_str)"

definition list_attachments_on_page ::
  "http_layer \<Rightarrow> string \<Rightarrow> string \<times> string \<Rightarrow>
     string \<Rightarrow> int \<Rightarrow> pyval py" where
  "list_attachments_on_page http base_url auth' page_id limit =
     (let url' = base_url @ ''/rest/api/content/'' @ page_id @ ''/child/attachment'';
          params' = [(''limit'', PInt limit)]
      in try_except
           (bind (requests_call http
                    ((bare GET url')\<lparr>params := Some params', auth := Some auth'\<rparr>))
              (\<lambda>response. bind (raise_for_status response)
              (\<lambda>_. response_json response)))
           log_and_return_str)"

datatype confluence_attachments_call =
    Upload_attachment string "string \<times> string" string string
  | Download_attachment string "string \<times> string" string string
  | Delete_attachment string "string \<times> string" string
  | List_attachments_on_page string "string \<times> string" string int

fun run_confluence_attachments :: "http_layer \<Rightarrow> confluence_attachments_call \<Rightarrow> pyval py" where
  "run_confluence_attachments http (Upload_attachment base_url auth' page_id file_path) =
     upload_attachment http base_url auth' page_id file_path"
| "run_confluence_attachments http (Download_attachment base_url auth' attachment_id save_path) =
     download_attachment http base_url auth' attachment_id save_path"
| "run_confluence_attachments http (Delete_attachment base_url auth' attachment_id) =
     delete_attachment http base_url auth' attachment_id"
| "run_confluence_attachments http (List_attachments_on_page base_url auth' page_id limit) =
     list_attachments_on_page http base_url auth' page_id limit"

fun shape_of_confluence_attachments :: "confluence_attachments_call \<Rightarrow> shape" where
  "shape_of_confluence_attachments (Upload_attachment _ _ _ _) = Returns_body"
| "shape_of_confluence_attachments (Download_attachment _ _ _ save_path) = Saves_content save_path"
| "shape_of_confluence_attachments (Delete_attachment _ _ _) =
     Returns_status ''Attachment deleted successfully''"
| "shape_of_confluence_attachments (List_attachments_on_page _ _ _ _) = Returns_body"


section \<open>Confluence: comments\<close>

text \<open>The functions of \<^verbatim>\<open>actions/confluence/comments.py\<close>, in the order of the file.\<close>

definition create_comment ::
  "http_layer \<Rightarrow> string \<Rightarrow> string \<times> string \<Rightarrow>
     string \<Rightarrow> string \<Rightarrow> pyval py" where
  "create_comment http base_url auth' page_id content' =
     (let url' = base_url @ ''/rest/api/content/'' @ page_id @ ''/child/comment'';
          headers' = [(''Content-Type'', ''application/json'')];
          payload = PDict [
                      (''type'', PStr ''comment''),
                      (''body'',
                        PDict [
                          (''storage'',
                            PDict [
                              (''value'', PStr content'),
                              (''representation'', PStr ''storage'')])])]
      in try_except
           (bind (requests_call http
                    ((bare POST url')\<lparr>headers := Some headers', json := Some payload,
                                             auth := Some auth'\<rparr>))
              (\<lambda>response. bind (raise_for_status response)
              (\<lambda>_. response_json response)))
           log_and_return_str)"

definition read_comment ::
  "http_layer \<Rightarrow> string \<Rightarrow> string \<times> string \<Rightarrow>
     string \<Rightarrow> pyval py" where
  "read_comment http base_url auth' comment_id =
     (let url' = base_url @ ''/rest/api/content/'' @ comment_id
      in try_except
           (bind (requests_call http
                    ((bare GET url')\<lparr>auth := Some auth'\<rparr>))
              (\<lambda>response. bind (raise_for_status response)
              (\<lambda>_. response_json response)))
           log_and_return_str)"

definition update_comment ::
  "http_layer \<Rightarrow> string \<Rightarrow> string \<times> string \<Rightarrow>
     string \<Rightarrow> int \<Rightarrow> string \<Rightarrow> pyval py" where
  "update_comment http base_url auth' comment_id version content' =
     (let url' = base_url @ ''/rest/api/content/'' @ comment_id;
          headers' = [(''Content-Type'', ''application/json'')];
          payload = PDict [
                      (''version'', PDict [(''number'', PInt (version + 1))]),
                      (''type'', PStr ''comment''),
                      (''body'',
                        PDict [
                          (''storage'',
                            PDict [
                              (''value'', PStr content'),
                              (''representation'', PStr ''storage'')])])]
      in try_except
           (bind (requests_call http
                    ((bare PUT url')\<lparr>headers := Some headers', json := Some payload,
                                            auth := Some auth'\<rparr>))
              (\<lambda>response. bind (raise_for_status response)
              (\<lambda>_. response_json response)))
           log_and_return_str)"

definition delete_comment ::
  "http_layer \<Rightarrow> string \<Rightarrow> string \<times> string \<Rightarrow>
     string \<Rightarrow> pyval py" where
  "delete_comment http base_url auth' comment_id =
     (let url' = base_url @ ''/rest/api/content/'' @ comment_id
      in try_except
           (bind (requests_call http
                    ((bare DELETE url')\<lparr>auth := Some auth'\<rparr>))
              (\<lambda>response. bind (raise_for_status response)
              (\<lambda>_. ret (PDict [(''status'', PStr ''Comment deleted successfully'')]))))
           log_and_return_str)"

definition list_comments_on_page ::
  "http_layer \<Rightarrow> string \<Rightarrow> string \<times> string \<Rightarrow>
     string \<Rightarrow> int \<Rightarrow> pyval py" where
  "list_comments_on_page http base_url auth' page_id limit =
     (let url' = base_url @ ''/rest/api/content/'' @ page_id @ ''/child/comment'';
          params' = [(''limit'', PInt limit)]
      in try_except
           (bind (requests_call http
                    ((bare GET url')\<lparr>params := Some params', auth := Some auth'\<rparr>))
              (\<lambda>response. bind (raise_for_status response)
              (\<lambda>_. response_json response)))
           log_and_return_str)"

datatype confluence_comments_call =
    Create_comment string "string \<times> string" string string
  | Read_comment string "string \<times> string" string
  | Update_comment string "string \<times> string" string int string
  | Delete_comment string "string \<times> string" string
  | List_comments_on_page string "string \<times> string" string int

fun run_confluence_comments :: "http_layer \<Rightarrow> confluence_comments_call \<Rightarrow> pyval py" where
  "run_confluence_comments http (Create_comment base_url auth' page_id content') =
     create_comment http base_url auth' page_id content'"
| "run_confluence_comments http (Read_comment base_url auth' comment_id) =
     read_comment http base_url auth' comment_id"
| "run_confluence_comments http (Update_comment base_url auth' comment_id version content') =
     update_comment http base_url auth' comment_id version content'"
| "run_confluence_comments http (Delete_comment base_url auth' comment_id) =
     delete_comment http base_url auth' comment_id"
| "run_confluence_comments http (List_comments_on_page base_url auth' page_id limit) =
     list_comments_on_page http base_url auth' page_id limit"

fun shape_of_confluence_comments :: "confluence_comments_call \<Rightarrow> shape" where
  "shape_of_confluence_comments (Create_comment _ _ _ _) = Returns_body"
| "shape_of_confluence_comments (Read_comment _ _ _) = Returns_body"
| "shape_of_confluence_comments (Update_comment _ _ _ _ _) = Returns_body"
| "shape_of_confluence_comments (Delete_comment _ _ _) =
     Returns_status ''Comment deleted successfully''"
| "shape_of_confluence_comments (List_comments_on_page _ _ _ _) = Returns_body"

section \<open>Confluence: groups\<close>

text \<open>The functions of \<^verbatim>\<open>actions/confluence/groups.py\<close>, in the order of the file.\<close>

definition confluence_create_group ::
  "http_layer \<Rightarrow> string \<Rightarrow> string \<times> string \<Rightarrow>
     string \<Rightarrow> pyval py" where
  "confluence_create_group http base_url auth' group_name =
     (let url' = base_url @ ''/rest/api/group'';
          headers' = [(''Content-Type'', ''application/json'')];
          payload = PDict [(''name'', PStr group_name)]
      in try_except
           (bind (requests_call http
                    ((bare POST url')\<lparr>headers := Some headers', json := Some payload,
                                             auth := Some auth'\<rparr>))
              (\<lambda>response. bind (raise_for_status response)
              (\<lambda>_. response_json response)))
           log_and_return_str)"

definition confluence_delete_group ::
  "http_layer \<Rightarrow> string \<Rightarrow> string \<times> string \<Rightarrow>
     string \<Rightarrow> pyval py" where
  "confluence_delete_group http base_url auth' group_name =
     (let url' = base_url @ ''/rest/api/group'';
          params' = [(''groupname'', PStr group_name)]
      in try_except
           (bind (requests_call http
                    ((bare DELETE url')\<lparr>params := Some params', auth := Some auth'\<rparr>))
              (\<lambda>response. bind (raise_for_status response)
              (\<lambda>_. ret (PDict [(''status'', PStr ''Group deleted successfully'')]))))
           log_and_return_str)"

definition add_user_to_group ::
  "http_layer \<Rightarrow> string \<Rightarrow> string \<times> string \<Rightarrow>
     string \<Rightarrow> string \<Rightarrow> pyval py" where
  "add_user_to_group http base_url auth' group_name username =
     (let url' = base_url @ ''/rest/api/group/user'';
          params' = [(''groupname'', PStr group_name)];
          headers' = [(''Content-Type'', ''application/json'')];
          payload = PDict [(''name'', PStr username)]
      in try_except
           (bind (requests_call http
                    ((bare POST url')\<lparr>params := Some params', headers := Some headers',
                                             json := Some payload, auth := Some auth'\<rparr>))
              (\<lambda>response. bind (raise_for_status response)
              (\<lambda>_. response_json response)))
           log_and_return_str)"

definition remove_user_from_group ::
  "http_layer \<Rightarrow> string \<Rightarrow> string \<times> string \<Rightarrow>
     string \<Rightarrow> string \<Rightarrow> pyval py" where
  "remove_user_from_group http base_url auth' group_name username =
     (let url' = base_url @ ''/rest/api/group/user'';
          params' = [(''groupname'', PStr group_name), (''username'', PStr username)]
      in try_except
           (bind (requests_call http
                    ((bare DELETE url')\<lparr>params := Some params', auth := Some auth'\<rparr>))
              (\<lambda>response. bind (raise_for_status response)
              (\<lambda>_. ret (PDict [(''status'', PStr ''User removed from group successfully'')]))))
           log_and_return_str)"

definition confluence_list_all_groups ::
  "http_layer \<Rightarrow> string \<Rightarrow> string \<times> string \<Rightarrow>
     int \<Rightarrow> pyval py" where
  "confluence_list_all_groups http base_url auth' limit =
     (let url' = base_url @ ''/rest/api/group'';
          params' = [(''limit'', PInt limit)]
      in try_except
           (bind (requests_call http
                    ((bare GET url')\<lparr>params := Some params', auth := Some auth'\<rparr>))
              (\<lambda>response. bind (raise_for_status response)
              (\<lambda>_. response_json response)))
           log_and_return_str)"

datatype confluence_groups_call =
    Confluence_create_group string "string \<times> string" string
  | Confluence_delete_group string "string \<times> string" string
  | Add_user_to_group string "string \<times> string" string string
  | Remove_user_from_group string "string \<times> string" string string
  | Confluence_list_all_groups string "string \<times> string" int

fun run_confluence_groups :: "http_layer \<Rightarrow> confluence_groups_call \<Rightarrow> pyval py" where
  "run_confluence_groups http (Confluence_create_group base_url auth' group_name) =
     confluence_create_group http base_url auth' group_name"
| "run_confluence_groups http (Confluence_delete_group base_url auth' group_name) =
     confluence_delete_group http base_url auth' group_name"
| "run_confluence_groups http (Add_user_to_group base_url auth' group_name username) =
     add_user_to_group http base_url auth' group_name username"
| "run_confluence_groups http (Remove_user_from_group base_url auth' group_name username) =
     remove_user_from_group http base_url auth' group_name username"
| "run_confluence_groups http (Confluence_list_all_groups base_url auth' limit) =
     confluence_list_all_groups http base_url auth' limit"

fun shape_of_confluence_groups :: "confluence_groups_call \<Rightarrow> shape" where
  "shape_of_confluence_groups (Confluence_create_group _ _ _) = Returns_body"
| "shape_of_confluence_groups (Confluence_delete_group _ _ _) =
     Returns_status ''Group deleted successfully''"
| "shape_of_confluence_groups (Add_user_to_group _ _ _ _) = Returns_body"
| "shape_of_confluence_groups (Remove_user_from_group _ _ _ _) =
     Returns_status ''User removed from group successfully''"
| "shape_of_confluence_groups (Confluence_list_all_groups _ _ _) = Returns_body"

section \<open>Confluence: labels\<close>

text \<open>The functions of \<^verbatim>\<open>actions/confluence/labels.py\<close>, in the order of the file.\<close>

definition add_label_to_page ::
  "http_layer \<Rightarrow> string \<Rightarrow> string \<times> string \<Rightarrow>
     string \<Rightarrow> string \<Rightarrow> pyval py" where
  "add_label_to_page http base_url auth' page_id label =
     (let url' = base_url @ ''/rest/api/content/'' @ page_id @ ''/label'';
          headers' = [(''Content-Type'', ''application/json'')];
          payload = PDict [(''name'', PStr label)]
      in try_except
           (bind (requests_call http
                    ((bare POST url')\<lparr>headers := Some headers', json := Some payload,
                                             auth := Some auth'\<rparr>))
              (\<lambda>response. bind (raise_for_status response)
              (\<lambda>_. response_json response)))
           log_and_return_str)"

definition remove_label_from_page ::
  "http_layer \<Rightarrow> string \<Rightarrow> string \<times> string \<Rightarrow>
     string \<Rightarrow> string \<Rightarrow> pyval py" where
  "remove_label_from_page http base_url auth' page_id label =
     (let url' = base_url @ ''/rest/api/content/'' @ page_id @ ''/label/'' @ label
      in try_except
           (bind (requests_call http
                    ((bare DELETE url')\<lparr>auth := Some auth'\<rparr>))
              (\<lambda>response. bind (raise_for_status response)
              (\<lambda>_. ret (PDict [(''status'', PStr ''Label removed successfully'')]))))
           log_and_return_str)"

definition list_labels_on_page ::
  "http_layer \<Rightarrow> string \<Rightarrow> string \<times> string \<Rightarrow>
     string \<Rightarrow> int \<Rightarrow> pyval py" where
  "list_labels_on_page http base_url auth' page_id limit =
     (let url' = base_url @ ''/rest/api/content/'' @ page_id @ ''/label'';
          params' = [(''limit'', PInt limit)]
      in try_except
           (bind (requests_call http
                    ((bare GET url')\<lparr>params := Some params', auth := Some auth'\<rparr>))
              (\<lambda>response. bind (raise_for_status response)
              (\<lambda>_. response_json response)))
           log_and_return_str)"

datatype confluence_labels_call =
    Add_label_to_page string "string \<times> string" string string
  | Remove_label_from_page string "string \<times> string" string string
  | List_labels_on_page string "string \<times> string" string int

fun run_confluence_labels :: "http_layer \<Rightarrow> confluence_labels_call \<Rightarrow> pyval py" where
  "run_confluence_labels http (Add_label_to_page base_url auth' page_id label) =
     add_label_to_page http base_url auth' page_id label"
| "run_confluence_labels http (Remove_label_from_page base_url auth' page_id label) =
     remove_label_from_page http base_url auth' page_id label"
| "run_confluence_labels http (List_labels_on_page base_url auth' page_id limit) =
     list_labels_on_page http base_url auth' page_id limit"

fun shape_of_confluence_labels :: "confluence_labels_call \<Rightarrow> shape" where
  "shape_of_confluence_labels (Add_label_to_page _ _ _ _) = Returns_body"
| "shape_of_confluence_labels (Remove_label_from_page _ _ _ _) =
     Returns_status ''Label removed successfully''"
| "shape_of_confluence_labels (List_labels_on_page _ _ _ _) = Returns_body"

section \<open>Confluence: pages\<close>

text \<open>The functions of \<^verbatim>\<open>actions/confluence/pages.py\<close>, in the order of the file.\<close>

definition create_page ::
  "http_layer \<Rightarrow> string \<Rightarrow> string \<times> string \<Rightarrow> string \<Rightarrow> string \<Rightarrow> string \<Rightarrow> pyval py" where
  "create_page http base_url auth' space_key title content' =
     (let url' = base_url @ ''/rest/api/content'';
          headers' = [(''Content-Type'', ''application/json'')];
          payload = PDict [
            (''type'', PStr ''page''),
            (''title'', PStr title),
            (''space'', PDict [(''key'', PStr space_key)]),
            (''body'', PDict [(''storage'',
               PDict [(''value'', PStr content'), (''representation'', PStr ''storage'')])])]
      in try_except
           (bind (requests_call http
                    ((bare POST url')\<lparr>headers := Some headers', json := Some payload,
                                      auth := Some auth'\<rparr>))
              (\<lambda>response. bind (raise_for_status response)
              (\<lambda>_. response_json response)))
           log_and_return_str)"

definition read_page :: "http_layer \<Rightarrow> string \<Rightarrow> string \<times> string \<Rightarrow> string \<Rightarrow> pyval py" where
  "read_page http base_url auth' page_id =
     (let url' = base_url @ ''/rest/api/content/'' @ page_id
      in try_except
           (bind (requests_call http ((bare GET url')\<lparr>auth := Some auth'\<rparr>))
              (\<lambda>response. bind (raise_for_status response)
              (\<lambda>_. response_json response)))
           log_and_return_str)"

definition update_page ::
  "http_layer \<Rightarrow> string \<Rightarrow> string \<times> string \<Rightarrow> string \<Rightarrow> int \<Rightarrow> string \<Rightarrow> string \<Rightarrow> pyval py" where
  "update_page http base_url auth' page_id version title content' =
     (let url' = base_url @ ''/rest/api/content/'' @ page_id;
          headers' = [(''Content-Type'', ''application/json'')];
          payload = PDict [
            (''version'', PDict [(''number'', PInt (version + 1))]),
            (''title'', PStr title),
            (''type'', PStr ''page''),
            (''body'', PDict [(''storage'',
               PDict [(''value'', PStr content'), (''representation'', PStr ''storage'')])])]
      in try_except
           (bind (requests_call http
                    ((bare PUT url')\<lparr>headers := Some headers', json := Some payload,
                                     auth := Some auth'\<rparr>))
              (\<lambda>response. bind (raise_for_status response)
              (\<lambda>_. response_json response)))
           log_and_return_str)"

definition delete_page :: "http_layer \<Rightarrow> string \<Rightarrow> string \<times> string \<Rightarrow> string \<Rightarrow> pyval py" where
  "delete_page http base_url auth' page_id =
     (let url' = base_url @ ''/rest/api/content/'' @ page_id
      in try_except
           (bind (requests_call http ((bare DELETE url')\<lparr>auth := Some auth'\<rparr>))
              (\<lambda>response. bind (raise_for_status response)
              (\<lambda>_. ret (PDict [(''status'', PStr ''Page deleted successfully'')]))))
           log_and_return_str)"

definition list_pages_by_space ::
  "http_layer \<Rightarrow> string \<Rightarrow> string \<times> string \<Rightarrow>
     string \<Rightarrow> int \<Rightarrow> pyval py" where
  "list_pages_by_space http base_url auth' space_key limit =
     (let url' = base_url @ ''/rest/api/content'';
          params' = [
                      (''spaceKey'', PStr space_key),
                      (''limit'', PInt limit),
                      (''type'', PStr ''page'')]
      in try_except
           (bind (requests_call http
                    ((bare GET url')\<lparr>params := Some params', auth := Some auth'\<rparr>))
              (\<lambda>response. bind (raise_for_status response)
              (\<lambda>_. response_json response)))
           log_and_return_str)"

datatype confluence_pages_call =
    Create_page string "string \<times> string" string string string
  | Read_page string "string \<times> string" string
  | Update_page string "string \<times> string" string int string string
  | Delete_page string "string \<times> string" string
  | List_pages_by_space string "string \<times> string" string int

fun run_confluence_pages :: "http_layer \<Rightarrow> confluence_pages_call \<Rightarrow> pyval py" where
  "run_confluence_pages http (Create_page base_url auth' space_key title content') =
     create_page http base_url auth' space_key title content'"
| "run_confluence_pages http (Read_page base_url auth' page_id) =
     read_page http base_url auth' page_id"
| "run_confluence_pages http (Update_page base_url auth' page_id version title content') =
     update_page http base_url auth' page_id version title content'"
| "run_confluence_pages http (Delete_page base_url auth' page_id) =
     delete_page http base_url auth' page_id"
| "run_confluence_pages http (List_pages_by_space base_url auth' space_key limit) =
     list_pages_by_space http base_url auth' space_key limit"

fun shape_of_confluence_pages :: "confluence_pages_call \<Rightarrow> shape" where
  "shape_of_confluence_pages (Create_page _ _ _ _ _) = Returns_body"
| "shape_of_confluence_pages (Read_page _ _ _) = Returns_body"
| "shape_of_confluence_pages (Update_page _ _ _ _ _ _) = Returns_body"
| "shape_of_confluence_pages (Delete_page _ _ _) = Returns_status ''Page deleted successfully''"
| "shape_of_confluence_pages (List_pages_by_space _ _ _ _) = Returns_body"

section \<open>Confluence: permissions\<close>

text \<open>The functions of \<^verbatim>\<open>actions/confluence/permissions.py\<close>, in the order of the file.\<close>

definition add_page_permissions ::
  "http_layer \<Rightarrow> string \<Rightarrow> string \<times> string \<Rightarrow>
     string \<Rightarrow> pyval \<Rightarrow> pyval py" where
  "add_page_permissions http base_url auth' page_id permissions =
     (let url' = base_url @ ''/rest/api/content/'' @ page_id @ ''/restriction'';
          headers' = [(''Content-Type'', ''application/json'')]
      in try_except
           (bind (requests_call http
                    ((bare POST url')\<lparr>headers := Some headers', json := Some permissions,
                                             auth := Some auth'\<rparr>))
              (\<lambda>response. bind (raise_for_status response)
              (\<lambda>_. response_json response)))
           log_and_return_str)"

definition remove_page_permissions ::
  "http_layer \<Rightarrow> string \<Rightarrow> string \<times> string \<Rightarrow>
     string \<Rightarrow> pyval \<Rightarrow> pyval py" where
  "remove_page_permissions http base_url auth' page_id permissions =
     (let url' = base_url @ ''/rest/api/content/'' @ page_id @ ''/restriction'';
          headers' = [(''Content-Type'', ''application/json'')]
      in try_except
           (bind (requests_call http
                    ((bare DELETE url')\<lparr>headers := Some headers', json := Some permissions,
                                               auth := Some auth'\<rparr>))
              (\<lambda>response. bind (raise_for_status response)
              (\<lambda>_. ret (PDict [(''status'', PStr ''Permissions removed successfully'')]))))
           log_and_return_str)"

definition list_page_permissions ::
  "http_layer \<Rightarrow> string \<Rightarrow> string \<times> string \<Rightarrow>
     string \<Rightarrow> pyval py" where
  "list_page_permissions http base_url auth' page_id =
     (let url' = base_url @ ''/rest/api/content/'' @ page_id @ ''/restriction''
      in try_except
           (bind (requests_call http
                    ((bare GET url')\<lparr>auth := Some auth'\<rparr>))
              (\<lambda>response. bind (raise_for_status response)
              (\<lambda>_. response_json response)))
           log_and_return_str)"

datatype confluence_permissions_call =
    Add_page_permissions string "string \<times> string" string pyval
  | Remove_page_permissions string "string \<times> string" string pyval
  | List_page_permissions string "string \<times> string" string

fun run_confluence_permissions :: "http_layer \<Rightarrow> confluence_permissions_call \<Rightarrow> pyval py" where
  "run_confluence_permissions http (Add_page_permissions base_url auth' page_id permissions) =
     add_page_permissions http base_url auth' page_id permissions"
| "run_confluence_permissions http (Remove_page_permissions base_url auth' page_id permissions) =
     remove_page_permissions http base_url auth' page_id permissions"
| "run_confluence_permissions http (List_page_permissions base_url auth' page_id) =
     list_page_permissions http base_url auth' page_id"

fun shape_of_confluence_permissions :: "confluence_permissions_call \<Rightarrow> shape" where
  "shape_of_confluence_permissions (Add_page_permissions _ _ _ _) = Returns_body"
| "shape_of_confluence_permissions (Remove_page_permissions _ _ _ _) =
     Returns_status ''Permissions removed successfully''"
| "shape_of_confluence_permissions (List_page_permissions _ _ _) = Returns_body"

section \<open>Confluence: search\<close>

text \<open>The functions of \<^verbatim>\<open>actions/confluence/search.py\<close>, in the order of the file.\<close>

definition search_content ::
  "http_layer \<Rightarrow> string \<Rightarrow> string \<times> string \<Rightarrow>
     string \<Rightarrow> int \<Rightarrow> pyval py" where
  "search_content http base_url auth' query limit =
     (let url' = base_url @ ''/rest/api/content/search'';
          params' = [(''cql'', PStr query), (''limit'', PInt limit)]
      in try_except
           (bind (requests_call http
                    ((bare GET url')\<lparr>params := Some params', auth := Some auth'\<rparr>))
              (\<lambda>response. bind (raise_for_status response)
              (\<lambda>_. response_json response)))
           log_and_return_str)"

definition search_users ::
  "http_layer \<Rightarrow> string \<Rightarrow> string \<times> string \<Rightarrow>
     string \<Rightarrow> int \<Rightarrow> pyval py" where
  "search_users http base_url auth' query limit =
     (let url' = base_url @ ''/rest/api/user/search'';
          params' = [(''query'', PStr query), (''limit'', PInt limit)]
      in try_except
           (bind (requests_call http
                    ((bare GET url')\<lparr>params := Some params', auth := Some auth'\<rparr>))
              (\<lambda>response. bind (raise_for_status response)
              (\<lambda>_. response_json response)))
           log_and_return_str)"

datatype confluence_search_call =
    Search_content string "string \<times> string" string int
  | Search_users string "string \<times> string" string int

fun run_confluence_search :: "http_layer \<Rightarrow> confluence_search_call \<Rightarrow> pyval py" where
  "run_confluence_search http (Search_content base_url auth' query limit) =
     search_content http base_url auth' query limit"
| "run_confluence_search http (Search_users base_url auth' query limit) =
     search_users http base_url auth' query limit"

fun shape_of_confluence_search :: "confluence_search_call \<Rightarrow> shape" where
  "shape_of_confluence_search (Search_content _ _ _ _) = Returns_body"
| "shape_of_confluence_search (Search_users _ _ _ _) = Returns_body"

section \<open>Confluence: spaces\<close>

text \<open>The functions of \<^verbatim>\<open>actions/confluence/spaces.py\<close>, in the order of the file.\<close>

definition create_space ::
  "http_layer \<Rightarrow> string \<Rightarrow> string \<times> string \<Rightarrow>
     string \<Rightarrow> string \<Rightarrow> string \<Rightarrow> pyval py" where
  "create_space http base_url auth' space_key name description =
     (let url' = base_url @ ''/rest/api/space'';
          headers' = [(''Content-Type'', ''application/json'')];
          payload = PDict [
                      (''key'', PStr space_key),
                      (''name'', PStr name),
                      (''description'',
                        PDict [
                          (''plain'',
                            PDict [
                              (''value'', PStr description),
                              (''representation'', PStr ''plain'')])])]
      in try_except
           (bind (requests_call http
                    ((bare POST url')\<lparr>headers := Some headers', json := Some payload,
                                             auth := Some auth'\<rparr>))
              (\<lambda>response. bind (raise_for_status response)
              (\<lambda>_. response_json response)))
           log_and_return_str)"

definition read_space ::
  "http_layer \<Rightarrow> string \<Rightarrow> string \<times> string \<Rightarrow>
     string \<Rightarrow> pyval py" where
  "read_space http base_url auth' space_key =
     (let url' = base_url @ ''/rest/api/space/'' @ space_key
      in try_except
           (bind (requests_call http
                    ((bare GET url')\<lparr>auth := Some auth'\<rparr>))
              (\<lambda>response. bind (raise_for_status response)
              (\<lambda>_. response_json response)))
           log_and_return_str)"

definition update_space ::
  "http_layer \<Rightarrow> string \<Rightarrow> string \<times> string \<Rightarrow>
     string \<Rightarrow> string \<Rightarrow> string \<Rightarrow> pyval py" where
  "update_space http base_url auth' space_key name description =
     (let url' = base_url @ ''/rest/api/space/'' @ space_key;
          headers' = [(''Content-Type'', ''application/json'')];
          payload = PDict [
                      (''name'', PStr name),
                      (''description'',
                        PDict [
                          (''plain'',
                            PDict [
                              (''value'', PStr description),
                              (''representation'', PStr ''plain'')])])]
      in try_except
           (bind (requests_call http
                    ((bare PUT url')\<lparr>headers := Some headers', json := Some payload,
                                            auth := Some auth'\<rparr>))
              (\<lambda>response. bind (raise_for_status response)
              (\<lambda>_. response_json response)))
           log_and_return_str)"

definition delete_space ::
  "http_layer \<Rightarrow> string \<Rightarrow> string \<times> string \<Rightarrow>
     string \<Rightarrow> pyval py" where
  "delete_space http base_url auth' space_key =
     (let url' = base_url @ ''/rest/api/space/'' @ space_key
      in try_except
           (bind (requests_call http
                    ((bare DELETE url')\<lparr>auth := Some auth'\<rparr>))
              (\<lambda>response. bind (raise_for_status response)
              (\<lambda>_. ret (PDict [(''status'', PStr ''Space deleted successfully'')]))))
           log_and_return_str)"

definition list_all_spaces ::
  "http_layer \<Rightarrow> string \<Rightarrow> string \<times> string \<Rightarrow>
     int \<Rightarrow> pyval py" where
  "list_all_spaces http base_url auth' limit =
     (let url' = base_url @ ''/rest/api/space'';
          params' = [(''limit'', PInt limit)]
      in try_except
           (bind (requests_call http
                    ((bare GET url')\<lparr>params := Some params', auth := Some auth'\<rparr>))
              (\<lambda>response. bind (raise_for_status response)
              (\<lambda>_. response_json response)))
           log_and_return_str)"

datatype confluence_spaces_call =
    Create_space string "string \<times> string" string string string
  | Read_space string "string \<times> string" string
  | Update_space string "string \<times> string" string string string
  | Delete_space string "string \<times> string" string
  | List_all_spaces string "string \<times> string" int

fun run_confluence_spaces :: "http_layer \<Rightarrow> confluence_spaces_call \<Rightarrow> pyval py" where
  "run_confluence_spaces http (Create_space base_url auth' space_key name description) =
     create_space http base_url auth' space_key name description"
| "run_confluence_spaces http (Read_space base_url auth' space_key) =
     read_space http base_url auth' space_key"
| "run_confluence_spaces http (Update_space base_url auth' space_key name description) =
     update_space http base_url auth' space_key name description"
| "run_confluence_spaces http (Delete_space base_url auth' space_key) =
     delete_space http base_url auth' space_key"
| "run_confluence_spaces http (List_all_spaces base_url auth' limit) =
     list_all_spaces http base_url auth' limit"

fun shape_of_confluence_spaces :: "confluence_spaces_call \<Rightarrow> shape" where
  "shape_of_confluence_spaces (Create_space _ _ _ _ _) = Returns_body"
| "shape_of_confluence_spaces (Read_space _ _ _) = Returns_body"
| "shape_of_confluence_spaces (Update_space _ _ _ _ _) = Returns_body"
| "shape_of_confluence_spaces (Delete_space _ _ _) = Returns_status ''Space deleted successfully''"
| "shape_of_confluence_spaces (List_all_spaces _ _ _) = Returns_body"

section \<open>Confluence: users\<close>

text \<open>The functions of \<^verbatim>\<open>actions/confluence/users.py\<close>, in the order of the file.\<close>

definition confluence_get_user_details ::
  "http_layer \<Rightarrow> string \<Rightarrow> string \<times> string \<Rightarrow>
     string \<Rightarrow> pyval py" where
  "confluence_get_user_details http base_url auth' username =
     (let url' = base_url @ ''/rest/api/user'';
          params' = [(''username'', PStr username)]
      in try_except
           (bind (requests_call http
                    ((bare GET url')\<lparr>params := Some params', auth := Some auth'\<rparr>))
              (\<lambda>response. bind (raise_for_status response)
              (\<lambda>_. response_json response)))
           log_and_return_str)"

definition confluence_update_user_details ::
  "http_layer \<Rightarrow> string \<Rightarrow> string \<times> string \<Rightarrow>
     string \<Rightarrow> pyval \<Rightarrow> pyval py" where
  "confluence_update_user_details http base_url auth' username update_data =
     (let url' = base_url @ ''/rest/api/user'';
          params' = [(''username'', PStr username)];
          headers' = [(''Content-Type'', ''application/json'')]
      in try_except
           (bind (requests_call http
                    ((bare PUT url')\<lparr>params := Some params', headers := Some headers',
                                            json := Some update_data, auth := Some auth'\<rparr>))
              (\<lambda>response. bind (raise_for_status response)
              (\<lambda>_. response_json response)))
           log_and_return_str)"

datatype confluence_users_call =
    Confluence_get_user_details string "string \<times> string" string
  | Confluence_update_user_details string "string \<times> string" string pyval

fun run_confluence_users :: "http_layer \<Rightarrow> confluence_users_call \<Rightarrow> pyval py" where
  "run_confluence_users http (Confluence_get_user_details base_url auth' username) =
     confluence_get_user_details http base_url auth' username"
| "run_confluence_users http (Confluence_update_user_details base_url auth' username update_data) =
     confluence_update_user_details http base_url auth' username update_data"

fun shape_of_confluence_users :: "confluence_users_call \<Rightarrow> shape" where
  "shape_of_confluence_users (Confluence_get_user_details _ _ _) = Returns_body"
| "shape_of_confluence_users (Confluence_update_user_details _ _ _ _) = Returns_body"

section \<open>Confluence: webhooks\<close>

text \<open>The functions of \<^verbatim>\<open>actions/confluence/webhooks.py\<close>, in the order of the file.\<close>

definition confluence_create_webhook ::
  "http_layer \<Rightarrow> string \<Rightarrow> string \<times> string \<Rightarrow>
     pyval \<Rightarrow> pyval py" where
  "confluence_create_webhook http base_url auth' webhook_data =
     (let url' = base_url @ ''/rest/api/webhook'';
          headers' = [(''Content-Type'', ''application/json'')]
      in try_except
           (bind (requests_call http
                    ((bare POST url')\<lparr>headers := Some headers', json := Some webhook_data,
                                             auth := Some auth'\<rparr>))
              (\<lambda>response. bind (raise_for_status response)
              (\<lambda>_. response_json response)))
           log_and_return_str)"

definition confluence_delete_webhook ::
  "http_layer \<Rightarrow> string \<Rightarrow> string \<times> string \<Rightarrow>
     string \<Rightarrow> pyval py" where
  "confluence_delete_webhook http base_url auth' webhook_id =
     (let url' = base_url @ ''/rest/api/webhook/'' @ webhook_id
      in try_except
           (bind (requests_call http
                    ((bare DELETE url')\<lparr>auth := Some auth'\<rparr>))
              (\<lambda>response. bind (raise_for_status response)
              (\<lambda>_. ret (PDict [(''status'', PStr ''Webhook deleted successfully'')]))))
           log_and_return_str)"

definition confluence_list_all_webhooks ::
  "http_layer \<Rightarrow> string \<Rightarrow> string \<times> string \<Rightarrow>
     pyval py" where
  "confluence_list_all_webhooks http base_url auth' =
     (let url' = base_url @ ''/rest/api/webhook''
      in try_except
           (bind (requests_call http
                    ((bare GET url')\<lparr>auth := Some auth'\<rparr>))
              (\<lambda>response. bind (raise_for_status response)
              (\<lambda>_. response_json response)))
           log_and_return_str)"

datatype confluence_webhooks_call =
    Confluence_create_webhook string "string \<times> string" pyval
  | Confluence_delete_webhook string "string \<times> string" string
  | Confluence_list_all_webhooks string "string \<times> string"

fun run_confluence_webhooks :: "http_layer \<Rightarrow> confluence_webhooks_call \<Rightarrow> pyval py" where
  "run_confluence_webhooks http (Confluence_create_webhook base_url auth' webhook_data) =
     confluence_create_webhook http base_url auth' webhook_data"
| "run_confluence_webhooks http (Confluence_delete_webhook base_url auth' webhook_id) =
     confluence_delete_webhook http base_url auth' webhook_id"
| "run_confluence_webhooks http (Confluence_list_all_webhooks base_url auth') =
     confluence_list_all_webhooks http base_url auth'"

fun shape_of_confluence_webhooks :: "confluence_webhooks_call \<Rightarrow> shape" where
  "shape_of_confluence_webhooks (Confluence_create_webhook _ _ _) = Returns_body"
| "shape_of_confluence_webhooks (Confluence_delete_webhook _ _ _) =
     Returns_status ''Webhook deleted successfully''"
| "shape_of_confluence_webhooks (Confluence_list_all_webhooks _ _) = Returns_body"

section \<open>Discord: bans\<close>

text \<open>The functions of \<^verbatim>\<open>actions/discord/bans.py\<close>, in the order of the file.\<close>

definition ban_user ::
  "http_layer \<Rightarrow> string \<Rightarrow> string \<Rightarrow> string \<Rightarrow>
     int \<Rightarrow> string \<Rightarrow> pyval py" where
  "ban_user http token guild_id user_id delete_message_days reason =
     (let url' = ''https://discord.com/api/v9/guilds/'' @ guild_id @ ''/bans/'' @ user_id;
          headers' = [(''Authorization'', ''Bot '' @ token)];
          params' = [(''delete_message_days'', PInt delete_message_days), (''reason'', PStr reason)]
      in try_except
           (bind (requests_call http
                    ((bare PUT url')\<lparr>headers := Some headers',
                                            params := Some params'\<rparr>))
              (\<lambda>response. bind (raise_for_status response)
              (\<lambda>_. response_json response)))
           log_and_return_str)"

definition unban_user ::
  "http_layer \<Rightarrow> string \<Rightarrow> string \<Rightarrow> string \<Rightarrow>
     pyval py" where
  "unban_user http token guild_id user_id =
     (let url' = ''https://discord.com/api/v9/guilds/'' @ guild_id @ ''/bans/'' @ user_id;
          headers' = [(''Authorization'', ''Bot '' @ token)]
      in try_except
           (bind (requests_call http
                    ((bare DELETE url')\<lparr>headers := Some headers'\<rparr>))
              (\<lambda>response. bind (raise_for_status response)
              (\<lambda>_. response_json response)))
           log_and_return_str)"

definition list_all_bans ::
  "http_layer \<Rightarrow> string \<Rightarrow> string \<Rightarrow> pyval py" where
  "list_all_bans http token guild_id =
     (let url' = ''https://discord.com/api/v9/guilds/'' @ guild_id @ ''/bans'';
          headers' = [(''Authorization'', ''Bot '' @ token)]
      in try_except
           (bind (requests_call http
                    ((bare GET url')\<lparr>headers := Some headers'\<rparr>))
              (\<lambda>response. bind (raise_for_status response)
              (\<lambda>_. response_json response)))
           log_and_return_str)"

datatype discord_bans_call =
    Ban_user string string string int string
  | Unban_user string string string
  | List_all_bans string string

fun run_discord_bans :: "http_layer \<Rightarrow> discord_bans_call \<Rightarrow> pyval py" where
  "run_discord_bans http (Ban_user token guild_id user_id delete_message_days reason) =
     ban_user http token guild_id user_id delete_message_days reason"
| "run_discord_bans http (Unban_user token guild_id user_id) =
     unban_user http token guild_id user_id"
| "run_discord_bans http (List_all_bans token guild_id) = list_all_bans http token guild_id"

fun shape_of_discord_bans :: "discord_bans_call \<Rightarrow> shape" where
  "shape_of_discord_bans (Ban_user _ _ _ _ _) = Returns_body"
| "shape_of_discord_bans (Unban_user _ _ _) = Returns_body"
| "shape_of_discord_bans (List_all_bans _ _) = Returns_body"

section \<open>Discord: channels\<close>

text \<open>The functions of \<^verbatim>\<open>actions/discord/channels.py\<close>, in the order of the file.\<close>

definition discord_create_channel ::
  "http_layer \<Rightarrow> string \<Rightarrow> string \<Rightarrow> pyval \<Rightarrow>
     pyval py" where
  "discord_create_channel http token guild_id channel_data =
     (let url' = ''https://discord.com/api/v9/guilds/'' @ guild_id @ ''/channels'';
          headers' = [
                       (''Authorization'', ''Bot '' @ token),
                       (''Content-Type'', ''application/json'')]
      in try_except
           (bind (requests_call http
                    ((bare POST url')\<lparr>headers := Some headers',
                                             json := Some channel_data\<rparr>))
              (\<lambda>response. bind (raise_for_status response)
              (\<lambda>_. response_json response)))
           log_and_return_str)"

definition get_channel_details ::
  "http_layer \<Rightarrow> string \<Rightarrow> string \<Rightarrow> pyval py" where
  "get_channel_details http token channel_id =
     (let url' = ''https://discord.com/api/v9/channels/'' @ channel_id;
          headers' = [(''Authorization'', ''Bot '' @ token)]
      in try_except
           (bind (requests_call http
                    ((bare GET url')\<lparr>headers := Some headers'\<rparr>))
              (\<lambda>response. bind (raise_for_status response)
              (\<lambda>_. response_json response)))
           log_and_return_str)"

definition update_channel ::
  "http_layer \<Rightarrow> string \<Rightarrow> string \<Rightarrow> pyval \<Rightarrow>
     pyval py" where
  "update_channel http token channel_id update_data =
     (let url' = ''https://discord.com/api/v9/channels/'' @ channel_id;
          headers' = [
                       (''Authorization'', ''Bot '' @ token),
                       (''Content-Type'', ''application/json'')]
      in try_except
           (bind (requests_call http
                    ((bare PATCH url')\<lparr>headers := Some headers',
                                              json := Some update_data\<rparr>))
              (\<lambda>response. bind (raise_for_status response)
              (\<lambda>_. response_json response)))
           log_and_return_str)"

definition delete_channel ::
  "http_layer \<Rightarrow> string \<Rightarrow> string \<Rightarrow> pyval py" where
  "delete_channel http token channel_id =
     (let url' = ''https://discord.com/api/v9/channels/'' @ channel_id;
          headers' = [(''Authorization'', ''Bot '' @ token)]
      in try_except
           (bind (requests_call http
                    ((bare DELETE url')\<lparr>headers := Some headers'\<rparr>))
              (\<lambda>response. bind (raise_for_status response)
              (\<lambda>_. ret (PDict [(''status'', PStr ''Channel deleted successfully'')]))))
           log_and_return_str)"

definition list_all_channels ::
  "http_layer \<Rightarrow> string \<Rightarrow> string \<Rightarrow> pyval py" where
  "list_all_channels http token guild_id =
     (let url' = ''https://discord.com/api/v9/guilds/'' @ guild_id @ ''/channels'';
          headers' = [(''Authorization'', ''Bot '' @ token)]
      in try_except
           (bind (requests_call http
                    ((bare GET url')\<lparr>headers := Some headers'\<rparr>))
              (\<lambda>response. bind (raise_for_status response)
              (\<lambda>_. response_json response)))
           log_and_return_str)"

datatype discord_channels_call =
    Discord_create_channel string string pyval
  | Get_channel_details string string
  | Update_channel string string pyval
  | Delete_channel string string
  | List_all_channels string string

fun run_discord_channels :: "http_layer \<Rightarrow> discord_channels_call \<Rightarrow> pyval py" where
  "run_discord_channels http (Discord_create_channel token guild_id channel_data) =
     discord_create_channel http token guild_id channel_data"
| "run_discord_channels http (Get_channel_details token channel_id) =
     get_channel_details http token channel_id"
| "run_discord_channels http (Update_channel token channel_id update_data) =
     update_channel http token channel_id update_data"
| "run_discord_channels http (Delete_channel token channel_id) =
     delete_channel http token channel_id"
| "run_discord_channels http (List_all_channels token guild_id) =
     list_all_channels http token guild_id"

fun shape_of_discord_channels :: "discord_channels_call \<Rightarrow> shape" where
  "shape_of_discord_channels (Discord_create_channel _ _ _) = Returns_body"
| "shape_of_discord_channels (Get_channel_details _ _) = Returns_body"
| "shape_of_discord_channels (Update_channel _ _ _) = Returns_body"
| "shape_of_discord_channels (Delete_channel _ _) = Returns_status ''Channel deleted successfully''"
| "shape_of_discord_channels (List_all_channels _ _) = Returns_body"

section \<open>Discord: interactions\<close>

text \<open>The functions of \<^verbatim>\<open>actions/discord/interactions.py\<close>, in the order of the file.\<close>

definition create_interaction ::
  "http_layer \<Rightarrow> string \<Rightarrow> string \<Rightarrow> string \<Rightarrow>
     string \<Rightarrow> pyval \<Rightarrow> pyval py" where
  "create_interaction http token application_id name description options =
     (let url' = ''https://discord.com/api/v9/applications/'' @ application_id @ ''/commands'';
          headers' = [(''Authorization'', ''Bot '' @ token)];
          payload = PDict [
                      (''name'', PStr name),
                      (''description'', PStr description),
                      (''options'', options)]
      in try_except
           (bind (requests_call http
                    ((bare POST url')\<lparr>headers := Some headers',
                                             json := Some payload\<rparr>))
              (\<lambda>response. bind (raise_for_status response)
              (\<lambda>_. response_json response)))
           log_and_return_str)"

definition get_interaction_details ::
  "http_layer \<Rightarrow> string \<Rightarrow> string \<Rightarrow> string \<Rightarrow>
     pyval py" where
  "get_interaction_details http token application_id interaction_id =
     (let url' = ''https://discord.com/api/v9/applications/'' @ application_id @ ''/commands/'' @
                   interaction_id;
          headers' = [(''Authorization'', ''Bot '' @ token)]
      in try_except
           (bind (requests_call http
                    ((bare GET url')\<lparr>headers := Some headers'\<rparr>))
              (\<lambda>response. bind (raise_for_status response)
              (\<lambda>_. response_json response)))
           log_and_return_str)"

definition update_interaction ::
  "http_layer \<Rightarrow> string \<Rightarrow> string \<Rightarrow> string \<Rightarrow>
     string \<Rightarrow> string \<Rightarrow> pyval \<Rightarrow> pyval py" where
  "update_interaction http token application_id interaction_id name description options =
     (let url' = ''https://discord.com/api/v9/applications/'' @ application_id @ ''/commands/'' @
                   interaction_id;
          headers' = [(''Authorization'', ''Bot '' @ token)];
          payload = PDict [
                      (''name'', PStr name),
                      (''description'', PStr description),
                      (''options'', options)]
      in try_except
           (bind (requests_call http
                    ((bare PATCH url')\<lparr>headers := Some headers',
                                              json := Some payload\<rparr>))
              (\<lambda>response. bind (raise_for_status response)
              (\<lambda>_. response_json response)))
           log_and_return_str)"

definition delete_interaction ::
  "http_layer \<Rightarrow> string \<Rightarrow> string \<Rightarrow> string \<Rightarrow>
     pyval py" where
  "delete_interaction http token application_id interaction_id =
     (let url' = ''https://discord.com/api/v9/applications/'' @ application_id @ ''/commands/'' @
                   interaction_id;
          headers' = [(''Authorization'', ''Bot '' @ token)]
      in try_except
           (bind (requests_call http
                    ((bare DELETE url')\<lparr>headers := Some headers'\<rparr>))
              (\<lambda>response. bind (raise_for_status response)
              (\<lambda>_. response_json response)))
           log_and_return_str)"

datatype discord_interactions_call =
    Create_interaction string string string string pyval
  | Get_interaction_details string string string
  | Update_interaction string string string string string pyval
  | Delete_interaction string string string

fun run_discord_interactions :: "http_layer \<Rightarrow> discord_interactions_call \<Rightarrow> pyval py" where
  "run_discord_interactions http (Create_interaction token application_id name description options) =
     create_interaction http token application_id name description options"
| "run_discord_interactions http (Get_interaction_details token application_id interaction_id) =
     get_interaction_details http token application_id interaction_id"
| "run_discord_interactions http (Update_interaction token application_id interaction_id name description options) =
     update_interaction http token application_id interaction_id name description options"
| "run_discord_interactions http (Delete_interaction token application_id interaction_id) =
     delete_interaction http token application_id interaction_id"

fun shape_of_discord_interactions :: "discord_interactions_call \<Rightarrow> shape" where
  "shape_of_discord_interactions (Create_interaction _ _ _ _ _) = Returns_body"
| "shape_of_discord_interactions (Get_interaction_details _ _ _) = Returns_body"
| "shape_of_discord_interactions (Update_interaction _ _ _ _ _ _) = Returns_body"
| "shape_of_discord_interactions (Delete_interaction _ _ _) = Returns_body"

section \<open>Discord: invites\<close>

text \<open>The functions of \<^verbatim>\<open>actions/discord/invites.py\<close>, in the order of the file.\<close>

definition create_invite ::
  "http_layer \<Rightarrow> string \<Rightarrow> string \<Rightarrow> int \<Rightarrow>
     int \<Rightarrow> pyval py" where
  "create_invite http token channel_id max_age max_uses =
     (let url' = ''https://discord.com/api/v9/channels/'' @ channel_id @ ''/invites'';
          headers' = [(''Authorization'', ''Bot '' @ token)];
          payload = PDict [(''max_age'', PInt max_age), (''max_uses'', PInt max_uses)]
      in try_except
           (bind (requests_call http
                    ((bare POST url')\<lparr>headers := Some headers',
                                             json := Some payload\<rparr>))
              (\<lambda>response. bind (raise_for_status response)
              (\<lambda>_. response_json response)))
           log_and_return_str)"

definition get_invite_details ::
  "http_layer \<Rightarrow> string \<Rightarrow> string \<Rightarrow> pyval py" where
  "get_invite_details http token invite_code =
     (let url' = ''https://discord.com/api/v9/invites/'' @ invite_code;
          headers' = [(''Authorization'', ''Bot '' @ token)]
      in try_except
           (bind (requests_call http
                    ((bare GET url')\<lparr>headers := Some headers'\<rparr>))
              (\<lambda>response. bind (raise_for_status response)
              (\<lambda>_. response_json response)))
           log_and_return_str)"

definition delete_invite ::
  "http_layer \<Rightarrow> string \<Rightarrow> string \<Rightarrow> pyval py" where
  "delete_invite http token invite_code =
     (let url' = ''https://discord.com/api/v9/invites/'' @ invite_code;
          headers' = [(''Authorization'', ''Bot '' @ token)]
      in try_except
           (bind (requests_call http
                    ((bare DELETE url')\<lparr>headers := Some headers'\<rparr>))
              (\<lambda>response. bind (raise_for_status response)
              (\<lambda>_. response_json response)))
           log_and_return_str)"

definition list_all_invites ::
  "http_layer \<Rightarrow> string \<Rightarrow> string \<Rightarrow> pyval py" where
  "list_all_invites http token guild_id =
     (let url' = ''https://discord.com/api/v9/guilds/'' @ guild_id @ ''/invites'';
          headers' = [(''Authorization'', ''Bot '' @ token)]
      in try_except
           (bind (requests_call http
                    ((bare GET url')\<lparr>headers := Some headers'\<rparr>))
              (\<lambda>response. bind (raise_for_status response)
              (\<lambda>_. response_json response)))
           log_and_return_str)"

datatype discord_invites_call =
    Create_invite string string int int
  | Get_invite_details string string
  | Delete_invite string string
  | List_all_invites string string

fun run_discord_invites :: "http_layer \<Rightarrow> discord_invites_call \<Rightarrow> pyval py" where
  "run_discord_invites http (Create_invite token channel_id max_age max_uses) =
     create_invite http token channel_id max_age max_uses"
| "run_discord_invites http (Get_invite_details token invite_code) =
     get_invite_details http token invite_code"
| "run_discord_invites http (Delete_invite token invite_code) =
     delete_invite http token invite_code"
| "run_discord_invites http (List_all_invites token guild_id) =
     list_all_invites http token guild_id"

fun shape_of_discord_invites :: "discord_invites_call \<Rightarrow> shape" where
  "shape_of_discord_invites (Create_invite _ _ _ _) = Returns_body"
| "shape_of_discord_invites (Get_invite_details _ _) = Returns_body"
| "shape_of_discord_invites (Delete_invite _ _) = Returns_body"
| "shape_of_discord_invites (List_all_invites _ _) = Returns_body"

section \<open>Discord: messages\<close>

text \<open>The functions of \<^verbatim>\<open>actions/discord/messages.py\<close>, in the order of the file.\<close>

definition send_message :: "http_layer \<Rightarrow> string \<Rightarrow> string \<Rightarrow> string \<Rightarrow> pyval py" where
  "send_message http token channel_id content' =
     (let url' = ''https://discord.com/api/v9/channels/'' @ channel_id @ ''/messages'';
          headers' = [(''Authorization'', ''Bot '' @ token),
                      (''Content-Type'', ''application/json'')];
          payload = PDict [(''content'', PStr content')]
      in try_except
           (bind (requests_call http
                    ((bare POST url')\<lparr>headers := Some headers', json := Some payload\<rparr>))
              (\<lambda>response. bind (raise_for_status response)
              (\<lambda>_. response_json response)))
           log_and_return_str)"

definition edit_message ::
  "http_layer \<Rightarrow> string \<Rightarrow> string \<Rightarrow> string \<Rightarrow>
     string \<Rightarrow> pyval py" where
  "edit_message http token channel_id message_id new_content =
     (let url' = ''https://discord.com/api/v9/channels/'' @ channel_id @ ''/messages/'' @
                   message_id;
          headers' = [
                       (''Authorization'', ''Bot '' @ token),
                       (''Content-Type'', ''application/json'')];
          payload = PDict [(''content'', PStr new_content)]
      in try_except
           (bind (requests_call http
                    ((bare PATCH url')\<lparr>headers := Some headers',
                                              json := Some payload\<rparr>))
              (\<lambda>response. bind (raise_for_status response)
              (\<lambda>_. response_json response)))
           log_and_return_str)"

definition discord_delete_message ::
  "http_layer \<Rightarrow> string \<Rightarrow> string \<Rightarrow> string \<Rightarrow> pyval py" where
  "discord_delete_message http token channel_id message_id =
     (let url' = ''https://discord.com/api/v9/channels/'' @ channel_id @ ''/messages/''
                 @ message_id;
          headers' = [(''Authorization'', ''Bot '' @ token)]
      in try_except
           (bind (requests_call http ((bare DELETE url')\<lparr>headers := Some headers'\<rparr>))
              (\<lambda>response. bind (raise_for_status response)
              (\<lambda>_. ret (PDict [(''status'', PStr ''Message deleted successfully'')]))))
           log_and_return_str)"

definition list_messages ::
  "http_layer \<Rightarrow> string \<Rightarrow> string \<Rightarrow> int \<Rightarrow>
     pyval py" where
  "list_messages http token channel_id limit =
     (let url' = ''https://discord.com/api/v9/channels/'' @ channel_id @ ''/messages?limit='' @
                   str_int limit;
          headers' = [(''Authorization'', ''Bot '' @ token)]
      in try_except
           (bind (requests_call http
                    ((bare GET url')\<lparr>headers := Some headers'\<rparr>))
              (\<lambda>response. bind (raise_for_status response)
              (\<lambda>_. response_json response)))
           log_and_return_str)"

definition pin_message ::
  "http_layer \<Rightarrow> string \<Rightarrow> string \<Rightarrow> string \<Rightarrow>
     pyval py" where
  "pin_message http token channel_id message_id =
     (let url' = ''https://discord.com/api/v9/channels/'' @ channel_id @ ''/pins/'' @ message_id;
          headers' = [(''Authorization'', ''Bot '' @ token)]
      in try_except
           (bind (requests_call http
                    ((bare PUT url')\<lparr>headers := Some headers'\<rparr>))
              (\<lambda>response. bind (raise_for_status response)
              (\<lambda>_. ret (PDict [(''status'', PStr ''Message pinned successfully'')]))))
           log_and_return_str)"

definition unpin_message ::
  "http_layer \<Rightarrow> string \<Rightarrow> string \<Rightarrow> string \<Rightarrow>
     pyval py" where
  "unpin_message http token channel_id message_id =
     (let url' = ''https://discord.com/api/v9/channels/'' @ channel_id @ ''/pins/'' @ message_id;
          headers' = [(''Authorization'', ''Bot '' @ token)]
      in try_except
           (bind (requests_call http
                    ((bare DELETE url')\<lparr>headers := Some headers'\<rparr>))
              (\<lambda>response. bind (raise_for_status response)
              (\<lambda>_. ret (PDict [(''status'', PStr ''Message unpinned successfully'')]))))
           log_and_return_str)"

datatype discord_messages_call =
    Send_message string string string
  | Edit_message string string string string
  | Discord_delete_message string string string
  | List_messages string string int
  | Pin_message string string string
  | Unpin_message string string string

fun run_discord_messages :: "http_layer \<Rightarrow> discord_messages_call \<Rightarrow> pyval py" where
  "run_discord_messages http (Send_message token channel_id content') =
     send_message http token channel_id content'"
| "run_discord_messages http (Edit_message token channel_id message_id new_content) =
     edit_message http token channel_id message_id new_content"
| "run_discord_messages http (Discord_delete_message token channel_id message_id) =
     discord_delete_message http token channel_id message_id"
| "run_discord_messages http (List_messages token channel_id limit) =
     list_messages http token channel_id limit"
| "run_discord_messages http (Pin_message token channel_id message_id) =
     pin_message http token channel_id message_id"
| "run_discord_messages http (Unpin_message token channel_id message_id) =
     unpin_message http token channel_id message_id"

fun shape_of_discord_messages :: "discord_messages_call \<Rightarrow> shape" where
  "shape_of_discord_messages (Send_message _ _ _) = Returns_body"
| "shape_of_discord_messages (Edit_message _ _ _ _) = Returns_body"
| "shape_of_discord_messages (Discord_delete_message _ _ _) =
     Returns_status ''Message deleted successfully''"
| "shape_of_discord_messages (List_messages _ _ _) = Returns_body"
| "shape_of_discord_messages (Pin_message _ _ _) = Returns_status ''Message pinned successfully''"
| "shape_of_discord_messages (Unpin_message _ _ _) =
     Returns_status ''Message unpinned successfully''"

section \<open>Discord: roles\<close>

text \<open>The functions of \<^verbatim>\<open>actions/discord/roles.py\<close>, in the order of the file.\<close>

definition create_role ::
  "http_layer \<Rightarrow> string \<Rightarrow> string \<Rightarrow> string \<Rightarrow>
     int \<Rightarrow> int \<Rightarrow> pyval py" where
  "create_role http token guild_id name permissions color =
     (let url' = ''https://discord.com/api/v9/guilds/'' @ guild_id @ ''/roles'';
          headers' = [(''Authorization'', ''Bot '' @ token)];
          payload = PDict [
                      (''name'', PStr name),
                      (''permissions'', PInt permissions),
                      (''color'', PInt color)]
      in try_except
           (bind (requests_call http
                    ((bare POST url')\<lparr>headers := Some headers',
                                             json := Some payload\<rparr>))
              (\<lambda>response. bind (raise_for_status response)
              (\<lambda>_. response_json response)))
           log_and_return_str)"

definition get_role_details ::
  "http_layer \<Rightarrow> string \<Rightarrow> string \<Rightarrow> string \<Rightarrow>
     pyval py" where
  "get_role_details http token guild_id role_id =
     (let url' = ''https://discord.com/api/v9/guilds/'' @ guild_id @ ''/roles/'' @ role_id;
          headers' = [(''Authorization'', ''Bot '' @ token)]
      in try_except
           (bind (requests_call http
                    ((bare GET url')\<lparr>headers := Some headers'\<rparr>))
              (\<lambda>response. bind (raise_for_status response)
              (\<lambda>_. response_json response)))
           log_and_return_str)"

definition update_role ::
  "http_layer \<Rightarrow> string \<Rightarrow> string \<Rightarrow> string \<Rightarrow>
     string \<Rightarrow> int \<Rightarrow> int \<Rightarrow> pyval py" where
  "update_role http token guild_id role_id name permissions color =
     (let url' = ''https://discord.com/api/v9/guilds/'' @ guild_id @ ''/roles/'' @ role_id;
          headers' = [(''Authorization'', ''Bot '' @ token)];
          payload = PDict [
                      (''name'', PStr name),
                      (''permissions'', PInt permissions),
                      (''color'', PInt color)]
      in try_except
           (bind (requests_call http
                    ((bare PATCH url')\<lparr>headers := Some headers',
                                              json := Some payload\<rparr>))
              (\<lambda>response. bind (raise_for_status response)
              (\<lambda>_. response_json response)))
           log_and_return_str)"

definition delete_role :: "http_layer \<Rightarrow> string \<Rightarrow> string \<Rightarrow> string \<Rightarrow> pyval py" where
  "delete_role http token guild_id role_id =
     (let url' = ''https://discord.com/api/v9/guilds/'' @ guild_id @ ''/roles/'' @ role_id;
          headers' = [(''Authorization'', ''Bot '' @ token)]
      in try_except
           (bind (requests_call http ((bare DELETE url')\<lparr>headers := Some headers'\<rparr>))
              (\<lambda>response. bind (raise_for_status response)
              (\<lambda>_. response_json response)))
           log_and_return_str)"

definition list_all_roles ::
  "http_layer \<Rightarrow> string \<Rightarrow> string \<Rightarrow> pyval py" where
  "list_all_roles http token guild_id =
     (let url' = ''https://discord.com/api/v9/guilds/'' @ guild_id @ ''/roles'';
          headers' = [(''Authorization'', ''Bot '' @ token)]
      in try_except
           (bind (requests_call http
                    ((bare GET url')\<lparr>headers := Some headers'\<rparr>))
              (\<lambda>response. bind (raise_for_status response)
              (\<lambda>_. response_json response)))
           log_and_return_str)"

datatype discord_roles_call =
    Create_role string string string int int
  | Get_role_details string string string
  | Update_role string string string string int int
  | Delete_role string string string
  | List_all_roles string string

fun run_discord_roles :: "http_layer \<Rightarrow> discord_roles_call \<Rightarrow> pyval py" where
  "run_discord_roles http (Create_role token guild_id name permissions color) =
     create_role http token guild_id name permissions color"
| "run_discord_roles http (Get_role_details token guild_id role_id) =
     get_role_details http token guild_id role_id"
| "run_discord_roles http (Update_role token guild_id role_id name permissions color) =
     update_role http token guild_id role_id name permissions color"
| "run_discord_roles http (Delete_role token guild_id role_id) =
     delete_role http token guild_id role_id"
| "run_discord_roles http (List_all_roles token guild_id) = list_all_roles http token guild_id"

fun shape_of_discord_roles :: "discord_roles_call \<Rightarrow> shape" where
  "shape_of_discord_roles (Create_role _ _ _ _ _) = Returns_body"
| "shape_of_discord_roles (Get_role_details _ _ _) = Returns_body"
| "shape_of_discord_roles (Update_role _ _ _ _ _ _) = Returns_body"
| "shape_of_discord_roles (Delete_role _ _ _) = Returns_body"
| "shape_of_discord_roles (List_all_roles _ _) = Returns_body"

section \<open>Discord: servers\<close>

text \<open>The functions of \<^verbatim>\<open>actions/discord/servers.py\<close>, in the order of the file.\<close>

definition create_guild ::
  "http_layer \<Rightarrow> string \<Rightarrow> pyval \<Rightarrow> pyval py" where
  "create_guild http token guild_data =
     (let url' = ''https://discord.com/api/v9/guilds'';
          headers' = [
                       (''Authorization'', ''Bot '' @ token),
                       (''Content-Type'', ''application/json'')]
      in try_except
           (bind (requests_call http
                    ((bare POST url')\<lparr>headers := Some headers',
                                             json := Some guild_data\<rparr>))
              (\<lambda>response. bind (raise_for_status response)
              (\<lambda>_. response_json response)))
           log_and_return_str)"

definition get_guild_details ::
  "http_layer \<Rightarrow> string \<Rightarrow> string \<Rightarrow> pyval py" where
  "get_guild_details http token guild_id =
     (let url' = ''https://discord.com/api/v9/guilds/'' @ guild_id;
          headers' = [(''Authorization'', ''Bot '' @ token)]
      in try_except
           (bind (requests_call http
                    ((bare GET url')\<lparr>headers := Some headers'\<rparr>))
              (\<lambda>response. bind (raise_for_status response)
              (\<lambda>_. response_json response)))
           log_and_return_str)"

definition update_guild ::
  "http_layer \<Rightarrow> string \<Rightarrow> string \<Rightarrow> pyval \<Rightarrow>
     pyval py" where
  "update_guild http token guild_id update_data =
     (let url' = ''https://discord.com/api/v9/guilds/'' @ guild_id;
          headers' = [
                       (''Authorization'', ''Bot '' @ token),
                       (''Content-Type'', ''application/json'')]
      in try_except
           (bind (requests_call http
                    ((bare PATCH url')\<lparr>headers := Some headers',
                                              json := Some update_data\<rparr>))
              (\<lambda>response. bind (raise_for_status response)
              (\<lambda>_. response_json response)))
           log_and_return_str)"

definition delete_guild ::
  "http_layer \<Rightarrow> string \<Rightarrow> string \<Rightarrow> pyval py" where
  "delete_guild http token guild_id =
     (let url' = ''https://discord.com/api/v9/guilds/'' @ guild_id;
          headers' = [(''Authorization'', ''Bot '' @ token)]
      in try_except
           (bind (requests_call http
                    ((bare DELETE url')\<lparr>headers := Some headers'\<rparr>))
              (\<lambda>response. bind (raise_for_status response)
              (\<lambda>_. ret (PDict [(''status'', PStr ''Guild deleted successfully'')]))))
           log_and_return_str)"

definition list_all_guilds :: "http_layer \<Rightarrow> string \<Rightarrow> pyval py" where
  "list_all_guilds http token =
     (let url' = ''https://discord.com/api/v9/users/@me/guilds'';
          headers' = [(''Authorization'', ''Bot '' @ token)]
      in try_except
           (bind (requests_call http
                    ((bare GET url')\<lparr>headers := Some headers'\<rparr>))
              (\<lambda>response. bind (raise_for_status response)
              (\<lambda>_. response_json response)))
           log_and_return_str)"

datatype discord_servers_call =
    Create_guild string pyval
  | Get_guild_details string string
  | Update_guild string string pyval
  | Delete_guild string string
  | List_all_guilds string

fun run_discord_servers :: "http_layer \<Rightarrow> discord_servers_call \<Rightarrow> pyval py" where
  "run_discord_servers http (Create_guild token guild_data) = create_guild http token guild_data"
| "run_discord_servers http (Get_guild_details token guild_id) =
     get_guild_details http token guild_id"
| "run_discord_servers http (Update_guild token guild_id update_data) =
     update_guild http token guild_id update_data"
| "run_discord_servers http (Delete_guild token guild_id) = delete_guild http token guild_id"
| "run_discord_servers http (List_all_guilds token) = list_all_guilds http token"

fun shape_of_discord_servers :: "discord_servers_call \<Rightarrow> shape" where
  "shape_of_discord_servers (Create_guild _ _) = Returns_body"
| "shape_of_discord_servers (Get_guild_details _ _) = Returns_body"
| "shape_of_discord_servers (Update_guild _ _ _) = Returns_body"
| "shape_of_discord_servers (Delete_guild _ _) = Returns_status ''Guild deleted successfully''"
| "shape_of_discord_servers (List_all_guilds _) = Returns_body"

section \<open>Discord: users\<close>

text \<open>The functions of \<^verbatim>\<open>actions/discord/users.py\<close>, in the order of the file.\<close>

definition discord_get_user_details ::
  "http_layer \<Rightarrow> string \<Rightarrow> string \<Rightarrow> pyval py" where
  "discord_get_user_details http token user_id =
     (let url' = ''https://discord.com/api/v9/users/'' @ user_id;
          headers' = [(''Authorization'', ''Bot '' @ token)]
      in try_except
           (bind (requests_call http
                    ((bare GET url')\<lparr>headers := Some headers'\<rparr>))
              (\<lambda>response. bind (raise_for_status response)
              (\<lambda>_. response_json response)))
           log_and_return_str)"

definition discord_update_user_details ::
  "http_layer \<Rightarrow> string \<Rightarrow> string \<Rightarrow> string \<Rightarrow>
     string \<Rightarrow> pyval py" where
  "discord_update_user_details http token user_id username avatar =
     (let url' = ''https://discord.com/api/v9/users/'' @ user_id;
          headers' = [(''Authorization'', ''Bot '' @ token)];
          payload = PDict [(''username'', PStr username), (''avatar'', PStr avatar)]
      in try_except
           (bind (requests_call http
                    ((bare PATCH url')\<lparr>headers := Some headers',
                                              json := Some payload\<rparr>))
              (\<lambda>response. bind (raise_for_status response)
              (\<lambda>_. response_json response)))
           log_and_return_str)"

definition list_all_members ::
  "http_layer \<Rightarrow> string \<Rightarrow> string \<Rightarrow> int \<Rightarrow>
     pyval py" where
  "list_all_members http token guild_id limit =
     (let url' = ''https://discord.com/api/v9/guilds/'' @ guild_id @ ''/members?limit='' @
                   str_int limit;
          headers' = [(''Authorization'', ''Bot '' @ token)]
      in try_except
           (bind (requests_call http
                    ((bare GET url')\<lparr>headers := Some headers'\<rparr>))
              (\<lambda>response. bind (raise_for_status response)
              (\<lambda>_. response_json response)))
           log_and_return_str)"

datatype discord_users_call =
    Discord_get_user_details string string
  | Discord_update_user_details string string string string
  | List_all_members string string int

fun run_discord_users :: "http_layer \<Rightarrow> discord_users_call \<Rightarrow> pyval py" where
  "run_discord_users http (Discord_get_user_details token user_id) =
     discord_get_user_details http token user_id"
| "run_discord_users http (Discord_update_user_details token user_id username avatar) =
     discord_update_user_details http token user_id username avatar"
| "run_discord_users http (List_all_members token guild_id limit) =
     list_all_members http token guild_id limit"

fun shape_of_discord_users :: "discord_users_call \<Rightarrow> shape" where
  "shape_of_discord_users (Discord_get_user_details _ _) = Returns_body"
| "shape_of_discord_users (Discord_update_user_details _ _ _ _) = Returns_body"
| "shape_of_discord_users (List_all_members _ _ _) = Returns_body"

section \<open>Discord: voice\<close>

text \<open>The functions of \<^verbatim>\<open>actions/discord/voice.py\<close>, in the order of the file.\<close>

definition list_voice_regions :: "http_layer \<Rightarrow> string \<Rightarrow> pyval py" where
  "list_voice_regions http token =
     (let url' = ''https://discord.com/api/v9/voice/regions'';
          headers' = [(''Authorization'', ''Bot '' @ token)]
      in try_except
           (bind (requests_call http
                    ((bare GET url')\<lparr>headers := Some headers'\<rparr>))
              (\<lambda>response. bind (raise_for_status response)
              (\<lambda>_. response_json response)))
           log_and_return_str)"

definition get_current_voice_state ::
  "http_layer \<Rightarrow> string \<Rightarrow> string \<Rightarrow> string \<Rightarrow>
     pyval py" where
  "get_current_voice_state http token guild_id user_id =
     (let url' = ''https://discord.com/api/v9/guilds/'' @ guild_id @ ''/voice-states/'' @ user_id;
          headers' = [(''Authorization'', ''Bot '' @ token)]
      in try_except
           (bind (requests_call http
                    ((bare GET url')\<lparr>headers := Some headers'\<rparr>))
              (\<lambda>response. bind (raise_for_status response)
              (\<lambda>_. response_json response)))
           log_and_return_str)"

definition update_voice_state ::
  "http_layer \<Rightarrow> string \<Rightarrow> string \<Rightarrow> string \<Rightarrow>
     string \<Rightarrow> bool \<Rightarrow> bool \<Rightarrow> pyval py" where
  "update_voice_state http token guild_id channel_id user_id self_mute self_deaf =
     (let url' = ''https://discord.com/api/v9/guilds/'' @ guild_id @ ''/voice-states/'' @ user_id;
          headers' = [(''Authorization'', ''Bot '' @ token)];
          payload = PDict [
                      (''channel_id'', PStr channel_id),
                      (''self_mute'', PBool self_mute),
                      (''self_deaf'', PBool self_deaf)]
      in try_except
           (bind (requests_call http
                    ((bare PATCH url')\<lparr>headers := Some headers',
                                              json := Some payload\<rparr>))
              (\<lambda>response. bind (raise_for_status response)
              (\<lambda>_. response_json response)))
           log_and_return_str)"

datatype discord_voice_call =
    List_voice_regions string
  | Get_current_voice_state string string string
  | Update_voice_state string string string string bool bool

fun run_discord_voice :: "http_layer \<Rightarrow> discord_voice_call \<Rightarrow> pyval py" where
  "run_discord_voice http (List_voice_regions token) = list_voice_regions http token"
| "run_discord_voice http (Get_current_voice_state token guild_id user_id) =
     get_current_voice_state http token guild_id user_id"
| "run_discord_voice http (Update_voice_state token guild_id channel_id user_id self_mute self_deaf) =
     update_voice_state http token guild_id channel_id user_id self_mute self_deaf"

fun shape_of_discord_voice :: "discord_voice_call \<Rightarrow> shape" where
  "shape_of_discord_voice (List_voice_regions _) = Returns_body"
| "shape_of_discord_voice (Get_current_voice_state _ _ _) = Returns_body"
| "shape_of_discord_voice (Update_voice_state _ _ _ _ _ _) = Returns_body"

section \<open>Discord: webhooks\<close>

text \<open>The functions of \<^verbatim>\<open>actions/discord/webhooks.py\<close>, in the order of the file.\<close>

definition discord_create_webhook ::
  "http_layer \<Rightarrow> string \<Rightarrow> string \<Rightarrow> string \<Rightarrow>
     string \<Rightarrow> pyval py" where
  "discord_create_webhook http token channel_id name avatar =
     (let url' = ''https://discord.com/api/v9/channels/'' @ channel_id @ ''/webhooks'';
          headers' = [(''Authorization'', ''Bot '' @ token)];
          payload = PDict [(''name'', PStr name), (''avatar'', PStr avatar)]
      in try_except
           (bind (requests_call http
                    ((bare POST url')\<lparr>headers := Some headers',
                                             json := Some payload\<rparr>))
              (\<lambda>response. bind (raise_for_status response)
              (\<lambda>_. response_json response)))
           log_and_return_str)"

definition get_webhook_details ::
  "http_layer \<Rightarrow> string \<Rightarrow> string \<Rightarrow> pyval py" where
  "get_webhook_details http token webhook_id =
     (let url' = ''https://discord.com/api/v9/webhooks/'' @ webhook_id;
          headers' = [(''Authorization'', ''Bot '' @ token)]
      in try_except
           (bind (requests_call http
                    ((bare GET url')\<lparr>headers := Some headers'\<rparr>))
              (\<lambda>response. bind (raise_for_status response)
              (\<lambda>_. response_json response)))
           log_and_return_str)"

definition discord_update_webhook ::
  "http_layer \<Rightarrow> string \<Rightarrow> string \<Rightarrow> string \<Rightarrow>
     string \<Rightarrow> pyval py" where
  "discord_update_webhook http token webhook_id name avatar =
     (let url' = ''https://discord.com/api/v9/webhooks/'' @ webhook_id;
          headers' = [(''Authorization'', ''Bot '' @ token)];
          payload = PDict [(''name'', PStr name), (''avatar'', PStr avatar)]
      in try_except
           (bind (requests_call http
                    ((bare PATCH url')\<lparr>headers := Some headers',
                                              json := Some payload\<rparr>))
              (\<lambda>response. bind (raise_for_status response)
              (\<lambda>_. response_json response)))
           log_and_return_str)"

definition discord_delete_webhook ::
  "http_layer \<Rightarrow> string \<Rightarrow> string \<Rightarrow> pyval py" where
  "discord_delete_webhook http token webhook_id =
     (let url' = ''https://discord.com/api/v9/webhooks/'' @ webhook_id;
          headers' = [(''Authorization'', ''Bot '' @ token)]
      in try_except
           (bind (requests_call http
                    ((bare DELETE url')\<lparr>headers := Some headers'\<rparr>))
              (\<lambda>response. bind (raise_for_status response)
              (\<lambda>_. response_json response)))
           log_and_return_str)"

definition discord_list_all_webhooks ::
  "http_layer \<Rightarrow> string \<Rightarrow> string \<Rightarrow> pyval py" where
  "discord_list_all_webhooks http token guild_id =
     (let url' = ''https://discord.com/api/v9/guilds/'' @ guild_id @ ''/webhooks'';
          headers' = [(''Authorization'', ''Bot '' @ token)]
      in try_except
           (bind (requests_call http
                    ((bare GET url')\<lparr>headers := Some headers'\<rparr>))
              (\<lambda>response. bind (raise_for_status response)
              (\<lambda>_. response_json response)))
           log_and_return_str)"

datatype discord_webhooks_call =
    Discord_create_webhook string string string string
  | Get_webhook_details string string
  | Discord_update_webhook string string string string
  | Discord_delete_webhook string string
  | Discord_list_all_webhooks string string

fun run_discord_webhooks :: "http_layer \<Rightarrow> discord_webhooks_call \<Rightarrow> pyval py" where
  "run_discord_webhooks http (Discord_create_webhook token channel_id name avatar) =
     discord_create_webhook http token channel_id name avatar"
| "run_discord_webhooks http (Get_webhook_details token webhook_id) =
     get_webhook_details http token webhook_id"
| "run_discord_webhooks http (Discord_update_webhook token webhook_id name avatar) =
     discord_update_webhook http token webhook_id name avatar"
| "run_discord_webhooks http (Discord_delete_webhook token webhook_id) =
     discord_delete_webhook http token webhook_id"
| "run_discord_webhooks http (Discord_list_all_webhooks token guild_id) =
     discord_list_all_webhooks http token guild_id"

fun shape_of_discord_webhooks :: "discord_webhooks_call \<Rightarrow> shape" where
  "shape_of_discord_webhooks (Discord_create_webhook _ _ _ _) = Returns_body"
| "shape_of_discord_webhooks (Get_webhook_details _ _) = Returns_body"
| "shape_of_discord_webhooks (Discord_update_webhook _ _ _ _) = Returns_body"
| "shape_of_discord_webhooks (Discord_delete_webhook _ _) = Returns_body"
| "shape_of_discord_webhooks (Discord_list_all_webhooks _ _) = Returns_body"

section \<open>GitHub: gist\<close>

text \<open>The functions of \<^verbatim>\<open>actions/github/gist.py\<close>, in the order of the file.\<close>

definition create_gist ::
  "http_layer \<Rightarrow> string \<Rightarrow> pyval \<Rightarrow> string \<Rightarrow>
     bool \<Rightarrow> pyval py" where
  "create_gist http auth_token files' description public =
     (let url' = ''https://api.github.com/gists'';
          headers' = [(''Authorization'', ''token '' @ auth_token)];
          payload = PDict [
                      (''files'', files'),
                      (''description'', PStr description),
                      (''public'', PBool public)]
      in try_except
           (bind (requests_call http
                    ((bare POST url')\<lparr>headers := Some headers',
                                             json := Some payload\<rparr>))
              (\<lambda>response. bind (raise_for_status response)
              (\<lambda>_. response_json response)))
           log_and_return_str)"

definition read_gist ::
  "http_layer \<Rightarrow> string \<Rightarrow> string \<Rightarrow> pyval py" where
  "read_gist http auth_token gist_id =
     (let url' = ''https://api.github.com/gists/'' @ gist_id;
          headers' = [(''Authorization'', ''token '' @ auth_token)]
      in try_except
           (bind (requests_call http
                    ((bare GET url')\<lparr>headers := Some headers'\<rparr>))
              (\<lambda>response. bind (raise_for_status response)
              (\<lambda>_. response_json response)))
           log_and_return_str)"

definition update_gist ::
  "http_layer \<Rightarrow> string \<Rightarrow> string \<Rightarrow> pyval \<Rightarrow>
     string \<Rightarrow> pyval py" where
  "update_gist http auth_token gist_id files' description =
     (let url' = ''https://api.github.com/gists/'' @ gist_id;
          headers' = [(''Authorization'', ''token '' @ auth_token)];
          payload = PDict [(''files'', files'), (''description'', PStr description)]
      in try_except
           (bind (requests_call http
                    ((bare PATCH url')\<lparr>headers := Some headers',
                                              json := Some payload\<rparr>))
              (\<lambda>response. bind (raise_for_status response)
              (\<lambda>_. response_json response)))
           log_and_return_str)"

definition delete_gist ::
  "http_layer \<Rightarrow> string \<Rightarrow> string \<Rightarrow> pyval py" where
  "delete_gist http auth_token gist_id =
     (let url' = ''https://api.github.com/gists/'' @ gist_id;
          headers' = [(''Authorization'', ''token '' @ auth_token)]
      in try_except
           (bind (requests_call http
                    ((bare DELETE url')\<lparr>headers := Some headers'\<rparr>))
              (\<lambda>response. bind (raise_for_status response)
              (\<lambda>_. ret (PStr ''Gist deleted successfully.''))))
           log_and_return_str)"

definition star_gist ::
  "http_layer \<Rightarrow> string \<Rightarrow> string \<Rightarrow> pyval py" where
  "star_gist http auth_token gist_id =
     (let url' = ''https://api.github.com/gists/'' @ gist_id @ ''/star'';
          headers' = [(''Authorization'', ''token '' @ auth_token)]
      in try_except
           (bind (requests_call http
                    ((bare PUT url')\<lparr>headers := Some headers'\<rparr>))
              (\<lambda>response. bind (raise_for_status response)
              (\<lambda>_. ret (PStr ''Gist starred successfully.''))))
           log_and_return_str)"

definition unstar_gist ::
  "http_layer \<Rightarrow> string \<Rightarrow> string \<Rightarrow> pyval py" where
  "unstar_gist http auth_token gist_id =
     (let url' = ''https://api.github.com/gists/'' @ gist_id @ ''/star'';
          headers' = [(''Authorization'', ''token '' @ auth_token)]
      in try_except
           (bind (requests_call http
                    ((bare DELETE url')\<lparr>headers := Some headers'\<rparr>))
              (\<lambda>response. bind (raise_for_status response)
              (\<lambda>_. ret (PStr ''Gist unstarred successfully.''))))
           log_and_return_str)"

definition fork_gist ::
  "http_layer \<Rightarrow> string \<Rightarrow> string \<Rightarrow> pyval py" where
  "fork_gist http auth_token gist_id =
     (let url' = ''https://api.github.com/gists/'' @ gist_id @ ''/forks'';
          headers' = [(''Authorization'', ''token '' @ auth_token)]
      in try_except
           (bind (requests_call http
                    ((bare POST url')\<lparr>headers := Some headers'\<rparr>))
              (\<lambda>response. bind (raise_for_status response)
              (\<lambda>_. response_json response)))
           log_and_return_str)"

datatype github_gist_call =
    Create_gist string pyval string bool
  | Read_gist string string
  | Update_gist string string pyval string
  | Delete_gist string string
  | Star_gist string string
  | Unstar_gist string string
  | Fork_gist string string

fun run_github_gist :: "http_layer \<Rightarrow> github_gist_call \<Rightarrow> pyval py" where
  "run_github_gist http (Create_gist auth_token files' description public) =
     create_gist http auth_token files' description public"
| "run_github_gist http (Read_gist auth_token gist_id) = read_gist http auth_token gist_id"
| "run_github_gist http (Update_gist auth_token gist_id files' description) =
     update_gist http auth_token gist_id files' description"
| "run_github_gist http (Delete_gist auth_token gist_id) = delete_gist http auth_token gist_id"
| "run_github_gist http (Star_gist auth_token gist_id) = star_gist http auth_token gist_id"
| "run_github_gist http (Unstar_gist auth_token gist_id) = unstar_gist http auth_token gist_id"
| "run_github_gist http (Fork_gist auth_token gist_id) = fork_gist http auth_token gist_id"

fun shape_of_github_gist :: "github_gist_call \<Rightarrow> shape" where
  "shape_of_github_gist (Create_gist _ _ _ _) = Returns_body"
| "shape_of_github_gist (Read_gist _ _) = Returns_body"
| "shape_of_github_gist (Update_gist _ _ _ _) = Returns_body"
| "shape_of_github_gist (Delete_gist _ _) = Returns_message ''Gist deleted successfully.''"
| "shape_of_github_gist (Star_gist _ _) = Returns_message ''Gist starred successfully.''"
| "shape_of_github_gist (Unstar_gist _ _) = Returns_message ''Gist unstarred successfully.''"
| "shape_of_github_gist (Fork_gist _ _) = Returns_body"

section \<open>GitHub: org\<close>

text \<open>The functions of \<^verbatim>\<open>actions/github/org.py\<close>, in the order of the file.\<close>

definition create_organization ::
  "http_layer \<Rightarrow> string \<Rightarrow> string \<Rightarrow> string \<Rightarrow>
     pyval py" where
  "create_organization http auth_token name email =
     (let url' = ''https://api.github.com/orgs'';
          headers' = [(''Authorization'', ''token '' @ auth_token)];
          payload = PDict [(''name'', PStr name), (''email'', PStr email)]
      in try_except
           (bind (requests_call http
                    ((bare POST url')\<lparr>headers := Some headers',
                                             json := Some payload\<rparr>))
              (\<lambda>response. bind (raise_for_status response)
              (\<lambda>_. response_json response)))
           log_and_return_str)"

definition add_members ::
  "http_layer \<Rightarrow> string \<Rightarrow> string \<Rightarrow> string \<Rightarrow>
     string \<Rightarrow> pyval py" where
  "add_members http auth_token org username role =
     (let url' = ''https://api.github.com/orgs/'' @ org @ ''/memberships/'' @ username;
          headers' = [(''Authorization'', ''token '' @ auth_token)];
          payload = PDict [(''role'', PStr role)]
      in try_except
           (bind (requests_call http
                    ((bare PUT url')\<lparr>headers := Some headers', json := Some payload\<rparr>))
              (\<lambda>response. bind (raise_for_status response)
              (\<lambda>_. ret (PStr ''Member added successfully.''))))
           log_and_return_str)"

definition remove_members ::
  "http_layer \<Rightarrow> string \<Rightarrow> string \<Rightarrow> string \<Rightarrow>
     pyval py" where
  "remove_members http auth_token org username =
     (let url' = ''https://api.github.com/orgs/'' @ org @ ''/memberships/'' @ username;
          headers' = [(''Authorization'', ''token '' @ auth_token)]
      in try_except
           (bind (requests_call http
                    ((bare DELETE url')\<lparr>headers := Some headers'\<rparr>))
              (\<lambda>response. bind (raise_for_status response)
              (\<lambda>_. ret (PStr ''Member removed successfully.''))))
           log_and_return_str)"

definition list_teams ::
  "http_layer \<Rightarrow> string \<Rightarrow> string \<Rightarrow> pyval py" where
  "list_teams http auth_token org =
     (let url' = ''https://api.github.com/orgs/'' @ org @ ''/teams'';
          headers' = [(''Authorization'', ''token '' @ auth_token)]
      in try_except
           (bind (requests_call http
                    ((bare GET url')\<lparr>headers := Some headers'\<rparr>))
              (\<lambda>response. bind (raise_for_status response)
              (\<lambda>_. response_json response)))
           log_and_return_str)"

definition manage_teams ::
  "http_layer \<Rightarrow> string \<Rightarrow> string \<Rightarrow> int \<Rightarrow>
     string \<Rightarrow> string \<Rightarrow> string \<Rightarrow> pyval py" where
  "manage_teams http auth_token org team_id name description privacy =
     (let url' = ''https://api.github.com/orgs/'' @ org @ ''/teams/'' @ str_int team_id;
          headers' = [(''Authorization'', ''token '' @ auth_token)];
          payload = PDict [
                      (''name'', PStr name),
                      (''description'', PStr description),
                      (''privacy'', PStr privacy)]
      in try_except
           (bind (requests_call http
                    ((bare PATCH url')\<lparr>headers := Some headers',
                                              json := Some payload\<rparr>))
              (\<lambda>response. bind (raise_for_status response)
              (\<lambda>_. response_json response)))
           log_and_return_str)"

datatype github_org_call =
    Create_organization string string string
  | Add_members string string string string
  | Remove_members string string string
  | List_teams string string
  | Manage_teams string string int string string string

fun run_github_org :: "http_layer \<Rightarrow> github_org_call \<Rightarrow> pyval py" where
  "run_github_org http (Create_organization auth_token name email) =
     create_organization http auth_token name email"
| "run_github_org http (Add_members auth_token org username role) =
     add_members http auth_token org username role"
| "run_github_org http (Remove_members auth_token org username) =
     remove_members http auth_token org username"
| "run_github_org http (List_teams auth_token org) = list_teams http auth_token org"
| "run_github_org http (Manage_teams auth_token org team_id name description privacy) =
     manage_teams http auth_token org team_id name description privacy"

fun shape_of_github_org :: "github_org_call \<Rightarrow> shape" where
  "shape_of_github_org (Create_organization _ _ _) = Returns_body"
| "shape_of_github_org (Add_members _ _ _ _) = Returns_message ''Member added successfully.''"
| "shape_of_github_org (Remove_members _ _ _) = Returns_message ''Member removed successfully.''"
| "shape_of_github_org (List_teams _ _) = Returns_body"
| "shape_of_github_org (Manage_teams _ _ _ _ _ _) = Returns_body"

section \<open>GitHub: pr\<close>

text \<open>The functions of \<^verbatim>\<open>actions/github/pr.py\<close>, in the order of the file.\<close>

definition github_create_issue ::
  "http_layer \<Rightarrow> string \<Rightarrow> string \<Rightarrow> string \<Rightarrow> string \<Rightarrow> string option \<Rightarrow> string list option
     \<Rightarrow> string list option \<Rightarrow> int option \<Rightarrow> pyval py" where
  "github_create_issue http auth_token owner repo title body labels assignees milestone =
     (let url' = ''https://api.github.com/repos/'' @ owner @ ''/'' @ repo @ ''/issues'';
          headers' = [(''Authorization'', ''token '' @ auth_token)];
          payload = PDict [(''title'', PStr title),
                           (''body'', of_opt PStr body),
                           (''labels'', of_opt (\<lambda>ls. PList (map PStr ls)) labels),
                           (''assignees'', of_opt (\<lambda>ls. PList (map PStr ls)) assignees),
                           (''milestone'', of_opt PInt milestone)]
      in try_except
           (bind (requests_call http
                    ((bare POST url')\<lparr>headers := Some headers', json := Some payload\<rparr>))
              (\<lambda>response. bind (raise_for_status response)
              (\<lambda>_. response_json response)))
           log_and_return_str)"

definition github_read_issue ::
  "http_layer \<Rightarrow> string \<Rightarrow> string \<Rightarrow> string \<Rightarrow>
     int \<Rightarrow> pyval py" where
  "github_read_issue http auth_token owner repo issue_number =
     (let url' = ''https://api.github.com/repos/'' @ owner @ ''/'' @ repo @ ''/issues/'' @
                   str_int issue_number;
          headers' = [(''Authorization'', ''token '' @ auth_token)]
      in try_except
           (bind (requests_call http
                    ((bare GET url')\<lparr>headers := Some headers'\<rparr>))
              (\<lambda>response. bind (raise_for_status response)
              (\<lambda>_. response_json response)))
           log_and_return_str)"

definition github_update_issue ::
  "http_layer \<Rightarrow> string \<Rightarrow> string \<Rightarrow> string \<Rightarrow>
     int \<Rightarrow> string option \<Rightarrow> string option \<Rightarrow>
     string option \<Rightarrow> string list option \<Rightarrow>
     string list option \<Rightarrow> int option \<Rightarrow> pyval py" where
  "github_update_issue http
       auth_token owner repo issue_number title body state labels assignees milestone =
     (let url' = ''https://api.github.com/repos/'' @ owner @ ''/'' @ repo @ ''/issues/'' @
                   str_int issue_number;
          headers' = [(''Authorization'', ''token '' @ auth_token)];
          payload = PDict [
                      (''title'', of_opt PStr title),
                      (''body'', of_opt PStr body),
                      (''state'', of_opt PStr state),
                      (''labels'', of_opt (\<lambda>ls. PList (map PStr ls)) labels),
                      (''assignees'', of_opt (\<lambda>ls. PList (map PStr ls)) assignees),
                      (''milestone'', of_opt PInt milestone)]
      in try_except
           (bind (requests_call http
                    ((bare PATCH url')\<lparr>headers := Some headers',
                                              json := Some payload\<rparr>))
              (\<lambda>response. bind (raise_for_status response)
              (\<lambda>_. response_json response)))
           log_and_return_str)"

definition list_issues ::
  "http_layer \<Rightarrow> string \<Rightarrow> string \<Rightarrow> string \<Rightarrow>
     string \<Rightarrow> int \<Rightarrow> int \<Rightarrow> pyval py" where
  "list_issues http auth_token owner repo state per_page page =
     (let url' = ''https://api.github.com/repos/'' @ owner @ ''/'' @ repo @ ''/issues?state='' @
                   state @ ''&per_page='' @ str_int per_page @ ''&page='' @ str_int page;
          headers' = [(''Authorization'', ''token '' @ auth_token)]
      in try_except
           (bind (requests_call http
                    ((bare GET url')\<lparr>headers := Some headers'\<rparr>))
              (\<lambda>response. bind (raise_for_status response)
              (\<lambda>_. response_json response)))
           log_and_return_str)"

definition create_pull_request ::
  "http_layer \<Rightarrow> string \<Rightarrow> string \<Rightarrow> string \<Rightarrow>
     string \<Rightarrow> string \<Rightarrow> string \<Rightarrow> string \<Rightarrow>
     bool \<Rightarrow> pyval py" where
  "create_pull_request http auth_token owner repo title body head base draft =
     (let url' = ''https://api.github.com/repos/'' @ owner @ ''/'' @ repo @ ''/pulls'';
          headers' = [(''Authorization'', ''token '' @ auth_token)];
          payload = PDict [
                      (''title'', PStr title),
                      (''body'', PStr body),
                      (''head'', PStr head),
                      (''base'', PStr base),
                      (''draft'', PBool draft)]
      in try_except
           (bind (requests_call http
                    ((bare POST url')\<lparr>headers := Some headers',
                                             json := Some payload\<rparr>))
              (\<lambda>response. bind (raise_for_status response)
              (\<lambda>_. response_json response)))
           log_and_return_str)"

definition read_pull_request ::
  "http_layer \<Rightarrow> string \<Rightarrow> string \<Rightarrow> string \<Rightarrow>
     int \<Rightarrow> pyval py" where
  "read_pull_request http auth_token owner repo pull_number =
     (let url' = ''https://api.github.com/repos/'' @ owner @ ''/'' @ repo @ ''/pulls/'' @
                   str_int pull_number;
          headers' = [(''Authorization'', ''token '' @ auth_token)]
      in try_except
           (bind (requests_call http
                    ((bare GET url')\<lparr>headers := Some headers'\<rparr>))
              (\<lambda>response. bind (raise_for_status response)
              (\<lambda>_. response_json response)))
           log_and_return_str)"

definition update_pull_request ::
  "http_layer \<Rightarrow> string \<Rightarrow> string \<Rightarrow> string \<Rightarrow>
     int \<Rightarrow> string option \<Rightarrow> string option \<Rightarrow>
     string option \<Rightarrow> string option \<Rightarrow> pyval py" where
  "update_pull_request http auth_token owner repo pull_number title body state base =
     (let url' = ''https://api.github.com/repos/'' @ owner @ ''/'' @ repo @ ''/pulls/'' @
                   str_int pull_number;
          headers' = [(''Authorization'', ''token '' @ auth_token)];
          payload = PDict [
                      (''title'', of_opt PStr title),
                      (''body'', of_opt PStr body),
                      (''state'', of_opt PStr state),
                      (''base'', of_opt PStr base)]
      in try_except
           (bind (requests_call http
                    ((bare PATCH url')\<lparr>headers := Some headers',
                                              json := Some payload\<rparr>))
              (\<lambda>response. bind (raise_for_status response)
              (\<lambda>_. response_json response)))
           log_and_return_str)"

definition merge_pull_request ::
  "http_layer \<Rightarrow> string \<Rightarrow> string \<Rightarrow> string \<Rightarrow>
     int \<Rightarrow> string option \<Rightarrow> string option \<Rightarrow>
     string \<Rightarrow> pyval py" where
  "merge_pull_request http
       auth_token owner repo pull_number commit_title commit_message merge_method =
     (let url' = ''https://api.github.com/repos/'' @ owner @ ''/'' @ repo @ ''/pulls/'' @
                   str_int pull_number @ ''/merge'';
          headers' = [(''Authorization'', ''token '' @ auth_token)];
          payload = PDict [
                      (''commit_title'', of_opt PStr commit_title),
                      (''commit_message'', of_opt PStr commit_message),
                      (''merge_method'', PStr merge_method)]
      in try_except
           (bind (requests_call http
                    ((bare PUT url')\<lparr>headers := Some headers', json := Some payload\<rparr>))
              (\<lambda>response. bind (raise_for_status response)
              (\<lambda>_. response_json response)))
           log_and_return_str)"

definition close_pull_request ::
  "http_layer \<Rightarrow> string \<Rightarrow> string \<Rightarrow> string \<Rightarrow>
     int \<Rightarrow> pyval py" where
  "close_pull_request http auth_token owner repo pull_number =
     (let url' = ''https://api.github.com/repos/'' @ owner @ ''/'' @ repo @ ''/pulls/'' @
                   str_int pull_number;
          headers' = [(''Authorization'', ''token '' @ auth_token)];
          payload = PDict [(''state'', PStr ''closed'')]
      in try_except
           (bind (requests_call http
                    ((bare PATCH url')\<lparr>headers := Some headers',
                                              json := Some payload\<rparr>))
              (\<lambda>response. bind (raise_for_status response)
              (\<lambda>_. response_json response)))
           log_and_return_str)"

definition comment_on_issue ::
  "http_layer \<Rightarrow> string \<Rightarrow> string \<Rightarrow> string \<Rightarrow>
     int \<Rightarrow> string \<Rightarrow> pyval py" where
  "comment_on_issue http auth_token owner repo issue_number body =
     (let url' = ''https://api.github.com/repos/'' @ owner @ ''/'' @ repo @ ''/issues/'' @
                   str_int issue_number @ ''/comments'';
          headers' = [(''Authorization'', ''token '' @ auth_token)];
          payload = PDict [(''body'', PStr body)]
      in try_except
           (bind (requests_call http
                    ((bare POST url')\<lparr>headers := Some headers',
                                             json := Some payload\<rparr>))
              (\<lambda>response. bind (raise_for_status response)
              (\<lambda>_. response_json response)))
           log_and_return_str)"

definition comment_on_pull_request ::
  "http_layer \<Rightarrow> string \<Rightarrow> string \<Rightarrow> string \<Rightarrow>
     int \<Rightarrow> string \<Rightarrow> pyval py" where
  "comment_on_pull_request http auth_token owner repo pull_number body =
     (let url' = ''https://api.github.com/repos/'' @ owner @ ''/'' @ repo @ ''/pulls/'' @
                   str_int pull_number @ ''/comments'';
          headers' = [(''Authorization'', ''token '' @ auth_token)];
          payload = PDict [(''body'', PStr body)]
      in try_except
           (bind (requests_call http
                    ((bare POST url')\<lparr>headers := Some headers',
                                             json := Some payload\<rparr>))
              (\<lambda>response. bind (raise_for_status response)
              (\<lambda>_. response_json response)))
           log_and_return_str)"

definition add_labels ::
  "http_layer \<Rightarrow> string \<Rightarrow> string \<Rightarrow> string \<Rightarrow>
     int \<Rightarrow> string list \<Rightarrow> pyval py" where
  "add_labels http auth_token owner repo issue_number labels =
     (let url' = ''https://api.github.com/repos/'' @ owner @ ''/'' @ repo @ ''/issues/'' @
                   str_int issue_number @ ''/labels'';
          headers' = [(''Authorization'', ''token '' @ auth_token)];
          payload = PDict [(''labels'', PList (map PStr labels))]
      in try_except
           (bind (requests_call http
                    ((bare POST url')\<lparr>headers := Some headers',
                                             json := Some payload\<rparr>))
              (\<lambda>response. bind (raise_for_status response)
              (\<lambda>_. response_json response)))
           log_and_return_str)"

definition remove_labels ::
  "http_layer \<Rightarrow> string \<Rightarrow> string \<Rightarrow> string \<Rightarrow>
     int \<Rightarrow> pyval py" where
  "remove_labels http auth_token owner repo issue_number =
     (let url' = ''https://api.github.com/repos/'' @ owner @ ''/'' @ repo @ ''/issues/'' @
                   str_int issue_number @ ''/labels'';
          headers' = [(''Authorization'', ''token '' @ auth_token)]
      in try_except
           (bind (requests_call http
                    ((bare DELETE url')\<lparr>headers := Some headers'\<rparr>))
              (\<lambda>response. bind (raise_for_status response)
              (\<lambda>_. ret (PStr ''Labels removed successfully.''))))
           log_and_return_str)"

definition add_assignees ::
  "http_layer \<Rightarrow> string \<Rightarrow> string \<Rightarrow> string \<Rightarrow>
     int \<Rightarrow> string list \<Rightarrow> pyval py" where
  "add_assignees http auth_token owner repo issue_number assignees =
     (let url' = ''https://api.github.com/repos/'' @ owner @ ''/'' @ repo @ ''/issues/'' @
                   str_int issue_number @ ''/assignees'';
          headers' = [(''Authorization'', ''token '' @ auth_token)];
          payload = PDict [(''assignees'', PList (map PStr assignees))]
      in try_except
           (bind (requests_call http
                    ((bare POST url')\<lparr>headers := Some headers',
                                             json := Some payload\<rparr>))
              (\<lambda>response. bind (raise_for_status response)
              (\<lambda>_. response_json response)))
           log_and_return_str)"

definition remove_assignees ::
  "http_layer \<Rightarrow> string \<Rightarrow> string \<Rightarrow> string \<Rightarrow>
     int \<Rightarrow> string list \<Rightarrow> pyval py" where
  "remove_assignees http auth_token owner repo issue_number assignees =
     (let url' = ''https://api.github.com/repos/'' @ owner @ ''/'' @ repo @ ''/issues/'' @
                   str_int issue_number @ ''/assignees'';
          headers' = [(''Authorization'', ''token '' @ auth_token)];
          payload = PDict [(''assignees'', PList (map PStr assignees))]
      in try_except
           (bind (requests_call http
                    ((bare DELETE url')\<lparr>headers := Some headers',
                                               json := Some payload\<rparr>))
              (\<lambda>response. bind (raise_for_status response)
              (\<lambda>_. ret (PStr ''Assignees removed successfully.''))))
           log_and_return_str)"

definition add_milestone ::
  "http_layer \<Rightarrow> string \<Rightarrow> string \<Rightarrow> string \<Rightarrow>
     int \<Rightarrow> int \<Rightarrow> pyval py" where
  "add_milestone http auth_token owner repo issue_number milestone_number =
     (let url' = ''https://api.github.com/repos/'' @ owner @ ''/'' @ repo @ ''/issues/'' @
                   str_int issue_number;
          headers' = [(''Authorization'', ''token '' @ auth_token)];
          payload = PDict [(''milestone'', PInt milestone_number)]
      in try_except
           (bind (requests_call http
                    ((bare PATCH url')\<lparr>headers := Some headers',
                                              json := Some payload\<rparr>))
              (\<lambda>response. bind (raise_for_status response)
              (\<lambda>_. response_json response)))
           log_and_return_str)"

definition remove_milestone ::
  "http_layer \<Rightarrow> string \<Rightarrow> string \<Rightarrow> string \<Rightarrow>
     int \<Rightarrow> pyval py" where
  "remove_milestone http auth_token owner repo issue_number =
     (let url' = ''https://api.github.com/repos/'' @ owner @ ''/'' @ repo @ ''/issues/'' @
                   str_int issue_number;
          headers' = [(''Authorization'', ''token '' @ auth_token)];
          payload = PDict [(''milestone'', PNone)]
      in try_except
           (bind (requests_call http
                    ((bare PATCH url')\<lparr>headers := Some headers',
                                              json := Some payload\<rparr>))
              (\<lambda>response. bind (raise_for_status response)
              (\<lambda>_. ret (PStr ''Milestone removed successfully.''))))
           log_and_return_str)"

datatype github_pr_call =
    Github_create_issue string string string string "string option" "string list option" "string list option" "int option"
  | Github_read_issue string string string int
  | Github_update_issue string string string int "string option" "string option" "string option" "string list option" "string list option" "int option"
  | List_issues string string string string int int
  | Create_pull_request string string string string string string string bool
  | Read_pull_request string string string int
  | Update_pull_request string string string int "string option" "string option" "string option" "string option"
  | Merge_pull_request string string string int "string option" "string option" string
  | Close_pull_request string string string int
  | Comment_on_issue string string string int string
  | Comment_on_pull_request string string string int string
  | Add_labels string string string int "string list"
  | Remove_labels string string string int
  | Add_assignees string string string int "string list"
  | Remove_assignees string string string int "string list"
  | Add_milestone string string string int int
  | Remove_milestone string string string int

fun run_github_pr :: "http_layer \<Rightarrow> github_pr_call \<Rightarrow> pyval py" where
  "run_github_pr http (Github_create_issue auth_token owner repo title body labels assignees milestone) =
     github_create_issue http auth_token owner repo title body labels assignees milestone"
| "run_github_pr http (Github_read_issue auth_token owner repo issue_number) =
     github_read_issue http auth_token owner repo issue_number"
| "run_github_pr http (Github_update_issue auth_token owner repo issue_number title body state labels assignees milestone) =
     github_update_issue http auth_token owner repo issue_number title body state labels assignees milestone"
| "run_github_pr http (List_issues auth_token owner repo state per_page page) =
     list_issues http auth_token owner repo state per_page page"
| "run_github_pr http (Create_pull_request auth_token owner repo title body head base draft) =
     create_pull_request http auth_token owner repo title body head base draft"
| "run_github_pr http (Read_pull_request auth_token owner repo pull_number) =
     read_pull_request http auth_token owner repo pull_number"
| "run_github_pr http (Update_pull_request auth_token owner repo pull_number title body state base) =
     update_pull_request http auth_token owner repo pull_number title body state base"
| "run_github_pr http (Merge_pull_request auth_token owner repo pull_number commit_title commit_message merge_method) =
     merge_pull_request http auth_token owner repo pull_number commit_title commit_message merge_method"
| "run_github_pr http (Close_pull_request auth_token owner repo pull_number) =
     close_pull_request http auth_token owner repo pull_number"
| "run_github_pr http (Comment_on_issue auth_token owner repo issue_number body) =
     comment_on_issue http auth_token owner repo issue_number body"
| "run_github_pr http (Comment_on_pull_request auth_token owner repo pull_number body) =
     comment_on_pull_request http auth_token owner repo pull_number body"
| "run_github_pr http (Add_labels auth_token owner repo issue_number labels) =
     add_labels http auth_token owner repo issue_number labels"
| "run_github_pr http (Remove_labels auth_token owner repo issue_number) =
     remove_labels http auth_token owner repo issue_number"
| "run_github_pr http (Add_assignees auth_token owner repo issue_number assignees) =
     add_assignees http auth_token owner repo issue_number assignees"
| "run_github_pr http (Remove_assignees auth_token owner repo issue_number assignees) =
     remove_assignees http auth_token owner repo issue_number assignees"
| "run_github_pr http (Add_milestone auth_token owner repo issue_number milestone_number) =
     add_milestone http auth_token owner repo issue_number milestone_number"
| "run_github_pr http (Remove_milestone auth_token owner repo issue_number) =
     remove_milestone http auth_token owner repo issue_number"

fun shape_of_github_pr :: "github_pr_call \<Rightarrow> shape" where
  "shape_of_github_pr (Github_create_issue _ _ _ _ _ _ _ _) = Returns_body"
| "shape_of_github_pr (Github_read_issue _ _ _ _) = Returns_body"
| "shape_of_github_pr (Github_update_issue _ _ _ _ _ _ _ _ _ _) = Returns_body"
| "shape_of_github_pr (List_issues _ _ _ _ _ _) = Returns_body"
| "shape_of_github_pr (Create_pull_request _ _ _ _ _ _ _ _) = Returns_body"
| "shape_of_github_pr (Read_pull_request _ _ _ _) = Returns_body"
| "shape_of_github_pr (Update_pull_request _ _ _ _ _ _ _ _) = Returns_body"
| "shape_of_github_pr (Merge_pull_request _ _ _ _ _ _ _) = Returns_body"
| "shape_of_github_pr (Close_pull_request _ _ _ _) = Returns_body"
| "shape_of_github_pr (Comment_on_issue _ _ _ _ _) = Returns_body"
| "shape_of_github_pr (Comment_on_pull_request _ _ _ _ _) = Returns_body"
| "shape_of_github_pr (Add_labels _ _ _ _ _) = Returns_body"
| "shape_of_github_pr (Remove_labels _ _ _ _) = Returns_message ''Labels removed successfully.''"
| "shape_of_github_pr (Add_assignees _ _ _ _ _) = Returns_body"
| "shape_of_github_pr (Remove_assignees _ _ _ _ _) =
     Returns_message ''Assignees removed successfully.''"
| "shape_of_github_pr (Add_milestone _ _ _ _ _) = Returns_body"
| "shape_of_github_pr (Remove_milestone _ _ _ _) =
     Returns_message ''Milestone removed successfully.''"

section \<open>GitHub: projects\<close>

text \<open>The functions of \<^verbatim>\<open>actions/github/projects.py\<close>, in the order of the file.\<close>

definition github_create_project ::
  "http_layer \<Rightarrow> string \<Rightarrow> string \<Rightarrow> string \<Rightarrow>
     string \<Rightarrow> string \<Rightarrow> pyval py" where
  "github_create_project http auth_token owner repo name body =
     (let url' = ''https://api.github.com/repos/'' @ owner @ ''/'' @ repo @ ''/projects'';
          headers' = [
                       (''Authorization'', ''token '' @ auth_token),
                       (''Accept'', ''application/vnd.github.inertia-preview+json'')];
          payload = PDict [(''name'', PStr name), (''body'', PStr body)]
      in try_except
           (bind (requests_call http
                    ((bare POST url')\<lparr>headers := Some headers',
                                             json := Some payload\<rparr>))
              (\<lambda>response. bind (raise_for_status response)
              (\<lambda>_. response_json response)))
           log_and_return_str)"

definition github_read_project ::
  "http_layer \<Rightarrow> string \<Rightarrow> int \<Rightarrow> pyval py" where
  "github_read_project http auth_token project_id =
     (let url' = ''https://api.github.com/projects/'' @ str_int project_id;
          headers' = [
                       (''Authorization'', ''token '' @ auth_token),
                       (''Accept'', ''application/vnd.github.inertia-preview+json'')]
      in try_except
           (bind (requests_call http
                    ((bare GET url')\<lparr>headers := Some headers'\<rparr>))
              (\<lambda>response. bind (raise_for_status response)
              (\<lambda>_. response_json response)))
           log_and_return_str)"

definition github_update_project ::
  "http_layer \<Rightarrow> string \<Rightarrow> int \<Rightarrow> string \<Rightarrow>
     string \<Rightarrow> pyval py" where
  "github_update_project http auth_token project_id name body =
     (let url' = ''https://api.github.com/projects/'' @ str_int project_id;
          headers' = [
                       (''Authorization'', ''token '' @ auth_token),
                       (''Accept'', ''application/vnd.github.inertia-preview+json'')];
          payload = PDict [(''name'', PStr name), (''body'', PStr body)]
      in try_except
           (bind (requests_call http
                    ((bare PATCH url')\<lparr>headers := Some headers',
                                              json := Some payload\<rparr>))
              (\<lambda>response. bind (raise_for_status response)
              (\<lambda>_. response_json response)))
           log_and_return_str)"

definition github_delete_project ::
  "http_layer \<Rightarrow> string \<Rightarrow> int \<Rightarrow> pyval py" where
  "github_delete_project http auth_token project_id =
     (let url' = ''https://api.github.com/projects/'' @ str_int project_id;
          headers' = [
                       (''Authorization'', ''token '' @ auth_token),
                       (''Accept'', ''application/vnd.github.inertia-preview+json'')]
      in try_except
           (bind (requests_call http
                    ((bare DELETE url')\<lparr>headers := Some headers'\<rparr>))
              (\<lambda>response. bind (raise_for_status response)
              (\<lambda>_. ret (PStr ''Project deleted successfully.''))))
           log_and_return_str)"

definition add_project_column ::
  "http_layer \<Rightarrow> string \<Rightarrow> int \<Rightarrow> string \<Rightarrow>
     pyval py" where
  "add_project_column http auth_token project_id name =
     (let url' = ''https://api.github.com/projects/'' @ str_int project_id @ ''/columns'';
          headers' = [
                       (''Authorization'', ''token '' @ auth_token),
                       (''Accept'', ''application/vnd.github.inertia-preview+json'')];
          payload = PDict [(''name'', PStr name)]
      in try_except
           (bind (requests_call http
                    ((bare POST url')\<lparr>headers := Some headers',
                                             json := Some payload\<rparr>))
              (\<lambda>response. bind (raise_for_status response)
              (\<lambda>_. response_json response)))
           log_and_return_str)"

definition manage_project_column ::
  "http_layer \<Rightarrow> string \<Rightarrow> int \<Rightarrow> string \<Rightarrow>
     pyval py" where
  "manage_project_column http auth_token column_id name =
     (let url' = ''https://api.github.com/projects/columns/'' @ str_int column_id;
          headers' = [
                       (''Authorization'', ''token '' @ auth_token),
                       (''Accept'', ''application/vnd.github.inertia-preview+json'')];
          payload = PDict [(''name'', PStr name)]
      in try_except
           (bind (requests_call http
                    ((bare PATCH url')\<lparr>headers := Some headers',
                                              json := Some payload\<rparr>))
              (\<lambda>response. bind (raise_for_status response)
              (\<lambda>_. response_json response)))
           log_and_return_str)"

definition add_project_card ::
  "http_layer \<Rightarrow> string \<Rightarrow> int \<Rightarrow> string \<Rightarrow>
     pyval py" where
  "add_project_card http auth_token column_id note =
     (let url' = ''https://api.github.com/projects/columns/'' @ str_int column_id @ ''/cards'';
          headers' = [
                       (''Authorization'', ''token '' @ auth_token),
                       (''Accept'', ''application/vnd.github.inertia-preview+json'')];
          payload = PDict [(''note'', PStr note)]
      in try_except
           (bind (requests_call http
                    ((bare POST url')\<lparr>headers := Some headers',
                                             json := Some payload\<rparr>))
              (\<lambda>response. bind (raise_for_status response)
              (\<lambda>_. response_json response)))
           log_and_return_str)"

definition manage_project_card ::
  "http_layer \<Rightarrow> string \<Rightarrow> int \<Rightarrow> string \<Rightarrow>
     pyval py" where
  "manage_project_card http auth_token card_id note =
     (let url' = ''https://api.github.com/projects/columns/cards/'' @ str_int card_id;
          headers' = [
                       (''Authorization'', ''token '' @ auth_token),
                       (''Accept'', ''application/vnd.github.inertia-preview+json'')];
          payload = PDict [(''note'', PStr note)]
      in try_except
           (bind (requests_call http
                    ((bare PATCH url')\<lparr>headers := Some headers',
                                              json := Some payload\<rparr>))
              (\<lambda>response. bind (raise_for_status response)
              (\<lambda>_. response_json response)))
           log_and_return_str)"

datatype github_projects_call =
    Github_create_project string string string string string
  | Github_read_project string int
  | Github_update_project string int string string
  | Github_delete_project string int
  | Add_project_column string int string
  | Manage_project_column string int string
  | Add_project_card string int string
  | Manage_project_card string int string

fun run_github_projects :: "http_layer \<Rightarrow> github_projects_call \<Rightarrow> pyval py" where
  "run_github_projects http (Github_create_project auth_token owner repo name body) =
     github_create_project http auth_token owner repo name body"
| "run_github_projects http (Github_read_project auth_token project_id) =
     github_read_project http auth_token project_id"
| "run_github_projects http (Github_update_project auth_token project_id name body) =
     github_update_project http auth_token project_id name body"
| "run_github_projects http (Github_delete_project auth_token project_id) =
     github_delete_project http auth_token project_id"
| "run_github_projects http (Add_project_column auth_token project_id name) =
     add_project_column http auth_token project_id name"
| "run_github_projects http (Manage_project_column auth_token column_id name) =
     manage_project_column http auth_token column_id name"
| "run_github_projects http (Add_project_card auth_token column_id note) =
     add_project_card http auth_token column_id note"
| "run_github_projects http (Manage_project_card auth_token card_id note) =
     manage_project_card http auth_token card_id note"

fun shape_of_github_projects :: "github_projects_call \<Rightarrow> shape" where
  "shape_of_github_projects (Github_create_project _ _ _ _ _) = Returns_body"
| "shape_of_github_projects (Github_read_project _ _) = Returns_body"
| "shape_of_github_projects (Github_update_project _ _ _ _) = Returns_body"
| "shape_of_github_projects (Github_delete_project _ _) =
     Returns_message ''Project deleted successfully.''"
| "shape_of_github_projects (Add_project_column _ _ _) = Returns_body"
| "shape_of_github_projects (Manage_project_column _ _ _) = Returns_body"
| "shape_of_github_projects (Add_project_card _ _ _) = Returns_body"
| "shape_of_github_projects (Manage_project_card _ _ _) = Returns_body"

section \<open>GitHub: repo\<close>

text \<open>The functions of \<^verbatim>\<open>actions/github/repo.py\<close>, in the order of the file.\<close>

text \<open>
  The first three functions of \<open>github/repo.py\<close> have no \<open>try\<close> and no
  \<open>raise_for_status()\<close>: whatever the status, they return \<open>response.json()\<close>.
  In \<open>create_repository\<close> the conditional tests the truth value of \<open>organization\<close>,
  so \<open>None\<close> and the empty string both select \<open>user\<close>.
\<close>

definition create_repository ::
  "http_layer \<Rightarrow> string \<Rightarrow> string \<Rightarrow> string option \<Rightarrow> bool \<Rightarrow> string option \<Rightarrow> pyval py" where
  "create_repository http auth_token name description private organization =
     (let url' = ''https://api.github.com/''
                 @ (case organization of
                      None \<Rightarrow> ''user''
                    | Some org \<Rightarrow> if org \<noteq> [] then ''orgs/'' @ org else ''user'')
                 @ ''/repos'';
          headers' = [(''Authorization'', ''token '' @ auth_token)];
          payload = PDict [(''name'', PStr name),
                           (''description'', of_opt PStr description),
                           (''private'', PBool private)]
      in bind (requests_call http
                 ((bare POST url')\<lparr>headers := Some headers', json := Some payload\<rparr>))
           (\<lambda>response. response_json response))"

definition delete_repository :: "http_layer \<Rightarrow> string \<Rightarrow> string \<Rightarrow> string \<Rightarrow> pyval py" where
  "delete_repository http auth_token owner repo =
     (let url' = ''https://api.github.com/repos/'' @ owner @ ''/'' @ repo;
          headers' = [(''Authorization'', ''token '' @ auth_token)]
      in bind (requests_call http ((bare DELETE url')\<lparr>headers := Some headers'\<rparr>))
           (\<lambda>response. response_json response))"

definition update_repository ::
  "http_layer \<Rightarrow> string \<Rightarrow> string \<Rightarrow> string \<Rightarrow> string option \<Rightarrow> string option \<Rightarrow> bool option
     \<Rightarrow> pyval py" where
  "update_repository http auth_token owner repo name description private =
     (let url' = ''https://api.github.com/repos/'' @ owner @ ''/'' @ repo;
          headers' = [(''Authorization'', ''token '' @ auth_token)];
          payload = [(''name'', of_opt PStr name),
                     (''description'', of_opt PStr description),
                     (''private'', of_opt PBool private)];
          payload = filter (\<lambda>(k, v). v \<noteq> PNone) payload
      in bind (requests_call http
                 ((bare PATCH url')\<lparr>headers := Some headers', json := Some (PDict payload)\<rparr>))
           (\<lambda>response. response_json response))"

definition list_user_repositories ::
  "http_layer \<Rightarrow> string \<Rightarrow> string \<Rightarrow> string option \<Rightarrow>
     int \<Rightarrow> int \<Rightarrow> pyval py" where
  "list_user_repositories http auth_token username sort' per_page page =
     (let url' = ''https://api.github.com/users/'' @ username @ ''/repos?sort='' @ str_opt sort' @
                   ''&per_page='' @ str_int per_page @ ''&page='' @ str_int page;
          headers' = [(''Authorization'', ''token '' @ auth_token)]
      in try_except
           (bind (requests_call http
                    ((bare GET url')\<lparr>headers := Some headers'\<rparr>))
              (\<lambda>response. bind (raise_for_status response)
              (\<lambda>_. response_json response)))
           log_and_return_str)"

definition list_organization_repositories ::
  "http_layer \<Rightarrow> string \<Rightarrow> string \<Rightarrow> string option \<Rightarrow>
     int \<Rightarrow> int \<Rightarrow> pyval py" where
  "list_organization_repositories http auth_token org sort' per_page page =
     (let url' = ''https://api.github.com/orgs/'' @ org @ ''/repos?sort='' @ str_opt sort' @
                   ''&per_page='' @ str_int per_page @ ''&page='' @ str_int page;
          headers' = [(''Authorization'', ''token '' @ auth_token)]
      in try_except
           (bind (requests_call http
                    ((bare GET url')\<lparr>headers := Some headers'\<rparr>))
              (\<lambda>response. bind (raise_for_status response)
              (\<lambda>_. response_json response)))
           log_and_return_str)"

text \<open>
  \<open>{"organization": organization} if organization else {}\<close>: the test is the truth
  value, so the empty string gives the empty dictionary as \<open>None\<close> does.
\<close>

definition fork_repository ::
  "http_layer \<Rightarrow> string \<Rightarrow> string \<Rightarrow> string \<Rightarrow> string option \<Rightarrow> pyval py" where
  "fork_repository http auth_token owner repo organization =
     (let url' = ''https://api.github.com/repos/'' @ owner @ ''/'' @ repo @ ''/forks'';
          headers' = [(''Authorization'', ''token '' @ auth_token)];
          payload = (case organization of
                       None \<Rightarrow> PDict []
                     | Some org \<Rightarrow>
                         if org \<noteq> [] then PDict [(''organization'', PStr org)] else PDict [])
      in try_except
           (bind (requests_call http
                    ((bare POST url')\<lparr>headers := Some headers', json := Some payload\<rparr>))
              (\<lambda>response. bind (raise_for_status response)
              (\<lambda>_. response_json response)))
           log_and_return_str)"

definition star_repository :: "http_layer \<Rightarrow> string \<Rightarrow> string \<Rightarrow> string \<Rightarrow> pyval py" where
  "star_repository http auth_token owner repo =
     (let url' = ''https://api.github.com/user/starred/'' @ owner @ ''/'' @ repo;
          headers' = [(''Authorization'', ''token '' @ auth_token)]
      in try_except
           (bind (requests_call http ((bare PUT url')\<lparr>headers := Some headers'\<rparr>))
              (\<lambda>response. bind (raise_for_status response)
              (\<lambda>_. ret (PStr ''Successfully starred the repository.''))))
           log_and_return_str)"

definition unstar_repository ::
  "http_layer \<Rightarrow> string \<Rightarrow> string \<Rightarrow> string \<Rightarrow>
     pyval py" where
  "unstar_repository http auth_token owner repo =
     (let url' = ''https://api.github.com/user/starred/'' @ owner @ ''/'' @ repo;
          headers' = [(''Authorization'', ''token '' @ auth_token)]
      in try_except
           (bind (requests_call http
                    ((bare DELETE url')\<lparr>headers := Some headers'\<rparr>))
              (\<lambda>response. bind (raise_for_status response)
              (\<lambda>_. ret (PStr ''Successfully unstarred the repository.''))))
           log_and_return_str)"

definition list_starred_repositories ::
  "http_layer \<Rightarrow> string \<Rightarrow> int \<Rightarrow> int \<Rightarrow>
     pyval py" where
  "list_starred_repositories http auth_token per_page page =
     (let url' = ''https://api.github.com/user/starred?per_page='' @ str_int per_page @
                   ''&page='' @ str_int page;
          headers' = [(''Authorization'', ''token '' @ auth_token)]
      in try_except
           (bind (requests_call http
                    ((bare GET url')\<lparr>headers := Some headers'\<rparr>))
              (\<lambda>response. bind (raise_for_status response)
              (\<lambda>_. response_json response)))
           log_and_return_str)"

definition watch_repository ::
  "http_layer \<Rightarrow> string \<Rightarrow> string \<Rightarrow> string \<Rightarrow>
     pyval py" where
  "watch_repository http auth_token owner repo =
     (let url' = ''https://api.github.com/repos/'' @ owner @ ''/'' @ repo @ ''/subscription'';
          headers' = [(''Authorization'', ''token '' @ auth_token)];
          payload = PDict [(''subscribed'', PBool True)]
      in try_except
           (bind (requests_call http
                    ((bare PUT url')\<lparr>headers := Some headers', json := Some payload\<rparr>))
              (\<lambda>response. bind (raise_for_status response)
              (\<lambda>_. ret (PStr ''Successfully watched the repository.''))))
           log_and_return_str)"

definition unwatch_repository ::
  "http_layer \<Rightarrow> string \<Rightarrow> string \<Rightarrow> string \<Rightarrow>
     pyval py" where
  "unwatch_repository http auth_token owner repo =
     (let url' = ''https://api.github.com/repos/'' @ owner @ ''/'' @ repo @ ''/subscription'';
          headers' = [(''Authorization'', ''token '' @ auth_token)]
      in try_except
           (bind (requests_call http
                    ((bare DELETE url')\<lparr>headers := Some headers'\<rparr>))
              (\<lambda>response. bind (raise_for_status response)
              (\<lambda>_. ret (PStr ''Successfully unwatched the repository.''))))
           log_and_return_str)"

definition get_repository_topics :: "http_layer \<Rightarrow> string \<Rightarrow> string \<Rightarrow> string \<Rightarrow> pyval py" where
  "get_repository_topics http auth_token owner repo =
     (let url' = ''https://api.github.com/repos/'' @ owner @ ''/'' @ repo @ ''/topics'';
          headers' = [(''Authorization'', ''token '' @ auth_token),
                      (''Accept'', ''application/vnd.github.mercy-preview+json'')]
      in try_except
           (bind (requests_call http ((bare GET url')\<lparr>headers := Some headers'\<rparr>))
              (\<lambda>response. bind (raise_for_status response)
              (\<lambda>_. bind (response_json response)
              (\<lambda>body. dict_get body ''names'' (PList [])))))
           log_and_return_str)"

definition set_repository_topics ::
  "http_layer \<Rightarrow> string \<Rightarrow> string \<Rightarrow> string \<Rightarrow>
     string list \<Rightarrow> pyval py" where
  "set_repository_topics http auth_token owner repo topics =
     (let url' = ''https://api.github.com/repos/'' @ owner @ ''/'' @ repo @ ''/topics'';
          headers' = [
                       (''Authorization'', ''token '' @ auth_token),
                       (''Accept'', ''application/vnd.github.mercy-preview+json'')];
          payload = PDict [(''names'', PList (map PStr topics))]
      in try_except
           (bind (requests_call http
                    ((bare PUT url')\<lparr>headers := Some headers', json := Some payload\<rparr>))
              (\<lambda>response. bind (raise_for_status response)
              (\<lambda>_. bind (response_json response)
              (\<lambda>body. dict_get body ''names'' (PList [])))))
           log_and_return_str)"

definition list_releases ::
  "http_layer \<Rightarrow> string \<Rightarrow> string \<Rightarrow> string \<Rightarrow>
     int \<Rightarrow> int \<Rightarrow> pyval py" where
  "list_releases http auth_token owner repo per_page page =
     (let url' = ''https://api.github.com/repos/'' @ owner @ ''/'' @ repo @
                   ''/releases?per_page='' @ str_int per_page @ ''&page='' @ str_int page;
          headers' = [(''Authorization'', ''token '' @ auth_token)]
      in try_except
           (bind (requests_call http
                    ((bare GET url')\<lparr>headers := Some headers'\<rparr>))
              (\<lambda>response. bind (raise_for_status response)
              (\<lambda>_. response_json response)))
           log_and_return_str)"

definition create_release ::
  "http_layer \<Rightarrow> string \<Rightarrow> string \<Rightarrow> string \<Rightarrow>
     string \<Rightarrow> string \<Rightarrow> string \<Rightarrow> bool \<Rightarrow>
     bool \<Rightarrow> pyval py" where
  "create_release http auth_token owner repo tag_name name body draft prerelease =
     (let url' = ''https://api.github.com/repos/'' @ owner @ ''/'' @ repo @ ''/releases'';
          headers' = [(''Authorization'', ''token '' @ auth_token)];
          payload = PDict [
                      (''tag_name'', PStr tag_name),
                      (''name'', PStr name),
                      (''body'', PStr body),
                      (''draft'', PBool draft),
                      (''prerelease'', PBool prerelease)]
      in try_except
           (bind (requests_call http
                    ((bare POST url')\<lparr>headers := Some headers',
                                             json := Some payload\<rparr>))
              (\<lambda>response. bind (raise_for_status response)
              (\<lambda>_. response_json response)))
           log_and_return_str)"

definition update_release ::
  "http_layer \<Rightarrow> string \<Rightarrow> string \<Rightarrow> string \<Rightarrow>
     int \<Rightarrow> string \<Rightarrow> string \<Rightarrow> string \<Rightarrow>
     bool \<Rightarrow> bool \<Rightarrow> pyval py" where
  "update_release http auth_token owner repo release_id tag_name name body draft prerelease =
     (let url' = ''https://api.github.com/repos/'' @ owner @ ''/'' @ repo @ ''/releases/'' @
                   str_int release_id;
          headers' = [(''Authorization'', ''token '' @ auth_token)];
          payload = PDict [
                      (''tag_name'', PStr tag_name),
                      (''name'', PStr name),
                      (''body'', PStr body),
                      (''draft'', PBool draft),
                      (''prerelease'', PBool prerelease)]
      in try_except
           (bind (requests_call http
                    ((bare PATCH url')\<lparr>headers := Some headers',
                                              json := Some payload\<rparr>))
              (\<lambda>response. bind (raise_for_status response)
              (\<lambda>_. response_json response)))
           log_and_return_str)"

definition delete_release ::
  "http_layer \<Rightarrow> string \<Rightarrow> string \<Rightarrow> string \<Rightarrow>
     int \<Rightarrow> pyval py" where
  "delete_release http auth_token owner repo release_id =
     (let url' = ''https://api.github.com/repos/'' @ owner @ ''/'' @ repo @ ''/releases/'' @
                   str_int release_id;
          headers' = [(''Authorization'', ''token '' @ auth_token)]
      in try_except
           (bind (requests_call http
                    ((bare DELETE url')\<lparr>headers := Some headers'\<rparr>))
              (\<lambda>response. bind (raise_for_status response)
              (\<lambda>_. ret (PStr ''Successfully deleted the release.''))))
           log_and_return_str)"

definition github_list_tags ::
  "http_layer \<Rightarrow> string \<Rightarrow> string \<Rightarrow> string \<Rightarrow>
     int \<Rightarrow> int \<Rightarrow> pyval py" where
  "github_list_tags http auth_token owner repo per_page page =
     (let url' = ''https://api.github.com/repos/'' @ owner @ ''/'' @ repo @ ''/tags?per_page='' @
                   str_int per_page @ ''&page='' @ str_int page;
          headers' = [(''Authorization'', ''token '' @ auth_token)]
      in try_except
           (bind (requests_call http
                    ((bare GET url')\<lparr>headers := Some headers'\<rparr>))
              (\<lambda>response. bind (raise_for_status response)
              (\<lambda>_. response_json response)))
           log_and_return_str)"

definition github_create_tag ::
  "http_layer \<Rightarrow> string \<Rightarrow> string \<Rightarrow> string \<Rightarrow>
     string \<Rightarrow> string \<Rightarrow> string \<Rightarrow> string \<Rightarrow>
     pyval py" where
  "github_create_tag http auth_token owner repo tag message object type =
     (let url' = ''https://api.github.com/repos/'' @ owner @ ''/'' @ repo @ ''/git/tags'';
          headers' = [(''Authorization'', ''token '' @ auth_token)];
          payload = PDict [
                      (''tag'', PStr tag),
                      (''message'', PStr message),
                      (''object'', PStr object),
                      (''type'', PStr type)]
      in try_except
           (bind (requests_call http
                    ((bare POST url')\<lparr>headers := Some headers',
                                             json := Some payload\<rparr>))
              (\<lambda>response. bind (raise_for_status response)
              (\<lambda>_. response_json response)))
           log_and_return_str)"

definition github_delete_tag ::
  "http_layer \<Rightarrow> string \<Rightarrow> string \<Rightarrow> string \<Rightarrow>
     string \<Rightarrow> pyval py" where
  "github_delete_tag http auth_token owner repo tag =
     (let url' = ''https://api.github.com/repos/'' @ owner @ ''/'' @ repo @ ''/git/refs/tags/'' @
                   tag;
          headers' = [(''Authorization'', ''token '' @ auth_token)]
      in try_except
           (bind (requests_call http
                    ((bare DELETE url')\<lparr>headers := Some headers'\<rparr>))
              (\<lambda>response. bind (raise_for_status response)
              (\<lambda>_. ret (PStr ''Successfully deleted the tag.''))))
           log_and_return_str)"

datatype github_repo_call =
    Create_repository string string "string option" bool "string option"
  | Delete_repository string string string
  | Update_repository string string string "string option" "string option" "bool option"
  | List_user_repositories string string "string option" int int
  | List_organization_repositories string string "string option" int int
  | Fork_repository string string string "string option"
  | Star_repository string string string
  | Unstar_repository string string string
  | List_starred_repositories string int int
  | Watch_repository string string string
  | Unwatch_repository string string string
  | Get_repository_topics string string string
  | Set_repository_topics string string string "string list"
  | List_releases string string string int int
  | Create_release string string string string string string bool bool
  | Update_release string string string int string string string bool bool
  | Delete_release string string string int
  | Github_list_tags string string string int int
  | Github_create_tag string string string string string string string
  | Github_delete_tag string string string string

fun run_github_repo :: "http_layer \<Rightarrow> github_repo_call \<Rightarrow> pyval py" where
  "run_github_repo http (Create_repository auth_token name description private organization) =
     create_repository http auth_token name description private organization"
| "run_github_repo http (Delete_repository auth_token owner repo) =
     delete_repository http auth_token owner repo"
| "run_github_repo http (Update_repository auth_token owner repo name description private) =
     update_repository http auth_token owner repo name description private"
| "run_github_repo http (List_user_repositories auth_token username sort' per_page page) =
     list_user_repositories http auth_token username sort' per_page page"
| "run_github_repo http (List_organization_repositories auth_token org sort' per_page page) =
     list_organization_repositories http auth_token org sort' per_page page"
| "run_github_repo http (Fork_repository auth_token owner repo organization) =
     fork_repository http auth_token owner repo organization"
| "run_github_repo http (Star_repository auth_token owner repo) =
     star_repository http auth_token owner repo"
| "run_github_repo http (Unstar_repository auth_token owner repo) =
     unstar_repository http auth_token owner repo"
| "run_github_repo http (List_starred_repositories auth_token per_page page) =
     list_starred_repositories http auth_token per_page page"
| "run_github_repo http (Watch_repository auth_token owner repo) =
     watch_repository http auth_token owner repo"
| "run_github_repo http (Unwatch_repository auth_token owner repo) =
     unwatch_repository http auth_token owner repo"
| "run_github_repo http (Get_repository_topics auth_token owner repo) =
     get_repository_topics http auth_token owner repo"
| "run_github_repo http (Set_repository_topics auth_token owner repo topics) =
     set_repository_topics http auth_token owner repo topics"
| "run_github_repo http (List_releases auth_token owner repo per_page page) =
     list_releases http auth_token owner repo per_page page"
| "run_github_repo http (Create_release auth_token owner repo tag_name name body draft prerelease) =
     create_release http auth_token owner repo tag_name name body draft prerelease"
| "run_github_repo http (Update_release auth_token owner repo release_id tag_name name body draft prerelease) =
     update_release http auth_token owner repo release_id tag_name name body draft prerelease"
| "run_github_repo http (Delete_release auth_token owner repo release_id) =
     delete_release http auth_token owner repo release_id"
| "run_github_repo http (Github_list_tags auth_token owner repo per_page page) =
     github_list_tags http auth_token owner repo per_page page"
| "run_github_repo http (Github_create_tag auth_token owner repo tag message object type) =
     github_create_tag http auth_token owner repo tag message object type"
| "run_github_repo http (Github_delete_tag auth_token owner repo tag) =
     github_delete_tag http auth_token owner repo tag"

fun shape_of_github_repo :: "github_repo_call \<Rightarrow> shape" where
  "shape_of_github_repo (Create_repository _ _ _ _ _) = Unguarded"
| "shape_of_github_repo (Delete_repository _ _ _) = Unguarded"
| "shape_of_github_repo (Update_repository _ _ _ _ _ _) = Unguarded"
| "shape_of_github_repo (List_user_repositories _ _ _ _ _) = Returns_body"
| "shape_of_github_repo (List_organization_repositories _ _ _ _ _) = Returns_body"
| "shape_of_github_repo (Fork_repository _ _ _ _) = Returns_body"
| "shape_of_github_repo (Star_repository _ _ _) =
     Returns_message ''Successfully starred the repository.''"
| "shape_of_github_repo (Unstar_repository _ _ _) =
     Returns_message ''Successfully unstarred the repository.''"
| "shape_of_github_repo (List_starred_repositories _ _ _) = Returns_body"
| "shape_of_github_repo (Watch_repository _ _ _) =
     Returns_message ''Successfully watched the repository.''"
| "shape_of_github_repo (Unwatch_repository _ _ _) =
     Returns_message ''Successfully unwatched the repository.''"
| "shape_of_github_repo (Get_repository_topics _ _ _) = Returns_field ''names'' (PList [])"
| "shape_of_github_repo (Set_repository_topics _ _ _ _) = Returns_field ''names'' (PList [])"
| "shape_of_github_repo (List_releases _ _ _ _ _) = Returns_body"
| "shape_of_github_repo (Create_release _ _ _ _ _ _ _ _) = Returns_body"
| "shape_of_github_repo (Update_release _ _ _ _ _ _ _ _ _) = Returns_body"
| "shape_of_github_repo (Delete_release _ _ _ _) =
     Returns_message ''Successfully deleted the release.''"
| "shape_of_github_repo (Github_list_tags _ _ _ _ _) = Returns_body"
| "shape_of_github_repo (Github_create_tag _ _ _ _ _ _ _) = Returns_body"
| "shape_of_github_repo (Github_delete_tag _ _ _ _) =
     Returns_message ''Successfully deleted the tag.''"

section \<open>GitHub: user\<close>

text \<open>The functions of \<^verbatim>\<open>actions/github/user.py\<close>, in the order of the file.\<close>

definition github_get_user_details ::
  "http_layer \<Rightarrow> string \<Rightarrow> string \<Rightarrow> pyval py" where
  "github_get_user_details http auth_token username =
     (let url' = ''https://api.github.com/users/'' @ username;
          headers' = [(''Authorization'', ''token '' @ auth_token)]
      in try_except
           (bind (requests_call http
                    ((bare GET url')\<lparr>headers := Some headers'\<rparr>))
              (\<lambda>response. bind (raise_for_status response)
              (\<lambda>_. response_json response)))
           log_and_return_str)"

definition update_user_profile ::
  "http_layer \<Rightarrow> string \<Rightarrow> string option \<Rightarrow>
     string option \<Rightarrow> string option \<Rightarrow> string option \<Rightarrow>
     bool option \<Rightarrow> pyval py" where
  "update_user_profile http auth_token name email bio location hireable =
     (let url' = ''https://api.github.com/user'';
          headers' = [(''Authorization'', ''token '' @ auth_token)];
          payload = PDict [
                      (''name'', of_opt PStr name),
                      (''email'', of_opt PStr email),
                      (''bio'', of_opt PStr bio),
                      (''location'', of_opt PStr location),
                      (''hireable'', of_opt PBool hireable)]
      in try_except
           (bind (requests_call http
                    ((bare PATCH url')\<lparr>headers := Some headers',
                                              json := Some payload\<rparr>))
              (\<lambda>response. bind (raise_for_status response)
              (\<lambda>_. response_json response)))
           log_and_return_str)"

definition list_followers ::
  "http_layer \<Rightarrow> string \<Rightarrow> string \<Rightarrow> int \<Rightarrow>
     int \<Rightarrow> pyval py" where
  "list_followers http auth_token username per_page page =
     (let url' = ''https://api.github.com/users/'' @ username @ ''/followers?per_page='' @
                   str_int per_page @ ''&page='' @ str_int page;
          headers' = [(''Authorization'', ''token '' @ auth_token)]
      in try_except
           (bind (requests_call http
                    ((bare GET url')\<lparr>headers := Some headers'\<rparr>))
              (\<lambda>response. bind (raise_for_status response)
              (\<lambda>_. response_json response)))
           log_and_return_str)"

definition list_following ::
  "http_layer \<Rightarrow> string \<Rightarrow> string \<Rightarrow> int \<Rightarrow>
     int \<Rightarrow> pyval py" where
  "list_following http auth_token username per_page page =
     (let url' = ''https://api.github.com/users/'' @ username @ ''/following?per_page='' @
                   str_int per_page @ ''&page='' @ str_int page;
          headers' = [(''Authorization'', ''token '' @ auth_token)]
      in try_except
           (bind (requests_call http
                    ((bare GET url')\<lparr>headers := Some headers'\<rparr>))
              (\<lambda>response. bind (raise_for_status response)
              (\<lambda>_. response_json response)))
           log_and_return_str)"

definition follow_user :: "http_layer \<Rightarrow> string \<Rightarrow> string \<Rightarrow> pyval py" where
  "follow_user http auth_token username =
     (let url' = ''https://api.github.com/user/following/'' @ username;
          headers' = [(''Authorization'', ''token '' @ auth_token)]
      in try_except
           (bind (requests_call http ((bare PUT url')\<lparr>headers := Some headers'\<rparr>))
              (\<lambda>response. bind (raise_for_status response)
              (\<lambda>_. ret (PStr ''User followed successfully.''))))
           log_and_return_str)"

definition unfollow_user ::
  "http_layer \<Rightarrow> string \<Rightarrow> string \<Rightarrow> pyval py" where
  "unfollow_user http auth_token username =
     (let url' = ''https://api.github.com/user/following/'' @ username;
          headers' = [(''Authorization'', ''token '' @ auth_token)]
      in try_except
           (bind (requests_call http
                    ((bare DELETE url')\<lparr>headers := Some headers'\<rparr>))
              (\<lambda>response. bind (raise_for_status response)
              (\<lambda>_. ret (PStr ''User unfollowed successfully.''))))
           log_and_return_str)"

datatype github_user_call =
    Github_get_user_details string string
  | Update_user_profile string "string option" "string option" "string option" "string option" "bool option"
  | List_followers string string int int
  | List_following string string int int
  | Follow_user string string
  | Unfollow_user string string

fun run_github_user :: "http_layer \<Rightarrow> github_user_call \<Rightarrow> pyval py" where
  "run_github_user http (Github_get_user_details auth_token username) =
     github_get_user_details http auth_token username"
| "run_github_user http (Update_user_profile auth_token name email bio location hireable) =
     update_user_profile http auth_token name email bio location hireable"
| "run_github_user http (List_followers auth_token username per_page page) =
     list_followers http auth_token username per_page page"
| "run_github_user http (List_following auth_token username per_page page) =
     list_following http auth_token username per_page page"
| "run_github_user http (Follow_user auth_token username) = follow_user http auth_token username"
| "run_github_user http (Unfollow_user auth_token username) =
     unfollow_user http auth_token username"

fun shape_of_github_user :: "github_user_call \<Rightarrow> shape" where
  "shape_of_github_user (Github_get_user_details _ _) = Returns_body"
| "shape_of_github_user (Update_user_profile _ _ _ _ _ _) = Returns_body"
| "shape_of_github_user (List_followers _ _ _ _) = Returns_body"
| "shape_of_github_user (List_following _ _ _ _) = Returns_body"
| "shape_of_github_user (Follow_user _ _) = Returns_message ''User followed successfully.''"
| "shape_of_github_user (Unfollow_user _ _) = Returns_message ''User unfollowed successfully.''"

section \<open>GitHub: webhooks\<close>

text \<open>The functions of \<^verbatim>\<open>actions/github/webhooks.py\<close>, in the order of the file.\<close>

definition search_code ::
  "http_layer \<Rightarrow> string \<Rightarrow> string \<Rightarrow> pyval py" where
  "search_code http auth_token query =
     (let url' = ''https://api.github.com/search/code?q='' @ query;
          headers' = [(''Authorization'', ''token '' @ auth_token)]
      in try_except
           (bind (requests_call http
                    ((bare GET url')\<lparr>headers := Some headers'\<rparr>))
              (\<lambda>response. bind (raise_for_status response)
              (\<lambda>_. response_json response)))
           log_and_return_str)"

definition create_repo_webhook ::
  "http_layer \<Rightarrow> string \<Rightarrow> string \<Rightarrow> string \<Rightarrow>
     (string \<times> string) list \<Rightarrow> string list \<Rightarrow> bool \<Rightarrow>
     pyval py" where
  "create_repo_webhook http auth_token owner repo config events active =
     (let url' = ''https://api.github.com/repos/'' @ owner @ ''/'' @ repo @ ''/hooks'';
          headers' = [(''Authorization'', ''token '' @ auth_token)];
          payload = PDict [
                      (''config'', of_str_dict config),
                      (''events'', PList (map PStr events)),
                      (''active'', PBool active)]
      in try_except
           (bind (requests_call http
                    ((bare POST url')\<lparr>headers := Some headers',
                                             json := Some payload\<rparr>))
              (\<lambda>response. bind (raise_for_status response)
              (\<lambda>_. response_json response)))
           log_and_return_str)"

definition read_repo_webhook ::
  "http_layer \<Rightarrow> string \<Rightarrow> string \<Rightarrow> string \<Rightarrow>
     int \<Rightarrow> pyval py" where
  "read_repo_webhook http auth_token owner repo hook_id =
     (let url' = ''https://api.github.com/repos/'' @ owner @ ''/'' @ repo @ ''/hooks/'' @
                   str_int hook_id;
          headers' = [(''Authorization'', ''token '' @ auth_token)]
      in try_except
           (bind (requests_call http
                    ((bare GET url')\<lparr>headers := Some headers'\<rparr>))
              (\<lambda>response. bind (raise_for_status response)
              (\<lambda>_. response_json response)))
           log_and_return_str)"

definition update_repo_webhook ::
  "http_layer \<Rightarrow> string \<Rightarrow> string \<Rightarrow> string \<Rightarrow>
     int \<Rightarrow> (string \<times> string) list \<Rightarrow> string list \<Rightarrow>
     bool \<Rightarrow> pyval py" where
  "update_repo_webhook http auth_token owner repo hook_id config events active =
     (let url' = ''https://api.github.com/repos/'' @ owner @ ''/'' @ repo @ ''/hooks/'' @
                   str_int hook_id;
          headers' = [(''Authorization'', ''token '' @ auth_token)];
          payload = PDict [
                      (''config'', of_str_dict config),
                      (''events'', PList (map PStr events)),
                      (''active'', PBool active)]
      in try_except
           (bind (requests_call http
                    ((bare PATCH url')\<lparr>headers := Some headers',
                                              json := Some payload\<rparr>))
              (\<lambda>response. bind (raise_for_status response)
              (\<lambda>_. response_json response)))
           log_and_return_str)"

definition delete_repo_webhook ::
  "http_layer \<Rightarrow> string \<Rightarrow> string \<Rightarrow> string \<Rightarrow>
     int \<Rightarrow> pyval py" where
  "delete_repo_webhook http auth_token owner repo hook_id =
     (let url' = ''https://api.github.com/repos/'' @ owner @ ''/'' @ repo @ ''/hooks/'' @
                   str_int hook_id;
          headers' = [(''Authorization'', ''token '' @ auth_token)]
      in try_except
           (bind (requests_call http
                    ((bare DELETE url')\<lparr>headers := Some headers'\<rparr>))
              (\<lambda>response. bind (raise_for_status response)
              (\<lambda>_. ret (PStr ''Webhook deleted successfully.''))))
           log_and_return_str)"

definition create_org_webhook ::
  "http_layer \<Rightarrow> string \<Rightarrow> string \<Rightarrow>
     (string \<times> string) list \<Rightarrow> string list \<Rightarrow> bool \<Rightarrow>
     pyval py" where
  "create_org_webhook http auth_token org config events active =
     (let url' = ''https://api.github.com/orgs/'' @ org @ ''/hooks'';
          headers' = [(''Authorization'', ''token '' @ auth_token)];
          payload = PDict [
                      (''config'', of_str_dict config),
                      (''events'', PList (map PStr events)),
                      (''active'', PBool active)]
      in try_except
           (bind (requests_call http
                    ((bare POST url')\<lparr>headers := Some headers',
                                             json := Some payload\<rparr>))
              (\<lambda>response. bind (raise_for_status response)
              (\<lambda>_. response_json response)))
           log_and_return_str)"

definition read_org_webhook ::
  "http_layer \<Rightarrow> string \<Rightarrow> string \<Rightarrow> int \<Rightarrow>
     pyval py" where
  "read_org_webhook http auth_token org hook_id =
     (let url' = ''https://api.github.com/orgs/'' @ org @ ''/hooks/'' @ str_int hook_id;
          headers' = [(''Authorization'', ''token '' @ auth_token)]
      in try_except
           (bind (requests_call http
                    ((bare GET url')\<lparr>headers := Some headers'\<rparr>))
              (\<lambda>response. bind (raise_for_status response)
              (\<lambda>_. response_json response)))
           log_and_return_str)"

definition update_org_webhook ::
  "http_layer \<Rightarrow> string \<Rightarrow> string \<Rightarrow> int \<Rightarrow>
     (string \<times> string) list \<Rightarrow> string list \<Rightarrow> bool \<Rightarrow>
     pyval py" where
  "update_org_webhook http auth_token org hook_id config events active =
     (let url' = ''https://api.github.com/orgs/'' @ org @ ''/hooks/'' @ str_int hook_id;
          headers' = [(''Authorization'', ''token '' @ auth_token)];
          payload = PDict [
                      (''config'', of_str_dict config),
                      (''events'', PList (map PStr events)),
                      (''active'', PBool active)]
      in try_except
           (bind (requests_call http
                    ((bare PATCH url')\<lparr>headers := Some headers',
                                              json := Some payload\<rparr>))
              (\<lambda>response. bind (raise_for_status response)
              (\<lambda>_. response_json response)))
           log_and_return_str)"

definition delete_org_webhook ::
  "http_layer \<Rightarrow> string \<Rightarrow> string \<Rightarrow> int \<Rightarrow>
     pyval py" where
  "delete_org_webhook http auth_token org hook_id =
     (let url' = ''https://api.github.com/orgs/'' @ org @ ''/hooks/'' @ str_int hook_id;
          headers' = [(''Authorization'', ''token '' @ auth_token)]
      in try_except
           (bind (requests_call http
                    ((bare DELETE url')\<lparr>headers := Some headers'\<rparr>))
              (\<lambda>response. bind (raise_for_status response)
              (\<lambda>_. ret (PStr ''Webhook deleted successfully.''))))
           log_and_return_str)"

datatype github_webhooks_call =
    Search_code string string
  | Create_repo_webhook string string string "(string \<times> string) list" "string list" bool
  | Read_repo_webhook string string string int
  | Update_repo_webhook string string string int "(string \<times> string) list" "string list" bool
  | Delete_repo_webhook string string string int
  | Create_org_webhook string string "(string \<times> string) list" "string list" bool
  | Read_org_webhook string string int
  | Update_org_webhook string string int "(string \<times> string) list" "string list" bool
  | Delete_org_webhook string string int

fun run_github_webhooks :: "http_layer \<Rightarrow> github_webhooks_call \<Rightarrow> pyval py" where
  "run_github_webhooks http (Search_code auth_token query) = search_code http auth_token query"
| "run_github_webhooks http (Create_repo_webhook auth_token owner repo config events active) =
     create_repo_webhook http auth_token owner repo config events active"
| "run_github_webhooks http (Read_repo_webhook auth_token owner repo hook_id) =
     read_repo_webhook http auth_token owner repo hook_id"
| "run_github_webhooks http (Update_repo_webhook auth_token owner repo hook_id config events active) =
     update_repo_webhook http auth_token owner repo hook_id config events active"
| "run_github_webhooks http (Delete_repo_webhook auth_token owner repo hook_id) =
     delete_repo_webhook http auth_token owner repo hook_id"
| "run_github_webhooks http (Create_org_webhook auth_token org config events active) =
     create_org_webhook http auth_token org config events active"
| "run_github_webhooks http (Read_org_webhook auth_token org hook_id) =
     read_org_webhook http auth_token org hook_id"
| "run_github_webhooks http (Update_org_webhook auth_token org hook_id config events active) =
     update_org_webhook http auth_token org hook_id config events active"
| "run_github_webhooks http (Delete_org_webhook auth_token org hook_id) =
     delete_org_webhook http auth_token org hook_id"

fun shape_of_github_webhooks :: "github_webhooks_call \<Rightarrow> shape" where
  "shape_of_github_webhooks (Search_code _ _) = Returns_body"
| "shape_of_github_webhooks (Create_repo_webhook _ _ _ _ _ _) = Returns_body"
| "shape_of_github_webhooks (Read_repo_webhook _ _ _ _) = Returns_body"
| "shape_of_github_webhooks (Update_repo_webhook _ _ _ _ _ _ _) = Returns_body"
| "shape_of_github_webhooks (Delete_repo_webhook _ _ _ _) =
     Returns_message ''Webhook deleted successfully.''"
| "shape_of_github_webhooks (Create_org_webhook _ _ _ _ _) = Returns_body"
| "shape_of_github_webhooks (Read_org_webhook _ _ _) = Returns_body"
| "shape_of_github_webhooks (Update_org_webhook _ _ _ _ _ _) = Returns_body"
| "shape_of_github_webhooks (Delete_org_webhook _ _ _) =
     Returns_message ''Webhook deleted successfully.''"

section \<open>GitHub: workflows\<close>

text \<open>The functions of \<^verbatim>\<open>actions/github/workflows.py\<close>, in the order of the file.\<close>

definition list_workflows ::
  "http_layer \<Rightarrow> string \<Rightarrow> string \<Rightarrow> string \<Rightarrow>
     pyval py" where
  "list_workflows http auth_token owner repo =
     (let url' = ''https://api.github.com/repos/'' @ owner @ ''/'' @ repo @ ''/actions/workflows'';
          headers' = [(''Authorization'', ''token '' @ auth_token)]
      in try_except
           (bind (requests_call http
                    ((bare GET url')\<lparr>headers := Some headers'\<rparr>))
              (\<lambda>response. bind (raise_for_status response)
              (\<lambda>_. response_json response)))
           log_and_return_str)"

definition create_workflow ::
  "http_layer \<Rightarrow> string \<Rightarrow> string \<Rightarrow> string \<Rightarrow> string \<Rightarrow> string \<Rightarrow> pyval py" where
  "create_workflow http auth_token owner repo workflow_content path =
     (let url' = ''https://api.github.com/repos/'' @ owner @ ''/'' @ repo @ ''/contents/'' @ path;
          headers' = [(''Authorization'', ''token '' @ auth_token)];
          payload = PDict [
                      (''message'', PStr ''Create GitHub Actions workflow''),
                      (''content'', PStr (b64encode workflow_content)),
                      (''branch'', PStr ''main'')]
      in try_except
           (bind (requests_call http
                    ((bare PUT url')\<lparr>headers := Some headers', json := Some payload\<rparr>))
              (\<lambda>response. bind (raise_for_status response)
              (\<lambda>_. response_json response)))
           log_and_return_str)"

definition manage_workflow ::
  "http_layer \<Rightarrow> string \<Rightarrow> string \<Rightarrow> string \<Rightarrow>
     int \<Rightarrow> string \<Rightarrow> pyval py" where
  "manage_workflow http auth_token owner repo workflow_id state =
     (let url' = ''https://api.github.com/repos/'' @ owner @ ''/'' @ repo @
                   ''/actions/workflows/'' @ str_int workflow_id @ ''/enable'';
          headers' = [(''Authorization'', ''token '' @ auth_token)];
          payload = PDict [(''state'', PStr state)]
      in try_except
           (bind (requests_call http
                    ((bare PUT url')\<lparr>headers := Some headers', json := Some payload\<rparr>))
              (\<lambda>response. bind (raise_for_status response)
              (\<lambda>_. response_json response)))
           log_and_return_str)"

datatype github_workflows_call =
    List_workflows string string string
  | Create_workflow string string string string string
  | Manage_workflow string string string int string

fun run_github_workflows :: "http_layer \<Rightarrow> github_workflows_call \<Rightarrow> pyval py" where
  "run_github_workflows http (List_workflows auth_token owner repo) =
     list_workflows http auth_token owner repo"
| "run_github_workflows http (Create_workflow auth_token owner repo workflow_content path) =
     create_workflow http auth_token owner repo workflow_content path"
| "run_github_workflows http (Manage_workflow auth_token owner repo workflow_id state) =
     manage_workflow http auth_token owner repo workflow_id state"

fun shape_of_github_workflows :: "github_workflows_call \<Rightarrow> shape" where
  "shape_of_github_workflows (List_workflows _ _ _) = Returns_body"
| "shape_of_github_workflows (Create_workflow _ _ _ _ _) = Returns_body"
| "shape_of_github_workflows (Manage_workflow _ _ _ _ _) = Returns_body"

section \<open>GitLab: group\<close>

text \<open>The functions of \<^verbatim>\<open>actions/gitlab/group.py\<close>, in the order of the file.\<close>

definition gitlab_create_group ::
  "http_layer \<Rightarrow> string \<Rightarrow> string \<Rightarrow> string \<Rightarrow>
     string \<Rightarrow> pyval py" where
  "gitlab_create_group http server_url auth_token name path =
     (let url' = server_url @ ''/api/v4/groups'';
          headers' = [(''Authorization'', ''Bearer '' @ auth_token)];
          payload = PDict [(''name'', PStr name), (''path'', PStr path)]
      in try_except
           (bind (requests_call http
                    ((bare POST url')\<lparr>headers := Some headers',
                                             json := Some payload\<rparr>))
              (\<lambda>response. bind (raise_for_status response)
              (\<lambda>_. response_json response)))
           log_and_return_str)"

definition gitlab_read_group ::
  "http_layer \<Rightarrow> string \<Rightarrow> string \<Rightarrow> int \<Rightarrow>
     pyval py" where
  "gitlab_read_group http server_url auth_token group_id =
     (let url' = server_url @ ''/api/v4/groups/'' @ str_int group_id;
          headers' = [(''Authorization'', ''Bearer '' @ auth_token)]
      in try_except
           (bind (requests_call http
                    ((bare GET url')\<lparr>headers := Some headers'\<rparr>))
              (\<lambda>response. bind (raise_for_status response)
              (\<lambda>_. response_json response)))
           log_and_return_str)"

definition gitlab_update_group ::
  "http_layer \<Rightarrow> string \<Rightarrow> string \<Rightarrow> int \<Rightarrow>
     string \<Rightarrow> string \<Rightarrow> pyval py" where
  "gitlab_update_group http server_url auth_token group_id name path =
     (let url' = server_url @ ''/api/v4/groups/'' @ str_int group_id;
          headers' = [(''Authorization'', ''Bearer '' @ auth_token)];
          payload = PDict [(''name'', PStr name), (''path'', PStr path)]
      in try_except
           (bind (requests_call http
                    ((bare PUT url')\<lparr>headers := Some headers', json := Some payload\<rparr>))
              (\<lambda>response. bind (raise_for_status response)
              (\<lambda>_. response_json response)))
           log_and_return_str)"

definition gitlab_delete_group ::
  "http_layer \<Rightarrow> string \<Rightarrow> string \<Rightarrow> int \<Rightarrow>
     pyval py" where
  "gitlab_delete_group http server_url auth_token group_id =
     (let url' = server_url @ ''/api/v4/groups/'' @ str_int group_id;
          headers' = [(''Authorization'', ''Bearer '' @ auth_token)]
      in try_except
           (bind (requests_call http
                    ((bare DELETE url')\<lparr>headers := Some headers'\<rparr>))
              (\<lambda>response. bind (raise_for_status response)
              (\<lambda>_. ret (PStr ''Group deleted successfully.''))))
           log_and_return_str)"

definition list_group_members ::
  "http_layer \<Rightarrow> string \<Rightarrow> string \<Rightarrow> int \<Rightarrow>
     pyval py" where
  "list_group_members http server_url auth_token group_id =
     (let url' = server_url @ ''/api/v4/groups/'' @ str_int group_id @ ''/members'';
          headers' = [(''Authorization'', ''Bearer '' @ auth_token)]
      in try_except
           (bind (requests_call http
                    ((bare GET url')\<lparr>headers := Some headers'\<rparr>))
              (\<lambda>response. bind (raise_for_status response)
              (\<lambda>_. response_json response)))
           log_and_return_str)"

definition list_group_projects ::
  "http_layer \<Rightarrow> string \<Rightarrow> string \<Rightarrow> int \<Rightarrow>
     pyval py" where
  "list_group_projects http server_url auth_token group_id =
     (let url' = server_url @ ''/api/v4/groups/'' @ str_int group_id @ ''/projects'';
          headers' = [(''Authorization'', ''Bearer '' @ auth_token)]
      in try_except
           (bind (requests_call http
                    ((bare GET url')\<lparr>headers := Some headers'\<rparr>))
              (\<lambda>response. bind (raise_for_status response)
              (\<lambda>_. response_json response)))
           log_and_return_str)"

text \<open>
  \<open>manage_group_members\<close> assigns \<open>response\<close> in the two branches of an
  \<open>if\<close>/\<open>elif\<close> with no \<open>else\<close>; for any other \<open>action\<close> the next line reads an
  unbound local. The other \<open>manage_\<close> wrappers with branches are alike.
\<close>

definition manage_group_members ::
  "http_layer \<Rightarrow> string \<Rightarrow> string \<Rightarrow> int \<Rightarrow> int \<Rightarrow> string \<Rightarrow> int \<Rightarrow> pyval py" where
  "manage_group_members http server_url auth_token group_id user_id action access_level =
     (let url' = server_url @ ''/api/v4/groups/'' @ str_int group_id @ ''/members/''
                 @ str_int user_id;
          headers' = [(''Authorization'', ''Bearer '' @ auth_token)];
          payload = PDict [(''access_level'', PInt access_level)]
      in try_except
           (bind (if action = ''add''
                  then requests_call http
                         ((bare POST url')\<lparr>headers := Some headers', json := Some payload\<rparr>)
                  else if action = ''remove''
                  then requests_call http ((bare DELETE url')\<lparr>headers := Some headers'\<rparr>)
                  else raise (UnboundLocalError ''response''))
              (\<lambda>response. bind (raise_for_status response)
              (\<lambda>_. ret (PStr ''Group member managed successfully.''))))
           log_and_return_str)"

definition manage_group_projects ::
  "http_layer \<Rightarrow> string \<Rightarrow> string \<Rightarrow> int \<Rightarrow>
     int \<Rightarrow> string \<Rightarrow> pyval py" where
  "manage_group_projects http server_url auth_token group_id project_id action =
     (let url' = server_url @ ''/api/v4/groups/'' @ str_int group_id @ ''/projects/'' @
                   str_int project_id;
          headers' = [(''Authorization'', ''Bearer '' @ auth_token)]
      in try_except
           (bind (if action = ''add''
                  then requests_call http
                         ((bare POST url')\<lparr>headers := Some headers'\<rparr>)
                  else if action = ''remove''
                  then requests_call http
                         ((bare DELETE url')\<lparr>headers := Some headers'\<rparr>)
                  else raise (UnboundLocalError ''response''))
              (\<lambda>response. bind (raise_for_status response)
              (\<lambda>_. ret (PStr ''Group project managed successfully.''))))
           log_and_return_str)"

datatype gitlab_group_call =
    Gitlab_create_group string string string string
  | Gitlab_read_group string string int
  | Gitlab_update_group string string int string string
  | Gitlab_delete_group string string int
  | List_group_members string string int
  | List_group_projects string string int
  | Manage_group_members string string int int string int
  | Manage_group_projects string string int int string

fun run_gitlab_group :: "http_layer \<Rightarrow> gitlab_group_call \<Rightarrow> pyval py" where
  "run_gitlab_group http (Gitlab_create_group server_url auth_token name path) =
     gitlab_create_group http server_url auth_token name path"
| "run_gitlab_group http (Gitlab_read_group server_url auth_token group_id) =
     gitlab_read_group http server_url auth_token group_id"
| "run_gitlab_group http (Gitlab_update_group server_url auth_token group_id name path) =
     gitlab_update_group http server_url auth_token group_id name path"
| "run_gitlab_group http (Gitlab_delete_group server_url auth_token group_id) =
     gitlab_delete_group http server_url auth_token group_id"
| "run_gitlab_group http (List_group_members server_url auth_token group_id) =
     list_group_members http server_url auth_token group_id"
| "run_gitlab_group http (List_group_projects server_url auth_token group_id) =
     list_group_projects http server_url auth_token group_id"
| "run_gitlab_group http (Manage_group_members server_url auth_token group_id user_id action access_level) =
     manage_group_members http server_url auth_token group_id user_id action access_level"
| "run_gitlab_group http (Manage_group_projects server_url auth_token group_id project_id action) =
     manage_group_projects http server_url auth_token group_id project_id action"

fun shape_of_gitlab_group :: "gitlab_group_call \<Rightarrow> shape" where
  "shape_of_gitlab_group (Gitlab_create_group _ _ _ _) = Returns_body"
| "shape_of_gitlab_group (Gitlab_read_group _ _ _) = Returns_body"
| "shape_of_gitlab_group (Gitlab_update_group _ _ _ _ _) = Returns_body"
| "shape_of_gitlab_group (Gitlab_delete_group _ _ _) =
     Returns_message ''Group deleted successfully.''"
| "shape_of_gitlab_group (List_group_members _ _ _) = Returns_body"
| "shape_of_gitlab_group (List_group_projects _ _ _) = Returns_body"
| "shape_of_gitlab_group (Manage_group_members _ _ _ _ _ _) =
     Returns_message ''Group member managed successfully.''"
| "shape_of_gitlab_group (Manage_group_projects _ _ _ _ _) =
     Returns_message ''Group project managed successfully.''"

section \<open>GitLab: hooks\<close>

text \<open>The functions of \<^verbatim>\<open>actions/gitlab/hooks.py\<close>, in the order of the file.\<close>

definition create_system_hook ::
  "http_layer \<Rightarrow> string \<Rightarrow> string \<Rightarrow> string \<Rightarrow>
     bool \<Rightarrow> bool \<Rightarrow> pyval py" where
  "create_system_hook http server_url auth_token url' push_events tag_push_events =
     (let api_url = server_url @ ''/api/v4/hooks'';
          headers' = [(''Authorization'', ''Bearer '' @ auth_token)];
          payload = PDict [
                      (''url'', PStr url'),
                      (''push_events'', PBool push_events),
                      (''tag_push_events'', PBool tag_push_events)]
      in try_except
           (bind (requests_call http
                    ((bare POST api_url)\<lparr>headers := Some headers',
                                                json := Some payload\<rparr>))
              (\<lambda>response. bind (raise_for_status response)
              (\<lambda>_. response_json response)))
           log_and_return_str)"

definition read_system_hook ::
  "http_layer \<Rightarrow> string \<Rightarrow> string \<Rightarrow> int \<Rightarrow>
     pyval py" where
  "read_system_hook http server_url auth_token hook_id =
     (let url' = server_url @ ''/api/v4/hooks/'' @ str_int hook_id;
          headers' = [(''Authorization'', ''Bearer '' @ auth_token)]
      in try_except
           (bind (requests_call http
                    ((bare GET url')\<lparr>headers := Some headers'\<rparr>))
              (\<lambda>response. bind (raise_for_status response)
              (\<lambda>_. response_json response)))
           log_and_return_str)"

text \<open>
  In \<open>update_system_hook\<close> the assignment \<open>url = f"..."\<close> replaces the argument
  \<open>url\<close> before the payload is built, as the \<open>let\<close> does here.
\<close>

definition update_system_hook ::
  "http_layer \<Rightarrow> string \<Rightarrow> string \<Rightarrow> int \<Rightarrow>
     string \<Rightarrow> bool \<Rightarrow> bool \<Rightarrow> pyval py" where
  "update_system_hook http server_url auth_token hook_id url' push_events tag_push_events =
     (let url' = server_url @ ''/api/v4/hooks/'' @ str_int hook_id;
          headers' = [(''Authorization'', ''Bearer '' @ auth_token)];
          payload = PDict [
                      (''url'', PStr url'),
                      (''push_events'', PBool push_events),
                      (''tag_push_events'', PBool tag_push_events)]
      in try_except
           (bind (requests_call http
                    ((bare PUT url')\<lparr>headers := Some headers', json := Some payload\<rparr>))
              (\<lambda>response. bind (raise_for_status response)
              (\<lambda>_. response_json response)))
           log_and_return_str)"

definition delete_system_hook ::
  "http_layer \<Rightarrow> string \<Rightarrow> string \<Rightarrow> int \<Rightarrow>
     pyval py" where
  "delete_system_hook http server_url auth_token hook_id =
     (let url' = server_url @ ''/api/v4/hooks/'' @ str_int hook_id;
          headers' = [(''Authorization'', ''Bearer '' @ auth_token)]
      in try_except
           (bind (requests_call http
                    ((bare DELETE url')\<lparr>headers := Some headers'\<rparr>))
              (\<lambda>response. bind (raise_for_status response)
              (\<lambda>_. ret (PStr ''System hook deleted successfully.''))))
           log_and_return_str)"

datatype gitlab_hooks_call =
    Create_system_hook string string string bool bool
  | Read_system_hook string string int
  | Update_system_hook string string int string bool bool
  | Delete_system_hook string string int

fun run_gitlab_hooks :: "http_layer \<Rightarrow> gitlab_hooks_call \<Rightarrow> pyval py" where
  "run_gitlab_hooks http (Create_system_hook server_url auth_token url' push_events tag_push_events) =
     create_system_hook http server_url auth_token url' push_events tag_push_events"
| "run_gitlab_hooks http (Read_system_hook server_url auth_token hook_id) =
     read_system_hook http server_url auth_token hook_id"
| "run_gitlab_hooks http (Update_system_hook server_url auth_token hook_id url' push_events tag_push_events) =
     update_system_hook http server_url auth_token hook_id url' push_events tag_push_events"
| "run_gitlab_hooks http (Delete_system_hook server_url auth_token hook_id) =
     delete_system_hook http server_url auth_token hook_id"

fun shape_of_gitlab_hooks :: "gitlab_hooks_call \<Rightarrow> shape" where
  "shape_of_gitlab_hooks (Create_system_hook _ _ _ _ _) = Returns_body"
| "shape_of_gitlab_hooks (Read_system_hook _ _ _) = Returns_body"
| "shape_of_gitlab_hooks (Update_system_hook _ _ _ _ _ _) = Returns_body"
| "shape_of_gitlab_hooks (Delete_system_hook _ _ _) =
     Returns_message ''System hook deleted successfully.''"

section \<open>GitLab: issues\<close>

text \<open>The functions of \<^verbatim>\<open>actions/gitlab/issues.py\<close>, in the order of the file.\<close>

definition gitlab_create_issue ::
  "http_layer \<Rightarrow> string \<Rightarrow> string \<Rightarrow> int \<Rightarrow>
     string \<Rightarrow> string \<Rightarrow> pyval py" where
  "gitlab_create_issue http server_url auth_token project_id title description =
     (let url' = server_url @ ''/api/v4/projects/'' @ str_int project_id @ ''/issues'';
          headers' = [(''Authorization'', ''Bearer '' @ auth_token)];
          payload = PDict [(''title'', PStr title), (''description'', PStr description)]
      in try_except
           (bind (requests_call http
                    ((bare POST url')\<lparr>headers := Some headers',
                                             json := Some payload\<rparr>))
              (\<lambda>response. bind (raise_for_status response)
              (\<lambda>_. response_json response)))
           log_and_return_str)"

definition gitlab_read_issue ::
  "http_layer \<Rightarrow> string \<Rightarrow> string \<Rightarrow> int \<Rightarrow>
     int \<Rightarrow> pyval py" where
  "gitlab_read_issue http server_url auth_token project_id issue_id =
     (let url' = server_url @ ''/api/v4/projects/'' @ str_int project_id @ ''/issues/'' @
                   str_int issue_id;
          headers' = [(''Authorization'', ''Bearer '' @ auth_token)]
      in try_except
           (bind (requests_call http
                    ((bare GET url')\<lparr>headers := Some headers'\<rparr>))
              (\<lambda>response. bind (raise_for_status response)
              (\<lambda>_. response_json response)))
           log_and_return_str)"

definition gitlab_update_issue ::
  "http_layer \<Rightarrow> string \<Rightarrow> string \<Rightarrow> int \<Rightarrow>
     int \<Rightarrow> string \<Rightarrow> string \<Rightarrow> pyval py" where
  "gitlab_update_issue http server_url auth_token project_id issue_id title description =
     (let url' = server_url @ ''/api/v4/projects/'' @ str_int project_id @ ''/issues/'' @
                   str_int issue_id;
          headers' = [(''Authorization'', ''Bearer '' @ auth_token)];
          payload = PDict [(''title'', PStr title), (''description'', PStr description)]
      in try_except
           (bind (requests_call http
                    ((bare PUT url')\<lparr>headers := Some headers', json := Some payload\<rparr>))
              (\<lambda>response. bind (raise_for_status response)
              (\<lambda>_. response_json response)))
           log_and_return_str)"

definition gitlab_delete_issue ::
  "http_layer \<Rightarrow> string \<Rightarrow> string \<Rightarrow> int \<Rightarrow>
     int \<Rightarrow> pyval py" where
  "gitlab_delete_issue http server_url auth_token project_id issue_id =
     (let url' = server_url @ ''/api/v4/projects/'' @ str_int project_id @ ''/issues/'' @
                   str_int issue_id;
          headers' = [(''Authorization'', ''Bearer '' @ auth_token)]
      in try_except
           (bind (requests_call http
                    ((bare DELETE url')\<lparr>headers := Some headers'\<rparr>))
              (\<lambda>response. bind (raise_for_status response)
              (\<lambda>_. ret (PStr ''Issue deleted successfully.''))))
           log_and_return_str)"

definition list_issue_notes ::
  "http_layer \<Rightarrow> string \<Rightarrow> string \<Rightarrow> int \<Rightarrow>
     int \<Rightarrow> pyval py" where
  "list_issue_notes http server_url auth_token project_id issue_id =
     (let url' = server_url @ ''/api/v4/projects/'' @ str_int project_id @ ''/issues/'' @
                   str_int issue_id @ ''/notes'';
          headers' = [(''Authorization'', ''Bearer '' @ auth_token)]
      in try_except
           (bind (requests_call http
                    ((bare GET url')\<lparr>headers := Some headers'\<rparr>))
              (\<lambda>response. bind (raise_for_status response)
              (\<lambda>_. response_json response)))
           log_and_return_str)"

definition list_issue_labels ::
  "http_layer \<Rightarrow> string \<Rightarrow> string \<Rightarrow> int \<Rightarrow>
     int \<Rightarrow> pyval py" where
  "list_issue_labels http server_url auth_token project_id issue_id =
     (let url' = server_url @ ''/api/v4/projects/'' @ str_int project_id @ ''/issues/'' @
                   str_int issue_id @ ''/labels'';
          headers' = [(''Authorization'', ''Bearer '' @ auth_token)]
      in try_except
           (bind (requests_call http
                    ((bare GET url')\<lparr>headers := Some headers'\<rparr>))
              (\<lambda>response. bind (raise_for_status response)
              (\<lambda>_. response_json response)))
           log_and_return_str)"

definition manage_issue_notes ::
  "http_layer \<Rightarrow> string \<Rightarrow> string \<Rightarrow> int \<Rightarrow>
     int \<Rightarrow> int \<Rightarrow> string \<Rightarrow> string \<Rightarrow> pyval py" where
  "manage_issue_notes http server_url auth_token project_id issue_id note_id action body =
     (let url' = server_url @ ''/api/v4/projects/'' @ str_int project_id @ ''/issues/'' @
                   str_int issue_id @ ''/notes/'' @ str_int note_id;
          headers' = [(''Authorization'', ''Bearer '' @ auth_token)];
          payload = PDict [(''body'', PStr body)]
      in try_except
           (bind (if action = ''add''
                  then requests_call http
                         ((bare POST url')\<lparr>headers := Some headers',
                                                  json := Some payload\<rparr>)
                  else if action = ''update''
                  then requests_call http
                         ((bare PUT url')\<lparr>headers := Some headers',
                                                 json := Some payload\<rparr>)
                  else if action = ''delete''
                  then requests_call http
                         ((bare DELETE url')\<lparr>headers := Some headers'\<rparr>)
                  else raise (UnboundLocalError ''response''))
              (\<lambda>response. bind (raise_for_status response)
              (\<lambda>_. ret (PStr ''Issue note managed successfully.''))))
           log_and_return_str)"

definition manage_issue_labels ::
  "http_layer \<Rightarrow> string \<Rightarrow> string \<Rightarrow> int \<Rightarrow> int \<Rightarrow> string list \<Rightarrow> pyval py" where
  "manage_issue_labels http server_url auth_token project_id issue_id labels =
     (let url' = server_url @ ''/api/v4/projects/'' @ str_int project_id @ ''/issues/'' @
                   str_int issue_id;
          headers' = [(''Authorization'', ''Bearer '' @ auth_token)];
          payload = PDict [(''labels'', PStr (join '','' labels))]
      in try_except
           (bind (requests_call http
                    ((bare PUT url')\<lparr>headers := Some headers', json := Some payload\<rparr>))
              (\<lambda>response. bind (raise_for_status response)
              (\<lambda>_. response_json response)))
           log_and_return_str)"

datatype gitlab_issues_call =
    Gitlab_create_issue string string int string string
  | Gitlab_read_issue string string int int
  | Gitlab_update_issue string string int int string string
  | Gitlab_delete_issue string string int int
  | List_issue_notes string string int int
  | List_issue_labels string string int int
  | Manage_issue_notes string string int int int string string
  | Manage_issue_labels string string int int "string list"

fun run_gitlab_issues :: "http_layer \<Rightarrow> gitlab_issues_call \<Rightarrow> pyval py" where
  "run_gitlab_issues http (Gitlab_create_issue server_url auth_token project_id title description) =
     gitlab_create_issue http server_url auth_token project_id title description"
| "run_gitlab_issues http (Gitlab_read_issue server_url auth_token project_id issue_id) =
     gitlab_read_issue http server_url auth_token project_id issue_id"
| "run_gitlab_issues http (Gitlab_update_issue server_url auth_token project_id issue_id title description) =
     gitlab_update_issue http server_url auth_token project_id issue_id title description"
| "run_gitlab_issues http (Gitlab_delete_issue server_url auth_token project_id issue_id) =
     gitlab_delete_issue http server_url auth_token project_id issue_id"
| "run_gitlab_issues http (List_issue_notes server_url auth_token project_id issue_id) =
     list_issue_notes http server_url auth_token project_id issue_id"
| "run_gitlab_issues http (List_issue_labels server_url auth_token project_id issue_id) =
     list_issue_labels http server_url auth_token project_id issue_id"
| "run_gitlab_issues http (Manage_issue_notes server_url auth_token project_id issue_id note_id action body) =
     manage_issue_notes http server_url auth_token project_id issue_id note_id action body"
| "run_gitlab_issues http (Manage_issue_labels server_url auth_token project_id issue_id labels) =
     manage_issue_labels http server_url auth_token project_id issue_id labels"

fun shape_of_gitlab_issues :: "gitlab_issues_call \<Rightarrow> shape" where
  "shape_of_gitlab_issues (Gitlab_create_issue _ _ _ _ _) = Returns_body"
| "shape_of_gitlab_issues (Gitlab_read_issue _ _ _ _) = Returns_body"
| "shape_of_gitlab_issues (Gitlab_update_issue _ _ _ _ _ _) = Returns_body"
| "shape_of_gitlab_issues (Gitlab_delete_issue _ _ _ _) =
     Returns_message ''Issue deleted successfully.''"
| "shape_of_gitlab_issues (List_issue_notes _ _ _ _) = Returns_body"
| "shape_of_gitlab_issues (List_issue_labels _ _ _ _) = Returns_body"
| "shape_of_gitlab_issues (Manage_issue_notes _ _ _ _ _ _ _) =
     Returns_message ''Issue note managed successfully.''"
| "shape_of_gitlab_issues (Manage_issue_labels _ _ _ _ _) = Returns_body"

section \<open>GitLab: jobs\<close>

text \<open>The functions of \<^verbatim>\<open>actions/gitlab/jobs.py\<close>, in the order of the file.\<close>

definition create_pipeline ::
  "http_layer \<Rightarrow> string \<Rightarrow> string \<Rightarrow> int \<Rightarrow>
     string \<Rightarrow> pyval py" where
  "create_pipeline http server_url auth_token project_id ref =
     (let url' = server_url @ ''/api/v4/projects/'' @ str_int project_id @ ''/pipeline'';
          headers' = [(''Authorization'', ''Bearer '' @ auth_token)];
          payload = PDict [(''ref'', PStr ref)]
      in try_except
           (bind (requests_call http
                    ((bare POST url')\<lparr>headers := Some headers',
                                             json := Some payload\<rparr>))
              (\<lambda>response. bind (raise_for_status response)
              (\<lambda>_. response_json response)))
           log_and_return_str)"

definition read_pipeline ::
  "http_layer \<Rightarrow> string \<Rightarrow> string \<Rightarrow> int \<Rightarrow>
     int \<Rightarrow> pyval py" where
  "read_pipeline http server_url auth_token project_id pipeline_id =
     (let url' = server_url @ ''/api/v4/projects/'' @ str_int project_id @ ''/pipelines/'' @
                   str_int pipeline_id;
          headers' = [(''Authorization'', ''Bearer '' @ auth_token)]
      in try_except
           (bind (requests_call http
                    ((bare GET url')\<lparr>headers := Some headers'\<rparr>))
              (\<lambda>response. bind (raise_for_status response)
              (\<lambda>_. response_json response)))
           log_and_return_str)"

definition update_pipeline ::
  "http_layer \<Rightarrow> string \<Rightarrow> string \<Rightarrow> int \<Rightarrow>
     int \<Rightarrow> string \<Rightarrow> pyval py" where
  "update_pipeline http server_url auth_token project_id pipeline_id action =
     (let url' = server_url @ ''/api/v4/projects/'' @ str_int project_id @ ''/pipelines/'' @
                   str_int pipeline_id @ ''/'' @ action;
          headers' = [(''Authorization'', ''Bearer '' @ auth_token)]
      in try_except
           (bind (requests_call http
                    ((bare POST url')\<lparr>headers := Some headers'\<rparr>))
              (\<lambda>response. bind (raise_for_status response)
              (\<lambda>_. response_json response)))
           log_and_return_str)"

definition delete_pipeline ::
  "http_layer \<Rightarrow> string \<Rightarrow> string \<Rightarrow> int \<Rightarrow>
     int \<Rightarrow> pyval py" where
  "delete_pipeline http server_url auth_token project_id pipeline_id =
     (let url' = server_url @ ''/api/v4/projects/'' @ str_int project_id @ ''/pipelines/'' @
                   str_int pipeline_id;
          headers' = [(''Authorization'', ''Bearer '' @ auth_token)]
      in try_except
           (bind (requests_call http
                    ((bare DELETE url')\<lparr>headers := Some headers'\<rparr>))
              (\<lambda>response. bind (raise_for_status response)
              (\<lambda>_. ret (PStr ''Pipeline deleted successfully.''))))
           log_and_return_str)"

definition list_pipeline_jobs ::
  "http_layer \<Rightarrow> string \<Rightarrow> string \<Rightarrow> int \<Rightarrow>
     int \<Rightarrow> pyval py" where
  "list_pipeline_jobs http server_url auth_token project_id pipeline_id =
     (let url' = server_url @ ''/api/v4/projects/'' @ str_int project_id @ ''/pipelines/'' @
                   str_int pipeline_id @ ''/jobs'';
          headers' = [(''Authorization'', ''Bearer '' @ auth_token)]
      in try_except
           (bind (requests_call http
                    ((bare GET url')\<lparr>headers := Some headers'\<rparr>))
              (\<lambda>response. bind (raise_for_status response)
              (\<lambda>_. response_json response)))
           log_and_return_str)"

definition list_pipeline_schedules ::
  "http_layer \<Rightarrow> string \<Rightarrow> string \<Rightarrow> int \<Rightarrow>
     pyval py" where
  "list_pipeline_schedules http server_url auth_token project_id =
     (let url' = server_url @ ''/api/v4/projects/'' @ str_int project_id @ ''/pipeline_schedules'';
          headers' = [(''Authorization'', ''Bearer '' @ auth_token)]
      in try_except
           (bind (requests_call http
                    ((bare GET url')\<lparr>headers := Some headers'\<rparr>))
              (\<lambda>response. bind (raise_for_status response)
              (\<lambda>_. response_json response)))
           log_and_return_str)"

definition manage_pipeline_jobs ::
  "http_layer \<Rightarrow> string \<Rightarrow> string \<Rightarrow> int \<Rightarrow>
     int \<Rightarrow> string \<Rightarrow> pyval py" where
  "manage_pipeline_jobs http server_url auth_token project_id job_id action =
     (let url' = server_url @ ''/api/v4/projects/'' @ str_int project_id @ ''/jobs/'' @
                   str_int job_id @ ''/'' @ action;
          headers' = [(''Authorization'', ''Bearer '' @ auth_token)]
      in try_except
           (bind (requests_call http
                    ((bare POST url')\<lparr>headers := Some headers'\<rparr>))
              (\<lambda>response. bind (raise_for_status response)
              (\<lambda>_. ret (PStr (''Job '' @ action @ ''ed successfully.'')))))
           log_and_return_str)"

definition manage_pipeline_schedules ::
  "http_layer \<Rightarrow> string \<Rightarrow> string \<Rightarrow> int \<Rightarrow>
     int \<Rightarrow> string \<Rightarrow> pyval py" where
  "manage_pipeline_schedules http server_url auth_token project_id schedule_id action =
     (let url' = server_url @ ''/api/v4/projects/'' @ str_int project_id @
                   ''/pipeline_schedules/'' @ str_int schedule_id @ ''/'' @ action;
          headers' = [(''Authorization'', ''Bearer '' @ auth_token)]
      in try_except
           (bind (requests_call http
                    ((bare POST url')\<lparr>headers := Some headers'\<rparr>))
              (\<lambda>response. bind (raise_for_status response)
              (\<lambda>_. ret (PStr (''Schedule '' @ action @ ''ed successfully.'')))))
           log_and_return_str)"

datatype gitlab_jobs_call =
    Create_pipeline string string int string
  | Read_pipeline string string int int
  | Update_pipeline string string int int string
  | Delete_pipeline string string int int
  | List_pipeline_jobs string string int int
  | List_pipeline_schedules string string int
  | Manage_pipeline_jobs string string int int string
  | Manage_pipeline_schedules string string int int string

fun run_gitlab_jobs :: "http_layer \<Rightarrow> gitlab_jobs_call \<Rightarrow> pyval py" where
  "run_gitlab_jobs http (Create_pipeline server_url auth_token project_id ref) =
     create_pipeline http server_url auth_token project_id ref"
| "run_gitlab_jobs http (Read_pipeline server_url auth_token project_id pipeline_id) =
     read_pipeline http server_url auth_token project_id pipeline_id"
| "run_gitlab_jobs http (Update_pipeline server_url auth_token project_id pipeline_id action) =
     update_pipeline http server_url auth_token project_id pipeline_id action"
| "run_gitlab_jobs http (Delete_pipeline server_url auth_token project_id pipeline_id) =
     delete_pipeline http server_url auth_token project_id pipeline_id"
| "run_gitlab_jobs http (List_pipeline_jobs server_url auth_token project_id pipeline_id) =
     list_pipeline_jobs http server_url auth_token project_id pipeline_id"
| "run_gitlab_jobs http (List_pipeline_schedules server_url auth_token project_id) =
     list_pipeline_schedules http server_url auth_token project_id"
| "run_gitlab_jobs http (Manage_pipeline_jobs server_url auth_token project_id job_id action) =
     manage_pipeline_jobs http server_url auth_token project_id job_id action"
| "run_gitlab_jobs http (Manage_pipeline_schedules server_url auth_token project_id schedule_id action) =
     manage_pipeline_schedules http server_url auth_token project_id schedule_id action"

fun shape_of_gitlab_jobs :: "gitlab_jobs_call \<Rightarrow> shape" where
  "shape_of_gitlab_jobs (Create_pipeline _ _ _ _) = Returns_body"
| "shape_of_gitlab_jobs (Read_pipeline _ _ _ _) = Returns_body"
| "shape_of_gitlab_jobs (Update_pipeline _ _ _ _ _) = Returns_body"
| "shape_of_gitlab_jobs (Delete_pipeline _ _ _ _) =
     Returns_message ''Pipeline deleted successfully.''"
| "shape_of_gitlab_jobs (List_pipeline_jobs _ _ _ _) = Returns_body"
| "shape_of_gitlab_jobs (List_pipeline_schedules _ _ _) = Returns_body"
| "shape_of_gitlab_jobs (Manage_pipeline_jobs _ _ _ _ action) =
     Returns_message (''Job '' @ action @ ''ed successfully.'')"
| "shape_of_gitlab_jobs (Manage_pipeline_schedules _ _ _ _ action) =
     Returns_message (''Schedule '' @ action @ ''ed successfully.'')"

section \<open>GitLab: labels\<close>

text \<open>The functions of \<^verbatim>\<open>actions/gitlab/labels.py\<close>, in the order of the file.\<close>

definition create_label ::
  "http_layer \<Rightarrow> string \<Rightarrow> string \<Rightarrow> int \<Rightarrow>
     string \<Rightarrow> string \<Rightarrow> pyval py" where
  "create_label http server_url auth_token project_id name color =
     (let url' = server_url @ ''/api/v4/projects/'' @ str_int project_id @ ''/labels'';
          headers' = [(''Authorization'', ''Bearer '' @ auth_token)];
          payload = PDict [(''name'', PStr name), (''color'', PStr color)]
      in try_except
           (bind (requests_call http
                    ((bare POST url')\<lparr>headers := Some headers',
                                             json := Some payload\<rparr>))
              (\<lambda>response. bind (raise_for_status response)
              (\<lambda>_. response_json response)))
           log_and_return_str)"

definition create_milestone ::
  "http_layer \<Rightarrow> string \<Rightarrow> string \<Rightarrow> int \<Rightarrow>
     string \<Rightarrow> string \<Rightarrow> string \<Rightarrow> pyval py" where
  "create_milestone http server_url auth_token project_id title description due_date =
     (let url' = server_url @ ''/api/v4/projects/'' @ str_int project_id @ ''/milestones'';
          headers' = [(''Authorization'', ''Bearer '' @ auth_token)];
          payload = PDict [
                      (''title'', PStr title),
                      (''description'', PStr description),
                      (''due_date'', PStr due_date)]
      in try_except
           (bind (requests_call http
                    ((bare POST url')\<lparr>headers := Some headers',
                                             json := Some payload\<rparr>))
              (\<lambda>response. bind (raise_for_status response)
              (\<lambda>_. response_json response)))
           log_and_return_str)"

definition read_label ::
  "http_layer \<Rightarrow> string \<Rightarrow> string \<Rightarrow> int \<Rightarrow>
     int \<Rightarrow> pyval py" where
  "read_label http server_url auth_token project_id label_id =
     (let url' = server_url @ ''/api/v4/projects/'' @ str_int project_id @ ''/labels/'' @
                   str_int label_id;
          headers' = [(''Authorization'', ''Bearer '' @ auth_token)]
      in try_except
           (bind (requests_call http
                    ((bare GET url')\<lparr>headers := Some headers'\<rparr>))
              (\<lambda>response. bind (raise_for_status response)
              (\<lambda>_. response_json response)))
           log_and_return_str)"

definition update_label ::
  "http_layer \<Rightarrow> string \<Rightarrow> string \<Rightarrow> int \<Rightarrow>
     int \<Rightarrow> string \<Rightarrow> string \<Rightarrow> pyval py" where
  "update_label http server_url auth_token project_id label_id name color =
     (let url' = server_url @ ''/api/v4/projects/'' @ str_int project_id @ ''/labels/'' @
                   str_int label_id;
          headers' = [(''Authorization'', ''Bearer '' @ auth_token)];
          payload = PDict [(''name'', PStr name), (''color'', PStr color)]
      in try_except
           (bind (requests_call http
                    ((bare PUT url')\<lparr>headers := Some headers', json := Some payload\<rparr>))
              (\<lambda>response. bind (raise_for_status response)
              (\<lambda>_. response_json response)))
           log_and_return_str)"

definition delete_label ::
  "http_layer \<Rightarrow> string \<Rightarrow> string \<Rightarrow> int \<Rightarrow>
     int \<Rightarrow> pyval py" where
  "delete_label http server_url auth_token project_id label_id =
     (let url' = server_url @ ''/api/v4/projects/'' @ str_int project_id @ ''/labels/'' @
                   str_int label_id;
          headers' = [(''Authorization'', ''Bearer '' @ auth_token)]
      in try_except
           (bind (requests_call http
                    ((bare DELETE url')\<lparr>headers := Some headers'\<rparr>))
              (\<lambda>response. bind (raise_for_status response)
              (\<lambda>_. ret (PStr ''Label deleted successfully.''))))
           log_and_return_str)"

definition read_milestone ::
  "http_layer \<Rightarrow> string \<Rightarrow> string \<Rightarrow> int \<Rightarrow>
     int \<Rightarrow> pyval py" where
  "read_milestone http server_url auth_token project_id milestone_id =
     (let url' = server_url @ ''/api/v4/projects/'' @ str_int project_id @ ''/milestones/'' @
                   str_int milestone_id;
          headers' = [(''Authorization'', ''Bearer '' @ auth_token)]
      in try_except
           (bind (requests_call http
                    ((bare GET url')\<lparr>headers := Some headers'\<rparr>))
              (\<lambda>response. bind (raise_for_status response)
              (\<lambda>_. response_json response)))
           log_and_return_str)"

definition update_milestone ::
  "http_layer \<Rightarrow> string \<Rightarrow> string \<Rightarrow> int \<Rightarrow>
     int \<Rightarrow> string \<Rightarrow> string \<Rightarrow> string \<Rightarrow>
     pyval py" where
  "update_milestone http server_url auth_token project_id milestone_id title description due_date =
     (let url' = server_url @ ''/api/v4/projects/'' @ str_int project_id @ ''/milestones/'' @
                   str_int milestone_id;
          headers' = [(''Authorization'', ''Bearer '' @ auth_token)];
          payload = PDict [
                      (''title'', PStr title),
                      (''description'', PStr description),
                      (''due_date'', PStr due_date)]
      in try_except
           (bind (requests_call http
                    ((bare PUT url')\<lparr>headers := Some headers', json := Some payload\<rparr>))
              (\<lambda>response. bind (raise_for_status response)
              (\<lambda>_. response_json response)))
           log_and_return_str)"

definition delete_milestone ::
  "http_layer \<Rightarrow> string \<Rightarrow> string \<Rightarrow> int \<Rightarrow>
     int \<Rightarrow> pyval py" where
  "delete_milestone http server_url auth_token project_id milestone_id =
     (let url' = server_url @ ''/api/v4/projects/'' @ str_int project_id @ ''/milestones/'' @
                   str_int milestone_id;
          headers' = [(''Authorization'', ''Bearer '' @ auth_token)]
      in try_except
           (bind (requests_call http
                    ((bare DELETE url')\<lparr>headers := Some headers'\<rparr>))
              (\<lambda>response. bind (raise_for_status response)
              (\<lambda>_. ret (PStr ''Milestone deleted successfully.''))))
           log_and_return_str)"

datatype gitlab_labels_call =
    Create_label string string int string string
  | Create_milestone string string int string string string
  | Read_label string string int int
  | Update_label string string int int string string
  | Delete_label string string int int
  | Read_milestone string string int int
  | Update_milestone string string int int string string string
  | Delete_milestone string string int int

fun run_gitlab_labels :: "http_layer \<Rightarrow> gitlab_labels_call \<Rightarrow> pyval py" where
  "run_gitlab_labels http (Create_label server_url auth_token project_id name color) =
     create_label http server_url auth_token project_id name color"
| "run_gitlab_labels http (Create_milestone server_url auth_token project_id title description due_date) =
     create_milestone http server_url auth_token project_id title description due_date"
| "run_gitlab_labels http (Read_label server_url auth_token project_id label_id) =
     read_label http server_url auth_token project_id label_id"
| "run_gitlab_labels http (Update_label server_url auth_token project_id label_id name color) =
     update_label http server_url auth_token project_id label_id name color"
| "run_gitlab_labels http (Delete_label server_url auth_token project_id label_id) =
     delete_label http server_url auth_token project_id label_id"
| "run_gitlab_labels http (Read_milestone server_url auth_token project_id milestone_id) =
     read_milestone http server_url auth_token project_id milestone_id"
| "run_gitlab_labels http (Update_milestone server_url auth_token project_id milestone_id title description due_date) =
     update_milestone http server_url auth_token project_id milestone_id title description due_date"
| "run_gitlab_labels http (Delete_milestone server_url auth_token project_id milestone_id) =
     delete_milestone http server_url auth_token project_id milestone_id"

fun shape_of_gitlab_labels :: "gitlab_labels_call \<Rightarrow> shape" where
  "shape_of_gitlab_labels (Create_label _ _ _ _ _) = Returns_body"
| "shape_of_gitlab_labels (Create_milestone _ _ _ _ _ _) = Returns_body"
| "shape_of_gitlab_labels (Read_label _ _ _ _) = Returns_body"
| "shape_of_gitlab_labels (Update_label _ _ _ _ _ _) = Returns_body"
| "shape_of_gitlab_labels (Delete_label _ _ _ _) = Returns_message ''Label deleted successfully.''"
| "shape_of_gitlab_labels (Read_milestone _ _ _ _) = Returns_body"
| "shape_of_gitlab_labels (Update_milestone _ _ _ _ _ _ _) = Returns_body"
| "shape_of_gitlab_labels (Delete_milestone _ _ _ _) =
     Returns_message ''Milestone deleted successfully.''"

section \<open>GitLab: misc\<close>

text \<open>The functions of \<^verbatim>\<open>actions/gitlab/misc.py\<close>, in the order of the file.\<close>

definition list_todos ::
  "http_layer \<Rightarrow> string \<Rightarrow> string \<Rightarrow> pyval py" where
  "list_todos http server_url auth_token =
     (let url' = server_url @ ''/api/v4/todos'';
          headers' = [(''Authorization'', ''Bearer '' @ auth_token)]
      in try_except
           (bind (requests_call http
                    ((bare GET url')\<lparr>headers := Some headers'\<rparr>))
              (\<lambda>response. bind (raise_for_status response)
              (\<lambda>_. response_json response)))
           log_and_return_str)"

definition list_custom_attributes_for_users ::
  "http_layer \<Rightarrow> string \<Rightarrow> string \<Rightarrow> int \<Rightarrow>
     pyval py" where
  "list_custom_attributes_for_users http server_url auth_token user_id =
     (let url' = server_url @ ''/api/v4/users/'' @ str_int user_id @ ''/custom_attributes'';
          headers' = [(''Authorization'', ''Bearer '' @ auth_token)]
      in try_except
           (bind (requests_call http
                    ((bare GET url')\<lparr>headers := Some headers'\<rparr>))
              (\<lambda>response. bind (raise_for_status response)
              (\<lambda>_. response_json response)))
           log_and_return_str)"

definition list_container_registry_tags ::
  "http_layer \<Rightarrow> string \<Rightarrow> string \<Rightarrow> int \<Rightarrow>
     pyval py" where
  "list_container_registry_tags http server_url auth_token project_id =
     (let url' = server_url @ ''/api/v4/projects/'' @ str_int project_id @
                   ''/registry/repositories/tags'';
          headers' = [(''Authorization'', ''Bearer '' @ auth_token)]
      in try_except
           (bind (requests_call http
                    ((bare GET url')\<lparr>headers := Some headers'\<rparr>))
              (\<lambda>response. bind (raise_for_status response)
              (\<lambda>_. response_json response)))
           log_and_return_str)"

definition create_todo ::
  "http_layer \<Rightarrow> string \<Rightarrow> string \<Rightarrow> int \<Rightarrow>
     string \<Rightarrow> pyval py" where
  "create_todo http server_url auth_token project_id action_name =
     (let url' = server_url @ ''/api/v4/todos'';
          headers' = [(''Authorization'', ''Bearer '' @ auth_token)];
          payload = PDict [(''project_id'', PInt project_id), (''action_name'', PStr action_name)]
      in try_except
           (bind (requests_call http
                    ((bare POST url')\<lparr>headers := Some headers',
                                             json := Some payload\<rparr>))
              (\<lambda>response. bind (raise_for_status response)
              (\<lambda>_. response_json response)))
           log_and_return_str)"

definition delete_todo ::
  "http_layer \<Rightarrow> string \<Rightarrow> string \<Rightarrow> int \<Rightarrow>
     pyval py" where
  "delete_todo http server_url auth_token todo_id =
     (let url' = server_url @ ''/api/v4/todos/'' @ str_int todo_id;
          headers' = [(''Authorization'', ''Bearer '' @ auth_token)]
      in try_except
           (bind (requests_call http
                    ((bare DELETE url')\<lparr>headers := Some headers'\<rparr>))
              (\<lambda>response. bind (raise_for_status response)
              (\<lambda>_. ret (PStr ''Todo deleted successfully.''))))
           log_and_return_str)"

definition create_custom_attribute_for_users ::
  "http_layer \<Rightarrow> string \<Rightarrow> string \<Rightarrow> int \<Rightarrow>
     string \<Rightarrow> string \<Rightarrow> pyval py" where
  "create_custom_attribute_for_users http server_url auth_token user_id key value =
     (let url' = server_url @ ''/api/v4/users/'' @ str_int user_id @ ''/custom_attributes/'' @ key;
          headers' = [(''Authorization'', ''Bearer '' @ auth_token)];
          payload = PDict [(''value'', PStr value)]
      in try_except
           (bind (requests_call http
                    ((bare POST url')\<lparr>headers := Some headers',
                                             json := Some payload\<rparr>))
              (\<lambda>response. bind (raise_for_status response)
              (\<lambda>_. response_json response)))
           log_and_return_str)"

definition create_container_registry_tag ::
  "http_layer \<Rightarrow> string \<Rightarrow> string \<Rightarrow> int \<Rightarrow>
     string \<Rightarrow> string \<Rightarrow> pyval py" where
  "create_container_registry_tag http server_url auth_token project_id tag_name ref =
     (let url' = server_url @ ''/api/v4/projects/'' @ str_int project_id @
                   ''/registry/repositories/tags'';
          headers' = [(''Authorization'', ''Bearer '' @ auth_token)];
          payload = PDict [(''tag_name'', PStr tag_name), (''ref'', PStr ref)]
      in try_except
           (bind (requests_call http
                    ((bare POST url')\<lparr>headers := Some headers',
                                             json := Some payload\<rparr>))
              (\<lambda>response. bind (raise_for_status response)
              (\<lambda>_. response_json response)))
           log_and_return_str)"

definition delete_container_registry_tag ::
  "http_layer \<Rightarrow> string \<Rightarrow> string \<Rightarrow> int \<Rightarrow>
     string \<Rightarrow> pyval py" where
  "delete_container_registry_tag http server_url auth_token project_id tag_name =
     (let url' = server_url @ ''/api/v4/projects/'' @ str_int project_id @
                   ''/registry/repositories/tags/'' @ tag_name;
          headers' = [(''Authorization'', ''Bearer '' @ auth_token)]
      in try_except
           (bind (requests_call http
                    ((bare DELETE url')\<lparr>headers := Some headers'\<rparr>))
              (\<lambda>response. bind (raise_for_status response)
              (\<lambda>_. ret (PStr ''Container registry tag deleted successfully.''))))
           log_and_return_str)"

definition update_custom_attribute_for_users ::
  "http_layer \<Rightarrow> string \<Rightarrow> string \<Rightarrow> int \<Rightarrow>
     string \<Rightarrow> string \<Rightarrow> pyval py" where
  "update_custom_attribute_for_users http server_url auth_token user_id key value =
     (let url' = server_url @ ''/api/v4/users/'' @ str_int user_id @ ''/custom_attributes/'' @ key;
          headers' = [(''Authorization'', ''Bearer '' @ auth_token)];
          payload = PDict [(''value'', PStr value)]
      in try_except
           (bind (requests_call http
                    ((bare PUT url')\<lparr>headers := Some headers', json := Some payload\<rparr>))
              (\<lambda>response. bind (raise_for_status response)
              (\<lambda>_. response_json response)))
           log_and_return_str)"

definition delete_custom_attribute_for_users ::
  "http_layer \<Rightarrow> string \<Rightarrow> string \<Rightarrow> int \<Rightarrow>
     string \<Rightarrow> pyval py" where
  "delete_custom_attribute_for_users http server_url auth_token user_id key =
     (let url' = server_url @ ''/api/v4/users/'' @ str_int user_id @ ''/custom_attributes/'' @ key;
          headers' = [(''Authorization'', ''Bearer '' @ auth_token)]
      in try_except
           (bind (requests_call http
                    ((bare DELETE url')\<lparr>headers := Some headers'\<rparr>))
              (\<lambda>response. bind (raise_for_status response)
              (\<lambda>_. ret (PStr ''Custom attribute deleted successfully.''))))
           log_and_return_str)"

datatype gitlab_misc_call =
    List_todos string string
  | List_custom_attributes_for_users string string int
  | List_container_registry_tags string string int
  | Create_todo string string int string
  | Delete_todo string string int
  | Create_custom_attribute_for_users string string int string string
  | Create_container_registry_tag string string int string string
  | Delete_container_registry_tag string string int string
  | Update_custom_attribute_for_users string string int string string
  | Delete_custom_attribute_for_users string string int string

fun run_gitlab_misc :: "http_layer \<Rightarrow> gitlab_misc_call \<Rightarrow> pyval py" where
  "run_gitlab_misc http (List_todos server_url auth_token) = list_todos http server_url auth_token"
| "run_gitlab_misc http (List_custom_attributes_for_users server_url auth_token user_id) =
     list_custom_attributes_for_users http server_url auth_token user_id"
| "run_gitlab_misc http (List_container_registry_tags server_url auth_token project_id) =
     list_container_registry_tags http server_url auth_token project_id"
| "run_gitlab_misc http (Create_todo server_url auth_token project_id action_name) =
     create_todo http server_url auth_token project_id action_name"
| "run_gitlab_misc http (Delete_todo server_url auth_token todo_id) =
     delete_todo http server_url auth_token todo_id"
| "run_gitlab_misc http (Create_custom_attribute_for_users server_url auth_token user_id key value) =
     create_custom_attribute_for_users http server_url auth_token user_id key value"
| "run_gitlab_misc http (Create_container_registry_tag server_url auth_token project_id tag_name ref) =
     create_container_registry_tag http server_url auth_token project_id tag_name ref"
| "run_gitlab_misc http (Delete_container_registry_tag server_url auth_token project_id tag_name) =
     delete_container_registry_tag http server_url auth_token project_id tag_name"
| "run_gitlab_misc http (Update_custom_attribute_for_users server_url auth_token user_id key value) =
     update_custom_attribute_for_users http server_url auth_token user_id key value"
| "run_gitlab_misc http (Delete_custom_attribute_for_users server_url auth_token user_id key) =
     delete_custom_attribute_for_users http server_url auth_token user_id key"

fun shape_of_gitlab_misc :: "gitlab_misc_call \<Rightarrow> shape" where
  "shape_of_gitlab_misc (List_todos _ _) = Returns_body"
| "shape_of_gitlab_misc (List_custom_attributes_for_users _ _ _) = Returns_body"
| "shape_of_gitlab_misc (List_container_registry_tags _ _ _) = Returns_body"
| "shape_of_gitlab_misc (Create_todo _ _ _ _) = Returns_body"
| "shape_of_gitlab_misc (Delete_todo _ _ _) = Returns_message ''Todo deleted successfully.''"
| "shape_of_gitlab_misc (Create_custom_attribute_for_users _ _ _ _ _) = Returns_body"
| "shape_of_gitlab_misc (Create_container_registry_tag _ _ _ _ _) = Returns_body"
| "shape_of_gitlab_misc (Delete_container_registry_tag _ _ _ _) =
     Returns_message ''Container registry tag deleted successfully.''"
| "shape_of_gitlab_misc (Update_custom_attribute_for_users _ _ _ _ _) = Returns_body"
| "shape_of_gitlab_misc (Delete_custom_attribute_for_users _ _ _ _) =
     Returns_message ''Custom attribute deleted successfully.''"

section \<open>GitLab: mr\<close>

text \<open>The functions of \<^verbatim>\<open>actions/gitlab/mr.py\<close>, in the order of the file.\<close>

definition create_merge_request ::
  "http_layer \<Rightarrow> string \<Rightarrow> string \<Rightarrow> int \<Rightarrow>
     string \<Rightarrow> string \<Rightarrow> string \<Rightarrow> pyval py" where
  "create_merge_request http server_url auth_token project_id source_branch target_branch title =
     (let url' = server_url @ ''/api/v4/projects/'' @ str_int project_id @ ''/merge_requests'';
          headers' = [(''Authorization'', ''Bearer '' @ auth_token)];
          payload = PDict [
                      (''source_branch'', PStr source_branch),
                      (''target_branch'', PStr target_branch),
                      (''title'', PStr title)]
      in try_except
           (bind (requests_call http
                    ((bare POST url')\<lparr>headers := Some headers',
                                             json := Some payload\<rparr>))
              (\<lambda>response. bind (raise_for_status response)
              (\<lambda>_. response_json response)))
           log_and_return_str)"

definition read_merge_request ::
  "http_layer \<Rightarrow> string \<Rightarrow> string \<Rightarrow> int \<Rightarrow>
     int \<Rightarrow> pyval py" where
  "read_merge_request http server_url auth_token project_id merge_request_id =
     (let url' = server_url @ ''/api/v4/projects/'' @ str_int project_id @ ''/merge_requests/'' @
                   str_int merge_request_id;
          headers' = [(''Authorization'', ''Bearer '' @ auth_token)]
      in try_except
           (bind (requests_call http
                    ((bare GET url')\<lparr>headers := Some headers'\<rparr>))
              (\<lambda>response. bind (raise_for_status response)
              (\<lambda>_. response_json response)))
           log_and_return_str)"

definition update_merge_request ::
  "http_layer \<Rightarrow> string \<Rightarrow> string \<Rightarrow> int \<Rightarrow>
     int \<Rightarrow> string \<Rightarrow> string \<Rightarrow> pyval py" where
  "update_merge_request http server_url auth_token project_id merge_request_id title description =
     (let url' = server_url @ ''/api/v4/projects/'' @ str_int project_id @ ''/merge_requests/'' @
                   str_int merge_request_id;
          headers' = [(''Authorization'', ''Bearer '' @ auth_token)];
          payload = PDict [(''title'', PStr title), (''description'', PStr description)]
      in try_except
           (bind (requests_call http
                    ((bare PUT url')\<lparr>headers := Some headers', json := Some payload\<rparr>))
              (\<lambda>response. bind (raise_for_status response)
              (\<lambda>_. response_json response)))
           log_and_return_str)"

definition delete_merge_request ::
  "http_layer \<Rightarrow> string \<Rightarrow> string \<Rightarrow> int \<Rightarrow>
     int \<Rightarrow> pyval py" where
  "delete_merge_request http server_url auth_token project_id merge_request_id =
     (let url' = server_url @ ''/api/v4/projects/'' @ str_int project_id @ ''/merge_requests/'' @
                   str_int merge_request_id;
          headers' = [(''Authorization'', ''Bearer '' @ auth_token)]
      in try_except
           (bind (requests_call http
                    ((bare DELETE url')\<lparr>headers := Some headers'\<rparr>))
              (\<lambda>response. bind (raise_for_status response)
              (\<lambda>_. ret (PStr ''Merge request deleted successfully.''))))
           log_and_return_str)"

definition list_merge_request_notes ::
  "http_layer \<Rightarrow> string \<Rightarrow> string \<Rightarrow> int \<Rightarrow>
     int \<Rightarrow> pyval py" where
  "list_merge_request_notes http server_url auth_token project_id merge_request_id =
     (let url' = server_url @ ''/api/v4/projects/'' @ str_int project_id @ ''/merge_requests/'' @
                   str_int merge_request_id @ ''/notes'';
          headers' = [(''Authorization'', ''Bearer '' @ auth_token)]
      in try_except
           (bind (requests_call http
                    ((bare GET url')\<lparr>headers := Some headers'\<rparr>))
              (\<lambda>response. bind (raise_for_status response)
              (\<lambda>_. response_json response)))
           log_and_return_str)"

definition list_merge_request_commits ::
  "http_layer \<Rightarrow> string \<Rightarrow> string \<Rightarrow> int \<Rightarrow>
     int \<Rightarrow> pyval py" where
  "list_merge_request_commits http server_url auth_token project_id merge_request_id =
     (let url' = server_url @ ''/api/v4/projects/'' @ str_int project_id @ ''/merge_requests/'' @
                   str_int merge_request_id @ ''/commits'';
          headers' = [(''Authorization'', ''Bearer '' @ auth_token)]
      in try_except
           (bind (requests_call http
                    ((bare GET url')\<lparr>headers := Some headers'\<rparr>))
              (\<lambda>response. bind (raise_for_status response)
              (\<lambda>_. response_json response)))
           log_and_return_str)"

definition manage_merge_request_notes ::
  "http_layer \<Rightarrow> string \<Rightarrow> string \<Rightarrow> int \<Rightarrow>
     int \<Rightarrow> int \<Rightarrow> string \<Rightarrow> string \<Rightarrow> pyval py" where
  "manage_merge_request_notes http
       server_url auth_token project_id merge_request_id note_id action body =
     (let url' = server_url @ ''/api/v4/projects/'' @ str_int project_id @ ''/merge_requests/'' @
                   str_int merge_request_id @ ''/notes/'' @ str_int note_id;
          headers' = [(''Authorization'', ''Bearer '' @ auth_token)];
          payload = PDict [(''body'', PStr body)]
      in try_except
           (bind (if action = ''add''
                  then requests_call http
                         ((bare POST url')\<lparr>headers := Some headers',
                                                  json := Some payload\<rparr>)
                  else if action = ''update''
                  then requests_call http
                         ((bare PUT url')\<lparr>headers := Some headers',
                                                 json := Some payload\<rparr>)
                  else if action = ''delete''
                  then requests_call http
                         ((bare DELETE url')\<lparr>headers := Some headers'\<rparr>)
                  else raise (UnboundLocalError ''response''))
              (\<lambda>response. bind (raise_for_status response)
              (\<lambda>_. ret (PStr ''Merge request note managed successfully.''))))
           log_and_return_str)"

datatype gitlab_mr_call =
    Create_merge_request string string int string string string
  | Read_merge_request string string int int
  | Update_merge_request string string int int string string
  | Delete_merge_request string string int int
  | List_merge_request_notes string string int int
  | List_merge_request_commits string string int int
  | Manage_merge_request_notes string string int int int string string

fun run_gitlab_mr :: "http_layer \<Rightarrow> gitlab_mr_call \<Rightarrow> pyval py" where
  "run_gitlab_mr http (Create_merge_request server_url auth_token project_id source_branch target_branch title) =
     create_merge_request http server_url auth_token project_id source_branch target_branch title"
| "run_gitlab_mr http (Read_merge_request server_url auth_token project_id merge_request_id) =
     read_merge_request http server_url auth_token project_id merge_request_id"
| "run_gitlab_mr http (Update_merge_request server_url auth_token project_id merge_request_id title description) =
     update_merge_request http server_url auth_token project_id merge_request_id title description"
| "run_gitlab_mr http (Delete_merge_request server_url auth_token project_id merge_request_id) =
     delete_merge_request http server_url auth_token project_id merge_request_id"
| "run_gitlab_mr http (List_merge_request_notes server_url auth_token project_id merge_request_id) =
     list_merge_request_notes http server_url auth_token project_id merge_request_id"
| "run_gitlab_mr http (List_merge_request_commits server_url auth_token project_id merge_request_id) =
     list_merge_request_commits http server_url auth_token project_id merge_request_id"
| "run_gitlab_mr http (Manage_merge_request_notes server_url auth_token project_id merge_request_id note_id action body) =
     manage_merge_request_notes http server_url auth_token project_id merge_request_id note_id action body"

fun shape_of_gitlab_mr :: "gitlab_mr_call \<Rightarrow> shape" where
  "shape_of_gitlab_mr (Create_merge_request _ _ _ _ _ _) = Returns_body"
| "shape_of_gitlab_mr (Read_merge_request _ _ _ _) = Returns_body"
| "shape_of_gitlab_mr (Update_merge_request _ _ _ _ _ _) = Returns_body"
| "shape_of_gitlab_mr (Delete_merge_request _ _ _ _) =
     Returns_message ''Merge request deleted successfully.''"
| "shape_of_gitlab_mr (List_merge_request_notes _ _ _ _) = Returns_body"
| "shape_of_gitlab_mr (List_merge_request_commits _ _ _ _) = Returns_body"
| "shape_of_gitlab_mr (Manage_merge_request_notes _ _ _ _ _ _ _) =
     Returns_message ''Merge request note managed successfully.''"

section \<open>GitLab: projects\<close>

text \<open>The functions of \<^verbatim>\<open>actions/gitlab/projects.py\<close>, in the order of the file.\<close>

definition gitlab_create_project ::
  "http_layer \<Rightarrow> string \<Rightarrow> string \<Rightarrow> string \<Rightarrow>
     string \<Rightarrow> string \<Rightarrow> pyval py" where
  "gitlab_create_project http server_url auth_token name description visibility =
     (let url' = server_url @ ''/api/v4/projects'';
          headers' = [(''Authorization'', ''Bearer '' @ auth_token)];
          payload = PDict [
                      (''name'', PStr name),
                      (''description'', PStr description),
                      (''visibility'', PStr visibility)]
      in try_except
           (bind (requests_call http
                    ((bare POST url')\<lparr>headers := Some headers',
                                             json := Some payload\<rparr>))
              (\<lambda>response. bind (raise_for_status response)
              (\<lambda>_. response_json response)))
           log_and_return_str)"

definition gitlab_read_project ::
  "http_layer \<Rightarrow> string \<Rightarrow> string \<Rightarrow> int \<Rightarrow>
     pyval py" where
  "gitlab_read_project http server_url auth_token project_id =
     (let url' = server_url @ ''/api/v4/projects/'' @ str_int project_id;
          headers' = [(''Authorization'', ''Bearer '' @ auth_token)]
      in try_except
           (bind (requests_call http
                    ((bare GET url')\<lparr>headers := Some headers'\<rparr>))
              (\<lambda>response. bind (raise_for_status response)
              (\<lambda>_. response_json response)))
           log_and_return_str)"

definition gitlab_update_project ::
  "http_layer \<Rightarrow> string \<Rightarrow> string \<Rightarrow> int \<Rightarrow>
     string \<Rightarrow> string \<Rightarrow> string \<Rightarrow> pyval py" where
  "gitlab_update_project http server_url auth_token project_id name description visibility =
     (let url' = server_url @ ''/api/v4/projects/'' @ str_int project_id;
          headers' = [(''Authorization'', ''Bearer '' @ auth_token)];
          payload = PDict [
                      (''name'', PStr name),
                      (''description'', PStr description),
                      (''visibility'', PStr visibility)]
      in try_except
           (bind (requests_call http
                    ((bare PUT url')\<lparr>headers := Some headers', json := Some payload\<rparr>))
              (\<lambda>response. bind (raise_for_status response)
              (\<lambda>_. response_json response)))
           log_and_return_str)"

definition gitlab_delete_project ::
  "http_layer \<Rightarrow> string \<Rightarrow> string \<Rightarrow> int \<Rightarrow>
     pyval py" where
  "gitlab_delete_project http server_url auth_token project_id =
     (let url' = server_url @ ''/api/v4/projects/'' @ str_int project_id;
          headers' = [(''Authorization'', ''Bearer '' @ auth_token)]
      in try_except
           (bind (requests_call http
                    ((bare DELETE url')\<lparr>headers := Some headers'\<rparr>))
              (\<lambda>response. bind (raise_for_status response)
              (\<lambda>_. ret (PStr ''Project deleted successfully.''))))
           log_and_return_str)"

definition fork_project ::
  "http_layer \<Rightarrow> string \<Rightarrow> string \<Rightarrow> int \<Rightarrow>
     pyval py" where
  "fork_project http server_url auth_token project_id =
     (let url' = server_url @ ''/api/v4/projects/'' @ str_int project_id @ ''/fork'';
          headers' = [(''Authorization'', ''Bearer '' @ auth_token)]
      in try_except
           (bind (requests_call http
                    ((bare POST url')\<lparr>headers := Some headers'\<rparr>))
              (\<lambda>response. bind (raise_for_status response)
              (\<lambda>_. response_json response)))
           log_and_return_str)"

definition list_project_members ::
  "http_layer \<Rightarrow> string \<Rightarrow> string \<Rightarrow> int \<Rightarrow>
     pyval py" where
  "list_project_members http server_url auth_token project_id =
     (let url' = server_url @ ''/api/v4/projects/'' @ str_int project_id @ ''/members'';
          headers' = [(''Authorization'', ''Bearer '' @ auth_token)]
      in try_except
           (bind (requests_call http
                    ((bare GET url')\<lparr>headers := Some headers'\<rparr>))
              (\<lambda>response. bind (raise_for_status response)
              (\<lambda>_. response_json response)))
           log_and_return_str)"

definition manage_project_members ::
  "http_layer \<Rightarrow> string \<Rightarrow> string \<Rightarrow> int \<Rightarrow>
     int \<Rightarrow> int \<Rightarrow> pyval py" where
  "manage_project_members http server_url auth_token project_id user_id access_level =
     (let url' = server_url @ ''/api/v4/projects/'' @ str_int project_id @ ''/members'';
          headers' = [(''Authorization'', ''Bearer '' @ auth_token)];
          payload = PDict [(''user_id'', PInt user_id), (''access_level'', PInt access_level)]
      in try_except
           (bind (requests_call http
                    ((bare POST url')\<lparr>headers := Some headers',
                                             json := Some payload\<rparr>))
              (\<lambda>response. bind (raise_for_status response)
              (\<lambda>_. response_json response)))
           log_and_return_str)"

definition list_project_hooks ::
  "http_layer \<Rightarrow> string \<Rightarrow> string \<Rightarrow> int \<Rightarrow>
     pyval py" where
  "list_project_hooks http server_url auth_token project_id =
     (let url' = server_url @ ''/api/v4/projects/'' @ str_int project_id @ ''/hooks'';
          headers' = [(''Authorization'', ''Bearer '' @ auth_token)]
      in try_except
           (bind (requests_call http
                    ((bare GET url')\<lparr>headers := Some headers'\<rparr>))
              (\<lambda>response. bind (raise_for_status response)
              (\<lambda>_. response_json response)))
           log_and_return_str)"

definition manage_project_hooks ::
  "http_layer \<Rightarrow> string \<Rightarrow> string \<Rightarrow> int \<Rightarrow> string \<Rightarrow> string list \<Rightarrow> pyval py" where
  "manage_project_hooks http server_url auth_token project_id hook_url events =
     (let url' = server_url @ ''/api/v4/projects/'' @ str_int project_id @ ''/hooks'';
          headers' = [(''Authorization'', ''Bearer '' @ auth_token)];
          payload = PDict [
                      (''url'', PStr hook_url),
                      (''push_events'', PBool (''push'' \<in> set events)),
                      (''issues_events'', PBool (''issues'' \<in> set events)),
                      (''merge_requests_events'', PBool (''merge_requests'' \<in> set events))]
      in try_except
           (bind (requests_call http
                    ((bare POST url')\<lparr>headers := Some headers', json := Some payload\<rparr>))
              (\<lambda>response. bind (raise_for_status response)
              (\<lambda>_. response_json response)))
           log_and_return_str)"

definition list_project_issues ::
  "http_layer \<Rightarrow> string \<Rightarrow> string \<Rightarrow> int \<Rightarrow>
     pyval py" where
  "list_project_issues http server_url auth_token project_id =
     (let url' = server_url @ ''/api/v4/projects/'' @ str_int project_id @ ''/issues'';
          headers' = [(''Authorization'', ''Bearer '' @ auth_token)]
      in try_except
           (bind (requests_call http
                    ((bare GET url')\<lparr>headers := Some headers'\<rparr>))
              (\<lambda>response. bind (raise_for_status response)
              (\<lambda>_. response_json response)))
           log_and_return_str)"

definition manage_project_issues ::
  "http_layer \<Rightarrow> string \<Rightarrow> string \<Rightarrow> int \<Rightarrow>
     int \<Rightarrow> string \<Rightarrow> string \<Rightarrow> pyval py" where
  "manage_project_issues http server_url auth_token project_id issue_id title description =
     (let url' = server_url @ ''/api/v4/projects/'' @ str_int project_id @ ''/issues/'' @
                   str_int issue_id;
          headers' = [(''Authorization'', ''Bearer '' @ auth_token)];
          payload = PDict [(''title'', PStr title), (''description'', PStr description)]
      in try_except
           (bind (requests_call http
                    ((bare PUT url')\<lparr>headers := Some headers', json := Some payload\<rparr>))
              (\<lambda>response. bind (raise_for_status response)
              (\<lambda>_. response_json response)))
           log_and_return_str)"

definition list_project_merge_requests ::
  "http_layer \<Rightarrow> string \<Rightarrow> string \<Rightarrow> int \<Rightarrow>
     pyval py" where
  "list_project_merge_requests http server_url auth_token project_id =
     (let url' = server_url @ ''/api/v4/projects/'' @ str_int project_id @ ''/merge_requests'';
          headers' = [(''Authorization'', ''Bearer '' @ auth_token)]
      in try_except
           (bind (requests_call http
                    ((bare GET url')\<lparr>headers := Some headers'\<rparr>))
              (\<lambda>response. bind (raise_for_status response)
              (\<lambda>_. response_json response)))
           log_and_return_str)"

definition manage_project_merge_requests ::
  "http_layer \<Rightarrow> string \<Rightarrow> string \<Rightarrow> int \<Rightarrow>
     int \<Rightarrow> string \<Rightarrow> string \<Rightarrow> pyval py" where
  "manage_project_merge_requests http
       server_url auth_token project_id merge_request_id title description =
     (let url' = server_url @ ''/api/v4/projects/'' @ str_int project_id @ ''/merge_requests/'' @
                   str_int merge_request_id;
          headers' = [(''Authorization'', ''Bearer '' @ auth_token)];
          payload = PDict [(''title'', PStr title), (''description'', PStr description)]
      in try_except
           (bind (requests_call http
                    ((bare PUT url')\<lparr>headers := Some headers', json := Some payload\<rparr>))
              (\<lambda>response. bind (raise_for_status response)
              (\<lambda>_. response_json response)))
           log_and_return_str)"

datatype gitlab_projects_call =
    Gitlab_create_project string string string string string
  | Gitlab_read_project string string int
  | Gitlab_update_project string string int string string string
  | Gitlab_delete_project string string int
  | Fork_project string string int
  | List_project_members string string int
  | Manage_project_members string string int int int
  | List_project_hooks string string int
  | Manage_project_hooks string string int string "string list"
  | List_project_issues string string int
  | Manage_project_issues string string int int string string
  | List_project_merge_requests string string int
  | Manage_project_merge_requests string string int int string string

fun run_gitlab_projects :: "http_layer \<Rightarrow> gitlab_projects_call \<Rightarrow> pyval py" where
  "run_gitlab_projects http (Gitlab_create_project server_url auth_token name description visibility) =
     gitlab_create_project http server_url auth_token name description visibility"
| "run_gitlab_projects http (Gitlab_read_project server_url auth_token project_id) =
     gitlab_read_project http server_url auth_token project_id"
| "run_gitlab_projects http (Gitlab_update_project server_url auth_token project_id name description visibility) =
     gitlab_update_project http server_url auth_token project_id name description visibility"
| "run_gitlab_projects http (Gitlab_delete_project server_url auth_token project_id) =
     gitlab_delete_project http server_url auth_token project_id"
| "run_gitlab_projects http (Fork_project server_url auth_token project_id) =
     fork_project http server_url auth_token project_id"
| "run_gitlab_projects http (List_project_members server_url auth_token project_id) =
     list_project_members http server_url auth_token project_id"
| "run_gitlab_projects http (Manage_project_members server_url auth_token project_id user_id access_level) =
     manage_project_members http server_url auth_token project_id user_id access_level"
| "run_gitlab_projects http (List_project_hooks server_url auth_token project_id) =
     list_project_hooks http server_url auth_token project_id"
| "run_gitlab_projects http (Manage_project_hooks server_url auth_token project_id hook_url events) =
     manage_project_hooks http server_url auth_token project_id hook_url events"
| "run_gitlab_projects http (List_project_issues server_url auth_token project_id) =
     list_project_issues http server_url auth_token project_id"
| "run_gitlab_projects http (Manage_project_issues server_url auth_token project_id issue_id title description) =
     manage_project_issues http server_url auth_token project_id issue_id title description"
| "run_gitlab_projects http (List_project_merge_requests server_url auth_token project_id) =
     list_project_merge_requests http server_url auth_token project_id"
| "run_gitlab_projects http (Manage_project_merge_requests server_url auth_token project_id merge_request_id title description) =
     manage_project_merge_requests http server_url auth_token project_id merge_request_id title description"

fun shape_of_gitlab_projects :: "gitlab_projects_call \<Rightarrow> shape" where
  "shape_of_gitlab_projects (Gitlab_create_project _ _ _ _ _) = Returns_body"
| "shape_of_gitlab_projects (Gitlab_read_project _ _ _) = Returns_body"
| "shape_of_gitlab_projects (Gitlab_update_project _ _ _ _ _ _) = Returns_body"
| "shape_of_gitlab_projects (Gitlab_delete_project _ _ _) =
     Returns_message ''Project deleted successfully.''"
| "shape_of_gitlab_projects (Fork_project _ _ _) = Returns_body"
| "shape_of_gitlab_projects (List_project_members _ _ _) = Returns_body"
| "shape_of_gitlab_projects (Manage_project_members _ _ _ _ _) = Returns_body"
| "shape_of_gitlab_projects (List_project_hooks _ _ _) = Returns_body"
| "shape_of_gitlab_projects (Manage_project_hooks _ _ _ _ _) = Returns_body"
| "shape_of_gitlab_projects (List_project_issues _ _ _) = Returns_body"
| "shape_of_gitlab_projects (Manage_project_issues _ _ _ _ _ _) = Returns_body"
| "shape_of_gitlab_projects (List_project_merge_requests _ _ _) = Returns_body"
| "shape_of_gitlab_projects (Manage_project_merge_requests _ _ _ _ _ _) = Returns_body"

section \<open>GitLab: repo\<close>

text \<open>The functions of \<^verbatim>\<open>actions/gitlab/repo.py\<close>, in the order of the file.\<close>

definition list_branches ::
  "http_layer \<Rightarrow> string \<Rightarrow> string \<Rightarrow> int \<Rightarrow>
     pyval py" where
  "list_branches http server_url auth_token project_id =
     (let url' = server_url @ ''/api/v4/projects/'' @ str_int project_id @ ''/repository/branches'';
          headers' = [(''Authorization'', ''Bearer '' @ auth_token)]
      in try_except
           (bind (requests_call http
                    ((bare GET url')\<lparr>headers := Some headers'\<rparr>))
              (\<lambda>response. bind (raise_for_status response)
              (\<lambda>_. response_json response)))
           log_and_return_str)"

definition create_branch ::
  "http_layer \<Rightarrow> string \<Rightarrow> string \<Rightarrow> int \<Rightarrow>
     string \<Rightarrow> string \<Rightarrow> pyval py" where
  "create_branch http server_url auth_token project_id branch_name ref =
     (let url' = server_url @ ''/api/v4/projects/'' @ str_int project_id @ ''/repository/branches'';
          headers' = [(''Authorization'', ''Bearer '' @ auth_token)];
          payload = PDict [(''branch'', PStr branch_name), (''ref'', PStr ref)]
      in try_except
           (bind (requests_call http
                    ((bare POST url')\<lparr>headers := Some headers',
                                             json := Some payload\<rparr>))
              (\<lambda>response. bind (raise_for_status response)
              (\<lambda>_. response_json response)))
           log_and_return_str)"

definition delete_branch ::
  "http_layer \<Rightarrow> string \<Rightarrow> string \<Rightarrow> int \<Rightarrow>
     string \<Rightarrow> pyval py" where
  "delete_branch http server_url auth_token project_id branch_name =
     (let url' = server_url @ ''/api/v4/projects/'' @ str_int project_id @
                   ''/repository/branches/'' @ branch_name;
          headers' = [(''Authorization'', ''Bearer '' @ auth_token)]
      in try_except
           (bind (requests_call http
                    ((bare DELETE url')\<lparr>headers := Some headers'\<rparr>))
              (\<lambda>response. bind (raise_for_status response)
              (\<lambda>_. ret (PStr ''Branch deleted successfully.''))))
           log_and_return_str)"

definition gitlab_list_tags ::
  "http_layer \<Rightarrow> string \<Rightarrow> string \<Rightarrow> int \<Rightarrow>
     pyval py" where
  "gitlab_list_tags http server_url auth_token project_id =
     (let url' = server_url @ ''/api/v4/projects/'' @ str_int project_id @ ''/repository/tags'';
          headers' = [(''Authorization'', ''Bearer '' @ auth_token)]
      in try_except
           (bind (requests_call http
                    ((bare GET url')\<lparr>headers := Some headers'\<rparr>))
              (\<lambda>response. bind (raise_for_status response)
              (\<lambda>_. response_json response)))
           log_and_return_str)"

definition gitlab_create_tag ::
  "http_layer \<Rightarrow> string \<Rightarrow> string \<Rightarrow> int \<Rightarrow>
     string \<Rightarrow> string \<Rightarrow> string \<Rightarrow> pyval py" where
  "gitlab_create_tag http server_url auth_token project_id tag_name ref message =
     (let url' = server_url @ ''/api/v4/projects/'' @ str_int project_id @ ''/repository/tags'';
          headers' = [(''Authorization'', ''Bearer '' @ auth_token)];
          payload = PDict [
                      (''tag_name'', PStr tag_name),
                      (''ref'', PStr ref),
                      (''message'', PStr message)]
      in try_except
           (bind (requests_call http
                    ((bare POST url')\<lparr>headers := Some headers',
                                             json := Some payload\<rparr>))
              (\<lambda>response. bind (raise_for_status response)
              (\<lambda>_. response_json response)))
           log_and_return_str)"

definition gitlab_delete_tag ::
  "http_layer \<Rightarrow> string \<Rightarrow> string \<Rightarrow> int \<Rightarrow>
     string \<Rightarrow> pyval py" where
  "gitlab_delete_tag http server_url auth_token project_id tag_name =
     (let url' = server_url @ ''/api/v4/projects/'' @ str_int project_id @ ''/repository/tags/'' @
                   tag_name;
          headers' = [(''Authorization'', ''Bearer '' @ auth_token)]
      in try_except
           (bind (requests_call http
                    ((bare DELETE url')\<lparr>headers := Some headers'\<rparr>))
              (\<lambda>response. bind (raise_for_status response)
              (\<lambda>_. ret (PStr ''Tag deleted successfully.''))))
           log_and_return_str)"

definition list_commits ::
  "http_layer \<Rightarrow> string \<Rightarrow> string \<Rightarrow> int \<Rightarrow>
     pyval py" where
  "list_commits http server_url auth_token project_id =
     (let url' = server_url @ ''/api/v4/projects/'' @ str_int project_id @ ''/repository/commits'';
          headers' = [(''Authorization'', ''Bearer '' @ auth_token)]
      in try_except
           (bind (requests_call http
                    ((bare GET url')\<lparr>headers := Some headers'\<rparr>))
              (\<lambda>response. bind (raise_for_status response)
              (\<lambda>_. response_json response)))
           log_and_return_str)"

definition list_repository_files ::
  "http_layer \<Rightarrow> string \<Rightarrow> string \<Rightarrow> int \<Rightarrow> string \<Rightarrow> pyval py" where
  "list_repository_files http server_url auth_token project_id path =
     (let url' = server_url @ ''/api/v4/projects/'' @ str_int project_id @ ''/repository/tree'';
          headers' = [(''Authorization'', ''Bearer '' @ auth_token)];
          params' = (if path \<noteq> [] then [(''path'', PStr path)] else [])
      in try_except
           (bind (requests_call http
                    ((bare GET url')\<lparr>headers := Some headers', params := Some params'\<rparr>))
              (\<lambda>response. bind (raise_for_status response)
              (\<lambda>_. response_json response)))
           log_and_return_str)"

definition manage_commits ::
  "http_layer \<Rightarrow> string \<Rightarrow> string \<Rightarrow> int \<Rightarrow>
     string \<Rightarrow> string \<Rightarrow> pyval py" where
  "manage_commits http server_url auth_token project_id commit_sha action =
     (let url' = server_url @ ''/api/v4/projects/'' @ str_int project_id @
                   ''/repository/commits/'' @ commit_sha @ ''/'' @ action;
          headers' = [(''Authorization'', ''Bearer '' @ auth_token)]
      in try_except
           (bind (requests_call http
                    ((bare POST url')\<lparr>headers := Some headers'\<rparr>))
              (\<lambda>response. bind (raise_for_status response)
              (\<lambda>_. response_json response)))
           log_and_return_str)"

definition manage_repository_files ::
  "http_layer \<Rightarrow> string \<Rightarrow> string \<Rightarrow> int \<Rightarrow>
     string \<Rightarrow> string \<Rightarrow> string \<Rightarrow> string \<Rightarrow>
     pyval py" where
  "manage_repository_files http
       server_url auth_token project_id file_path action content' commit_message =
     (let url' = server_url @ ''/api/v4/projects/'' @ str_int project_id @ ''/repository/files/'' @
                   file_path;
          headers' = [(''Authorization'', ''Bearer '' @ auth_token)];
          payload = PDict [
                      (''action'', PStr action),
                      (''content'', PStr content'),
                      (''commit_message'', PStr commit_message)]
      in try_except
           (bind (if action = ''delete''
                  then requests_call http
                         ((bare DELETE url')\<lparr>headers := Some headers',
                                                    json := Some payload\<rparr>)
                  else requests_call http
                         ((bare POST url')\<lparr>headers := Some headers',
                                                  json := Some payload\<rparr>))
              (\<lambda>response. bind (raise_for_status response)
              (\<lambda>_. response_json response)))
           log_and_return_str)"

datatype gitlab_repo_call =
    List_branches string string int
  | Create_branch string string int string string
  | Delete_branch string string int string
  | Gitlab_list_tags string string int
  | Gitlab_create_tag string string int string string string
  | Gitlab_delete_tag string string int string
  | List_commits string string int
  | List_repository_files string string int string
  | Manage_commits string string int string string
  | Manage_repository_files string string int string string string string

fun run_gitlab_repo :: "http_layer \<Rightarrow> gitlab_repo_call \<Rightarrow> pyval py" where
  "run_gitlab_repo http (List_branches server_url auth_token project_id) =
     list_branches http server_url auth_token project_id"
| "run_gitlab_repo http (Create_branch server_url auth_token project_id branch_name ref) =
     create_branch http server_url auth_token project_id branch_name ref"
| "run_gitlab_repo http (Delete_branch server_url auth_token project_id branch_name) =
     delete_branch http server_url auth_token project_id branch_name"
| "run_gitlab_repo http (Gitlab_list_tags server_url auth_token project_id) =
     gitlab_list_tags http server_url auth_token project_id"
| "run_gitlab_repo http (Gitlab_create_tag server_url auth_token project_id tag_name ref message) =
     gitlab_create_tag http server_url auth_token project_id tag_name ref message"
| "run_gitlab_repo http (Gitlab_delete_tag server_url auth_token project_id tag_name) =
     gitlab_delete_tag http server_url auth_token project_id tag_name"
| "run_gitlab_repo http (List_commits server_url auth_token project_id) =
     list_commits http server_url auth_token project_id"
| "run_gitlab_repo http (List_repository_files server_url auth_token project_id path) =
     list_repository_files http server_url auth_token project_id path"
| "run_gitlab_repo http (Manage_commits server_url auth_token project_id commit_sha action) =
     manage_commits http server_url auth_token project_id commit_sha action"
| "run_gitlab_repo http (Manage_repository_files server_url auth_token project_id file_path action content' commit_message) =
     manage_repository_files http server_url auth_token project_id file_path action content' commit_message"

fun shape_of_gitlab_repo :: "gitlab_repo_call \<Rightarrow> shape" where
  "shape_of_gitlab_repo (List_branches _ _ _) = Returns_body"
| "shape_of_gitlab_repo (Create_branch _ _ _ _ _) = Returns_body"
| "shape_of_gitlab_repo (Delete_branch _ _ _ _) = Returns_message ''Branch deleted successfully.''"
| "shape_of_gitlab_repo (Gitlab_list_tags _ _ _) = Returns_body"
| "shape_of_gitlab_repo (Gitlab_create_tag _ _ _ _ _ _) = Returns_body"
| "shape_of_gitlab_repo (Gitlab_delete_tag _ _ _ _) = Returns_message ''Tag deleted successfully.''"
| "shape_of_gitlab_repo (List_commits _ _ _) = Returns_body"
| "shape_of_gitlab_repo (List_repository_files _ _ _ _) = Returns_body"
| "shape_of_gitlab_repo (Manage_commits _ _ _ _ _) = Returns_body"
| "shape_of_gitlab_repo (Manage_repository_files _ _ _ _ _ _ _) = Returns_body"

section \<open>GitLab: runners\<close>

text \<open>The functions of \<^verbatim>\<open>actions/gitlab/runners.py\<close>, in the order of the file.\<close>

definition list_runners ::
  "http_layer \<Rightarrow> string \<Rightarrow> string \<Rightarrow> pyval py" where
  "list_runners http server_url auth_token =
     (let url' = server_url @ ''/api/v4/runners'';
          headers' = [(''Authorization'', ''Bearer '' @ auth_token)]
      in try_except
           (bind (requests_call http
                    ((bare GET url')\<lparr>headers := Some headers'\<rparr>))
              (\<lambda>response. bind (raise_for_status response)
              (\<lambda>_. response_json response)))
           log_and_return_str)"

definition create_runner ::
  "http_layer \<Rightarrow> string \<Rightarrow> string \<Rightarrow> string \<Rightarrow>
     bool \<Rightarrow> string list \<Rightarrow> pyval py" where
  "create_runner http server_url auth_token description active tag_list =
     (let url' = server_url @ ''/api/v4/runners'';
          headers' = [(''Authorization'', ''Bearer '' @ auth_token)];
          payload = PDict [
                      (''description'', PStr description),
                      (''active'', PBool active),
                      (''tag_list'', PList (map PStr tag_list))]
      in try_except
           (bind (requests_call http
                    ((bare POST url')\<lparr>headers := Some headers',
                                             json := Some payload\<rparr>))
              (\<lambda>response. bind (raise_for_status response)
              (\<lambda>_. response_json response)))
           log_and_return_str)"

definition delete_runner ::
  "http_layer \<Rightarrow> string \<Rightarrow> string \<Rightarrow> int \<Rightarrow>
     pyval py" where
  "delete_runner http server_url auth_token runner_id =
     (let url' = server_url @ ''/api/v4/runners/'' @ str_int runner_id;
          headers' = [(''Authorization'', ''Bearer '' @ auth_token)]
      in try_except
           (bind (requests_call http
                    ((bare DELETE url')\<lparr>headers := Some headers'\<rparr>))
              (\<lambda>response. bind (raise_for_status response)
              (\<lambda>_. ret (PStr ''Runner deleted successfully.''))))
           log_and_return_str)"

definition enable_runner ::
  "http_layer \<Rightarrow> string \<Rightarrow> string \<Rightarrow> int \<Rightarrow>
     pyval py" where
  "enable_runner http server_url auth_token runner_id =
     (let url' = server_url @ ''/api/v4/runners/'' @ str_int runner_id;
          headers' = [(''Authorization'', ''Bearer '' @ auth_token)];
          payload = PDict [(''active'', PBool True)]
      in try_except
           (bind (requests_call http
                    ((bare PUT url')\<lparr>headers := Some headers', json := Some payload\<rparr>))
              (\<lambda>response. bind (raise_for_status response)
              (\<lambda>_. ret (PStr ''Runner enabled successfully.''))))
           log_and_return_str)"

definition disable_runner ::
  "http_layer \<Rightarrow> string \<Rightarrow> string \<Rightarrow> int \<Rightarrow>
     pyval py" where
  "disable_runner http server_url auth_token runner_id =
     (let url' = server_url @ ''/api/v4/runners/'' @ str_int runner_id;
          headers' = [(''Authorization'', ''Bearer '' @ auth_token)];
          payload = PDict [(''active'', PBool False)]
      in try_except
           (bind (requests_call http
                    ((bare PUT url')\<lparr>headers := Some headers', json := Some payload\<rparr>))
              (\<lambda>response. bind (raise_for_status response)
              (\<lambda>_. ret (PStr ''Runner disabled successfully.''))))
           log_and_return_str)"

datatype gitlab_runners_call =
    List_runners string string
  | Create_runner string string string bool "string list"
  | Delete_runner string string int
  | Enable_runner string string int
  | Disable_runner string string int

fun run_gitlab_runners :: "http_layer \<Rightarrow> gitlab_runners_call \<Rightarrow> pyval py" where
  "run_gitlab_runners http (List_runners server_url auth_token) =
     list_runners http server_url auth_token"
| "run_gitlab_runners http (Create_runner server_url auth_token description active tag_list) =
     create_runner http server_url auth_token description active tag_list"
| "run_gitlab_runners http (Delete_runner server_url auth_token runner_id) =
     delete_runner http server_url auth_token runner_id"
| "run_gitlab_runners http (Enable_runner server_url auth_token runner_id) =
     enable_runner http server_url auth_token runner_id"
| "run_gitlab_runners http (Disable_runner server_url auth_token runner_id) =
     disable_runner http server_url auth_token runner_id"

fun shape_of_gitlab_runners :: "gitlab_runners_call \<Rightarrow> shape" where
  "shape_of_gitlab_runners (List_runners _ _) = Returns_body"
| "shape_of_gitlab_runners (Create_runner _ _ _ _ _) = Returns_body"
| "shape_of_gitlab_runners (Delete_runner _ _ _) = Returns_message ''Runner deleted successfully.''"
| "shape_of_gitlab_runners (Enable_runner _ _ _) = Returns_message ''Runner enabled successfully.''"
| "shape_of_gitlab_runners (Disable_runner _ _ _) =
     Returns_message ''Runner disabled successfully.''"

section \<open>GitLab: snippet\<close>

text \<open>The functions of \<^verbatim>\<open>actions/gitlab/snippet.py\<close>, in the order of the file.\<close>

definition create_snippet ::
  "http_layer \<Rightarrow> string \<Rightarrow> string \<Rightarrow> string \<Rightarrow>
     string \<Rightarrow> string \<Rightarrow> string \<Rightarrow> pyval py" where
  "create_snippet http server_url auth_token title file_name content' visibility =
     (let url' = server_url @ ''/api/v4/snippets'';
          headers' = [(''Authorization'', ''Bearer '' @ auth_token)];
          payload = PDict [
                      (''title'', PStr title),
                      (''file_name'', PStr file_name),
                      (''content'', PStr content'),
                      (''visibility'', PStr visibility)]
      in try_except
           (bind (requests_call http
                    ((bare POST url')\<lparr>headers := Some headers',
                                             json := Some payload\<rparr>))
              (\<lambda>response. bind (raise_for_status response)
              (\<lambda>_. response_json response)))
           log_and_return_str)"

definition read_snippet ::
  "http_layer \<Rightarrow> string \<Rightarrow> string \<Rightarrow> int \<Rightarrow>
     pyval py" where
  "read_snippet http server_url auth_token snippet_id =
     (let url' = server_url @ ''/api/v4/snippets/'' @ str_int snippet_id;
          headers' = [(''Authorization'', ''Bearer '' @ auth_token)]
      in try_except
           (bind (requests_call http
                    ((bare GET url')\<lparr>headers := Some headers'\<rparr>))
              (\<lambda>response. bind (raise_for_status response)
              (\<lambda>_. response_json response)))
           log_and_return_str)"

definition update_snippet ::
  "http_layer \<Rightarrow> string \<Rightarrow> string \<Rightarrow> int \<Rightarrow>
     string \<Rightarrow> string \<Rightarrow> string \<Rightarrow> string \<Rightarrow>
     pyval py" where
  "update_snippet http server_url auth_token snippet_id title file_name content' visibility =
     (let url' = server_url @ ''/api/v4/snippets/'' @ str_int snippet_id;
          headers' = [(''Authorization'', ''Bearer '' @ auth_token)];
          payload = PDict [
                      (''title'', PStr title),
                      (''file_name'', PStr file_name),
                      (''content'', PStr content'),
                      (''visibility'', PStr visibility)]
      in try_except
           (bind (requests_call http
                    ((bare PUT url')\<lparr>headers := Some headers', json := Some payload\<rparr>))
              (\<lambda>response. bind (raise_for_status response)
              (\<lambda>_. response_json response)))
           log_and_return_str)"

definition delete_snippet ::
  "http_layer \<Rightarrow> string \<Rightarrow> string \<Rightarrow> int \<Rightarrow>
     pyval py" where
  "delete_snippet http server_url auth_token snippet_id =
     (let url' = server_url @ ''/api/v4/snippets/'' @ str_int snippet_id;
          headers' = [(''Authorization'', ''Bearer '' @ auth_token)]
      in try_except
           (bind (requests_call http
                    ((bare DELETE url')\<lparr>headers := Some headers'\<rparr>))
              (\<lambda>response. bind (raise_for_status response)
              (\<lambda>_. ret (PStr ''Snippet deleted successfully.''))))
           log_and_return_str)"

datatype gitlab_snippet_call =
    Create_snippet string string string string string string
  | Read_snippet string string int
  | Update_snippet string string int string string string string
  | Delete_snippet string string int

fun run_gitlab_snippet :: "http_layer \<Rightarrow> gitlab_snippet_call \<Rightarrow> pyval py" where
  "run_gitlab_snippet http (Create_snippet server_url auth_token title file_name content' visibility) =
     create_snippet http server_url auth_token title file_name content' visibility"
| "run_gitlab_snippet http (Read_snippet server_url auth_token snippet_id) =
     read_snippet http server_url auth_token snippet_id"
| "run_gitlab_snippet http (Update_snippet server_url auth_token snippet_id title file_name content' visibility) =
     update_snippet http server_url auth_token snippet_id title file_name content' visibility"
| "run_gitlab_snippet http (Delete_snippet server_url auth_token snippet_id) =
     delete_snippet http server_url auth_token snippet_id"

fun shape_of_gitlab_snippet :: "gitlab_snippet_call \<Rightarrow> shape" where
  "shape_of_gitlab_snippet (Create_snippet _ _ _ _ _ _) = Returns_body"
| "shape_of_gitlab_snippet (Read_snippet _ _ _) = Returns_body"
| "shape_of_gitlab_snippet (Update_snippet _ _ _ _ _ _ _) = Returns_body"
| "shape_of_gitlab_snippet (Delete_snippet _ _ _) =
     Returns_message ''Snippet deleted successfully.''"

section \<open>GitLab: user\<close>

text \<open>The functions of \<^verbatim>\<open>actions/gitlab/user.py\<close>, in the order of the file.\<close>

definition gitlab_get_user_details ::
  "http_layer \<Rightarrow> string \<Rightarrow> string \<Rightarrow> int \<Rightarrow>
     pyval py" where
  "gitlab_get_user_details http server_url auth_token user_id =
     (let url' = server_url @ ''/api/v4/users/'' @ str_int user_id;
          headers' = [(''Authorization'', ''Bearer '' @ auth_token)]
      in try_except
           (bind (requests_call http
                    ((bare GET url')\<lparr>headers := Some headers'\<rparr>))
              (\<lambda>response. bind (raise_for_status response)
              (\<lambda>_. response_json response)))
           log_and_return_str)"

definition gitlab_update_user_details ::
  "http_layer \<Rightarrow> string \<Rightarrow> string \<Rightarrow> int \<Rightarrow>
     string \<Rightarrow> string \<Rightarrow> pyval py" where
  "gitlab_update_user_details http server_url auth_token user_id name email =
     (let url' = server_url @ ''/api/v4/users/'' @ str_int user_id;
          headers' = [(''Authorization'', ''Bearer '' @ auth_token)];
          payload = PDict [(''name'', PStr name), (''email'', PStr email)]
      in try_except
           (bind (requests_call http
                    ((bare PUT url')\<lparr>headers := Some headers', json := Some payload\<rparr>))
              (\<lambda>response. bind (raise_for_status response)
              (\<lambda>_. response_json response)))
           log_and_return_str)"

definition list_user_projects ::
  "http_layer \<Rightarrow> string \<Rightarrow> string \<Rightarrow> int \<Rightarrow>
     pyval py" where
  "list_user_projects http server_url auth_token user_id =
     (let url' = server_url @ ''/api/v4/users/'' @ str_int user_id @ ''/projects'';
          headers' = [(''Authorization'', ''Bearer '' @ auth_token)]
      in try_except
           (bind (requests_call http
                    ((bare GET url')\<lparr>headers := Some headers'\<rparr>))
              (\<lambda>response. bind (raise_for_status response)
              (\<lambda>_. response_json response)))
           log_and_return_str)"

definition list_user_ssh_keys ::
  "http_layer \<Rightarrow> string \<Rightarrow> string \<Rightarrow> int \<Rightarrow>
     pyval py" where
  "list_user_ssh_keys http server_url auth_token user_id =
     (let url' = server_url @ ''/api/v4/users/'' @ str_int user_id @ ''/keys'';
          headers' = [(''Authorization'', ''Bearer '' @ auth_token)]
      in try_except
           (bind (requests_call http
                    ((bare GET url')\<lparr>headers := Some headers'\<rparr>))
              (\<lambda>response. bind (raise_for_status response)
              (\<lambda>_. response_json response)))
           log_and_return_str)"

definition list_user_emails ::
  "http_layer \<Rightarrow> string \<Rightarrow> string \<Rightarrow> int \<Rightarrow>
     pyval py" where
  "list_user_emails http server_url auth_token user_id =
     (let url' = server_url @ ''/api/v4/users/'' @ str_int user_id @ ''/emails'';
          headers' = [(''Authorization'', ''Bearer '' @ auth_token)]
      in try_except
           (bind (requests_call http
                    ((bare GET url')\<lparr>headers := Some headers'\<rparr>))
              (\<lambda>response. bind (raise_for_status response)
              (\<lambda>_. response_json response)))
           log_and_return_str)"

definition manage_user_projects ::
  "http_layer \<Rightarrow> string \<Rightarrow> string \<Rightarrow> int \<Rightarrow>
     int \<Rightarrow> string \<Rightarrow> pyval py" where
  "manage_user_projects http server_url auth_token user_id project_id action =
     (let url' = server_url @ ''/api/v4/users/'' @ str_int user_id @ ''/projects/'' @
                   str_int project_id;
          headers' = [(''Authorization'', ''Bearer '' @ auth_token)]
      in try_except
           (bind (if action = ''add''
                  then requests_call http
                         ((bare POST url')\<lparr>headers := Some headers'\<rparr>)
                  else if action = ''remove''
                  then requests_call http
                         ((bare DELETE url')\<lparr>headers := Some headers'\<rparr>)
                  else raise (UnboundLocalError ''response''))
              (\<lambda>response. bind (raise_for_status response)
              (\<lambda>_. response_json response)))
           log_and_return_str)"

definition manage_user_ssh_keys ::
  "http_layer \<Rightarrow> string \<Rightarrow> string \<Rightarrow> int \<Rightarrow>
     int \<Rightarrow> string \<Rightarrow> pyval py" where
  "manage_user_ssh_keys http server_url auth_token user_id key_id action =
     (let url' = server_url @ ''/api/v4/users/'' @ str_int user_id @ ''/keys/'' @ str_int key_id;
          headers' = [(''Authorization'', ''Bearer '' @ auth_token)]
      in try_except
           (bind (if action = ''add''
                  then requests_call http
                         ((bare POST url')\<lparr>headers := Some headers'\<rparr>)
                  else if action = ''remove''
                  then requests_call http
                         ((bare DELETE url')\<lparr>headers := Some headers'\<rparr>)
                  else raise (UnboundLocalError ''response''))
              (\<lambda>response. bind (raise_for_status response)
              (\<lambda>_. ret (PStr ''SSH key managed successfully.''))))
           log_and_return_str)"

definition manage_user_emails ::
  "http_layer \<Rightarrow> string \<Rightarrow> string \<Rightarrow> int \<Rightarrow>
     int \<Rightarrow> string \<Rightarrow> pyval py" where
  "manage_user_emails http server_url auth_token user_id email_id action =
     (let url' = server_url @ ''/api/v4/users/'' @ str_int user_id @ ''/emails/'' @
                   str_int email_id;
          headers' = [(''Authorization'', ''Bearer '' @ auth_token)]
      in try_except
           (bind (if action = ''add''
                  then requests_call http
                         ((bare POST url')\<lparr>headers := Some headers'\<rparr>)
                  else if action = ''remove''
                  then requests_call http
                         ((bare DELETE url')\<lparr>headers := Some headers'\<rparr>)
                  else raise (UnboundLocalError ''response''))
              (\<lambda>response. bind (raise_for_status response)
              (\<lambda>_. ret (PStr ''Email address managed successfully.''))))
           log_and_return_str)"

datatype gitlab_user_call =
    Gitlab_get_user_details string string int
  | Gitlab_update_user_details string string int string string
  | List_user_projects string string int
  | List_user_ssh_keys string string int
  | List_user_emails string string int
  | Manage_user_projects string string int int string
  | Manage_user_ssh_keys string string int int string
  | Manage_user_emails string string int int string

fun run_gitlab_user :: "http_layer \<Rightarrow> gitlab_user_call \<Rightarrow> pyval py" where
  "run_gitlab_user http (Gitlab_get_user_details server_url auth_token user_id) =
     gitlab_get_user_details http server_url auth_token user_id"
| "run_gitlab_user http (Gitlab_update_user_details server_url auth_token user_id name email) =
     gitlab_update_user_details http server_url auth_token user_id name email"
| "run_gitlab_user http (List_user_projects server_url auth_token user_id) =
     list_user_projects http server_url auth_token user_id"
| "run_gitlab_user http (List_user_ssh_keys server_url auth_token user_id) =
     list_user_ssh_keys http server_url auth_token user_id"
| "run_gitlab_user http (List_user_emails server_url auth_token user_id) =
     list_user_emails http server_url auth_token user_id"
| "run_gitlab_user http (Manage_user_projects server_url auth_token user_id project_id action) =
     manage_user_projects http server_url auth_token user_id project_id action"
| "run_gitlab_user http (Manage_user_ssh_keys server_url auth_token user_id key_id action) =
     manage_user_ssh_keys http server_url auth_token user_id key_id action"
| "run_gitlab_user http (Manage_user_emails server_url auth_token user_id email_id action) =
     manage_user_emails http server_url auth_token user_id email_id action"

fun shape_of_gitlab_user :: "gitlab_user_call \<Rightarrow> shape" where
  "shape_of_gitlab_user (Gitlab_get_user_details _ _ _) = Returns_body"
| "shape_of_gitlab_user (Gitlab_update_user_details _ _ _ _ _) = Returns_body"
| "shape_of_gitlab_user (List_user_projects _ _ _) = Returns_body"
| "shape_of_gitlab_user (List_user_ssh_keys _ _ _) = Returns_body"
| "shape_of_gitlab_user (List_user_emails _ _ _) = Returns_body"
| "shape_of_gitlab_user (Manage_user_projects _ _ _ _ _) = Returns_body"
| "shape_of_gitlab_user (Manage_user_ssh_keys _ _ _ _ _) =
     Returns_message ''SSH key managed successfully.''"
| "shape_of_gitlab_user (Manage_user_emails _ _ _ _ _) =
     Returns_message ''Email address managed successfully.''"

section \<open>GitLab: wiki\<close>

text \<open>The functions of \<^verbatim>\<open>actions/gitlab/wiki.py\<close>, in the order of the file.\<close>

definition create_wiki_page ::
  "http_layer \<Rightarrow> string \<Rightarrow> string \<Rightarrow> int \<Rightarrow>
     string \<Rightarrow> string \<Rightarrow> pyval py" where
  "create_wiki_page http server_url auth_token project_id title content' =
     (let url' = server_url @ ''/api/v4/projects/'' @ str_int project_id @ ''/wikis'';
          headers' = [(''Authorization'', ''Bearer '' @ auth_token)];
          payload = PDict [(''title'', PStr title), (''content'', PStr content')]
      in try_except
           (bind (requests_call http
                    ((bare POST url')\<lparr>headers := Some headers',
                                             json := Some payload\<rparr>))
              (\<lambda>response. bind (raise_for_status response)
              (\<lambda>_. response_json response)))
           log_and_return_str)"

definition read_wiki_page ::
  "http_layer \<Rightarrow> string \<Rightarrow> string \<Rightarrow> int \<Rightarrow>
     string \<Rightarrow> pyval py" where
  "read_wiki_page http server_url auth_token project_id slug =
     (let url' = server_url @ ''/api/v4/projects/'' @ str_int project_id @ ''/wikis/'' @ slug;
          headers' = [(''Authorization'', ''Bearer '' @ auth_token)]
      in try_except
           (bind (requests_call http
                    ((bare GET url')\<lparr>headers := Some headers'\<rparr>))
              (\<lambda>response. bind (raise_for_status response)
              (\<lambda>_. response_json response)))
           log_and_return_str)"

definition update_wiki_page ::
  "http_layer \<Rightarrow> string \<Rightarrow> string \<Rightarrow> int \<Rightarrow>
     string \<Rightarrow> string \<Rightarrow> string \<Rightarrow> pyval py" where
  "update_wiki_page http server_url auth_token project_id slug title content' =
     (let url' = server_url @ ''/api/v4/projects/'' @ str_int project_id @ ''/wikis/'' @ slug;
          headers' = [(''Authorization'', ''Bearer '' @ auth_token)];
          payload = PDict [(''title'', PStr title), (''content'', PStr content')]
      in try_except
           (bind (requests_call http
                    ((bare PUT url')\<lparr>headers := Some headers', json := Some payload\<rparr>))
              (\<lambda>response. bind (raise_for_status response)
              (\<lambda>_. response_json response)))
           log_and_return_str)"

definition delete_wiki_page ::
  "http_layer \<Rightarrow> string \<Rightarrow> string \<Rightarrow> int \<Rightarrow>
     string \<Rightarrow> pyval py" where
  "delete_wiki_page http server_url auth_token project_id slug =
     (let url' = server_url @ ''/api/v4/projects/'' @ str_int project_id @ ''/wikis/'' @ slug;
          headers' = [(''Authorization'', ''Bearer '' @ auth_token)]
      in try_except
           (bind (requests_call http
                    ((bare DELETE url')\<lparr>headers := Some headers'\<rparr>))
              (\<lambda>response. bind (raise_for_status response)
              (\<lambda>_. ret (PStr ''Wiki page deleted successfully.''))))
           log_and_return_str)"

datatype gitlab_wiki_call =
    Create_wiki_page string string int string string
  | Read_wiki_page string string int string
  | Update_wiki_page string string int string string string
  | Delete_wiki_page string string int string

fun run_gitlab_wiki :: "http_layer \<Rightarrow> gitlab_wiki_call \<Rightarrow> pyval py" where
  "run_gitlab_wiki http (Create_wiki_page server_url auth_token project_id title content') =
     create_wiki_page http server_url auth_token project_id title content'"
| "run_gitlab_wiki http (Read_wiki_page server_url auth_token project_id slug) =
     read_wiki_page http server_url auth_token project_id slug"
| "run_gitlab_wiki http (Update_wiki_page server_url auth_token project_id slug title content') =
     update_wiki_page http server_url auth_token project_id slug title content'"
| "run_gitlab_wiki http (Delete_wiki_page server_url auth_token project_id slug) =
     delete_wiki_page http server_url auth_token project_id slug"

fun shape_of_gitlab_wiki :: "gitlab_wiki_call \<Rightarrow> shape" where
  "shape_of_gitlab_wiki (Create_wiki_page _ _ _ _ _) = Returns_body"
| "shape_of_gitlab_wiki (Read_wiki_page _ _ _ _) = Returns_body"
| "shape_of_gitlab_wiki (Update_wiki_page _ _ _ _ _ _) = Returns_body"
| "shape_of_gitlab_wiki (Delete_wiki_page _ _ _ _) =
     Returns_message ''Wiki page deleted successfully.''"

section \<open>Jira: boards\<close>

text \<open>The functions of \<^verbatim>\<open>actions/jira/boards.py\<close>, in the order of the file.\<close>

definition create_board ::
  "http_layer \<Rightarrow> string \<Rightarrow> (string \<times> string) list \<Rightarrow>
     string \<Rightarrow> string \<Rightarrow> string \<Rightarrow> pyval py" where
  "create_board http server_url auth' board_name board_type project_key =
     (let url' = server_url @ ''/rest/agile/1.0/board'';
          headers' = [(''Content-Type'', ''application/json'')];
          payload = PDict [
                      (''name'', PStr board_name),
                      (''type'', PStr board_type),
                      (''location'', PDict [(''projectKey'', PStr project_key)])]
      in try_except
           (bind (subscript auth' ''username'')
              (\<lambda>username. bind (subscript auth' ''password'')
              (\<lambda>password. bind (requests_call http
                       ((bare POST url')\<lparr>headers := Some headers', json := Some payload,
                                                auth := Some (username, password)\<rparr>))
              (\<lambda>response. bind (raise_for_status response)
              (\<lambda>_. response_json response)))))
           log_and_return_str)"

definition read_board ::
  "http_layer \<Rightarrow> string \<Rightarrow> (string \<times> string) list \<Rightarrow>
     int \<Rightarrow> pyval py" where
  "read_board http server_url auth' board_id =
     (let url' = server_url @ ''/rest/agile/1.0/board/'' @ str_int board_id;
          headers' = [(''Content-Type'', ''application/json'')]
      in try_except
           (bind (subscript auth' ''username'')
              (\<lambda>username. bind (subscript auth' ''password'')
              (\<lambda>password. bind (requests_call http
                       ((bare GET url')\<lparr>headers := Some headers',
                                               auth := Some (username, password)\<rparr>))
              (\<lambda>response. bind (raise_for_status response)
              (\<lambda>_. response_json response)))))
           log_and_return_str)"

text \<open>\<open>update_board\<close> is a placeholder: it logs a warning and makes no call.\<close>

definition update_board ::
  "http_layer \<Rightarrow> string \<Rightarrow> (string \<times> string) list \<Rightarrow> int \<Rightarrow> string \<Rightarrow> string \<Rightarrow> pyval py" where
  "update_board http server_url auth' board_id new_name new_type =
     bind (logging_warning
             ''Jira API may not support direct board updates. This is a placeholder function.'')
       (\<lambda>_. ret (PStr ''Board update feature may not be supported by Jira API.''))"

definition delete_board ::
  "http_layer \<Rightarrow> string \<Rightarrow> (string \<times> string) list \<Rightarrow>
     int \<Rightarrow> pyval py" where
  "delete_board http server_url auth' board_id =
     (let url' = server_url @ ''/rest/agile/1.0/board/'' @ str_int board_id;
          headers' = [(''Content-Type'', ''application/json'')]
      in try_except
           (bind (subscript auth' ''username'')
              (\<lambda>username. bind (subscript auth' ''password'')
              (\<lambda>password. bind (requests_call http
                       ((bare DELETE url')\<lparr>headers := Some headers',
                                                  auth := Some (username, password)\<rparr>))
              (\<lambda>response. bind (raise_for_status response)
              (\<lambda>_. ret (PStr ''Board deleted successfully.''))))))
           log_and_return_str)"

definition list_all_boards ::
  "http_layer \<Rightarrow> string \<Rightarrow> (string \<times> string) list \<Rightarrow>
     pyval py" where
  "list_all_boards http server_url auth' =
     (let url' = server_url @ ''/rest/agile/1.0/board'';
          headers' = [(''Content-Type'', ''application/json'')]
      in try_except
           (bind (subscript auth' ''username'')
              (\<lambda>username. bind (subscript auth' ''password'')
              (\<lambda>password. bind (requests_call http
                       ((bare GET url')\<lparr>headers := Some headers',
                                               auth := Some (username, password)\<rparr>))
              (\<lambda>response. bind (raise_for_status response)
              (\<lambda>_. bind (response_json response)
              (\<lambda>body. dict_get body ''values'' (PList [])))))))
           log_and_return_str)"

datatype jira_boards_call =
    Create_board string "(string \<times> string) list" string string string
  | Read_board string "(string \<times> string) list" int
  | Update_board string "(string \<times> string) list" int string string
  | Delete_board string "(string \<times> string) list" int
  | List_all_boards string "(string \<times> string) list"

fun run_jira_boards :: "http_layer \<Rightarrow> jira_boards_call \<Rightarrow> pyval py" where
  "run_jira_boards http (Create_board server_url auth' board_name board_type project_key) =
     create_board http server_url auth' board_name board_type project_key"
| "run_jira_boards http (Read_board server_url auth' board_id) =
     read_board http server_url auth' board_id"
| "run_jira_boards http (Update_board server_url auth' board_id new_name new_type) =
     update_board http server_url auth' board_id new_name new_type"
| "run_jira_boards http (Delete_board server_url auth' board_id) =
     delete_board http server_url auth' board_id"
| "run_jira_boards http (List_all_boards server_url auth') = list_all_boards http server_url auth'"

fun shape_of_jira_boards :: "jira_boards_call \<Rightarrow> shape" where
  "shape_of_jira_boards (Create_board _ _ _ _ _) = Returns_body"
| "shape_of_jira_boards (Read_board _ _ _) = Returns_body"
| "shape_of_jira_boards (Update_board _ _ _ _ _) =
     Placeholder ''Board update feature may not be supported by Jira API.''"
| "shape_of_jira_boards (Delete_board _ _ _) = Returns_message ''Board deleted successfully.''"
| "shape_of_jira_boards (List_all_boards _ _) = Returns_field ''values'' (PList [])"

section \<open>Jira: components\<close>

text \<open>The functions of \<^verbatim>\<open>actions/jira/components.py\<close>, in the order of the file.\<close>

definition create_component ::
  "http_layer \<Rightarrow> string \<Rightarrow> (string \<times> string) list \<Rightarrow>
     string \<Rightarrow> string \<Rightarrow> string \<Rightarrow> pyval py" where
  "create_component http server_url auth' project_id name description =
     (let url' = server_url @ ''/rest/api/2/component'';
          headers' = [(''Content-Type'', ''application/json'')];
          payload = PDict [
                      (''name'', PStr name),
                      (''description'', PStr description),
                      (''project'', PStr project_id)]
      in try_except
           (bind (subscript auth' ''username'')
              (\<lambda>username. bind (subscript auth' ''password'')
              (\<lambda>password. bind (requests_call http
                       ((bare POST url')\<lparr>headers := Some headers', json := Some payload,
                                                auth := Some (username, password)\<rparr>))
              (\<lambda>response. bind (raise_for_status response)
              (\<lambda>_. response_json response)))))
           log_and_return_str)"

definition read_component ::
  "http_layer \<Rightarrow> string \<Rightarrow> (string \<times> string) list \<Rightarrow>
     string \<Rightarrow> pyval py" where
  "read_component http server_url auth' component_id =
     (let url' = server_url @ ''/rest/api/2/component/'' @ component_id;
          headers' = [(''Content-Type'', ''application/json'')]
      in try_except
           (bind (subscript auth' ''username'')
              (\<lambda>username. bind (subscript auth' ''password'')
              (\<lambda>password. bind (requests_call http
                       ((bare GET url')\<lparr>headers := Some headers',
                                               auth := Some (username, password)\<rparr>))
              (\<lambda>response. bind (raise_for_status response)
              (\<lambda>_. response_json response)))))
           log_and_return_str)"

definition update_component ::
  "http_layer \<Rightarrow> string \<Rightarrow> (string \<times> string) list \<Rightarrow>
     string \<Rightarrow> string \<Rightarrow> string \<Rightarrow> pyval py" where
  "update_component http server_url auth' component_id new_name new_description =
     (let url' = server_url @ ''/rest/api/2/component/'' @ component_id;
          headers' = [(''Content-Type'', ''application/json'')];
          payload = PDict [(''name'', PStr new_name), (''description'', PStr new_description)]
      in try_except
           (bind (subscript auth' ''username'')
              (\<lambda>username. bind (subscript auth' ''password'')
              (\<lambda>password. bind (requests_call http
                       ((bare PUT url')\<lparr>headers := Some headers', json := Some payload,
                                               auth := Some (username, password)\<rparr>))
              (\<lambda>response. bind (raise_for_status response)
              (\<lambda>_. response_json response)))))
           log_and_return_str)"

definition delete_component ::
  "http_layer \<Rightarrow> string \<Rightarrow> (string \<times> string) list \<Rightarrow>
     string \<Rightarrow> pyval py" where
  "delete_component http server_url auth' component_id =
     (let url' = server_url @ ''/rest/api/2/component/'' @ component_id;
          headers' = [(''Content-Type'', ''application/json'')]
      in try_except
           (bind (subscript auth' ''username'')
              (\<lambda>username. bind (subscript auth' ''password'')
              (\<lambda>password. bind (requests_call http
                       ((bare DELETE url')\<lparr>headers := Some headers',
                                                  auth := Some (username, password)\<rparr>))
              (\<lambda>response. bind (raise_for_status response)
              (\<lambda>_. ret (PStr ''Component deleted successfully.''))))))
           log_and_return_str)"

definition list_all_components ::
  "http_layer \<Rightarrow> string \<Rightarrow> (string \<times> string) list \<Rightarrow>
     string \<Rightarrow> pyval py" where
  "list_all_components http server_url auth' project_id =
     (let url' = server_url @ ''/rest/api/2/project/'' @ project_id @ ''/components'';
          headers' = [(''Content-Type'', ''application/json'')]
      in try_except
           (bind (subscript auth' ''username'')
              (\<lambda>username. bind (subscript auth' ''password'')
              (\<lambda>password. bind (requests_call http
                       ((bare GET url')\<lparr>headers := Some headers',
                                               auth := Some (username, password)\<rparr>))
              (\<lambda>response. bind (raise_for_status response)
              (\<lambda>_. response_json response)))))
           log_and_return_str)"

datatype jira_components_call =
    Create_component string "(string \<times> string) list" string string string
  | Read_component string "(string \<times> string) list" string
  | Update_component string "(string \<times> string) list" string string string
  | Delete_component string "(string \<times> string) list" string
  | List_all_components string "(string \<times> string) list" string

fun run_jira_components :: "http_layer \<Rightarrow> jira_components_call \<Rightarrow> pyval py" where
  "run_jira_components http (Create_component server_url auth' project_id name description) =
     create_component http server_url auth' project_id name description"
| "run_jira_components http (Read_component server_url auth' component_id) =
     read_component http server_url auth' component_id"
| "run_jira_components http (Update_component server_url auth' component_id new_name new_description) =
     update_component http server_url auth' component_id new_name new_description"
| "run_jira_components http (Delete_component server_url auth' component_id) =
     delete_component http server_url auth' component_id"
| "run_jira_components http (List_all_components server_url auth' project_id) =
     list_all_components http server_url auth' project_id"

fun shape_of_jira_components :: "jira_components_call \<Rightarrow> shape" where
  "shape_of_jira_components (Create_component _ _ _ _ _) = Returns_body"
| "shape_of_jira_components (Read_component _ _ _) = Returns_body"
| "shape_of_jira_components (Update_component _ _ _ _ _) = Returns_body"
| "shape_of_jira_components (Delete_component _ _ _) =
     Returns_message ''Component deleted successfully.''"
| "shape_of_jira_components (List_all_components _ _ _) = Returns_body"

section \<open>Jira: filters\<close>

text \<open>The functions of \<^verbatim>\<open>actions/jira/filters.py\<close>, in the order of the file.\<close>

definition create_filter ::
  "http_layer \<Rightarrow> string \<Rightarrow> (string \<times> string) list \<Rightarrow>
     string \<Rightarrow> string \<Rightarrow> string \<Rightarrow> pyval py" where
  "create_filter http server_url auth' name jql description =
     (let url' = server_url @ ''/rest/api/2/filter'';
          headers' = [(''Content-Type'', ''application/json'')];
          payload = PDict [
                      (''name'', PStr name),
                      (''jql'', PStr jql),
                      (''description'', PStr description)]
      in try_except
           (bind (subscript auth' ''username'')
              (\<lambda>username. bind (subscript auth' ''password'')
              (\<lambda>password. bind (requests_call http
                       ((bare POST url')\<lparr>headers := Some headers', json := Some payload,
                                                auth := Some (username, password)\<rparr>))
              (\<lambda>response. bind (raise_for_status response)
              (\<lambda>_. response_json response)))))
           log_and_return_str)"

definition read_filter ::
  "http_layer \<Rightarrow> string \<Rightarrow> (string \<times> string) list \<Rightarrow>
     int \<Rightarrow> pyval py" where
  "read_filter http server_url auth' filter_id =
     (let url' = server_url @ ''/rest/api/2/filter/'' @ str_int filter_id;
          headers' = [(''Content-Type'', ''application/json'')]
      in try_except
           (bind (subscript auth' ''username'')
              (\<lambda>username. bind (subscript auth' ''password'')
              (\<lambda>password. bind (requests_call http
                       ((bare GET url')\<lparr>headers := Some headers',
                                               auth := Some (username, password)\<rparr>))
              (\<lambda>response. bind (raise_for_status response)
              (\<lambda>_. response_json response)))))
           log_and_return_str)"

definition update_filter ::
  "http_layer \<Rightarrow> string \<Rightarrow> (string \<times> string) list \<Rightarrow>
     int \<Rightarrow> string \<Rightarrow> string \<Rightarrow> string \<Rightarrow>
     pyval py" where
  "update_filter http server_url auth' filter_id new_name new_jql new_description =
     (let url' = server_url @ ''/rest/api/2/filter/'' @ str_int filter_id;
          headers' = [(''Content-Type'', ''application/json'')];
          payload = PDict [
                      (''name'', PStr new_name),
                      (''jql'', PStr new_jql),
                      (''description'', PStr new_description)]
      in try_except
           (bind (subscript auth' ''username'')
              (\<lambda>username. bind (subscript auth' ''password'')
              (\<lambda>password. bind (requests_call http
                       ((bare PUT url')\<lparr>headers := Some headers', json := Some payload,
                                               auth := Some (username, password)\<rparr>))
              (\<lambda>response. bind (raise_for_status response)
              (\<lambda>_. response_json response)))))
           log_and_return_str)"

definition delete_filter ::
  "http_layer \<Rightarrow> string \<Rightarrow> (string \<times> string) list \<Rightarrow>
     int \<Rightarrow> pyval py" where
  "delete_filter http server_url auth' filter_id =
     (let url' = server_url @ ''/rest/api/2/filter/'' @ str_int filter_id;
          headers' = [(''Content-Type'', ''application/json'')]
      in try_except
           (bind (subscript auth' ''username'')
              (\<lambda>username. bind (subscript auth' ''password'')
              (\<lambda>password. bind (requests_call http
                       ((bare DELETE url')\<lparr>headers := Some headers',
                                                  auth := Some (username, password)\<rparr>))
              (\<lambda>response. bind (raise_for_status response)
              (\<lambda>_. ret (PStr ''Filter deleted successfully.''))))))
           log_and_return_str)"

definition list_all_filters ::
  "http_layer \<Rightarrow> string \<Rightarrow> (string \<times> string) list \<Rightarrow>
     pyval py" where
  "list_all_filters http server_url auth' =
     (let url' = server_url @ ''/rest/api/2/filter'';
          headers' = [(''Content-Type'', ''application/json'')]
      in try_except
           (bind (subscript auth' ''username'')
              (\<lambda>username. bind (subscript auth' ''password'')
              (\<lambda>password. bind (requests_call http
                       ((bare GET url')\<lparr>headers := Some headers',
                                               auth := Some (username, password)\<rparr>))
              (\<lambda>response. bind (raise_for_status response)
              (\<lambda>_. bind (response_json response)
              (\<lambda>body. dict_get body ''values'' (PList [])))))))
           log_and_return_str)"

datatype jira_filters_call =
    Create_filter string "(string \<times> string) list" string string string
  | Read_filter string "(string \<times> string) list" int
  | Update_filter string "(string \<times> string) list" int string string string
  | Delete_filter string "(string \<times> string) list" int
  | List_all_filters string "(string \<times> string) list"

fun run_jira_filters :: "http_layer \<Rightarrow> jira_filters_call \<Rightarrow> pyval py" where
  "run_jira_filters http (Create_filter server_url auth' name jql description) =
     create_filter http server_url auth' name jql description"
| "run_jira_filters http (Read_filter server_url auth' filter_id) =
     read_filter http server_url auth' filter_id"
| "run_jira_filters http (Update_filter server_url auth' filter_id new_name new_jql new_description) =
     update_filter http server_url auth' filter_id new_name new_jql new_description"
| "run_jira_filters http (Delete_filter server_url auth' filter_id) =
     delete_filter http server_url auth' filter_id"
| "run_jira_filters http (List_all_filters server_url auth') =
     list_all_filters http server_url auth'"

fun shape_of_jira_filters :: "jira_filters_call \<Rightarrow> shape" where
  "shape_of_jira_filters (Create_filter _ _ _ _ _) = Returns_body"
| "shape_of_jira_filters (Read_filter _ _ _) = Returns_body"
| "shape_of_jira_filters (Update_filter _ _ _ _ _ _) = Returns_body"
| "shape_of_jira_filters (Delete_filter _ _ _) = Returns_message ''Filter deleted successfully.''"
| "shape_of_jira_filters (List_all_filters _ _) = Returns_field ''values'' (PList [])"

section \<open>Jira: group\<close>

text \<open>The functions of \<^verbatim>\<open>actions/jira/group.py\<close>, in the order of the file.\<close>

definition jira_create_group ::
  "http_layer \<Rightarrow> string \<Rightarrow> (string \<times> string) list \<Rightarrow>
     string \<Rightarrow> pyval py" where
  "jira_create_group http server_url auth' group_name =
     (let url' = server_url @ ''/rest/api/2/group'';
          headers' = [(''Content-Type'', ''application/json'')];
          payload = PDict [(''name'', PStr group_name)]
      in try_except
           (bind (subscript auth' ''username'')
              (\<lambda>username. bind (subscript auth' ''password'')
              (\<lambda>password. bind (requests_call http
                       ((bare POST url')\<lparr>headers := Some headers', json := Some payload,
                                                auth := Some (username, password)\<rparr>))
              (\<lambda>response. bind (raise_for_status response)
              (\<lambda>_. response_json response)))))
           log_and_return_str)"

definition jira_read_group ::
  "http_layer \<Rightarrow> string \<Rightarrow> (string \<times> string) list \<Rightarrow>
     string \<Rightarrow> pyval py" where
  "jira_read_group http server_url auth' group_name =
     (let url' = server_url @ ''/rest/api/2/group'';
          headers' = [(''Content-Type'', ''application/json'')];
          params' = [(''groupname'', PStr group_name)]
      in try_except
           (bind (subscript auth' ''username'')
              (\<lambda>username. bind (subscript auth' ''password'')
              (\<lambda>password. bind (requests_call http
                       ((bare GET url')\<lparr>headers := Some headers', params := Some params',
                                               auth := Some (username, password)\<rparr>))
              (\<lambda>response. bind (raise_for_status response)
              (\<lambda>_. response_json response)))))
           log_and_return_str)"

definition jira_update_group ::
  "http_layer \<Rightarrow> string \<Rightarrow> (string \<times> string) list \<Rightarrow> string \<Rightarrow> string \<Rightarrow> pyval py" where
  "jira_update_group http server_url auth' group_name new_name =
     bind (logging_warning
             ''Jira API may not support direct group name updates. This is a placeholder function.'')
       (\<lambda>_. ret (PStr ''Group update feature may not be supported by Jira API.''))"

definition jira_delete_group ::
  "http_layer \<Rightarrow> string \<Rightarrow> (string \<times> string) list \<Rightarrow>
     string \<Rightarrow> pyval py" where
  "jira_delete_group http server_url auth' group_name =
     (let url' = server_url @ ''/rest/api/2/group'';
          headers' = [(''Content-Type'', ''application/json'')];
          params' = [(''groupname'', PStr group_name)]
      in try_except
           (bind (subscript auth' ''username'')
              (\<lambda>username. bind (subscript auth' ''password'')
              (\<lambda>password. bind (requests_call http
                       ((bare DELETE url')\<lparr>headers := Some headers', params := Some params',
                                                  auth := Some (username, password)\<rparr>))
              (\<lambda>response. bind (raise_for_status response)
              (\<lambda>_. ret (PStr ''Group deleted successfully.''))))))
           log_and_return_str)"

definition jira_list_all_groups ::
  "http_layer \<Rightarrow> string \<Rightarrow> (string \<times> string) list \<Rightarrow>
     pyval py" where
  "jira_list_all_groups http server_url auth' =
     (let url' = server_url @ ''/rest/api/2/groups/picker'';
          headers' = [(''Content-Type'', ''application/json'')]
      in try_except
           (bind (subscript auth' ''username'')
              (\<lambda>username. bind (subscript auth' ''password'')
              (\<lambda>password. bind (requests_call http
                       ((bare GET url')\<lparr>headers := Some headers',
                                               auth := Some (username, password)\<rparr>))
              (\<lambda>response. bind (raise_for_status response)
              (\<lambda>_. bind (response_json response)
              (\<lambda>body. dict_get body ''groups'' (PList [])))))))
           log_and_return_str)"

datatype jira_group_call =
    Jira_create_group string "(string \<times> string) list" string
  | Jira_read_group string "(string \<times> string) list" string
  | Jira_update_group string "(string \<times> string) list" string string
  | Jira_delete_group string "(string \<times> string) list" string
  | Jira_list_all_groups string "(string \<times> string) list"

fun run_jira_group :: "http_layer \<Rightarrow> jira_group_call \<Rightarrow> pyval py" where
  "run_jira_group http (Jira_create_group server_url auth' group_name) =
     jira_create_group http server_url auth' group_name"
| "run_jira_group http (Jira_read_group server_url auth' group_name) =
     jira_read_group http server_url auth' group_name"
| "run_jira_group http (Jira_update_group server_url auth' group_name new_name) =
     jira_update_group http server_url auth' group_name new_name"
| "run_jira_group http (Jira_delete_group server_url auth' group_name) =
     jira_delete_group http server_url auth' group_name"
| "run_jira_group http (Jira_list_all_groups server_url auth') =
     jira_list_all_groups http server_url auth'"

fun shape_of_jira_group :: "jira_group_call \<Rightarrow> shape" where
  "shape_of_jira_group (Jira_create_group _ _ _) = Returns_body"
| "shape_of_jira_group (Jira_read_group _ _ _) = Returns_body"
| "shape_of_jira_group (Jira_update_group _ _ _ _) =
     Placeholder ''Group update feature may not be supported by Jira API.''"
| "shape_of_jira_group (Jira_delete_group _ _ _) = Returns_message ''Group deleted successfully.''"
| "shape_of_jira_group (Jira_list_all_groups _ _) = Returns_field ''groups'' (PList [])"

section \<open>Jira: issues\<close>

text \<open>The functions of \<^verbatim>\<open>actions/jira/issues.py\<close>, in the order of the file.\<close>

definition jira_create_issue ::
  "http_layer \<Rightarrow> string \<Rightarrow> (string \<times> string) list \<Rightarrow> string \<Rightarrow> string \<Rightarrow> string \<Rightarrow> string
     \<Rightarrow> pyval py" where
  "jira_create_issue http server_url auth' project_key issue_type summary description =
     (let url' = server_url @ ''/rest/api/2/issue'';
          headers' = [(''Content-Type'', ''application/json'')];
          payload = PDict [(''fields'', PDict [
            (''project'', PDict [(''key'', PStr project_key)]),
            (''issuetype'', PDict [(''name'', PStr issue_type)]),
            (''summary'', PStr summary),
            (''description'', PStr description)])]
      in try_except
           (bind (subscript auth' ''username'')
              (\<lambda>username. bind (subscript auth' ''password'')
              (\<lambda>password. bind (requests_call http
                    ((bare POST url')\<lparr>headers := Some headers', json := Some payload,
                                      auth := Some (username, password)\<rparr>))
              (\<lambda>response. bind (raise_for_status response)
              (\<lambda>_. response_json response)))))
           log_and_return_str)"

definition jira_read_issue ::
  "http_layer \<Rightarrow> string \<Rightarrow> (string \<times> string) list \<Rightarrow> string \<Rightarrow> pyval py" where
  "jira_read_issue http server_url auth' issue_key =
     (let url' = server_url @ ''/rest/api/2/issue/'' @ issue_key;
          headers' = [(''Content-Type'', ''application/json'')]
      in try_except
           (bind (subscript auth' ''username'')
              (\<lambda>username. bind (subscript auth' ''password'')
              (\<lambda>password. bind (requests_call http
                    ((bare GET url')\<lparr>headers := Some headers',
                                     auth := Some (username, password)\<rparr>))
              (\<lambda>response. bind (raise_for_status response)
              (\<lambda>_. response_json response)))))
           log_and_return_str)"

definition jira_update_issue ::
  "http_layer \<Rightarrow> string \<Rightarrow> (string \<times> string) list \<Rightarrow>
     string \<Rightarrow> pyval \<Rightarrow> pyval py" where
  "jira_update_issue http server_url auth' issue_key fields' =
     (let url' = server_url @ ''/rest/api/2/issue/'' @ issue_key;
          headers' = [(''Content-Type'', ''application/json'')];
          payload = PDict [(''fields'', fields')]
      in try_except
           (bind (subscript auth' ''username'')
              (\<lambda>username. bind (subscript auth' ''password'')
              (\<lambda>password. bind (requests_call http
                       ((bare PUT url')\<lparr>headers := Some headers', json := Some payload,
                                               auth := Some (username, password)\<rparr>))
              (\<lambda>response. bind (raise_for_status response)
              (\<lambda>_. response_json response)))))
           log_and_return_str)"

definition jira_delete_issue ::
  "http_layer \<Rightarrow> string \<Rightarrow> (string \<times> string) list \<Rightarrow>
     string \<Rightarrow> pyval py" where
  "jira_delete_issue http server_url auth' issue_key =
     (let url' = server_url @ ''/rest/api/2/issue/'' @ issue_key;
          headers' = [(''Content-Type'', ''application/json'')]
      in try_except
           (bind (subscript auth' ''username'')
              (\<lambda>username. bind (subscript auth' ''password'')
              (\<lambda>password. bind (requests_call http
                       ((bare DELETE url')\<lparr>headers := Some headers',
                                                  auth := Some (username, password)\<rparr>))
              (\<lambda>response. bind (raise_for_status response)
              (\<lambda>_. ret (PStr ''Issue deleted successfully.''))))))
           log_and_return_str)"

text \<open>
  \<open>fields if fields else "summary,key"\<close>: \<open>None\<close> and the empty list both give the
  default.
\<close>

definition list_issues_by_filter ::
  "http_layer \<Rightarrow> string \<Rightarrow> (string \<times> string) list \<Rightarrow> string \<Rightarrow> string list option
     \<Rightarrow> pyval py" where
  "list_issues_by_filter http server_url auth' jql fields' =
     (let url' = server_url @ ''/rest/api/2/search'';
          headers' = [(''Content-Type'', ''application/json'')];
          params' = [(''jql'', PStr jql),
                     (''fields'',
                       (case fields' of
                          None \<Rightarrow> PStr ''summary,key''
                        | Some fl \<Rightarrow>
                            if fl \<noteq> [] then PList (map PStr fl) else PStr ''summary,key''))]
      in try_except
           (bind (subscript auth' ''username'')
              (\<lambda>username. bind (subscript auth' ''password'')
              (\<lambda>password. bind (requests_call http
                       ((bare GET url')\<lparr>headers := Some headers', params := Some params',
                                        auth := Some (username, password)\<rparr>))
              (\<lambda>response. bind (raise_for_status response)
              (\<lambda>_. response_json response)))))
           log_and_return_str)"

definition add_comment_to_issue ::
  "http_layer \<Rightarrow> string \<Rightarrow> (string \<times> string) list \<Rightarrow>
     string \<Rightarrow> string \<Rightarrow> pyval py" where
  "add_comment_to_issue http server_url auth' issue_key comment =
     (let url' = server_url @ ''/rest/api/2/issue/'' @ issue_key @ ''/comment'';
          headers' = [(''Content-Type'', ''application/json'')];
          payload = PDict [(''body'', PStr comment)]
      in try_except
           (bind (subscript auth' ''username'')
              (\<lambda>username. bind (subscript auth' ''password'')
              (\<lambda>password. bind (requests_call http
                       ((bare POST url')\<lparr>headers := Some headers', json := Some payload,
                                                auth := Some (username, password)\<rparr>))
              (\<lambda>response. bind (raise_for_status response)
              (\<lambda>_. response_json response)))))
           log_and_return_str)"

definition update_comment_in_issue ::
  "http_layer \<Rightarrow> string \<Rightarrow> (string \<times> string) list \<Rightarrow>
     string \<Rightarrow> string \<Rightarrow> string \<Rightarrow> pyval py" where
  "update_comment_in_issue http server_url auth' issue_key comment_id new_comment =
     (let url' = server_url @ ''/rest/api/2/issue/'' @ issue_key @ ''/comment/'' @ comment_id;
          headers' = [(''Content-Type'', ''application/json'')];
          payload = PDict [(''body'', PStr new_comment)]
      in try_except
           (bind (subscript auth' ''username'')
              (\<lambda>username. bind (subscript auth' ''password'')
              (\<lambda>password. bind (requests_call http
                       ((bare PUT url')\<lparr>headers := Some headers', json := Some payload,
                                               auth := Some (username, password)\<rparr>))
              (\<lambda>response. bind (raise_for_status response)
              (\<lambda>_. response_json response)))))
           log_and_return_str)"

definition delete_comment_from_issue ::
  "http_layer \<Rightarrow> string \<Rightarrow> (string \<times> string) list \<Rightarrow>
     string \<Rightarrow> string \<Rightarrow> pyval py" where
  "delete_comment_from_issue http server_url auth' issue_key comment_id =
     (let url' = server_url @ ''/rest/api/2/issue/'' @ issue_key @ ''/comment/'' @ comment_id;
          headers' = [(''Content-Type'', ''application/json'')]
      in try_except
           (bind (subscript auth' ''username'')
              (\<lambda>username. bind (subscript auth' ''password'')
              (\<lambda>password. bind (requests_call http
                       ((bare DELETE url')\<lparr>headers := Some headers',
                                                  auth := Some (username, password)\<rparr>))
              (\<lambda>response. bind (raise_for_status response)
              (\<lambda>_. ret (PStr ''Comment deleted successfully.''))))))
           log_and_return_str)"

text \<open>
  \<open>add_attachment_to_issue\<close> opens the file inside the \<open>try\<close>, reads the credentials
  and makes the call inside the \<open>with\<close>, and looks at the status after it.
\<close>

definition add_attachment_to_issue ::
  "http_layer \<Rightarrow> string \<Rightarrow> (string \<times> string) list \<Rightarrow> string \<Rightarrow> string \<Rightarrow> pyval py" where
  "add_attachment_to_issue http server_url auth' issue_key file_path =
     (let url' = server_url @ ''/rest/api/2/issue/'' @ issue_key @ ''/attachments'';
          headers' = [(''X-Atlassian-Token'', ''no-check'')]
      in try_except
           (bind (open_rb file_path)
              (\<lambda>f. bind (subscript auth' ''username'')
              (\<lambda>username. bind (subscript auth' ''password'')
              (\<lambda>password. bind (requests_call http
                       ((bare POST url')\<lparr>headers := Some headers',
                                         upfiles := Some [(''file'', f)],
                                         auth := Some (username, password)\<rparr>))
              (\<lambda>response. bind (raise_for_status response)
              (\<lambda>_. response_json response))))))
           log_and_return_str)"

definition delete_attachment_from_issue ::
  "http_layer \<Rightarrow> string \<Rightarrow> (string \<times> string) list \<Rightarrow>
     string \<Rightarrow> pyval py" where
  "delete_attachment_from_issue http server_url auth' attachment_id =
     (let url' = server_url @ ''/rest/api/2/attachment/'' @ attachment_id;
          headers' = [(''Content-Type'', ''application/json'')]
      in try_except
           (bind (subscript auth' ''username'')
              (\<lambda>username. bind (subscript auth' ''password'')
              (\<lambda>password. bind (requests_call http
                       ((bare DELETE url')\<lparr>headers := Some headers',
                                                  auth := Some (username, password)\<rparr>))
              (\<lambda>response. bind (raise_for_status response)
              (\<lambda>_. ret (PStr ''Attachment deleted successfully.''))))))
           log_and_return_str)"

datatype jira_issues_call =
    Jira_create_issue string "(string \<times> string) list" string string string string
  | Jira_read_issue string "(string \<times> string) list" string
  | Jira_update_issue string "(string \<times> string) list" string pyval
  | Jira_delete_issue string "(string \<times> string) list" string
  | List_issues_by_filter string "(string \<times> string) list" string "string list option"
  | Add_comment_to_issue string "(string \<times> string) list" string string
  | Update_comment_in_issue string "(string \<times> string) list" string string string
  | Delete_comment_from_issue string "(string \<times> string) list" string string
  | Add_attachment_to_issue string "(string \<times> string) list" string string
  | Delete_attachment_from_issue string "(string \<times> string) list" string

fun run_jira_issues :: "http_layer \<Rightarrow> jira_issues_call \<Rightarrow> pyval py" where
  "run_jira_issues http (Jira_create_issue server_url auth' project_key issue_type summary description) =
     jira_create_issue http server_url auth' project_key issue_type summary description"
| "run_jira_issues http (Jira_read_issue server_url auth' issue_key) =
     jira_read_issue http server_url auth' issue_key"
| "run_jira_issues http (Jira_update_issue server_url auth' issue_key fields') =
     jira_update_issue http server_url auth' issue_key fields'"
| "run_jira_issues http (Jira_delete_issue server_url auth' issue_key) =
     jira_delete_issue http server_url auth' issue_key"
| "run_jira_issues http (List_issues_by_filter server_url auth' jql fields') =
     list_issues_by_filter http server_url auth' jql fields'"
| "run_jira_issues http (Add_comment_to_issue server_url auth' issue_key comment) =
     add_comment_to_issue http server_url auth' issue_key comment"
| "run_jira_issues http (Update_comment_in_issue server_url auth' issue_key comment_id new_comment) =
     update_comment_in_issue http server_url auth' issue_key comment_id new_comment"
| "run_jira_issues http (Delete_comment_from_issue server_url auth' issue_key comment_id) =
     delete_comment_from_issue http server_url auth' issue_key comment_id"
| "run_jira_issues http (Add_attachment_to_issue server_url auth' issue_key file_path) =
     add_attachment_to_issue http server_url auth' issue_key file_path"
| "run_jira_issues http (Delete_attachment_from_issue server_url auth' attachment_id) =
     delete_attachment_from_issue http server_url auth' attachment_id"

fun shape_of_jira_issues :: "jira_issues_call \<Rightarrow> shape" where
  "shape_of_jira_issues (Jira_create_issue _ _ _ _ _ _) = Returns_body"
| "shape_of_jira_issues (Jira_read_issue _ _ _) = Returns_body"
| "shape_of_jira_issues (Jira_update_issue _ _ _ _) = Returns_body"
| "shape_of_jira_issues (Jira_delete_issue _ _ _) = Returns_message ''Issue deleted successfully.''"
| "shape_of_jira_issues (List_issues_by_filter _ _ _ _) = Returns_body"
| "shape_of_jira_issues (Add_comment_to_issue _ _ _ _) = Returns_body"
| "shape_of_jira_issues (Update_comment_in_issue _ _ _ _ _) = Returns_body"
| "shape_of_jira_issues (Delete_comment_from_issue _ _ _ _) =
     Returns_message ''Comment deleted successfully.''"
| "shape_of_jira_issues (Add_attachment_to_issue _ _ _ _) = Returns_body"
| "shape_of_jira_issues (Delete_attachment_from_issue _ _ _) =
     Returns_message ''Attachment deleted successfully.''"


section \<open>Jira: sprint\<close>

text \<open>The functions of \<^verbatim>\<open>actions/jira/sprint.py\<close>, in the order of the file.\<close>

definition create_sprint ::
  "http_layer \<Rightarrow> string \<Rightarrow> (string \<times> string) list \<Rightarrow>
     int \<Rightarrow> string \<Rightarrow> string \<Rightarrow> string \<Rightarrow>
     pyval py" where
  "create_sprint http server_url auth' board_id sprint_name start_date end_date =
     (let url' = server_url @ ''/rest/agile/1.0/board/'' @ str_int board_id @ ''/sprint'';
          headers' = [(''Content-Type'', ''application/json'')];
          payload = PDict [
                      (''name'', PStr sprint_name),
                      (''startDate'', PStr start_date),
                      (''endDate'', PStr end_date)]
      in try_except
           (bind (subscript auth' ''username'')
              (\<lambda>username. bind (subscript auth' ''password'')
              (\<lambda>password. bind (requests_call http
                       ((bare POST url')\<lparr>headers := Some headers', json := Some payload,
                                                auth := Some (username, password)\<rparr>))
              (\<lambda>response. bind (raise_for_status response)
              (\<lambda>_. response_json response)))))
           log_and_return_str)"

definition read_sprint ::
  "http_layer \<Rightarrow> string \<Rightarrow> (string \<times> string) list \<Rightarrow>
     int \<Rightarrow> pyval py" where
  "read_sprint http server_url auth' sprint_id =
     (let url' = server_url @ ''/rest/agile/1.0/sprint/'' @ str_int sprint_id;
          headers' = [(''Content-Type'', ''application/json'')]
      in try_except
           (bind (subscript auth' ''username'')
              (\<lambda>username. bind (subscript auth' ''password'')
              (\<lambda>password. bind (requests_call http
                       ((bare GET url')\<lparr>headers := Some headers',
                                               auth := Some (username, password)\<rparr>))
              (\<lambda>response. bind (raise_for_status response)
              (\<lambda>_. response_json response)))))
           log_and_return_str)"

definition update_sprint ::
  "http_layer \<Rightarrow> string \<Rightarrow> (string \<times> string) list \<Rightarrow>
     int \<Rightarrow> string \<Rightarrow> string \<Rightarrow> string \<Rightarrow>
     pyval py" where
  "update_sprint http server_url auth' sprint_id new_name new_start_date new_end_date =
     (let url' = server_url @ ''/rest/agile/1.0/sprint/'' @ str_int sprint_id;
          headers' = [(''Content-Type'', ''application/json'')];
          payload = PDict [
                      (''name'', PStr new_name),
                      (''startDate'', PStr new_start_date),
                      (''endDate'', PStr new_end_date)]
      in try_except
           (bind (subscript auth' ''username'')
              (\<lambda>username. bind (subscript auth' ''password'')
              (\<lambda>password. bind (requests_call http
                       ((bare PUT url')\<lparr>headers := Some headers', json := Some payload,
                                               auth := Some (username, password)\<rparr>))
              (\<lambda>response. bind (raise_for_status response)
              (\<lambda>_. response_json response)))))
           log_and_return_str)"

definition delete_sprint ::
  "http_layer \<Rightarrow> string \<Rightarrow> (string \<times> string) list \<Rightarrow>
     int \<Rightarrow> pyval py" where
  "delete_sprint http server_url auth' sprint_id =
     (let url' = server_url @ ''/rest/agile/1.0/sprint/'' @ str_int sprint_id;
          headers' = [(''Content-Type'', ''application/json'')]
      in try_except
           (bind (subscript auth' ''username'')
              (\<lambda>username. bind (subscript auth' ''password'')
              (\<lambda>password. bind (requests_call http
                       ((bare DELETE url')\<lparr>headers := Some headers',
                                                  auth := Some (username, password)\<rparr>))
              (\<lambda>response. bind (raise_for_status response)
              (\<lambda>_. ret (PStr ''Sprint deleted successfully.''))))))
           log_and_return_str)"

definition list_all_sprints ::
  "http_layer \<Rightarrow> string \<Rightarrow> (string \<times> string) list \<Rightarrow>
     int \<Rightarrow> pyval py" where
  "list_all_sprints http server_url auth' board_id =
     (let url' = server_url @ ''/rest/agile/1.0/board/'' @ str_int board_id @ ''/sprint'';
          headers' = [(''Content-Type'', ''application/json'')]
      in try_except
           (bind (subscript auth' ''username'')
              (\<lambda>username. bind (subscript auth' ''password'')
              (\<lambda>password. bind (requests_call http
                       ((bare GET url')\<lparr>headers := Some headers',
                                               auth := Some (username, password)\<rparr>))
              (\<lambda>response. bind (raise_for_status response)
              (\<lambda>_. bind (response_json response)
              (\<lambda>body. dict_get body ''values'' (PList [])))))))
           log_and_return_str)"

datatype jira_sprint_call =
    Create_sprint string "(string \<times> string) list" int string string string
  | Read_sprint string "(string \<times> string) list" int
  | Update_sprint string "(string \<times> string) list" int string string string
  | Delete_sprint string "(string \<times> string) list" int
  | List_all_sprints string "(string \<times> string) list" int

fun run_jira_sprint :: "http_layer \<Rightarrow> jira_sprint_call \<Rightarrow> pyval py" where
  "run_jira_sprint http (Create_sprint server_url auth' board_id sprint_name start_date end_date) =
     create_sprint http server_url auth' board_id sprint_name start_date end_date"
| "run_jira_sprint http (Read_sprint server_url auth' sprint_id) =
     read_sprint http server_url auth' sprint_id"
| "run_jira_sprint http (Update_sprint server_url auth' sprint_id new_name new_start_date new_end_date) =
     update_sprint http server_url auth' sprint_id new_name new_start_date new_end_date"
| "run_jira_sprint http (Delete_sprint server_url auth' sprint_id) =
     delete_sprint http server_url auth' sprint_id"
| "run_jira_sprint http (List_all_sprints server_url auth' board_id) =
     list_all_sprints http server_url auth' board_id"

fun shape_of_jira_sprint :: "jira_sprint_call \<Rightarrow> shape" where
  "shape_of_jira_sprint (Create_sprint _ _ _ _ _ _) = Returns_body"
| "shape_of_jira_sprint (Read_sprint _ _ _) = Returns_body"
| "shape_of_jira_sprint (Update_sprint _ _ _ _ _ _) = Returns_body"
| "shape_of_jira_sprint (Delete_sprint _ _ _) = Returns_message ''Sprint deleted successfully.''"
| "shape_of_jira_sprint (List_all_sprints _ _ _) = Returns_field ''values'' (PList [])"

section \<open>Jira: users\<close>

text \<open>The functions of \<^verbatim>\<open>actions/jira/users.py\<close>, in the order of the file.\<close>

definition jira_create_project ::
  "http_layer \<Rightarrow> string \<Rightarrow> (string \<times> string) list \<Rightarrow>
     string \<Rightarrow> string \<Rightarrow> string \<Rightarrow> pyval py" where
  "jira_create_project http server_url auth' name project_type description =
     (let url' = server_url @ ''/rest/api/2/project'';
          headers' = [(''Content-Type'', ''application/json'')];
          payload = PDict [
                      (''name'', PStr name),
                      (''projectType'', PDict [(''id'', PStr project_type)]),
                      (''description'', PStr description)]
      in try_except
           (bind (subscript auth' ''username'')
              (\<lambda>username. bind (subscript auth' ''password'')
              (\<lambda>password. bind (requests_call http
                       ((bare POST url')\<lparr>headers := Some headers', json := Some payload,
                                                auth := Some (username, password)\<rparr>))
              (\<lambda>response. bind (raise_for_status response)
              (\<lambda>_. response_json response)))))
           log_and_return_str)"

definition jira_read_project ::
  "http_layer \<Rightarrow> string \<Rightarrow> (string \<times> string) list \<Rightarrow>
     string \<Rightarrow> pyval py" where
  "jira_read_project http server_url auth' project_key =
     (let url' = server_url @ ''/rest/api/2/project/'' @ project_key;
          headers' = [(''Content-Type'', ''application/json'')]
      in try_except
           (bind (subscript auth' ''username'')
              (\<lambda>username. bind (subscript auth' ''password'')
              (\<lambda>password. bind (requests_call http
                       ((bare GET url')\<lparr>headers := Some headers',
                                               auth := Some (username, password)\<rparr>))
              (\<lambda>response. bind (raise_for_status response)
              (\<lambda>_. response_json response)))))
           log_and_return_str)"

definition jira_update_project ::
  "http_layer \<Rightarrow> string \<Rightarrow> (string \<times> string) list \<Rightarrow>
     string \<Rightarrow> string \<Rightarrow> string \<Rightarrow> string \<Rightarrow>
     pyval py" where
  "jira_update_project http server_url auth' project_key name project_type description =
     (let url' = server_url @ ''/rest/api/2/project/'' @ project_key;
          headers' = [(''Content-Type'', ''application/json'')];
          payload = PDict [
                      (''name'', PStr name),
                      (''projectType'', PDict [(''id'', PStr project_type)]),
                      (''description'', PStr description)]
      in try_except
           (bind (subscript auth' ''username'')
              (\<lambda>username. bind (subscript auth' ''password'')
              (\<lambda>password. bind (requests_call http
                       ((bare PUT url')\<lparr>headers := Some headers', json := Some payload,
                                               auth := Some (username, password)\<rparr>))
              (\<lambda>response. bind (raise_for_status response)
              (\<lambda>_. response_json response)))))
           log_and_return_str)"

definition jira_delete_project ::
  "http_layer \<Rightarrow> string \<Rightarrow> (string \<times> string) list \<Rightarrow>
     string \<Rightarrow> pyval py" where
  "jira_delete_project http server_url auth' project_key =
     (let url' = server_url @ ''/rest/api/2/project/'' @ project_key;
          headers' = [(''Content-Type'', ''application/json'')]
      in try_except
           (bind (subscript auth' ''username'')
              (\<lambda>username. bind (subscript auth' ''password'')
              (\<lambda>password. bind (requests_call http
                       ((bare DELETE url')\<lparr>headers := Some headers',
                                                  auth := Some (username, password)\<rparr>))
              (\<lambda>response. bind (raise_for_status response)
              (\<lambda>_. ret (PStr ''Project deleted successfully.''))))))
           log_and_return_str)"

text \<open>
  The URL of \<open>list_projects\<close> is a plain string, not an f-string: the braces stay in it.
  The function returns \<open>response.json()["values"]\<close>.
\<close>

definition list_projects ::
  "http_layer \<Rightarrow> string \<Rightarrow> (string \<times> string) list \<Rightarrow> pyval py" where
  "list_projects http server_url auth' =
     (let url' = ''{server_url}/rest/api/2/project'';
          headers' = [(''Content-Type'', ''application/json'')]
      in try_except
           (bind (subscript auth' ''username'')
              (\<lambda>username. bind (subscript auth' ''password'')
              (\<lambda>password. bind (requests_call http
                       ((bare GET url')\<lparr>headers := Some headers',
                                        auth := Some (username, password)\<rparr>))
              (\<lambda>response. bind (raise_for_status response)
              (\<lambda>_. bind (response_json response)
              (\<lambda>body. item body ''values''))))))
           log_and_return_str)"

datatype jira_users_call =
    Jira_create_project string "(string \<times> string) list" string string string
  | Jira_read_project string "(string \<times> string) list" string
  | Jira_update_project string "(string \<times> string) list" string string string string
  | Jira_delete_project string "(string \<times> string) list" string
  | List_projects string "(string \<times> string) list"

fun run_jira_users :: "http_layer \<Rightarrow> jira_users_call \<Rightarrow> pyval py" where
  "run_jira_users http (Jira_create_project server_url auth' name project_type description) =
     jira_create_project http server_url auth' name project_type description"
| "run_jira_users http (Jira_read_project server_url auth' project_key) =
     jira_read_project http server_url auth' project_key"
| "run_jira_users http (Jira_update_project server_url auth' project_key name project_type description) =
     jira_update_project http server_url auth' project_key name project_type description"
| "run_jira_users http (Jira_delete_project server_url auth' project_key) =
     jira_delete_project http server_url auth' project_key"
| "run_jira_users http (List_projects server_url auth') = list_projects http server_url auth'"

fun shape_of_jira_users :: "jira_users_call \<Rightarrow> shape" where
  "shape_of_jira_users (Jira_create_project _ _ _ _ _) = Returns_body"
| "shape_of_jira_users (Jira_read_project _ _ _) = Returns_body"
| "shape_of_jira_users (Jira_update_project _ _ _ _ _ _) = Returns_body"
| "shape_of_jira_users (Jira_delete_project _ _ _) =
     Returns_message ''Project deleted successfully.''"
| "shape_of_jira_users (List_projects _ _) = Returns_item ''values''"

section \<open>Jira: webhooks\<close>

text \<open>The functions of \<^verbatim>\<open>actions/jira/webhooks.py\<close>, in the order of the file.\<close>

text \<open>
  In \<open>create_webhook\<close> the assignment \<open>url = f"..."\<close> replaces the argument
  \<open>url\<close> before the payload is built, as the \<open>let\<close> does here.
\<close>

definition jira_create_webhook ::
  "http_layer \<Rightarrow> string \<Rightarrow> (string \<times> string) list \<Rightarrow>
     string \<Rightarrow> string \<Rightarrow> string list \<Rightarrow> pyval py" where
  "jira_create_webhook http server_url auth' name url' events =
     (let url' = server_url @ ''/rest/webhooks/1.0/webhook'';
          headers' = [(''Content-Type'', ''application/json'')];
          payload = PDict [
                      (''name'', PStr name),
                      (''url'', PStr url'),
                      (''events'', PList (map PStr events))]
      in try_except
           (bind (subscript auth' ''username'')
              (\<lambda>username. bind (subscript auth' ''password'')
              (\<lambda>password. bind (requests_call http
                       ((bare POST url')\<lparr>headers := Some headers', json := Some payload,
                                                auth := Some (username, password)\<rparr>))
              (\<lambda>response. bind (raise_for_status response)
              (\<lambda>_. response_json response)))))
           log_and_return_str)"

definition read_webhook ::
  "http_layer \<Rightarrow> string \<Rightarrow> (string \<times> string) list \<Rightarrow>
     int \<Rightarrow> pyval py" where
  "read_webhook http server_url auth' webhook_id =
     (let url' = server_url @ ''/rest/webhooks/1.0/webhook/'' @ str_int webhook_id;
          headers' = [(''Content-Type'', ''application/json'')]
      in try_except
           (bind (subscript auth' ''username'')
              (\<lambda>username. bind (subscript auth' ''password'')
              (\<lambda>password. bind (requests_call http
                       ((bare GET url')\<lparr>headers := Some headers',
                                               auth := Some (username, password)\<rparr>))
              (\<lambda>response. bind (raise_for_status response)
              (\<lambda>_. response_json response)))))
           log_and_return_str)"

definition jira_update_webhook ::
  "http_layer \<Rightarrow> string \<Rightarrow> (string \<times> string) list \<Rightarrow>
     int \<Rightarrow> string \<Rightarrow> string \<Rightarrow> string list \<Rightarrow>
     pyval py" where
  "jira_update_webhook http server_url auth' webhook_id new_name new_url new_events =
     (let url' = server_url @ ''/rest/webhooks/1.0/webhook/'' @ str_int webhook_id;
          headers' = [(''Content-Type'', ''application/json'')];
          payload = PDict [
                      (''name'', PStr new_name),
                      (''url'', PStr new_url),
                      (''events'', PList (map PStr new_events))]
      in try_except
           (bind (subscript auth' ''username'')
              (\<lambda>username. bind (subscript auth' ''password'')
              (\<lambda>password. bind (requests_call http
                       ((bare PUT url')\<lparr>headers := Some headers', json := Some payload,
                                               auth := Some (username, password)\<rparr>))
              (\<lambda>response. bind (raise_for_status response)
              (\<lambda>_. response_json response)))))
           log_and_return_str)"

definition jira_delete_webhook ::
  "http_layer \<Rightarrow> string \<Rightarrow> (string \<times> string) list \<Rightarrow>
     int \<Rightarrow> pyval py" where
  "jira_delete_webhook http server_url auth' webhook_id =
     (let url' = server_url @ ''/rest/webhooks/1.0/webhook/'' @ str_int webhook_id;
          headers' = [(''Content-Type'', ''application/json'')]
      in try_except
           (bind (subscript auth' ''username'')
              (\<lambda>username. bind (subscript auth' ''password'')
              (\<lambda>password. bind (requests_call http
                       ((bare DELETE url')\<lparr>headers := Some headers',
                                                  auth := Some (username, password)\<rparr>))
              (\<lambda>response. bind (raise_for_status response)
              (\<lambda>_. ret (PStr ''Webhook deleted successfully.''))))))
           log_and_return_str)"

definition jira_list_all_webhooks ::
  "http_layer \<Rightarrow> string \<Rightarrow> (string \<times> string) list \<Rightarrow>
     pyval py" where
  "jira_list_all_webhooks http server_url auth' =
     (let url' = server_url @ ''/rest/webhooks/1.0/webhook'';
          headers' = [(''Content-Type'', ''application/json'')]
      in try_except
           (bind (subscript auth' ''username'')
              (\<lambda>username. bind (subscript auth' ''password'')
              (\<lambda>password. bind (requests_call http
                       ((bare GET url')\<lparr>headers := Some headers',
                                               auth := Some (username, password)\<rparr>))
              (\<lambda>response. bind (raise_for_status response)
              (\<lambda>_. bind (response_json response)
              (\<lambda>body. dict_get body ''values'' (PList [])))))))
           log_and_return_str)"

datatype jira_webhooks_call =
    Jira_create_webhook string "(string \<times> string) list" string string "string list"
  | Read_webhook string "(string \<times> string) list" int
  | Jira_update_webhook string "(string \<times> string) list" int string string "string list"
  | Jira_delete_webhook string "(string \<times> string) list" int
  | Jira_list_all_webhooks string "(string \<times> string) list"

fun run_jira_webhooks :: "http_layer \<Rightarrow> jira_webhooks_call \<Rightarrow> pyval py" where
  "run_jira_webhooks http (Jira_create_webhook server_url auth' name url' events) =
     jira_create_webhook http server_url auth' name url' events"
| "run_jira_webhooks http (Read_webhook server_url auth' webhook_id) =
     read_webhook http server_url auth' webhook_id"
| "run_jira_webhooks http (Jira_update_webhook server_url auth' webhook_id new_name new_url new_events) =
     jira_update_webhook http server_url auth' webhook_id new_name new_url new_events"
| "run_jira_webhooks http (Jira_delete_webhook server_url auth' webhook_id) =
     jira_delete_webhook http server_url auth' webhook_id"
| "run_jira_webhooks http (Jira_list_all_webhooks server_url auth') =
     jira_list_all_webhooks http server_url auth'"

fun shape_of_jira_webhooks :: "jira_webhooks_call \<Rightarrow> shape" where
  "shape_of_jira_webhooks (Jira_create_webhook _ _ _ _ _) = Returns_body"
| "shape_of_jira_webhooks (Read_webhook _ _ _) = Returns_body"
| "shape_of_jira_webhooks (Jira_update_webhook _ _ _ _ _ _) = Returns_body"
| "shape_of_jira_webhooks (Jira_delete_webhook _ _ _) =
     Returns_message ''Webhook deleted successfully.''"
| "shape_of_jira_webhooks (Jira_list_all_webhooks _ _) = Returns_field ''values'' (PList [])"

section \<open>Jira: worklog\<close>

text \<open>The functions of \<^verbatim>\<open>actions/jira/worklog.py\<close>, in the order of the file.\<close>

definition create_worklog ::
  "http_layer \<Rightarrow> string \<Rightarrow> (string \<times> string) list \<Rightarrow>
     string \<Rightarrow> string \<Rightarrow> string \<Rightarrow> bool \<Rightarrow>
     pyval py" where
  "create_worklog http server_url auth' issue_key time_spent start_date adjust_for_daylight_saving =
     (let url' = server_url @ ''/rest/api/2/issue/'' @ issue_key @ ''/worklog'';
          headers' = [(''Content-Type'', ''application/json'')];
          payload = PDict [
                      (''timeSpent'', PStr time_spent),
                      (''started'', PStr start_date),
                      (''adjustForDST'', PBool adjust_for_daylight_saving)]
      in try_except
           (bind (requests_call http
                    ((bare POST url')\<lparr>headers := Some headers',
                                             json := Some payload\<rparr>))
              (\<lambda>response. bind (raise_for_status response)
              (\<lambda>_. response_json response)))
           log_and_return_str)"

definition read_worklog ::
  "http_layer \<Rightarrow> string \<Rightarrow> (string \<times> string) list \<Rightarrow>
     string \<Rightarrow> pyval py" where
  "read_worklog http server_url auth' worklog_id =
     (let url' = server_url @ ''/rest/api/2/worklog/'' @ worklog_id;
          headers' = [(''Content-Type'', ''application/json'')]
      in try_except
           (bind (requests_call http
                    ((bare GET url')\<lparr>headers := Some headers'\<rparr>))
              (\<lambda>response. bind (raise_for_status response)
              (\<lambda>_. response_json response)))
           log_and_return_str)"

definition update_worklog ::
  "http_layer \<Rightarrow> string \<Rightarrow> (string \<times> string) list \<Rightarrow>
     string \<Rightarrow> string \<Rightarrow> string \<Rightarrow> bool \<Rightarrow>
     pyval py" where
  "update_worklog http
       server_url auth' worklog_id time_spent start_date adjust_for_daylight_saving =
     (let url' = server_url @ ''/rest/api/2/worklog/'' @ worklog_id;
          headers' = [(''Content-Type'', ''application/json'')];
          payload = PDict [
                      (''timeSpent'', PStr time_spent),
                      (''started'', PStr start_date),
                      (''adjustForDST'', PBool adjust_for_daylight_saving)]
      in try_except
           (bind (requests_call http
                    ((bare PUT url')\<lparr>headers := Some headers', json := Some payload\<rparr>))
              (\<lambda>response. bind (raise_for_status response)
              (\<lambda>_. response_json response)))
           log_and_return_str)"

definition delete_worklog ::
  "http_layer \<Rightarrow> string \<Rightarrow> (string \<times> string) list \<Rightarrow>
     string \<Rightarrow> pyval py" where
  "delete_worklog http server_url auth' worklog_id =
     (let url' = server_url @ ''/rest/api/2/worklog/'' @ worklog_id;
          headers' = [(''Content-Type'', ''application/json'')]
      in try_except
           (bind (requests_call http
                    ((bare DELETE url')\<lparr>headers := Some headers'\<rparr>))
              (\<lambda>response. bind (raise_for_status response)
              (\<lambda>_. ret (PStr ''Worklog deleted successfully.''))))
           log_and_return_str)"

datatype jira_worklog_call =
    Create_worklog string "(string \<times> string) list" string string string bool
  | Read_worklog string "(string \<times> string) list" string
  | Update_worklog string "(string \<times> string) list" string string string bool
  | Delete_worklog string "(string \<times> string) list" string

fun run_jira_worklog :: "http_layer \<Rightarrow> jira_worklog_call \<Rightarrow> pyval py" where
  "run_jira_worklog http (Create_worklog server_url auth' issue_key time_spent start_date adjust_for_daylight_saving) =
     create_worklog http server_url auth' issue_key time_spent start_date adjust_for_daylight_saving"
| "run_jira_worklog http (Read_worklog server_url auth' worklog_id) =
     read_worklog http server_url auth' worklog_id"
| "run_jira_worklog http (Update_worklog server_url auth' worklog_id time_spent start_date adjust_for_daylight_saving) =
     update_worklog http server_url auth' worklog_id time_spent start_date adjust_for_daylight_saving"
| "run_jira_worklog http (Delete_worklog server_url auth' worklog_id) =
     delete_worklog http server_url auth' worklog_id"

fun shape_of_jira_worklog :: "jira_worklog_call \<Rightarrow> shape" where
  "shape_of_jira_worklog (Create_worklog _ _ _ _ _ _) = Returns_body"
| "shape_of_jira_worklog (Read_worklog _ _ _) = Returns_body"
| "shape_of_jira_worklog (Update_worklog _ _ _ _ _ _) = Returns_body"
| "shape_of_jira_worklog (Delete_worklog _ _ _) = Returns_message ''Worklog deleted successfully.''"

section \<open>Slack: reactions\<close>

text \<open>The functions of \<^verbatim>\<open>actions/slack/reactions.py\<close>, in the order of the file.\<close>

definition add_reaction ::
  "http_layer \<Rightarrow> string \<Rightarrow> string \<Rightarrow> string \<Rightarrow>
     string \<Rightarrow> pyval py" where
  "add_reaction http token channel name timestamp =
     (let url' = ''https://slack.com/api/reactions.add'';
          headers' = [(''Authorization'', ''Bearer '' @ token)];
          payload = PDict [
                      (''channel'', PStr channel),
                      (''name'', PStr name),
                      (''timestamp'', PStr timestamp)]
      in try_except
           (bind (requests_call http
                    ((bare POST url')\<lparr>headers := Some headers',
                                             json := Some payload\<rparr>))
              (\<lambda>response. bind (raise_for_status response)
              (\<lambda>_. response_json response)))
           log_and_return_str)"

definition remove_reaction ::
  "http_layer \<Rightarrow> string \<Rightarrow> string \<Rightarrow> string \<Rightarrow>
     string \<Rightarrow> pyval py" where
  "remove_reaction http token channel name timestamp =
     (let url' = ''https://slack.com/api/reactions.remove'';
          headers' = [(''Authorization'', ''Bearer '' @ token)];
          payload = PDict [
                      (''channel'', PStr channel),
                      (''name'', PStr name),
                      (''timestamp'', PStr timestamp)]
      in try_except
           (bind (requests_call http
                    ((bare POST url')\<lparr>headers := Some headers',
                                             json := Some payload\<rparr>))
              (\<lambda>response. bind (raise_for_status response)
              (\<lambda>_. response_json response)))
           log_and_return_str)"

definition list_reactions ::
  "http_layer \<Rightarrow> string \<Rightarrow> string \<Rightarrow> bool \<Rightarrow>
     pyval py" where
  "list_reactions http token user full =
     (let url' = ''https://slack.com/api/reactions.list'';
          headers' = [(''Authorization'', ''Bearer '' @ token)];
          payload = [(''user'', PStr user), (''full'', PBool full)]
      in try_except
           (bind (requests_call http
                    ((bare GET url')\<lparr>headers := Some headers',
                                            params := Some payload\<rparr>))
              (\<lambda>response. bind (raise_for_status response)
              (\<lambda>_. response_json response)))
           log_and_return_str)"

datatype slack_reactions_call =
    Add_reaction string string string string
  | Remove_reaction string string string string
  | List_reactions string string bool

fun run_slack_reactions :: "http_layer \<Rightarrow> slack_reactions_call \<Rightarrow> pyval py" where
  "run_slack_reactions http (Add_reaction token channel name timestamp) =
     add_reaction http token channel name timestamp"
| "run_slack_reactions http (Remove_reaction token channel name timestamp) =
     remove_reaction http token channel name timestamp"
| "run_slack_reactions http (List_reactions token user full) = list_reactions http token user full"

fun shape_of_slack_reactions :: "slack_reactions_call \<Rightarrow> shape" where
  "shape_of_slack_reactions (Add_reaction _ _ _ _) = Returns_body"
| "shape_of_slack_reactions (Remove_reaction _ _ _ _) = Returns_body"
| "shape_of_slack_reactions (List_reactions _ _ _) = Returns_body"

section \<open>Slack: channels\<close>

text \<open>The functions of \<^verbatim>\<open>actions/slack/channels.py\<close>, in the order of the file.\<close>

definition list_channels :: "http_layer \<Rightarrow> string \<Rightarrow> pyval py" where
  "list_channels http token =
     (let url' = ''https://slack.com/api/conversations.list'';
          headers' = [(''Authorization'', ''Bearer '' @ token)]
      in try_except
           (bind (requests_call http
                    ((bare GET url')\<lparr>headers := Some headers'\<rparr>))
              (\<lambda>response. bind (raise_for_status response)
              (\<lambda>_. bind (response_json response)
              (\<lambda>body. dict_get body ''channels'' (PList [])))))
           log_and_return_str)"

definition slack_create_channel ::
  "http_layer \<Rightarrow> string \<Rightarrow> string \<Rightarrow> pyval py" where
  "slack_create_channel http token name =
     (let url' = ''https://slack.com/api/conversations.create'';
          headers' = [(''Authorization'', ''Bearer '' @ token)];
          payload = PDict [(''name'', PStr name)]
      in try_except
           (bind (requests_call http
                    ((bare POST url')\<lparr>headers := Some headers',
                                             json := Some payload\<rparr>))
              (\<lambda>response. bind (raise_for_status response)
              (\<lambda>_. response_json response)))
           log_and_return_str)"

definition join_channel ::
  "http_layer \<Rightarrow> string \<Rightarrow> string \<Rightarrow> pyval py" where
  "join_channel http token channel_id =
     (let url' = ''https://slack.com/api/conversations.join'';
          headers' = [(''Authorization'', ''Bearer '' @ token)];
          payload = PDict [(''channel'', PStr channel_id)]
      in try_except
           (bind (requests_call http
                    ((bare POST url')\<lparr>headers := Some headers',
                                             json := Some payload\<rparr>))
              (\<lambda>response. bind (raise_for_status response)
              (\<lambda>_. response_json response)))
           log_and_return_str)"

definition leave_channel ::
  "http_layer \<Rightarrow> string \<Rightarrow> string \<Rightarrow> pyval py" where
  "leave_channel http token channel_id =
     (let url' = ''https://slack.com/api/conversations.leave'';
          headers' = [(''Authorization'', ''Bearer '' @ token)];
          payload = PDict [(''channel'', PStr channel_id)]
      in try_except
           (bind (requests_call http
                    ((bare POST url')\<lparr>headers := Some headers',
                                             json := Some payload\<rparr>))
              (\<lambda>response. bind (raise_for_status response)
              (\<lambda>_. response_json response)))
           log_and_return_str)"

definition archive_channel ::
  "http_layer \<Rightarrow> string \<Rightarrow> string \<Rightarrow> pyval py" where
  "archive_channel http token channel_id =
     (let url' = ''https://slack.com/api/conversations.archive'';
          headers' = [(''Authorization'', ''Bearer '' @ token)];
          payload = PDict [(''channel'', PStr channel_id)]
      in try_except
           (bind (requests_call http
                    ((bare POST url')\<lparr>headers := Some headers',
                                             json := Some payload\<rparr>))
              (\<lambda>response. bind (raise_for_status response)
              (\<lambda>_. response_json response)))
           log_and_return_str)"

definition unarchive_channel ::
  "http_layer \<Rightarrow> string \<Rightarrow> string \<Rightarrow> pyval py" where
  "unarchive_channel http token channel_id =
     (let url' = ''https://slack.com/api/conversations.unarchive'';
          headers' = [(''Authorization'', ''Bearer '' @ token)];
          payload = PDict [(''channel'', PStr channel_id)]
      in try_except
           (bind (requests_call http
                    ((bare POST url')\<lparr>headers := Some headers',
                                             json := Some payload\<rparr>))
              (\<lambda>response. bind (raise_for_status response)
              (\<lambda>_. response_json response)))
           log_and_return_str)"

definition rename_channel ::
  "http_layer \<Rightarrow> string \<Rightarrow> string \<Rightarrow> string \<Rightarrow>
     pyval py" where
  "rename_channel http token channel_id new_name =
     (let url' = ''https://slack.com/api/conversations.rename'';
          headers' = [(''Authorization'', ''Bearer '' @ token)];
          payload = PDict [(''channel'', PStr channel_id), (''name'', PStr new_name)]
      in try_except
           (bind (requests_call http
                    ((bare POST url')\<lparr>headers := Some headers',
                                             json := Some payload\<rparr>))
              (\<lambda>response. bind (raise_for_status response)
              (\<lambda>_. response_json response)))
           log_and_return_str)"

definition get_channel_info ::
  "http_layer \<Rightarrow> string \<Rightarrow> string \<Rightarrow> pyval py" where
  "get_channel_info http token channel_id =
     (let url' = ''https://slack.com/api/conversations.info'';
          headers' = [(''Authorization'', ''Bearer '' @ token)];
          params' = [(''channel'', PStr channel_id)]
      in try_except
           (bind (requests_call http
                    ((bare GET url')\<lparr>headers := Some headers',
                                            params := Some params'\<rparr>))
              (\<lambda>response. bind (raise_for_status response)
              (\<lambda>_. response_json response)))
           log_and_return_str)"

definition set_channel_topic ::
  "http_layer \<Rightarrow> string \<Rightarrow> string \<Rightarrow> string \<Rightarrow>
     pyval py" where
  "set_channel_topic http token channel_id topic =
     (let url' = ''https://slack.com/api/conversations.setTopic'';
          headers' = [(''Authorization'', ''Bearer '' @ token)];
          payload = PDict [(''channel'', PStr channel_id), (''topic'', PStr topic)]
      in try_except
           (bind (requests_call http
                    ((bare POST url')\<lparr>headers := Some headers',
                                             json := Some payload\<rparr>))
              (\<lambda>response. bind (raise_for_status response)
              (\<lambda>_. response_json response)))
           log_and_return_str)"

definition set_channel_purpose ::
  "http_layer \<Rightarrow> string \<Rightarrow> string \<Rightarrow> string \<Rightarrow>
     pyval py" where
  "set_channel_purpose http token channel_id purpose =
     (let url' = ''https://slack.com/api/conversations.setPurpose'';
          headers' = [(''Authorization'', ''Bearer '' @ token)];
          payload = PDict [(''channel'', PStr channel_id), (''purpose'', PStr purpose)]
      in try_except
           (bind (requests_call http
                    ((bare POST url')\<lparr>headers := Some headers',
                                             json := Some payload\<rparr>))
              (\<lambda>response. bind (raise_for_status response)
              (\<lambda>_. response_json response)))
           log_and_return_str)"

datatype slack_channels_call =
    List_channels string
  | Slack_create_channel string string
  | Join_channel string string
  | Leave_channel string string
  | Archive_channel string string
  | Unarchive_channel string string
  | Rename_channel string string string
  | Get_channel_info string string
  | Set_channel_topic string string string
  | Set_channel_purpose string string string

fun run_slack_channels :: "http_layer \<Rightarrow> slack_channels_call \<Rightarrow> pyval py" where
  "run_slack_channels http (List_channels token) = list_channels http token"
| "run_slack_channels http (Slack_create_channel token name) = slack_create_channel http token name"
| "run_slack_channels http (Join_channel token channel_id) = join_channel http token channel_id"
| "run_slack_channels http (Leave_channel token channel_id) = leave_channel http token channel_id"
| "run_slack_channels http (Archive_channel token channel_id) =
     archive_channel http token channel_id"
| "run_slack_channels http (Unarchive_channel token channel_id) =
     unarchive_channel http token channel_id"
| "run_slack_channels http (Rename_channel token channel_id new_name) =
     rename_channel http token channel_id new_name"
| "run_slack_channels http (Get_channel_info token channel_id) =
     get_channel_info http token channel_id"
| "run_slack_channels http (Set_channel_topic token channel_id topic) =
     set_channel_topic http token channel_id topic"
| "run_slack_channels http (Set_channel_purpose token channel_id purpose) =
     set_channel_purpose http token channel_id purpose"

fun shape_of_slack_channels :: "slack_channels_call \<Rightarrow> shape" where
  "shape_of_slack_channels (List_channels _) = Returns_field ''channels'' (PList [])"
| "shape_of_slack_channels (Slack_create_channel _ _) = Returns_body"
| "shape_of_slack_channels (Join_channel _ _) = Returns_body"
| "shape_of_slack_channels (Leave_channel _ _) = Returns_body"
| "shape_of_slack_channels (Archive_channel _ _) = Returns_body"
| "shape_of_slack_channels (Unarchive_channel _ _) = Returns_body"
| "shape_of_slack_channels (Rename_channel _ _ _) = Returns_body"
| "shape_of_slack_channels (Get_channel_info _ _) = Returns_body"
| "shape_of_slack_channels (Set_channel_topic _ _ _) = Returns_body"
| "shape_of_slack_channels (Set_channel_purpose _ _ _) = Returns_body"

section \<open>Slack: conversations\<close>

text \<open>The functions of \<^verbatim>\<open>actions/slack/conversations.py\<close>, in the order of the file.\<close>

definition list_conversations :: "http_layer \<Rightarrow> string \<Rightarrow> pyval py" where
  "list_conversations http token =
     (let url' = ''https://slack.com/api/conversations.list'';
          headers' = [(''Authorization'', ''Bearer '' @ token)]
      in try_except
           (bind (requests_call http
                    ((bare GET url')\<lparr>headers := Some headers'\<rparr>))
              (\<lambda>response. bind (raise_for_status response)
              (\<lambda>_. response_json response)))
           log_and_return_str)"

definition open_conversation ::
  "http_layer \<Rightarrow> string \<Rightarrow> string \<Rightarrow> pyval py" where
  "open_conversation http token user_ids =
     (let url' = ''https://slack.com/api/conversations.open'';
          headers' = [(''Authorization'', ''Bearer '' @ token)];
          payload = PDict [(''users'', PStr user_ids)]
      in try_except
           (bind (requests_call http
                    ((bare POST url')\<lparr>headers := Some headers',
                                             json := Some payload\<rparr>))
              (\<lambda>response. bind (raise_for_status response)
              (\<lambda>_. response_json response)))
           log_and_return_str)"

definition close_conversation ::
  "http_layer \<Rightarrow> string \<Rightarrow> string \<Rightarrow> pyval py" where
  "close_conversation http token channel_id =
     (let url' = ''https://slack.com/api/conversations.close'';
          headers' = [(''Authorization'', ''Bearer '' @ token)];
          payload = PDict [(''channel'', PStr channel_id)]
      in try_except
           (bind (requests_call http
                    ((bare POST url')\<lparr>headers := Some headers',
                                             json := Some payload\<rparr>))
              (\<lambda>response. bind (raise_for_status response)
              (\<lambda>_. response_json response)))
           log_and_return_str)"

definition invite_users_to_conversation ::
  "http_layer \<Rightarrow> string \<Rightarrow> string \<Rightarrow> string \<Rightarrow>
     pyval py" where
  "invite_users_to_conversation http token channel_id user_ids =
     (let url' = ''https://slack.com/api/conversations.invite'';
          headers' = [(''Authorization'', ''Bearer '' @ token)];
          payload = PDict [(''channel'', PStr channel_id), (''users'', PStr user_ids)]
      in try_except
           (bind (requests_call http
                    ((bare POST url')\<lparr>headers := Some headers',
                                             json := Some payload\<rparr>))
              (\<lambda>response. bind (raise_for_status response)
              (\<lambda>_. response_json response)))
           log_and_return_str)"

definition kick_user_from_conversation ::
  "http_layer \<Rightarrow> string \<Rightarrow> string \<Rightarrow> string \<Rightarrow>
     pyval py" where
  "kick_user_from_conversation http token channel_id user_id =
     (let url' = ''https://slack.com/api/conversations.kick'';
          headers' = [(''Authorization'', ''Bearer '' @ token)];
          payload = PDict [(''channel'', PStr channel_id), (''user'', PStr user_id)]
      in try_except
           (bind (requests_call http
                    ((bare POST url')\<lparr>headers := Some headers',
                                             json := Some payload\<rparr>))
              (\<lambda>response. bind (raise_for_status response)
              (\<lambda>_. response_json response)))
           log_and_return_str)"

datatype slack_conversations_call =
    List_conversations string
  | Open_conversation string string
  | Close_conversation string string
  | Invite_users_to_conversation string string string
  | Kick_user_from_conversation string string string

fun run_slack_conversations :: "http_layer \<Rightarrow> slack_conversations_call \<Rightarrow> pyval py" where
  "run_slack_conversations http (List_conversations token) = list_conversations http token"
| "run_slack_conversations http (Open_conversation token user_ids) =
     open_conversation http token user_ids"
| "run_slack_conversations http (Close_conversation token channel_id) =
     close_conversation http token channel_id"
| "run_slack_conversations http (Invite_users_to_conversation token channel_id user_ids) =
     invite_users_to_conversation http token channel_id user_ids"
| "run_slack_conversations http (Kick_user_from_conversation token channel_id user_id) =
     kick_user_from_conversation http token channel_id user_id"

fun shape_of_slack_conversations :: "slack_conversations_call \<Rightarrow> shape" where
  "shape_of_slack_conversations (List_conversations _) = Returns_body"
| "shape_of_slack_conversations (Open_conversation _ _) = Returns_body"
| "shape_of_slack_conversations (Close_conversation _ _) = Returns_body"
| "shape_of_slack_conversations (Invite_users_to_conversation _ _ _) = Returns_body"
| "shape_of_slack_conversations (Kick_user_from_conversation _ _ _) = Returns_body"

section \<open>Slack: files\<close>

text \<open>The functions of \<^verbatim>\<open>actions/slack/files.py\<close>, in the order of the file.\<close>

text \<open>
  \<open>upload_file\<close> builds \<open>files = {"file": open(file_path, "rb")}\<close> above the \<open>try\<close>.
\<close>

definition upload_file :: "http_layer \<Rightarrow> string \<Rightarrow> string \<Rightarrow> string \<Rightarrow> pyval py" where
  "upload_file http token channels file_path =
     (let url' = ''https://slack.com/api/files.upload'';
          headers' = [(''Authorization'', ''Bearer '' @ token)];
          payload = [(''channels'', PStr channels)]
      in bind (open_rb file_path)
           (\<lambda>f. try_except
              (bind (requests_call http
                       ((bare POST url')\<lparr>headers := Some headers', data := Some payload,
                                         upfiles := Some [(''file'', f)]\<rparr>))
                 (\<lambda>response. bind (raise_for_status response)
                 (\<lambda>_. response_json response)))
              log_and_return_str))"

definition share_file ::
  "http_layer \<Rightarrow> string \<Rightarrow> string \<Rightarrow> string \<Rightarrow>
     pyval py" where
  "share_file http token file_id channels =
     (let url' = ''https://slack.com/api/files.sharedPublicURL'';
          headers' = [(''Authorization'', ''Bearer '' @ token)];
          payload = PDict [(''file'', PStr file_id), (''channels'', PStr channels)]
      in try_except
           (bind (requests_call http
                    ((bare POST url')\<lparr>headers := Some headers',
                                             json := Some payload\<rparr>))
              (\<lambda>response. bind (raise_for_status response)
              (\<lambda>_. response_json response)))
           log_and_return_str)"

definition delete_file ::
  "http_layer \<Rightarrow> string \<Rightarrow> string \<Rightarrow> pyval py" where
  "delete_file http token file_id =
     (let url' = ''https://slack.com/api/files.delete'';
          headers' = [(''Authorization'', ''Bearer '' @ token)];
          payload = PDict [(''file'', PStr file_id)]
      in try_except
           (bind (requests_call http
                    ((bare POST url')\<lparr>headers := Some headers',
                                             json := Some payload\<rparr>))
              (\<lambda>response. bind (raise_for_status response)
              (\<lambda>_. response_json response)))
           log_and_return_str)"

definition list_files :: "http_layer \<Rightarrow> string \<Rightarrow> pyval py" where
  "list_files http token =
     (let url' = ''https://slack.com/api/files.list'';
          headers' = [(''Authorization'', ''Bearer '' @ token)]
      in try_except
           (bind (requests_call http
                    ((bare GET url')\<lparr>headers := Some headers'\<rparr>))
              (\<lambda>response. bind (raise_for_status response)
              (\<lambda>_. response_json response)))
           log_and_return_str)"

datatype slack_files_call =
    Upload_file string string string
  | Share_file string string string
  | Delete_file string string
  | List_files string

fun run_slack_files :: "http_layer \<Rightarrow> slack_files_call \<Rightarrow> pyval py" where
  "run_slack_files http (Upload_file token channels file_path) =
     upload_file http token channels file_path"
| "run_slack_files http (Share_file token file_id channels) =
     share_file http token file_id channels"
| "run_slack_files http (Delete_file token file_id) = delete_file http token file_id"
| "run_slack_files http (List_files token) = list_files http token"

fun shape_of_slack_files :: "slack_files_call \<Rightarrow> shape" where
  "shape_of_slack_files (Upload_file _ _ _) = Returns_body"
| "shape_of_slack_files (Share_file _ _ _) = Returns_body"
| "shape_of_slack_files (Delete_file _ _) = Returns_body"
| "shape_of_slack_files (List_files _) = Returns_body"


section \<open>Slack: groups\<close>

text \<open>The functions of \<^verbatim>\<open>actions/slack/groups.py\<close>, in the order of the file.\<close>

definition create_user_group ::
  "http_layer \<Rightarrow> string \<Rightarrow> string \<Rightarrow> string \<Rightarrow>
     pyval py" where
  "create_user_group http token name description =
     (let url' = ''https://slack.com/api/usergroups.create'';
          headers' = [(''Authorization'', ''Bearer '' @ token)];
          payload = PDict [(''name'', PStr name), (''description'', PStr description)]
      in try_except
           (bind (requests_call http
                    ((bare POST url')\<lparr>headers := Some headers',
                                             json := Some payload\<rparr>))
              (\<lambda>response. bind (raise_for_status response)
              (\<lambda>_. response_json response)))
           log_and_return_str)"

definition update_user_group ::
  "http_layer \<Rightarrow> string \<Rightarrow> string \<Rightarrow> string \<Rightarrow>
     string \<Rightarrow> pyval py" where
  "update_user_group http token user_group_id name description =
     (let url' = ''https://slack.com/api/usergroups.update'';
          headers' = [(''Authorization'', ''Bearer '' @ token)];
          payload = PDict [
                      (''usergroup'', PStr user_group_id),
                      (''name'', PStr name),
                      (''description'', PStr description)]
      in try_except
           (bind (requests_call http
                    ((bare POST url')\<lparr>headers := Some headers',
                                             json := Some payload\<rparr>))
              (\<lambda>response. bind (raise_for_status response)
              (\<lambda>_. response_json response)))
           log_and_return_str)"

definition disable_user_group ::
  "http_layer \<Rightarrow> string \<Rightarrow> string \<Rightarrow> pyval py" where
  "disable_user_group http token user_group_id =
     (let url' = ''https://slack.com/api/usergroups.disable'';
          headers' = [(''Authorization'', ''Bearer '' @ token)];
          payload = PDict [(''usergroup'', PStr user_group_id)]
      in try_except
           (bind (requests_call http
                    ((bare POST url')\<lparr>headers := Some headers',
                                             json := Some payload\<rparr>))
              (\<lambda>response. bind (raise_for_status response)
              (\<lambda>_. response_json response)))
           log_and_return_str)"

definition enable_user_group ::
  "http_layer \<Rightarrow> string \<Rightarrow> string \<Rightarrow> pyval py" where
  "enable_user_group http token user_group_id =
     (let url' = ''https://slack.com/api/usergroups.enable'';
          headers' = [(''Authorization'', ''Bearer '' @ token)];
          payload = PDict [(''usergroup'', PStr user_group_id)]
      in try_except
           (bind (requests_call http
                    ((bare POST url')\<lparr>headers := Some headers',
                                             json := Some payload\<rparr>))
              (\<lambda>response. bind (raise_for_status response)
              (\<lambda>_. response_json response)))
           log_and_return_str)"

definition list_user_groups :: "http_layer \<Rightarrow> string \<Rightarrow> pyval py" where
  "list_user_groups http token =
     (let url' = ''https://slack.com/api/usergroups.list'';
          headers' = [(''Authorization'', ''Bearer '' @ token)]
      in try_except
           (bind (requests_call http
                    ((bare GET url')\<lparr>headers := Some headers'\<rparr>))
              (\<lambda>response. bind (raise_for_status response)
              (\<lambda>_. response_json response)))
           log_and_return_str)"

datatype slack_groups_call =
    Create_user_group string string string
  | Update_user_group string string string string
  | Disable_user_group string string
  | Enable_user_group string string
  | List_user_groups string

fun run_slack_groups :: "http_layer \<Rightarrow> slack_groups_call \<Rightarrow> pyval py" where
  "run_slack_groups http (Create_user_group token name description) =
     create_user_group http token name description"
| "run_slack_groups http (Update_user_group token user_group_id name description) =
     update_user_group http token user_group_id name description"
| "run_slack_groups http (Disable_user_group token user_group_id) =
     disable_user_group http token user_group_id"
| "run_slack_groups http (Enable_user_group token user_group_id) =
     enable_user_group http token user_group_id"
| "run_slack_groups http (List_user_groups token) = list_user_groups http token"

fun shape_of_slack_groups :: "slack_groups_call \<Rightarrow> shape" where
  "shape_of_slack_groups (Create_user_group _ _ _) = Returns_body"
| "shape_of_slack_groups (Update_user_group _ _ _ _) = Returns_body"
| "shape_of_slack_groups (Disable_user_group _ _) = Returns_body"
| "shape_of_slack_groups (Enable_user_group _ _) = Returns_body"
| "shape_of_slack_groups (List_user_groups _) = Returns_body"

section \<open>Slack: messages\<close>

text \<open>The functions of \<^verbatim>\<open>actions/slack/messages.py\<close>, in the order of the file.\<close>

definition update_message :: "http_layer \<Rightarrow> string \<Rightarrow> string \<Rightarrow> string \<Rightarrow> string \<Rightarrow> pyval py" where
  "update_message http token channel_id ts text' =
     (let url' = ''https://slack.com/api/chat.update'';
          headers' = [(''Authorization'', ''Bearer '' @ token)];
          payload = PDict [(''channel'', PStr channel_id), (''ts'', PStr ts),
                           (''text'', PStr text')]
      in try_except
           (bind (requests_call http
                    ((bare POST url')\<lparr>headers := Some headers', json := Some payload\<rparr>))
              (\<lambda>response. bind (raise_for_status response)
              (\<lambda>_. response_json response)))
           log_and_return_str)"

definition slack_delete_message :: "http_layer \<Rightarrow> string \<Rightarrow> string \<Rightarrow> string \<Rightarrow> pyval py" where
  "slack_delete_message http token channel_id ts =
     (let url' = ''https://slack.com/api/chat.delete'';
          headers' = [(''Authorization'', ''Bearer '' @ token)];
          payload = PDict [(''channel'', PStr channel_id), (''ts'', PStr ts)]
      in try_except
           (bind (requests_call http
                    ((bare POST url')\<lparr>headers := Some headers', json := Some payload\<rparr>))
              (\<lambda>response. bind (raise_for_status response)
              (\<lambda>_. response_json response)))
           log_and_return_str)"

definition list_messages_in_channel ::
  "http_layer \<Rightarrow> string \<Rightarrow> string \<Rightarrow> pyval py" where
  "list_messages_in_channel http token channel_id =
     (let url' = ''https://slack.com/api/conversations.history'';
          headers' = [(''Authorization'', ''Bearer '' @ token)];
          payload = [(''channel'', PStr channel_id)]
      in try_except
           (bind (requests_call http
                    ((bare GET url')\<lparr>headers := Some headers',
                                            params := Some payload\<rparr>))
              (\<lambda>response. bind (raise_for_status response)
              (\<lambda>_. response_json response)))
           log_and_return_str)"

definition react_to_message ::
  "http_layer \<Rightarrow> string \<Rightarrow> string \<Rightarrow> string \<Rightarrow>
     string \<Rightarrow> pyval py" where
  "react_to_message http token channel_id ts emoji =
     (let url' = ''https://slack.com/api/reactions.add'';
          headers' = [(''Authorization'', ''Bearer '' @ token)];
          payload = PDict [
                      (''channel'', PStr channel_id),
                      (''timestamp'', PStr ts),
                      (''name'', PStr emoji)]
      in try_except
           (bind (requests_call http
                    ((bare POST url')\<lparr>headers := Some headers',
                                             json := Some payload\<rparr>))
              (\<lambda>response. bind (raise_for_status response)
              (\<lambda>_. response_json response)))
           log_and_return_str)"

definition unreact_to_message ::
  "http_layer \<Rightarrow> string \<Rightarrow> string \<Rightarrow> string \<Rightarrow>
     string \<Rightarrow> pyval py" where
  "unreact_to_message http token channel_id ts emoji =
     (let url' = ''https://slack.com/api/reactions.remove'';
          headers' = [(''Authorization'', ''Bearer '' @ token)];
          payload = PDict [
                      (''channel'', PStr channel_id),
                      (''timestamp'', PStr ts),
                      (''name'', PStr emoji)]
      in try_except
           (bind (requests_call http
                    ((bare POST url')\<lparr>headers := Some headers',
                                             json := Some payload\<rparr>))
              (\<lambda>response. bind (raise_for_status response)
              (\<lambda>_. response_json response)))
           log_and_return_str)"

datatype slack_messages_call =
    Update_message string string string string
  | Slack_delete_message string string string
  | List_messages_in_channel string string
  | React_to_message string string string string
  | Unreact_to_message string string string string

fun run_slack_messages :: "http_layer \<Rightarrow> slack_messages_call \<Rightarrow> pyval py" where
  "run_slack_messages http (Update_message token channel_id ts text) =
     update_message http token channel_id ts text"
| "run_slack_messages http (Slack_delete_message token channel_id ts) =
     slack_delete_message http token channel_id ts"
| "run_slack_messages http (List_messages_in_channel token channel_id) =
     list_messages_in_channel http token channel_id"
| "run_slack_messages http (React_to_message token channel_id ts emoji) =
     react_to_message http token channel_id ts emoji"
| "run_slack_messages http (Unreact_to_message token channel_id ts emoji) =
     unreact_to_message http token channel_id ts emoji"

fun shape_of_slack_messages :: "slack_messages_call \<Rightarrow> shape" where
  "shape_of_slack_messages (Update_message _ _ _ _) = Returns_body"
| "shape_of_slack_messages (Slack_delete_message _ _ _) = Returns_body"
| "shape_of_slack_messages (List_messages_in_channel _ _) = Returns_body"
| "shape_of_slack_messages (React_to_message _ _ _ _) = Returns_body"
| "shape_of_slack_messages (Unreact_to_message _ _ _ _) = Returns_body"

section \<open>Slack: pins\<close>

text \<open>The functions of \<^verbatim>\<open>actions/slack/pins.py\<close>, in the order of the file.\<close>

definition pin_item ::
  "http_layer \<Rightarrow> string \<Rightarrow> string \<Rightarrow> string \<Rightarrow>
     pyval py" where
  "pin_item http token channel timestamp =
     (let url' = ''https://slack.com/api/pins.add'';
          headers' = [(''Authorization'', ''Bearer '' @ token)];
          payload = PDict [(''channel'', PStr channel), (''timestamp'', PStr timestamp)]
      in try_except
           (bind (requests_call http
                    ((bare POST url')\<lparr>headers := Some headers',
                                             json := Some payload\<rparr>))
              (\<lambda>response. bind (raise_for_status response)
              (\<lambda>_. response_json response)))
           log_and_return_str)"

definition unpin_item ::
  "http_layer \<Rightarrow> string \<Rightarrow> string \<Rightarrow> string \<Rightarrow>
     pyval py" where
  "unpin_item http token channel timestamp =
     (let url' = ''https://slack.com/api/pins.remove'';
          headers' = [(''Authorization'', ''Bearer '' @ token)];
          payload = PDict [(''channel'', PStr channel), (''timestamp'', PStr timestamp)]
      in try_except
           (bind (requests_call http
                    ((bare POST url')\<lparr>headers := Some headers',
                                             json := Some payload\<rparr>))
              (\<lambda>response. bind (raise_for_status response)
              (\<lambda>_. response_json response)))
           log_and_return_str)"

definition list_pinned_items ::
  "http_layer \<Rightarrow> string \<Rightarrow> string \<Rightarrow> pyval py" where
  "list_pinned_items http token channel =
     (let url' = ''https://slack.com/api/pins.list'';
          headers' = [(''Authorization'', ''Bearer '' @ token)];
          payload = [(''channel'', PStr channel)]
      in try_except
           (bind (requests_call http
                    ((bare GET url')\<lparr>headers := Some headers',
                                            params := Some payload\<rparr>))
              (\<lambda>response. bind (raise_for_status response)
              (\<lambda>_. response_json response)))
           log_and_return_str)"

datatype slack_pins_call =
    Pin_item string string string
  | Unpin_item string string string
  | List_pinned_items string string

fun run_slack_pins :: "http_layer \<Rightarrow> slack_pins_call \<Rightarrow> pyval py" where
  "run_slack_pins http (Pin_item token channel timestamp) = pin_item http token channel timestamp"
| "run_slack_pins http (Unpin_item token channel timestamp) =
     unpin_item http token channel timestamp"
| "run_slack_pins http (List_pinned_items token channel) = list_pinned_items http token channel"

fun shape_of_slack_pins :: "slack_pins_call \<Rightarrow> shape" where
  "shape_of_slack_pins (Pin_item _ _ _) = Returns_body"
| "shape_of_slack_pins (Unpin_item _ _ _) = Returns_body"
| "shape_of_slack_pins (List_pinned_items _ _) = Returns_body"

section \<open>Slack: reminders\<close>

text \<open>The functions of \<^verbatim>\<open>actions/slack/reminders.py\<close>, in the order of the file.\<close>

definition create_reminder ::
  "http_layer \<Rightarrow> string \<Rightarrow> string \<Rightarrow> string \<Rightarrow>
     string \<Rightarrow> pyval py" where
  "create_reminder http token text time user_id =
     (let url' = ''https://slack.com/api/reminders.add'';
          headers' = [(''Authorization'', ''Bearer '' @ token)];
          payload = PDict [(''text'', PStr text), (''time'', PStr time), (''user'', PStr user_id)]
      in try_except
           (bind (requests_call http
                    ((bare POST url')\<lparr>headers := Some headers',
                                             json := Some payload\<rparr>))
              (\<lambda>response. bind (raise_for_status response)
              (\<lambda>_. response_json response)))
           log_and_return_str)"

definition delete_reminder ::
  "http_layer \<Rightarrow> string \<Rightarrow> string \<Rightarrow> pyval py" where
  "delete_reminder http token reminder_id =
     (let url' = ''https://slack.com/api/reminders.delete'';
          headers' = [(''Authorization'', ''Bearer '' @ token)];
          payload = PDict [(''reminder'', PStr reminder_id)]
      in try_except
           (bind (requests_call http
                    ((bare POST url')\<lparr>headers := Some headers',
                                             json := Some payload\<rparr>))
              (\<lambda>response. bind (raise_for_status response)
              (\<lambda>_. response_json response)))
           log_and_return_str)"

definition list_reminders :: "http_layer \<Rightarrow> string \<Rightarrow> pyval py" where
  "list_reminders http token =
     (let url' = ''https://slack.com/api/reminders.list'';
          headers' = [(''Authorization'', ''Bearer '' @ token)]
      in try_except
           (bind (requests_call http
                    ((bare GET url')\<lparr>headers := Some headers'\<rparr>))
              (\<lambda>response. bind (raise_for_status response)
              (\<lambda>_. response_json response)))
           log_and_return_str)"

datatype slack_reminders_call =
    Create_reminder string string string string
  | Delete_reminder string string
  | List_reminders string

fun run_slack_reminders :: "http_layer \<Rightarrow> slack_reminders_call \<Rightarrow> pyval py" where
  "run_slack_reminders http (Create_reminder token text time user_id) =
     create_reminder http token text time user_id"
| "run_slack_reminders http (Delete_reminder token reminder_id) =
     delete_reminder http token reminder_id"
| "run_slack_reminders http (List_reminders token) = list_reminders http token"

fun shape_of_slack_reminders :: "slack_reminders_call \<Rightarrow> shape" where
  "shape_of_slack_reminders (Create_reminder _ _ _ _) = Returns_body"
| "shape_of_slack_reminders (Delete_reminder _ _) = Returns_body"
| "shape_of_slack_reminders (List_reminders _) = Returns_body"

section \<open>Slack: search\<close>

text \<open>The functions of \<^verbatim>\<open>actions/slack/search.py\<close>, in the order of the file.\<close>

definition search_messages ::
  "http_layer \<Rightarrow> string \<Rightarrow> string \<Rightarrow> int \<Rightarrow>
     int \<Rightarrow> pyval py" where
  "search_messages http token query count page =
     (let url' = ''https://slack.com/api/search.messages'';
          headers' = [(''Authorization'', ''Bearer '' @ token)];
          params' = [(''query'', PStr query), (''count'', PInt count), (''page'', PInt page)]
      in try_except
           (bind (requests_call http
                    ((bare GET url')\<lparr>headers := Some headers',
                                            params := Some params'\<rparr>))
              (\<lambda>response. bind (raise_for_status response)
              (\<lambda>_. response_json response)))
           log_and_return_str)"

definition search_files ::
  "http_layer \<Rightarrow> string \<Rightarrow> string \<Rightarrow> int \<Rightarrow>
     int \<Rightarrow> pyval py" where
  "search_files http token query count page =
     (let url' = ''https://slack.com/api/search.files'';
          headers' = [(''Authorization'', ''Bearer '' @ token)];
          params' = [(''query'', PStr query), (''count'', PInt count), (''page'', PInt page)]
      in try_except
           (bind (requests_call http
                    ((bare GET url')\<lparr>headers := Some headers',
                                            params := Some params'\<rparr>))
              (\<lambda>response. bind (raise_for_status response)
              (\<lambda>_. response_json response)))
           log_and_return_str)"

datatype slack_search_call =
    Search_messages string string int int
  | Search_files string string int int

fun run_slack_search :: "http_layer \<Rightarrow> slack_search_call \<Rightarrow> pyval py" where
  "run_slack_search http (Search_messages token query count page) =
     search_messages http token query count page"
| "run_slack_search http (Search_files token query count page) =
     search_files http token query count page"

fun shape_of_slack_search :: "slack_search_call \<Rightarrow> shape" where
  "shape_of_slack_search (Search_messages _ _ _ _) = Returns_body"
| "shape_of_slack_search (Search_files _ _ _ _) = Returns_body"

section \<open>Slack: users\<close>

text \<open>The functions of \<^verbatim>\<open>actions/slack/users.py\<close>, in the order of the file.\<close>

definition list_users :: "http_layer \<Rightarrow> string \<Rightarrow> pyval py" where
  "list_users http token =
     (let url' = ''https://slack.com/api/users.list'';
          headers' = [(''Authorization'', ''Bearer '' @ token)]
      in try_except
           (bind (requests_call http
                    ((bare GET url')\<lparr>headers := Some headers'\<rparr>))
              (\<lambda>response. bind (raise_for_status response)
              (\<lambda>_. response_json response)))
           log_and_return_str)"

definition get_user_info ::
  "http_layer \<Rightarrow> string \<Rightarrow> string \<Rightarrow> pyval py" where
  "get_user_info http token user_id =
     (let url' = ''https://slack.com/api/users.info'';
          headers' = [(''Authorization'', ''Bearer '' @ token)];
          params' = [(''user'', PStr user_id)]
      in try_except
           (bind (requests_call http
                    ((bare GET url')\<lparr>headers := Some headers',
                                            params := Some params'\<rparr>))
              (\<lambda>response. bind (raise_for_status response)
              (\<lambda>_. response_json response)))
           log_and_return_str)"

definition set_user_status ::
  "http_layer \<Rightarrow> string \<Rightarrow> string \<Rightarrow> string \<Rightarrow>
     pyval py" where
  "set_user_status http token status_text status_emoji =
     (let url' = ''https://slack.com/api/users.profile.set'';
          headers' = [(''Authorization'', ''Bearer '' @ token)];
          payload = PDict [
                      (''profile'',
                        PDict [
                          (''status_text'', PStr status_text),
                          (''status_emoji'', PStr status_emoji)])]
      in try_except
           (bind (requests_call http
                    ((bare POST url')\<lparr>headers := Some headers',
                                             json := Some payload\<rparr>))
              (\<lambda>response. bind (raise_for_status response)
              (\<lambda>_. response_json response)))
           log_and_return_str)"

definition set_user_presence ::
  "http_layer \<Rightarrow> string \<Rightarrow> string \<Rightarrow> pyval py" where
  "set_user_presence http token presence =
     (let url' = ''https://slack.com/api/users.setPresence'';
          headers' = [(''Authorization'', ''Bearer '' @ token)];
          payload = PDict [(''presence'', PStr presence)]
      in try_except
           (bind (requests_call http
                    ((bare POST url')\<lparr>headers := Some headers',
                                             json := Some payload\<rparr>))
              (\<lambda>response. bind (raise_for_status response)
              (\<lambda>_. response_json response)))
           log_and_return_str)"

datatype slack_users_call =
    List_users string
  | Get_user_info string string
  | Set_user_status string string string
  | Set_user_presence string string

fun run_slack_users :: "http_layer \<Rightarrow> slack_users_call \<Rightarrow> pyval py" where
  "run_slack_users http (List_users token) = list_users http token"
| "run_slack_users http (Get_user_info token user_id) = get_user_info http token user_id"
| "run_slack_users http (Set_user_status token status_text status_emoji) =
     set_user_status http token status_text status_emoji"
| "run_slack_users http (Set_user_presence token presence) = set_user_presence http token presence"

fun shape_of_slack_users :: "slack_users_call \<Rightarrow> shape" where
  "shape_of_slack_users (List_users _) = Returns_body"
| "shape_of_slack_users (Get_user_info _ _) = Returns_body"
| "shape_of_slack_users (Set_user_status _ _ _) = Returns_body"
| "shape_of_slack_users (Set_user_presence _ _) = Returns_body"

section \<open>All wrappers\<close>

text \<open>
  A call of a wrapper of the repository with its arguments: the calls of the sixty
  modules, side by side.
\<close>

datatype call =
    Confluence_attachments confluence_attachments_call
  | Confluence_comments confluence_comments_call
  | Confluence_groups confluence_groups_call
  | Confluence_labels confluence_labels_call
  | Confluence_pages confluence_pages_call
  | Confluence_permissions confluence_permissions_call
  | Confluence_search confluence_search_call
  | Confluence_spaces confluence_spaces_call
  | Confluence_users confluence_users_call
  | Confluence_webhooks confluence_webhooks_call
  | Discord_bans discord_bans_call
  | Discord_channels discord_channels_call
  | Discord_interactions discord_interactions_call
  | Discord_invites discord_invites_call
  | Discord_messages discord_messages_call
  | Discord_roles discord_roles_call
  | Discord_servers discord_servers_call
  | Discord_users discord_users_call
  | Discord_voice discord_voice_call
  | Discord_webhooks discord_webhooks_call
  | Github_gist github_gist_call
  | Github_org github_org_call
  | Github_pr github_pr_call
  | Github_projects github_projects_call
  | Github_repo github_repo_call
  | Github_user github_user_call
  | Github_webhooks github_webhooks_call
  | Github_workflows github_workflows_call
  | Gitlab_group gitlab_group_call
  | Gitlab_hooks gitlab_hooks_call
  | Gitlab_issues gitlab_issues_call
  | Gitlab_jobs gitlab_jobs_call
  | Gitlab_labels gitlab_labels_call
  | Gitlab_misc gitlab_misc_call
  | Gitlab_mr gitlab_mr_call
  | Gitlab_projects gitlab_projects_call
  | Gitlab_repo gitlab_repo_call
  | Gitlab_runners gitlab_runners_call
  | Gitlab_snippet gitlab_snippet_call
  | Gitlab_user gitlab_user_call
  | Gitlab_wiki gitlab_wiki_call
  | Jira_boards jira_boards_call
  | Jira_components jira_components_call
  | Jira_filters jira_filters_call
  | Jira_group jira_group_call
  | Jira_issues jira_issues_call
  | Jira_sprint jira_sprint_call
  | Jira_users jira_users_call
  | Jira_webhooks jira_webhooks_call
  | Jira_worklog jira_worklog_call
  | Slack_reactions slack_reactions_call
  | Slack_channels slack_channels_call
  | Slack_conversations slack_conversations_call
  | Slack_files slack_files_call
  | Slack_groups slack_groups_call
  | Slack_messages slack_messages_call
  | Slack_pins slack_pins_call
  | Slack_reminders slack_reminders_call
  | Slack_search slack_search_call
  | Slack_users slack_users_call

fun run :: "http_layer \<Rightarrow> call \<Rightarrow> pyval py" where
  "run http (Confluence_attachments c) = run_confluence_attachments http c"
| "run http (Confluence_comments c) = run_confluence_comments http c"
| "run http (Confluence_groups c) = run_confluence_groups http c"
| "run http (Confluence_labels c) = run_confluence_labels http c"
| "run http (Confluence_pages c) = run_confluence_pages http c"
| "run http (Confluence_permissions c) = run_confluence_permissions http c"
| "run http (Confluence_search c) = run_confluence_search http c"
| "run http (Confluence_spaces c) = run_confluence_spaces http c"
| "run http (Confluence_users c) = run_confluence_users http c"
| "run http (Confluence_webhooks c) = run_confluence_webhooks http c"
| "run http (Discord_bans c) = run_discord_bans http c"
| "run http (Discord_channels c) = run_discord_channels http c"
| "run http (Discord_interactions c) = run_discord_interactions http c"
| "run http (Discord_invites c) = run_discord_invites http c"
| "run http (Discord_messages c) = run_discord_messages http c"
| "run http (Discord_roles c) = run_discord_roles http c"
| "run http (Discord_servers c) = run_discord_servers http c"
| "run http (Discord_users c) = run_discord_users http c"
| "run http (Discord_voice c) = run_discord_voice http c"
| "run http (Discord_webhooks c) = run_discord_webhooks http c"
| "run http (Github_gist c) = run_github_gist http c"
| "run http (Github_org c) = run_github_org http c"
| "run http (Github_pr c) = run_github_pr http c"
| "run http (Github_projects c) = run_github_projects http c"
| "run http (Github_repo c) = run_github_repo http c"
| "run http (Github_user c) = run_github_user http c"
| "run http (Github_webhooks c) = run_github_webhooks http c"
| "run http (Github_workflows c) = run_github_workflows http c"
| "run http (Gitlab_group c) = run_gitlab_group http c"
| "run http (Gitlab_hooks c) = run_gitlab_hooks http c"
| "run http (Gitlab_issues c) = run_gitlab_issues http c"
| "run http (Gitlab_jobs c) = run_gitlab_jobs http c"
| "run http (Gitlab_labels c) = run_gitlab_labels http c"
| "run http (Gitlab_misc c) = run_gitlab_misc http c"
| "run http (Gitlab_mr c) = run_gitlab_mr http c"
| "run http (Gitlab_projects c) = run_gitlab_projects http c"
| "run http (Gitlab_repo c) = run_gitlab_repo http c"
| "run http (Gitlab_runners c) = run_gitlab_runners http c"
| "run http (Gitlab_snippet c) = run_gitlab_snippet http c"
| "run http (Gitlab_user c) = run_gitlab_user http c"
| "run http (Gitlab_wiki c) = run_gitlab_wiki http c"
| "run http (Jira_boards c) = run_jira_boards http c"
| "run http (Jira_components c) = run_jira_components http c"
| "run http (Jira_filters c) = run_jira_filters http c"
| "run http (Jira_group c) = run_jira_group http c"
| "run http (Jira_issues c) = run_jira_issues http c"
| "run http (Jira_sprint c) = run_jira_sprint http c"
| "run http (Jira_users c) = run_jira_users http c"
| "run http (Jira_webhooks c) = run_jira_webhooks http c"
| "run http (Jira_worklog c) = run_jira_worklog http c"
| "run http (Slack_reactions c) = run_slack_reactions http c"
| "run http (Slack_channels c) = run_slack_channels http c"
| "run http (Slack_conversations c) = run_slack_conversations http c"
| "run http (Slack_files c) = run_slack_files http c"
| "run http (Slack_groups c) = run_slack_groups http c"
| "run http (Slack_messages c) = run_slack_messages http c"
| "run http (Slack_pins c) = run_slack_pins http c"
| "run http (Slack_reminders c) = run_slack_reminders http c"
| "run http (Slack_search c) = run_slack_search http c"
| "run http (Slack_users c) = run_slack_users http c"

fun shape_of :: "call \<Rightarrow> shape" where
  "shape_of (Confluence_attachments c) = shape_of_confluence_attachments c"
| "shape_of (Confluence_comments c) = shape_of_confluence_comments c"
| "shape_of (Confluence_groups c) = shape_of_confluence_groups c"
| "shape_of (Confluence_labels c) = shape_of_confluence_labels c"
| "shape_of (Confluence_pages c) = shape_of_confluence_pages c"
| "shape_of (Confluence_permissions c) = shape_of_confluence_permissions c"
| "shape_of (Confluence_search c) = shape_of_confluence_search c"
| "shape_of (Confluence_spaces c) = shape_of_confluence_spaces c"
| "shape_of (Confluence_users c) = shape_of_confluence_users c"
| "shape_of (Confluence_webhooks c) = shape_of_confluence_webhooks c"
| "shape_of (Discord_bans c) = shape_of_discord_bans c"
| "shape_of (Discord_channels c) = shape_of_discord_channels c"
| "shape_of (Discord_interactions c) = shape_of_discord_interactions c"
| "shape_of (Discord_invites c) = shape_of_discord_invites c"
| "shape_of (Discord_messages c) = shape_of_discord_messages c"
| "shape_of (Discord_roles c) = shape_of_discord_roles c"
| "shape_of (Discord_servers c) = shape_of_discord_servers c"
| "shape_of (Discord_users c) = shape_of_discord_users c"
| "shape_of (Discord_voice c) = shape_of_discord_voice c"
| "shape_of (Discord_webhooks c) = shape_of_discord_webhooks c"
| "shape_of (Github_gist c) = shape_of_github_gist c"
| "shape_of (Github_org c) = shape_of_github_org c"
| "shape_of (Github_pr c) = shape_of_github_pr c"
| "shape_of (Github_projects c) = shape_of_github_projects c"
| "shape_of (Github_repo c) = shape_of_github_repo c"
| "shape_of (Github_user c) = shape_of_github_user c"
| "shape_of (Github_webhooks c) = shape_of_github_webhooks c"
| "shape_of (Github_workflows c) = shape_of_github_workflows c"
| "shape_of (Gitlab_group c) = shape_of_gitlab_group c"
| "shape_of (Gitlab_hooks c) = shape_of_gitlab_hooks c"
| "shape_of (Gitlab_issues c) = shape_of_gitlab_issues c"
| "shape_of (Gitlab_jobs c) = shape_of_gitlab_jobs c"
| "shape_of (Gitlab_labels c) = shape_of_gitlab_labels c"
| "shape_of (Gitlab_misc c) = shape_of_gitlab_misc c"
| "shape_of (Gitlab_mr c) = shape_of_gitlab_mr c"
| "shape_of (Gitlab_projects c) = shape_of_gitlab_projects c"
| "shape_of (Gitlab_repo c) = shape_of_gitlab_repo c"
| "shape_of (Gitlab_runners c) = shape_of_gitlab_runners c"
| "shape_of (Gitlab_snippet c) = shape_of_gitlab_snippet c"
| "shape_of (Gitlab_user c) = shape_of_gitlab_user c"
| "shape_of (Gitlab_wiki c) = shape_of_gitlab_wiki c"
| "shape_of (Jira_boards c) = shape_of_jira_boards c"
| "shape_of (Jira_components c) = shape_of_jira_components c"
| "shape_of (Jira_filters c) = shape_of_jira_filters c"
| "shape_of (Jira_group c) = shape_of_jira_group c"
| "shape_of (Jira_issues c) = shape_of_jira_issues c"
| "shape_of (Jira_sprint c) = shape_of_jira_sprint c"
| "shape_of (Jira_users c) = shape_of_jira_users c"
| "shape_of (Jira_webhooks c) = shape_of_jira_webhooks c"
| "shape_of (Jira_worklog c) = shape_of_jira_worklog c"
| "shape_of (Slack_reactions c) = shape_of_slack_reactions c"
| "shape_of (Slack_channels c) = shape_of_slack_channels c"
| "shape_of (Slack_conversations c) = shape_of_slack_conversations c"
| "shape_of (Slack_files c) = shape_of_slack_files c"
| "shape_of (Slack_groups c) = shape_of_slack_groups c"
| "shape_of (Slack_messages c) = shape_of_slack_messages c"
| "shape_of (Slack_pins c) = shape_of_slack_pins c"
| "shape_of (Slack_reminders c) = shape_of_slack_reminders c"
| "shape_of (Slack_search c) = shape_of_slack_search c"
| "shape_of (Slack_users c) = shape_of_slack_users c"

section \<open>Notions for the properties\<close>

text \<open>
  A failed call, in the words of the specification: a transport exception, or an answer
  with a 4xx or 5xx status.
\<close>

fun failure :: "reply \<Rightarrow> bool" where
  "failure (Failed _) = True"
| "failure (Replied resp) = (400 \<le> status_code resp \<and> status_code resp < 600)"

text \<open>The call \<open>c\<close>, started in \<open>w\<close>, issues the request \<open>r\<close>.\<close>

definition issues :: "http_layer \<Rightarrow> call \<Rightarrow> world \<Rightarrow> request \<Rightarrow> bool" where
  "issues http c w r = (sent (snd (run http c w)) = sent w @ [r])"

subsection \<open>Concrete surroundings for examples\<close>

definition fresh :: world where
  "fresh = \<lparr>sent = [], logged = [], fs = [], unwritable = []\<rparr>"



definition undecodable :: http_layer where
  "undecodable r =
     Replied \<lparr>status_code = 200, error_text = [],
              body_json = Inl (ValueError ''Expecting value''), content = ''<html>''\<rparr>"

subsection \<open>Results by shape\<close>

text \<open>
  The result of a wrapper, read off the reply to its request. \<open>guarded_result\<close> is the
  \<open>try\<close> block: it takes what the lines after \<open>raise_for_status()\<close> give for an answer
  that passed it. \<open>decoded\<close> is \<open>return response.json()\<close> under the handler,
  \<open>decoded_field\<close> is \<open>return response.json().get(k, default)\<close> and \<open>decoded_item\<close>
  is \<open>return response.json()[k]\<close>. \<open>after\<close> picks among them by the shape, and
  \<open>outcome\<close> adds the wrappers without the \<open>try\<close> block. They serve the proofs only.
\<close>

definition guarded_result :: "reply \<Rightarrow> (response \<Rightarrow> exn + pyval) \<Rightarrow> exn + pyval" where
  "guarded_result rep k =
     (case rep of
        Failed msg \<Rightarrow> Inr (PStr msg)
      | Replied resp \<Rightarrow>
          if 400 \<le> status_code resp \<and> status_code resp < 600
          then Inr (PStr (error_text resp))
          else k resp)"

definition decoded :: "response \<Rightarrow> exn + pyval" where
  "decoded resp =
     (case body_json resp of
        Inl (RequestException msg) \<Rightarrow> Inr (PStr msg)
      | other \<Rightarrow> other)"

definition decoded_field :: "string \<Rightarrow> pyval \<Rightarrow> response \<Rightarrow> exn + pyval" where
  "decoded_field k dflt resp =
     (case body_json resp of
        Inl (RequestException msg) \<Rightarrow> Inr (PStr msg)
      | Inl e \<Rightarrow> Inl e
      | Inr (PDict d) \<Rightarrow> Inr (case map_of d k of None \<Rightarrow> dflt | Some x \<Rightarrow> x)
      | Inr _ \<Rightarrow> Inl (AttributeError ''get''))"

definition decoded_item :: "string \<Rightarrow> response \<Rightarrow> exn + pyval" where
  "decoded_item k resp =
     (case body_json resp of
        Inl (RequestException msg) \<Rightarrow> Inr (PStr msg)
      | Inl e \<Rightarrow> Inl e
      | Inr (PDict d) \<Rightarrow> (case map_of d k of None \<Rightarrow> Inl (KeyError k) | Some x \<Rightarrow> Inr x)
      | Inr _ \<Rightarrow> Inl (TypeError ''subscript''))"

fun after :: "shape \<Rightarrow> world \<Rightarrow> response \<Rightarrow> exn + pyval" where
  "after Unguarded w = body_json"
| "after Returns_body w = decoded"
| "after (Returns_field k dflt) w = decoded_field k dflt"
| "after (Returns_item k) w = decoded_item k"
| "after (Returns_status s) w = (\<lambda>_. Inr (PDict [(''status'', PStr s)]))"
| "after (Returns_message s) w = (\<lambda>_. Inr (PStr s))"
| "after (Saves_content p) w =
     (\<lambda>_. if p \<in> set (unwritable w) then Inl (OSError p) else Inr PNone)"
| "after (Placeholder s) w = (\<lambda>_. Inr (PStr s))"

definition outcome :: "shape \<Rightarrow> world \<Rightarrow> reply \<Rightarrow> exn + pyval" where
  "outcome sh w rep =
     (if sh = Unguarded
      then (case rep of
              Failed msg \<Rightarrow> Inl (RequestException msg)
            | Replied resp \<Rightarrow> body_json resp)
      else guarded_result rep (after sh w))"


section \<open>How the building blocks evaluate\<close>

lemma try_ret: "try_except (ret v) h w = (Inr v, w)"
  by (simp add: try_except_def ret_def)

lemma try_json:
  "try_except (response_json resp) log_and_return_str w =
     (case body_json resp of
        Inl (RequestException msg) \<Rightarrow>
          (Inr (PStr msg), w\<lparr>logged := logged w @ [''An error occurred: '' @ msg]\<rparr>)
      | Inl e \<Rightarrow> (Inl e, w)
      | Inr j \<Rightarrow> (Inr j, w))"
  by (simp add: try_except_def response_json_def log_and_return_str_def bind_def
      logging_error_def ret_def split: sum.split exn.split)

lemma try_write:
  "try_except (bind (open_wb_write p c) (\<lambda>_. ret v)) h w =
     (if p \<in> set (unwritable w) then (Inl (OSError p), w)
      else (Inr v, w\<lparr>fs := (p, c) # fs w\<rparr>))"
  by (simp add: try_except_def bind_def open_wb_write_def ret_def)

lemma guarded_call:
  "try_except (bind (requests_call http r)
       (\<lambda>response. bind (raise_for_status response) (\<lambda>_. k response)))
     log_and_return_str w =
   (case http r of
      Failed msg \<Rightarrow>
        (Inr (PStr msg),
         w\<lparr>sent := sent w @ [r], logged := logged w @ [''An error occurred: '' @ msg]\<rparr>)
    | Replied resp \<Rightarrow>
        if 400 \<le> status_code resp \<and> status_code resp < 600
        then (Inr (PStr (error_text resp)),
              w\<lparr>sent := sent w @ [r],
                logged := logged w @ [''An error occurred: '' @ error_text resp]\<rparr>)
        else try_except (k resp) log_and_return_str (w\<lparr>sent := sent w @ [r]\<rparr>))"
  by (simp add: try_except_def bind_def requests_call_def raise_for_status_def raise_def
      ret_def log_and_return_str_def logging_error_def split: reply.split)

lemma try_subscript:
  "try_except (bind (subscript d k) f) h w =
     (case map_of d k of
        None \<Rightarrow> (Inl (KeyError k), w)
      | Some v \<Rightarrow> try_except (f v) h w)"
  by (simp add: try_except_def bind_def subscript_def raise_def ret_def split: option.split)

lemma try_open_rb:
  "try_except (bind (open_rb p) f) h w =
     (case map_of (fs w) p of
        None \<Rightarrow> (Inl (OSError p), w)
      | Some c \<Rightarrow> try_except (f c) h w)"
  by (simp add: try_except_def bind_def open_rb_def split: option.split)

lemma try_field:
  "try_except (bind (response_json resp) (\<lambda>body. dict_get body k dflt)) log_and_return_str w =
     (case body_json resp of
        Inl (RequestException msg) \<Rightarrow>
          (Inr (PStr msg), w\<lparr>logged := logged w @ [''An error occurred: '' @ msg]\<rparr>)
      | Inl e \<Rightarrow> (Inl e, w)
      | Inr (PDict d) \<Rightarrow> (Inr (case map_of d k of None \<Rightarrow> dflt | Some x \<Rightarrow> x), w)
      | Inr _ \<Rightarrow> (Inl (AttributeError ''get''), w))"
  by (simp add: try_except_def response_json_def log_and_return_str_def bind_def
      logging_error_def ret_def raise_def dict_get_def split: sum.split exn.split pyval.split)

lemma try_item:
  "try_except (bind (response_json resp) (\<lambda>body. item body k)) log_and_return_str w =
     (case body_json resp of
        Inl (RequestException msg) \<Rightarrow>
          (Inr (PStr msg), w\<lparr>logged := logged w @ [''An error occurred: '' @ msg]\<rparr>)
      | Inl e \<Rightarrow> (Inl e, w)
      | Inr (PDict d) \<Rightarrow>
          (case map_of d k of None \<Rightarrow> (Inl (KeyError k), w) | Some x \<Rightarrow> (Inr x, w))
      | Inr _ \<Rightarrow> (Inl (TypeError ''subscript''), w))"
  by (simp add: try_except_def response_json_def log_and_return_str_def bind_def
      logging_error_def ret_def raise_def item_def
      split: sum.split exn.split pyval.split option.split)

lemma try_unbound:
  "try_except (bind (raise (UnboundLocalError s)) f) h w = (Inl (UnboundLocalError s), w)"
  by (simp add: try_except_def bind_def raise_def)

lemma unguarded_call:
  "bind (requests_call http r) response_json w =
     (case http r of
        Failed msg \<Rightarrow> (Inl (RequestException msg), w\<lparr>sent := sent w @ [r]\<rparr>)
      | Replied resp \<Rightarrow> (body_json resp, w\<lparr>sent := sent w @ [r]\<rparr>))"
  by (simp add: bind_def requests_call_def response_json_def split: reply.split sum.split)

lemma bind_open_rb:
  "bind (open_rb p) f w =
     (case map_of (fs w) p of None \<Rightarrow> (Inl (OSError p), w) | Some c \<Rightarrow> f c w)"
  by (simp add: bind_def open_rb_def split: option.split)

lemma placeholder_call:
  "bind (logging_warning m) (\<lambda>_. ret v) w = (Inr v, w\<lparr>logged := logged w @ [m]\<rparr>)"
  by (simp add: bind_def logging_warning_def ret_def)


text \<open>The dictionary comprehension of \<open>update_repository\<close>, argument by argument.\<close>

lemma update_repository_payload:
  "filter (\<lambda>(k, v). v \<noteq> PNone)
     [(''name'', of_opt PStr name), (''description'', of_opt PStr description),
      (''private'', of_opt PBool priv)] =
   (case name of None \<Rightarrow> [] | Some n \<Rightarrow> [(''name'', PStr n)]) @
   (case description of None \<Rightarrow> [] | Some d \<Rightarrow> [(''description'', PStr d)]) @
   (case priv of None \<Rightarrow> [] | Some p \<Rightarrow> [(''private'', PBool p)])"
  by (cases name; cases description; cases priv) simp_all

lemma update_repository_call:
  "update_repository http auth_token owner repo name description priv =
     bind (requests_call http
        \<lparr>meth = PATCH, url = ''https://api.github.com/repos/'' @ owner @ ''/'' @ repo,
          headers = Some [(''Authorization'', ''token '' @ auth_token)],
          params = None,
          json = Some (PDict (
            (case name of None \<Rightarrow> [] | Some n \<Rightarrow> [(''name'', PStr n)]) @
            (case description of None \<Rightarrow> [] | Some d \<Rightarrow> [(''description'', PStr d)]) @
            (case priv of None \<Rightarrow> [] | Some p \<Rightarrow> [(''private'', PBool p)]))),
          data = None, upfiles = None, auth = None\<rparr>)
       response_json"
  unfolding update_repository_def Let_def update_repository_payload bare_def
  by simp

lemma fst_try_json: "fst (try_except (response_json resp) log_and_return_str w) = decoded resp"
  by (simp add: try_json decoded_def split: sum.split exn.split)

lemma sent_try_json:
  "sent (snd (try_except (response_json resp) log_and_return_str w)) = sent w"
  by (simp add: try_json split: sum.split exn.split)

lemma fst_try_field:
  "fst (try_except (bind (response_json resp) (\<lambda>body. dict_get body k dflt))
          log_and_return_str w) = decoded_field k dflt resp"
  by (simp add: try_field decoded_field_def split: sum.split exn.split pyval.split)

lemma sent_try_field:
  "sent (snd (try_except (bind (response_json resp) (\<lambda>body. dict_get body k dflt))
          log_and_return_str w)) = sent w"
  by (simp add: try_field split: sum.split exn.split pyval.split)

lemma fst_try_item:
  "fst (try_except (bind (response_json resp) (\<lambda>body. item body k))
          log_and_return_str w) = decoded_item k resp"
  by (simp add: try_item decoded_item_def split: sum.split exn.split pyval.split option.split)

lemma sent_try_item:
  "sent (snd (try_except (bind (response_json resp) (\<lambda>body. item body k))
          log_and_return_str w)) = sent w"
  by (simp add: try_item split: sum.split exn.split pyval.split option.split)

lemma fst_try_write:
  "fst (try_except (bind (open_wb_write p c) (\<lambda>_. ret v)) h w) =
     (if p \<in> set (unwritable w) then Inl (OSError p) else Inr v)"
  by (simp add: try_write)

lemma sent_try_write:
  "sent (snd (try_except (bind (open_wb_write p c) (\<lambda>_. ret v)) h w)) = sent w"
  by (simp add: try_write)

lemma fst_guarded:
  "fst (try_except (bind (requests_call http r)
          (\<lambda>response. bind (raise_for_status response) (\<lambda>_. k response)))
        log_and_return_str w) =
   guarded_result (http r)
     (\<lambda>resp. fst (try_except (k resp) log_and_return_str (w\<lparr>sent := sent w @ [r]\<rparr>)))"
  by (simp add: guarded_call guarded_result_def split: reply.split)

lemma sent_guarded:
  assumes "\<And>resp v. sent (snd (try_except (k resp) log_and_return_str v)) = sent v"
  shows "sent (snd (try_except (bind (requests_call http r)
            (\<lambda>response. bind (raise_for_status response) (\<lambda>_. k response)))
          log_and_return_str w)) = sent w @ [r]"
  by (simp add: guarded_call assms split: reply.split)

lemma fst_unguarded:
  "fst (bind (requests_call http r) response_json w) =
     (case http r of
        Failed msg \<Rightarrow> Inl (RequestException msg)
      | Replied resp \<Rightarrow> body_json resp)"
  by (simp add: unguarded_call split: reply.split)

lemma sent_unguarded: "sent (snd (bind (requests_call http r) response_json w)) = sent w @ [r]"
  by (simp add: unguarded_call split: reply.split)

lemmas outcome_simps = outcome_def fst_try_json sent_try_json fst_guarded sent_guarded fst_unguarded
  sent_unguarded try_ret fst_try_write sent_try_write fst_try_field sent_try_field fst_try_item sent_try_item
  try_open_rb try_subscript try_unbound bind_open_rb placeholder_call

subsection \<open>Computations that only append to the trace and the log\<close>
















section \<open>The wrappers, module by module\<close>

subsection \<open>Confluence: attachments\<close>

lemmas confluence_attachments_defs = upload_attachment_def download_attachment_def
  delete_attachment_def list_attachments_on_page_def

lemma outcome_confluence_attachments:
  "sent (snd (run_confluence_attachments http c w)) = sent w @ [r] \<longrightarrow>
     fst (run_confluence_attachments http c w) = outcome (shape_of_confluence_attachments c) w (http r)"
  by (cases c) (simp_all add: confluence_attachments_defs outcome_simps Let_def split: option.split)

lemma one_request_confluence_attachments:
  "sent (snd (run_confluence_attachments http c w)) = sent w
     \<or> (\<exists>r. sent (snd (run_confluence_attachments http c w)) = sent w @ [r])"
  by (cases c) (simp_all add: confluence_attachments_defs outcome_simps Let_def split: option.split)



subsection \<open>Confluence: comments\<close>

lemmas confluence_comments_defs = create_comment_def read_comment_def update_comment_def
  delete_comment_def list_comments_on_page_def

lemma outcome_confluence_comments:
  "sent (snd (run_confluence_comments http c w)) = sent w @ [r] \<longrightarrow>
     fst (run_confluence_comments http c w) = outcome (shape_of_confluence_comments c) w (http r)"
  by (cases c) (simp_all add: confluence_comments_defs outcome_simps Let_def split: option.split)

lemma one_request_confluence_comments:
  "sent (snd (run_confluence_comments http c w)) = sent w
     \<or> (\<exists>r. sent (snd (run_confluence_comments http c w)) = sent w @ [r])"
  by (cases c) (simp_all add: confluence_comments_defs outcome_simps Let_def split: option.split)


subsection \<open>Confluence: groups\<close>

lemmas confluence_groups_defs = confluence_create_group_def confluence_delete_group_def
  add_user_to_group_def remove_user_from_group_def confluence_list_all_groups_def

lemma outcome_confluence_groups:
  "sent (snd (run_confluence_groups http c w)) = sent w @ [r] \<longrightarrow>
     fst (run_confluence_groups http c w) = outcome (shape_of_confluence_groups c) w (http r)"
  by (cases c) (simp_all add: confluence_groups_defs outcome_simps Let_def split: option.split)

lemma one_request_confluence_groups:
  "sent (snd (run_confluence_groups http c w)) = sent w
     \<or> (\<exists>r. sent (snd (run_confluence_groups http c w)) = sent w @ [r])"
  by (cases c) (simp_all add: confluence_groups_defs outcome_simps Let_def split: option.split)


subsection \<open>Confluence: labels\<close>

lemmas confluence_labels_defs = add_label_to_page_def remove_label_from_page_def
  list_labels_on_page_def

lemma outcome_confluence_labels:
  "sent (snd (run_confluence_labels http c w)) = sent w @ [r] \<longrightarrow>
     fst (run_confluence_labels http c w) = outcome (shape_of_confluence_labels c) w (http r)"
  by (cases c) (simp_all add: confluence_labels_defs outcome_simps Let_def split: option.split)

lemma one_request_confluence_labels:
  "sent (snd (run_confluence_labels http c w)) = sent w
     \<or> (\<exists>r. sent (snd (run_confluence_labels http c w)) = sent w @ [r])"
  by (cases c) (simp_all add: confluence_labels_defs outcome_simps Let_def split: option.split)


subsection \<open>Confluence: pages\<close>

lemmas confluence_pages_defs = create_page_def read_page_def update_page_def delete_page_def
  list_pages_by_space_def

lemma outcome_confluence_pages:
  "sent (snd (run_confluence_pages http c w)) = sent w @ [r] \<longrightarrow>
     fst (run_confluence_pages http c w) = outcome (shape_of_confluence_pages c) w (http r)"
  by (cases c) (simp_all add: confluence_pages_defs outcome_simps Let_def split: option.split)

lemma one_request_confluence_pages:
  "sent (snd (run_confluence_pages http c w)) = sent w
     \<or> (\<exists>r. sent (snd (run_confluence_pages http c w)) = sent w @ [r])"
  by (cases c) (simp_all add: confluence_pages_defs outcome_simps Let_def split: option.split)


subsection \<open>Confluence: permissions\<close>

lemmas confluence_permissions_defs = add_page_permissions_def remove_page_permissions_def
  list_page_permissions_def

lemma outcome_confluence_permissions:
  "sent (snd (run_confluence_permissions http c w)) = sent w @ [r] \<longrightarrow>
     fst (run_confluence_permissions http c w) = outcome (shape_of_confluence_permissions c) w (http r)"
  by (cases c) (simp_all add: confluence_permissions_defs outcome_simps Let_def split: option.split)

lemma one_request_confluence_permissions:
  "sent (snd (run_confluence_permissions http c w)) = sent w
     \<or> (\<exists>r. sent (snd (run_confluence_permissions http c w)) = sent w @ [r])"
  by (cases c) (simp_all add: confluence_permissions_defs outcome_simps Let_def split: option.split)


subsection \<open>Confluence: search\<close>

lemmas confluence_search_defs = search_content_def search_users_def

lemma outcome_confluence_search:
  "sent (snd (run_confluence_search http c w)) = sent w @ [r] \<longrightarrow>
     fst (run_confluence_search http c w) = outcome (shape_of_confluence_search c) w (http r)"
  by (cases c) (simp_all add: confluence_search_defs outcome_simps Let_def split: option.split)

lemma one_request_confluence_search:
  "sent (snd (run_confluence_search http c w)) = sent w
     \<or> (\<exists>r. sent (snd (run_confluence_search http c w)) = sent w @ [r])"
  by (cases c) (simp_all add: confluence_search_defs outcome_simps Let_def split: option.split)


subsection \<open>Confluence: spaces\<close>

lemmas confluence_spaces_defs = create_space_def read_space_def update_space_def delete_space_def
  list_all_spaces_def

lemma outcome_confluence_spaces:
  "sent (snd (run_confluence_spaces http c w)) = sent w @ [r] \<longrightarrow>
     fst (run_confluence_spaces http c w) = outcome (shape_of_confluence_spaces c) w (http r)"
  by (cases c) (simp_all add: confluence_spaces_defs outcome_simps Let_def split: option.split)

lemma one_request_confluence_spaces:
  "sent (snd (run_confluence_spaces http c w)) = sent w
     \<or> (\<exists>r. sent (snd (run_confluence_spaces http c w)) = sent w @ [r])"
  by (cases c) (simp_all add: confluence_spaces_defs outcome_simps Let_def split: option.split)


subsection \<open>Confluence: users\<close>

lemmas confluence_users_defs = confluence_get_user_details_def confluence_update_user_details_def

lemma outcome_confluence_users:
  "sent (snd (run_confluence_users http c w)) = sent w @ [r] \<longrightarrow>
     fst (run_confluence_users http c w) = outcome (shape_of_confluence_users c) w (http r)"
  by (cases c) (simp_all add: confluence_users_defs outcome_simps Let_def split: option.split)

lemma one_request_confluence_users:
  "sent (snd (run_confluence_users http c w)) = sent w
     \<or> (\<exists>r. sent (snd (run_confluence_users http c w)) = sent w @ [r])"
  by (cases c) (simp_all add: confluence_users_defs outcome_simps Let_def split: option.split)


subsection \<open>Confluence: webhooks\<close>

lemmas confluence_webhooks_defs = confluence_create_webhook_def confluence_delete_webhook_def
  confluence_list_all_webhooks_def

lemma outcome_confluence_webhooks:
  "sent (snd (run_confluence_webhooks http c w)) = sent w @ [r] \<longrightarrow>
     fst (run_confluence_webhooks http c w) = outcome (shape_of_confluence_webhooks c) w (http r)"
  by (cases c) (simp_all add: confluence_webhooks_defs outcome_simps Let_def split: option.split)

lemma one_request_confluence_webhooks:
  "sent (snd (run_confluence_webhooks http c w)) = sent w
     \<or> (\<exists>r. sent (snd (run_confluence_webhooks http c w)) = sent w @ [r])"
  by (cases c) (simp_all add: confluence_webhooks_defs outcome_simps Let_def split: option.split)


subsection \<open>Discord: bans\<close>

lemmas discord_bans_defs = ban_user_def unban_user_def list_all_bans_def

lemma outcome_discord_bans:
  "sent (snd (run_discord_bans http c w)) = sent w @ [r] \<longrightarrow>
     fst (run_discord_bans http c w) = outcome (shape_of_discord_bans c) w (http r)"
  by (cases c) (simp_all add: discord_bans_defs outcome_simps Let_def split: option.split)

lemma one_request_discord_bans:
  "sent (snd (run_discord_bans http c w)) = sent w
     \<or> (\<exists>r. sent (snd (run_discord_bans http c w)) = sent w @ [r])"
  by (cases c) (simp_all add: discord_bans_defs outcome_simps Let_def split: option.split)


subsection \<open>Discord: channels\<close>

lemmas discord_channels_defs = discord_create_channel_def get_channel_details_def
  update_channel_def delete_channel_def list_all_channels_def

lemma outcome_discord_channels:
  "sent (snd (run_discord_channels http c w)) = sent w @ [r] \<longrightarrow>
     fst (run_discord_channels http c w) = outcome (shape_of_discord_channels c) w (http r)"
  by (cases c) (simp_all add: discord_channels_defs outcome_simps Let_def split: option.split)

lemma one_request_discord_channels:
  "sent (snd (run_discord_channels http c w)) = sent w
     \<or> (\<exists>r. sent (snd (run_discord_channels http c w)) = sent w @ [r])"
  by (cases c) (simp_all add: discord_channels_defs outcome_simps Let_def split: option.split)


subsection \<open>Discord: interactions\<close>

lemmas discord_interactions_defs = create_interaction_def get_interaction_details_def
  update_interaction_def delete_interaction_def

lemma outcome_discord_interactions:
  "sent (snd (run_discord_interactions http c w)) = sent w @ [r] \<longrightarrow>
     fst (run_discord_interactions http c w) = outcome (shape_of_discord_interactions c) w (http r)"
  by (cases c) (simp_all add: discord_interactions_defs outcome_simps Let_def split: option.split)

lemma one_request_discord_interactions:
  "sent (snd (run_discord_interactions http c w)) = sent w
     \<or> (\<exists>r. sent (snd (run_discord_interactions http c w)) = sent w @ [r])"
  by (cases c) (simp_all add: discord_interactions_defs outcome_simps Let_def split: option.split)


subsection \<open>Discord: invites\<close>

lemmas discord_invites_defs = create_invite_def get_invite_details_def delete_invite_def
  list_all_invites_def

lemma outcome_discord_invites:
  "sent (snd (run_discord_invites http c w)) = sent w @ [r] \<longrightarrow>
     fst (run_discord_invites http c w) = outcome (shape_of_discord_invites c) w (http r)"
  by (cases c) (simp_all add: discord_invites_defs outcome_simps Let_def split: option.split)

lemma one_request_discord_invites:
  "sent (snd (run_discord_invites http c w)) = sent w
     \<or> (\<exists>r. sent (snd (run_discord_invites http c w)) = sent w @ [r])"
  by (cases c) (simp_all add: discord_invites_defs outcome_simps Let_def split: option.split)


subsection \<open>Discord: messages\<close>

lemmas discord_messages_defs = send_message_def edit_message_def discord_delete_message_def
  list_messages_def pin_message_def unpin_message_def

lemma outcome_discord_messages:
  "sent (snd (run_discord_messages http c w)) = sent w @ [r] \<longrightarrow>
     fst (run_discord_messages http c w) = outcome (shape_of_discord_messages c) w (http r)"
  by (cases c) (simp_all add: discord_messages_defs outcome_simps Let_def split: option.split)

lemma one_request_discord_messages:
  "sent (snd (run_discord_messages http c w)) = sent w
     \<or> (\<exists>r. sent (snd (run_discord_messages http c w)) = sent w @ [r])"
  by (cases c) (simp_all add: discord_messages_defs outcome_simps Let_def split: option.split)


subsection \<open>Discord: roles\<close>

lemmas discord_roles_defs = create_role_def get_role_details_def update_role_def delete_role_def
  list_all_roles_def

lemma outcome_discord_roles:
  "sent (snd (run_discord_roles http c w)) = sent w @ [r] \<longrightarrow>
     fst (run_discord_roles http c w) = outcome (shape_of_discord_roles c) w (http r)"
  by (cases c) (simp_all add: discord_roles_defs outcome_simps Let_def split: option.split)

lemma one_request_discord_roles:
  "sent (snd (run_discord_roles http c w)) = sent w
     \<or> (\<exists>r. sent (snd (run_discord_roles http c w)) = sent w @ [r])"
  by (cases c) (simp_all add: discord_roles_defs outcome_simps Let_def split: option.split)


subsection \<open>Discord: servers\<close>

lemmas discord_servers_defs = create_guild_def get_guild_details_def update_guild_def
  delete_guild_def list_all_guilds_def

lemma outcome_discord_servers:
  "sent (snd (run_discord_servers http c w)) = sent w @ [r] \<longrightarrow>
     fst (run_discord_servers http c w) = outcome (shape_of_discord_servers c) w (http r)"
  by (cases c) (simp_all add: discord_servers_defs outcome_simps Let_def split: option.split)

lemma one_request_discord_servers:
  "sent (snd (run_discord_servers http c w)) = sent w
     \<or> (\<exists>r. sent (snd (run_discord_servers http c w)) = sent w @ [r])"
  by (cases c) (simp_all add: discord_servers_defs outcome_simps Let_def split: option.split)


subsection \<open>Discord: users\<close>

lemmas discord_users_defs = discord_get_user_details_def discord_update_user_details_def
  list_all_members_def

lemma outcome_discord_users:
  "sent (snd (run_discord_users http c w)) = sent w @ [r] \<longrightarrow>
     fst (run_discord_users http c w) = outcome (shape_of_discord_users c) w (http r)"
  by (cases c) (simp_all add: discord_users_defs outcome_simps Let_def split: option.split)

lemma one_request_discord_users:
  "sent (snd (run_discord_users http c w)) = sent w
     \<or> (\<exists>r. sent (snd (run_discord_users http c w)) = sent w @ [r])"
  by (cases c) (simp_all add: discord_users_defs outcome_simps Let_def split: option.split)


subsection \<open>Discord: voice\<close>

lemmas discord_voice_defs = list_voice_regions_def get_current_voice_state_def
  update_voice_state_def

lemma outcome_discord_voice:
  "sent (snd (run_discord_voice http c w)) = sent w @ [r] \<longrightarrow>
     fst (run_discord_voice http c w) = outcome (shape_of_discord_voice c) w (http r)"
  by (cases c) (simp_all add: discord_voice_defs outcome_simps Let_def split: option.split)

lemma one_request_discord_voice:
  "sent (snd (run_discord_voice http c w)) = sent w
     \<or> (\<exists>r. sent (snd (run_discord_voice http c w)) = sent w @ [r])"
  by (cases c) (simp_all add: discord_voice_defs outcome_simps Let_def split: option.split)


subsection \<open>Discord: webhooks\<close>

lemmas discord_webhooks_defs = discord_create_webhook_def get_webhook_details_def
  discord_update_webhook_def discord_delete_webhook_def discord_list_all_webhooks_def

lemma outcome_discord_webhooks:
  "sent (snd (run_discord_webhooks http c w)) = sent w @ [r] \<longrightarrow>
     fst (run_discord_webhooks http c w) = outcome (shape_of_discord_webhooks c) w (http r)"
  by (cases c) (simp_all add: discord_webhooks_defs outcome_simps Let_def split: option.split)

lemma one_request_discord_webhooks:
  "sent (snd (run_discord_webhooks http c w)) = sent w
     \<or> (\<exists>r. sent (snd (run_discord_webhooks http c w)) = sent w @ [r])"
  by (cases c) (simp_all add: discord_webhooks_defs outcome_simps Let_def split: option.split)


subsection \<open>GitHub: gist\<close>

lemmas github_gist_defs = create_gist_def read_gist_def update_gist_def delete_gist_def
  star_gist_def unstar_gist_def fork_gist_def

lemma outcome_github_gist:
  "sent (snd (run_github_gist http c w)) = sent w @ [r] \<longrightarrow>
     fst (run_github_gist http c w) = outcome (shape_of_github_gist c) w (http r)"
  by (cases c) (simp_all add: github_gist_defs outcome_simps Let_def split: option.split)

lemma one_request_github_gist:
  "sent (snd (run_github_gist http c w)) = sent w
     \<or> (\<exists>r. sent (snd (run_github_gist http c w)) = sent w @ [r])"
  by (cases c) (simp_all add: github_gist_defs outcome_simps Let_def split: option.split)


subsection \<open>GitHub: org\<close>

lemmas github_org_defs = create_organization_def add_members_def remove_members_def list_teams_def
  manage_teams_def

lemma outcome_github_org:
  "sent (snd (run_github_org http c w)) = sent w @ [r] \<longrightarrow>
     fst (run_github_org http c w) = outcome (shape_of_github_org c) w (http r)"
  by (cases c) (simp_all add: github_org_defs outcome_simps Let_def split: option.split)

lemma one_request_github_org:
  "sent (snd (run_github_org http c w)) = sent w
     \<or> (\<exists>r. sent (snd (run_github_org http c w)) = sent w @ [r])"
  by (cases c) (simp_all add: github_org_defs outcome_simps Let_def split: option.split)


subsection \<open>GitHub: pr\<close>

lemmas github_pr_defs = github_create_issue_def github_read_issue_def github_update_issue_def
  list_issues_def create_pull_request_def read_pull_request_def update_pull_request_def
  merge_pull_request_def close_pull_request_def comment_on_issue_def comment_on_pull_request_def
  add_labels_def remove_labels_def add_assignees_def remove_assignees_def add_milestone_def
  remove_milestone_def

lemma outcome_github_pr:
  "sent (snd (run_github_pr http c w)) = sent w @ [r] \<longrightarrow>
     fst (run_github_pr http c w) = outcome (shape_of_github_pr c) w (http r)"
  by (cases c) (simp_all add: github_pr_defs outcome_simps Let_def split: option.split)

lemma one_request_github_pr:
  "sent (snd (run_github_pr http c w)) = sent w
     \<or> (\<exists>r. sent (snd (run_github_pr http c w)) = sent w @ [r])"
  by (cases c) (simp_all add: github_pr_defs outcome_simps Let_def split: option.split)


subsection \<open>GitHub: projects\<close>

lemmas github_projects_defs = github_create_project_def github_read_project_def
  github_update_project_def github_delete_project_def add_project_column_def
  manage_project_column_def add_project_card_def manage_project_card_def

lemma outcome_github_projects:
  "sent (snd (run_github_projects http c w)) = sent w @ [r] \<longrightarrow>
     fst (run_github_projects http c w) = outcome (shape_of_github_projects c) w (http r)"
  by (cases c) (simp_all add: github_projects_defs outcome_simps Let_def split: option.split)

lemma one_request_github_projects:
  "sent (snd (run_github_projects http c w)) = sent w
     \<or> (\<exists>r. sent (snd (run_github_projects http c w)) = sent w @ [r])"
  by (cases c) (simp_all add: github_projects_defs outcome_simps Let_def split: option.split)


subsection \<open>GitHub: repo\<close>

lemmas github_repo_defs = create_repository_def delete_repository_def list_user_repositories_def
  list_organization_repositories_def fork_repository_def star_repository_def unstar_repository_def
  list_starred_repositories_def watch_repository_def unwatch_repository_def
  get_repository_topics_def set_repository_topics_def list_releases_def create_release_def
  update_release_def delete_release_def github_list_tags_def github_create_tag_def
  github_delete_tag_def update_repository_call

lemma outcome_github_repo:
  "sent (snd (run_github_repo http c w)) = sent w @ [r] \<longrightarrow>
     fst (run_github_repo http c w) = outcome (shape_of_github_repo c) w (http r)"
  by (cases c) (simp_all add: github_repo_defs outcome_simps Let_def split: option.split)

lemma one_request_github_repo:
  "sent (snd (run_github_repo http c w)) = sent w
     \<or> (\<exists>r. sent (snd (run_github_repo http c w)) = sent w @ [r])"
  by (cases c) (simp_all add: github_repo_defs outcome_simps Let_def split: option.split)


subsection \<open>GitHub: user\<close>

lemmas github_user_defs = github_get_user_details_def update_user_profile_def list_followers_def
  list_following_def follow_user_def unfollow_user_def

lemma outcome_github_user:
  "sent (snd (run_github_user http c w)) = sent w @ [r] \<longrightarrow>
     fst (run_github_user http c w) = outcome (shape_of_github_user c) w (http r)"
  by (cases c) (simp_all add: github_user_defs outcome_simps Let_def split: option.split)

lemma one_request_github_user:
  "sent (snd (run_github_user http c w)) = sent w
     \<or> (\<exists>r. sent (snd (run_github_user http c w)) = sent w @ [r])"
  by (cases c) (simp_all add: github_user_defs outcome_simps Let_def split: option.split)


subsection \<open>GitHub: webhooks\<close>

lemmas github_webhooks_defs = search_code_def create_repo_webhook_def read_repo_webhook_def
  update_repo_webhook_def delete_repo_webhook_def create_org_webhook_def read_org_webhook_def
  update_org_webhook_def delete_org_webhook_def

lemma outcome_github_webhooks:
  "sent (snd (run_github_webhooks http c w)) = sent w @ [r] \<longrightarrow>
     fst (run_github_webhooks http c w) = outcome (shape_of_github_webhooks c) w (http r)"
  by (cases c) (simp_all add: github_webhooks_defs outcome_simps Let_def split: option.split)

lemma one_request_github_webhooks:
  "sent (snd (run_github_webhooks http c w)) = sent w
     \<or> (\<exists>r. sent (snd (run_github_webhooks http c w)) = sent w @ [r])"
  by (cases c) (simp_all add: github_webhooks_defs outcome_simps Let_def split: option.split)


subsection \<open>GitHub: workflows\<close>

lemmas github_workflows_defs = list_workflows_def create_workflow_def manage_workflow_def

lemma outcome_github_workflows:
  "sent (snd (run_github_workflows http c w)) = sent w @ [r] \<longrightarrow>
     fst (run_github_workflows http c w) = outcome (shape_of_github_workflows c) w (http r)"
  by (cases c) (simp_all add: github_workflows_defs outcome_simps Let_def split: option.split)

lemma one_request_github_workflows:
  "sent (snd (run_github_workflows http c w)) = sent w
     \<or> (\<exists>r. sent (snd (run_github_workflows http c w)) = sent w @ [r])"
  by (cases c) (simp_all add: github_workflows_defs outcome_simps Let_def split: option.split)


subsection \<open>GitLab: group\<close>

lemmas gitlab_group_defs = gitlab_create_group_def gitlab_read_group_def gitlab_update_group_def
  gitlab_delete_group_def list_group_members_def list_group_projects_def manage_group_members_def
  manage_group_projects_def

lemma outcome_gitlab_group:
  "sent (snd (run_gitlab_group http c w)) = sent w @ [r] \<longrightarrow>
     fst (run_gitlab_group http c w) = outcome (shape_of_gitlab_group c) w (http r)"
  by (cases c) (simp_all add: gitlab_group_defs outcome_simps Let_def split: option.split)

lemma one_request_gitlab_group:
  "sent (snd (run_gitlab_group http c w)) = sent w
     \<or> (\<exists>r. sent (snd (run_gitlab_group http c w)) = sent w @ [r])"
  by (cases c) (simp_all add: gitlab_group_defs outcome_simps Let_def split: option.split)


subsection \<open>GitLab: hooks\<close>

lemmas gitlab_hooks_defs = create_system_hook_def read_system_hook_def update_system_hook_def
  delete_system_hook_def

lemma outcome_gitlab_hooks:
  "sent (snd (run_gitlab_hooks http c w)) = sent w @ [r] \<longrightarrow>
     fst (run_gitlab_hooks http c w) = outcome (shape_of_gitlab_hooks c) w (http r)"
  by (cases c) (simp_all add: gitlab_hooks_defs outcome_simps Let_def split: option.split)

lemma one_request_gitlab_hooks:
  "sent (snd (run_gitlab_hooks http c w)) = sent w
     \<or> (\<exists>r. sent (snd (run_gitlab_hooks http c w)) = sent w @ [r])"
  by (cases c) (simp_all add: gitlab_hooks_defs outcome_simps Let_def split: option.split)


subsection \<open>GitLab: issues\<close>

lemmas gitlab_issues_defs = gitlab_create_issue_def gitlab_read_issue_def gitlab_update_issue_def
  gitlab_delete_issue_def list_issue_notes_def list_issue_labels_def manage_issue_notes_def
  manage_issue_labels_def

lemma outcome_gitlab_issues:
  "sent (snd (run_gitlab_issues http c w)) = sent w @ [r] \<longrightarrow>
     fst (run_gitlab_issues http c w) = outcome (shape_of_gitlab_issues c) w (http r)"
  by (cases c) (simp_all add: gitlab_issues_defs outcome_simps Let_def split: option.split)

lemma one_request_gitlab_issues:
  "sent (snd (run_gitlab_issues http c w)) = sent w
     \<or> (\<exists>r. sent (snd (run_gitlab_issues http c w)) = sent w @ [r])"
  by (cases c) (simp_all add: gitlab_issues_defs outcome_simps Let_def split: option.split)


subsection \<open>GitLab: jobs\<close>

lemmas gitlab_jobs_defs = create_pipeline_def read_pipeline_def update_pipeline_def
  delete_pipeline_def list_pipeline_jobs_def list_pipeline_schedules_def manage_pipeline_jobs_def
  manage_pipeline_schedules_def

lemma outcome_gitlab_jobs:
  "sent (snd (run_gitlab_jobs http c w)) = sent w @ [r] \<longrightarrow>
     fst (run_gitlab_jobs http c w) = outcome (shape_of_gitlab_jobs c) w (http r)"
  by (cases c) (simp_all add: gitlab_jobs_defs outcome_simps Let_def split: option.split)

lemma one_request_gitlab_jobs:
  "sent (snd (run_gitlab_jobs http c w)) = sent w
     \<or> (\<exists>r. sent (snd (run_gitlab_jobs http c w)) = sent w @ [r])"
  by (cases c) (simp_all add: gitlab_jobs_defs outcome_simps Let_def split: option.split)


subsection \<open>GitLab: labels\<close>

lemmas gitlab_labels_defs = create_label_def create_milestone_def read_label_def update_label_def
  delete_label_def read_milestone_def update_milestone_def delete_milestone_def

lemma outcome_gitlab_labels:
  "sent (snd (run_gitlab_labels http c w)) = sent w @ [r] \<longrightarrow>
     fst (run_gitlab_labels http c w) = outcome (shape_of_gitlab_labels c) w (http r)"
  by (cases c) (simp_all add: gitlab_labels_defs outcome_simps Let_def split: option.split)

lemma one_request_gitlab_labels:
  "sent (snd (run_gitlab_labels http c w)) = sent w
     \<or> (\<exists>r. sent (snd (run_gitlab_labels http c w)) = sent w @ [r])"
  by (cases c) (simp_all add: gitlab_labels_defs outcome_simps Let_def split: option.split)


subsection \<open>GitLab: misc\<close>

lemmas gitlab_misc_defs = list_todos_def list_custom_attributes_for_users_def
  list_container_registry_tags_def create_todo_def delete_todo_def
  create_custom_attribute_for_users_def create_container_registry_tag_def
  delete_container_registry_tag_def update_custom_attribute_for_users_def
  delete_custom_attribute_for_users_def

lemma outcome_gitlab_misc:
  "sent (snd (run_gitlab_misc http c w)) = sent w @ [r] \<longrightarrow>
     fst (run_gitlab_misc http c w) = outcome (shape_of_gitlab_misc c) w (http r)"
  by (cases c) (simp_all add: gitlab_misc_defs outcome_simps Let_def split: option.split)

lemma one_request_gitlab_misc:
  "sent (snd (run_gitlab_misc http c w)) = sent w
     \<or> (\<exists>r. sent (snd (run_gitlab_misc http c w)) = sent w @ [r])"
  by (cases c) (simp_all add: gitlab_misc_defs outcome_simps Let_def split: option.split)


subsection \<open>GitLab: mr\<close>

lemmas gitlab_mr_defs = create_merge_request_def read_merge_request_def update_merge_request_def
  delete_merge_request_def list_merge_request_notes_def list_merge_request_commits_def
  manage_merge_request_notes_def

lemma outcome_gitlab_mr:
  "sent (snd (run_gitlab_mr http c w)) = sent w @ [r] \<longrightarrow>
     fst (run_gitlab_mr http c w) = outcome (shape_of_gitlab_mr c) w (http r)"
  by (cases c) (simp_all add: gitlab_mr_defs outcome_simps Let_def split: option.split)

lemma one_request_gitlab_mr:
  "sent (snd (run_gitlab_mr http c w)) = sent w
     \<or> (\<exists>r. sent (snd (run_gitlab_mr http c w)) = sent w @ [r])"
  by (cases c) (simp_all add: gitlab_mr_defs outcome_simps Let_def split: option.split)


subsection \<open>GitLab: projects\<close>

lemmas gitlab_projects_defs = gitlab_create_project_def gitlab_read_project_def
  gitlab_update_project_def gitlab_delete_project_def fork_project_def list_project_members_def
  manage_project_members_def list_project_hooks_def manage_project_hooks_def
  list_project_issues_def manage_project_issues_def list_project_merge_requests_def
  manage_project_merge_requests_def

lemma outcome_gitlab_projects:
  "sent (snd (run_gitlab_projects http c w)) = sent w @ [r] \<longrightarrow>
     fst (run_gitlab_projects http c w) = outcome (shape_of_gitlab_projects c) w (http r)"
  by (cases c) (simp_all add: gitlab_projects_defs outcome_simps Let_def split: option.split)

lemma one_request_gitlab_projects:
  "sent (snd (run_gitlab_projects http c w)) = sent w
     \<or> (\<exists>r. sent (snd (run_gitlab_projects http c w)) = sent w @ [r])"
  by (cases c) (simp_all add: gitlab_projects_defs outcome_simps Let_def split: option.split)


subsection \<open>GitLab: repo\<close>

lemmas gitlab_repo_defs = list_branches_def create_branch_def delete_branch_def
  gitlab_list_tags_def gitlab_create_tag_def gitlab_delete_tag_def list_commits_def
  list_repository_files_def manage_commits_def manage_repository_files_def

lemma outcome_gitlab_repo:
  "sent (snd (run_gitlab_repo http c w)) = sent w @ [r] \<longrightarrow>
     fst (run_gitlab_repo http c w) = outcome (shape_of_gitlab_repo c) w (http r)"
  by (cases c) (simp_all add: gitlab_repo_defs outcome_simps Let_def split: option.split)

lemma one_request_gitlab_repo:
  "sent (snd (run_gitlab_repo http c w)) = sent w
     \<or> (\<exists>r. sent (snd (run_gitlab_repo http c w)) = sent w @ [r])"
  by (cases c) (simp_all add: gitlab_repo_defs outcome_simps Let_def split: option.split)


subsection \<open>GitLab: runners\<close>

lemmas gitlab_runners_defs = list_runners_def create_runner_def delete_runner_def
  enable_runner_def disable_runner_def

lemma outcome_gitlab_runners:
  "sent (snd (run_gitlab_runners http c w)) = sent w @ [r] \<longrightarrow>
     fst (run_gitlab_runners http c w) = outcome (shape_of_gitlab_runners c) w (http r)"
  by (cases c) (simp_all add: gitlab_runners_defs outcome_simps Let_def split: option.split)

lemma one_request_gitlab_runners:
  "sent (snd (run_gitlab_runners http c w)) = sent w
     \<or> (\<exists>r. sent (snd (run_gitlab_runners http c w)) = sent w @ [r])"
  by (cases c) (simp_all add: gitlab_runners_defs outcome_simps Let_def split: option.split)


subsection \<open>GitLab: snippet\<close>

lemmas gitlab_snippet_defs = create_snippet_def read_snippet_def update_snippet_def
  delete_snippet_def

lemma outcome_gitlab_snippet:
  "sent (snd (run_gitlab_snippet http c w)) = sent w @ [r] \<longrightarrow>
     fst (run_gitlab_snippet http c w) = outcome (shape_of_gitlab_snippet c) w (http r)"
  by (cases c) (simp_all add: gitlab_snippet_defs outcome_simps Let_def split: option.split)

lemma one_request_gitlab_snippet:
  "sent (snd (run_gitlab_snippet http c w)) = sent w
     \<or> (\<exists>r. sent (snd (run_gitlab_snippet http c w)) = sent w @ [r])"
  by (cases c) (simp_all add: gitlab_snippet_defs outcome_simps Let_def split: option.split)


subsection \<open>GitLab: user\<close>

lemmas gitlab_user_defs = gitlab_get_user_details_def gitlab_update_user_details_def
  list_user_projects_def list_user_ssh_keys_def list_user_emails_def manage_user_projects_def
  manage_user_ssh_keys_def manage_user_emails_def

lemma outcome_gitlab_user:
  "sent (snd (run_gitlab_user http c w)) = sent w @ [r] \<longrightarrow>
     fst (run_gitlab_user http c w) = outcome (shape_of_gitlab_user c) w (http r)"
  by (cases c) (simp_all add: gitlab_user_defs outcome_simps Let_def split: option.split)

lemma one_request_gitlab_user:
  "sent (snd (run_gitlab_user http c w)) = sent w
     \<or> (\<exists>r. sent (snd (run_gitlab_user http c w)) = sent w @ [r])"
  by (cases c) (simp_all add: gitlab_user_defs outcome_simps Let_def split: option.split)


subsection \<open>GitLab: wiki\<close>

lemmas gitlab_wiki_defs = create_wiki_page_def read_wiki_page_def update_wiki_page_def
  delete_wiki_page_def

lemma outcome_gitlab_wiki:
  "sent (snd (run_gitlab_wiki http c w)) = sent w @ [r] \<longrightarrow>
     fst (run_gitlab_wiki http c w) = outcome (shape_of_gitlab_wiki c) w (http r)"
  by (cases c) (simp_all add: gitlab_wiki_defs outcome_simps Let_def split: option.split)

lemma one_request_gitlab_wiki:
  "sent (snd (run_gitlab_wiki http c w)) = sent w
     \<or> (\<exists>r. sent (snd (run_gitlab_wiki http c w)) = sent w @ [r])"
  by (cases c) (simp_all add: gitlab_wiki_defs outcome_simps Let_def split: option.split)


subsection \<open>Jira: boards\<close>

lemmas jira_boards_defs = create_board_def read_board_def update_board_def delete_board_def
  list_all_boards_def

lemma outcome_jira_boards:
  "sent (snd (run_jira_boards http c w)) = sent w @ [r] \<longrightarrow>
     fst (run_jira_boards http c w) = outcome (shape_of_jira_boards c) w (http r)"
  by (cases c) (simp_all add: jira_boards_defs outcome_simps Let_def split: option.split)

lemma one_request_jira_boards:
  "sent (snd (run_jira_boards http c w)) = sent w
     \<or> (\<exists>r. sent (snd (run_jira_boards http c w)) = sent w @ [r])"
  by (cases c) (simp_all add: jira_boards_defs outcome_simps Let_def split: option.split)


subsection \<open>Jira: components\<close>

lemmas jira_components_defs = create_component_def read_component_def update_component_def
  delete_component_def list_all_components_def

lemma outcome_jira_components:
  "sent (snd (run_jira_components http c w)) = sent w @ [r] \<longrightarrow>
     fst (run_jira_components http c w) = outcome (shape_of_jira_components c) w (http r)"
  by (cases c) (simp_all add: jira_components_defs outcome_simps Let_def split: option.split)

lemma one_request_jira_components:
  "sent (snd (run_jira_components http c w)) = sent w
     \<or> (\<exists>r. sent (snd (run_jira_components http c w)) = sent w @ [r])"
  by (cases c) (simp_all add: jira_components_defs outcome_simps Let_def split: option.split)


subsection \<open>Jira: filters\<close>

lemmas jira_filters_defs = create_filter_def read_filter_def update_filter_def delete_filter_def
  list_all_filters_def

lemma outcome_jira_filters:
  "sent (snd (run_jira_filters http c w)) = sent w @ [r] \<longrightarrow>
     fst (run_jira_filters http c w) = outcome (shape_of_jira_filters c) w (http r)"
  by (cases c) (simp_all add: jira_filters_defs outcome_simps Let_def split: option.split)

lemma one_request_jira_filters:
  "sent (snd (run_jira_filters http c w)) = sent w
     \<or> (\<exists>r. sent (snd (run_jira_filters http c w)) = sent w @ [r])"
  by (cases c) (simp_all add: jira_filters_defs outcome_simps Let_def split: option.split)


subsection \<open>Jira: group\<close>

lemmas jira_group_defs = jira_create_group_def jira_read_group_def jira_update_group_def
  jira_delete_group_def jira_list_all_groups_def

lemma outcome_jira_group:
  "sent (snd (run_jira_group http c w)) = sent w @ [r] \<longrightarrow>
     fst (run_jira_group http c w) = outcome (shape_of_jira_group c) w (http r)"
  by (cases c) (simp_all add: jira_group_defs outcome_simps Let_def split: option.split)

lemma one_request_jira_group:
  "sent (snd (run_jira_group http c w)) = sent w
     \<or> (\<exists>r. sent (snd (run_jira_group http c w)) = sent w @ [r])"
  by (cases c) (simp_all add: jira_group_defs outcome_simps Let_def split: option.split)


subsection \<open>Jira: issues\<close>

lemmas jira_issues_defs = jira_create_issue_def jira_read_issue_def jira_update_issue_def
  jira_delete_issue_def list_issues_by_filter_def add_comment_to_issue_def
  update_comment_in_issue_def delete_comment_from_issue_def add_attachment_to_issue_def
  delete_attachment_from_issue_def

lemma outcome_jira_issues:
  "sent (snd (run_jira_issues http c w)) = sent w @ [r] \<longrightarrow>
     fst (run_jira_issues http c w) = outcome (shape_of_jira_issues c) w (http r)"
  by (cases c) (simp_all add: jira_issues_defs outcome_simps Let_def split: option.split)

lemma one_request_jira_issues:
  "sent (snd (run_jira_issues http c w)) = sent w
     \<or> (\<exists>r. sent (snd (run_jira_issues http c w)) = sent w @ [r])"
  by (cases c) (simp_all add: jira_issues_defs outcome_simps Let_def split: option.split)



subsection \<open>Jira: sprint\<close>

lemmas jira_sprint_defs = create_sprint_def read_sprint_def update_sprint_def delete_sprint_def
  list_all_sprints_def

lemma outcome_jira_sprint:
  "sent (snd (run_jira_sprint http c w)) = sent w @ [r] \<longrightarrow>
     fst (run_jira_sprint http c w) = outcome (shape_of_jira_sprint c) w (http r)"
  by (cases c) (simp_all add: jira_sprint_defs outcome_simps Let_def split: option.split)

lemma one_request_jira_sprint:
  "sent (snd (run_jira_sprint http c w)) = sent w
     \<or> (\<exists>r. sent (snd (run_jira_sprint http c w)) = sent w @ [r])"
  by (cases c) (simp_all add: jira_sprint_defs outcome_simps Let_def split: option.split)


subsection \<open>Jira: users\<close>

lemmas jira_users_defs = jira_create_project_def jira_read_project_def jira_update_project_def
  jira_delete_project_def list_projects_def

lemma outcome_jira_users:
  "sent (snd (run_jira_users http c w)) = sent w @ [r] \<longrightarrow>
     fst (run_jira_users http c w) = outcome (shape_of_jira_users c) w (http r)"
  by (cases c) (simp_all add: jira_users_defs outcome_simps Let_def split: option.split)

lemma one_request_jira_users:
  "sent (snd (run_jira_users http c w)) = sent w
     \<or> (\<exists>r. sent (snd (run_jira_users http c w)) = sent w @ [r])"
  by (cases c) (simp_all add: jira_users_defs outcome_simps Let_def split: option.split)


subsection \<open>Jira: webhooks\<close>

lemmas jira_webhooks_defs = jira_create_webhook_def read_webhook_def jira_update_webhook_def
  jira_delete_webhook_def jira_list_all_webhooks_def

lemma outcome_jira_webhooks:
  "sent (snd (run_jira_webhooks http c w)) = sent w @ [r] \<longrightarrow>
     fst (run_jira_webhooks http c w) = outcome (shape_of_jira_webhooks c) w (http r)"
  by (cases c) (simp_all add: jira_webhooks_defs outcome_simps Let_def split: option.split)

lemma one_request_jira_webhooks:
  "sent (snd (run_jira_webhooks http c w)) = sent w
     \<or> (\<exists>r. sent (snd (run_jira_webhooks http c w)) = sent w @ [r])"
  by (cases c) (simp_all add: jira_webhooks_defs outcome_simps Let_def split: option.split)


subsection \<open>Jira: worklog\<close>

lemmas jira_worklog_defs = create_worklog_def read_worklog_def update_worklog_def
  delete_worklog_def

lemma outcome_jira_worklog:
  "sent (snd (run_jira_worklog http c w)) = sent w @ [r] \<longrightarrow>
     fst (run_jira_worklog http c w) = outcome (shape_of_jira_worklog c) w (http r)"
  by (cases c) (simp_all add: jira_worklog_defs outcome_simps Let_def split: option.split)

lemma one_request_jira_worklog:
  "sent (snd (run_jira_worklog http c w)) = sent w
     \<or> (\<exists>r. sent (snd (run_jira_worklog http c w)) = sent w @ [r])"
  by (cases c) (simp_all add: jira_worklog_defs outcome_simps Let_def split: option.split)


subsection \<open>Slack: reactions\<close>

lemmas slack_reactions_defs = add_reaction_def remove_reaction_def list_reactions_def

lemma outcome_slack_reactions:
  "sent (snd (run_slack_reactions http c w)) = sent w @ [r] \<longrightarrow>
     fst (run_slack_reactions http c w) = outcome (shape_of_slack_reactions c) w (http r)"
  by (cases c) (simp_all add: slack_reactions_defs outcome_simps Let_def split: option.split)

lemma one_request_slack_reactions:
  "sent (snd (run_slack_reactions http c w)) = sent w
     \<or> (\<exists>r. sent (snd (run_slack_reactions http c w)) = sent w @ [r])"
  by (cases c) (simp_all add: slack_reactions_defs outcome_simps Let_def split: option.split)


subsection \<open>Slack: channels\<close>

lemmas slack_channels_defs = list_channels_def slack_create_channel_def join_channel_def
  leave_channel_def archive_channel_def unarchive_channel_def rename_channel_def
  get_channel_info_def set_channel_topic_def set_channel_purpose_def

lemma outcome_slack_channels:
  "sent (snd (run_slack_channels http c w)) = sent w @ [r] \<longrightarrow>
     fst (run_slack_channels http c w) = outcome (shape_of_slack_channels c) w (http r)"
  by (cases c) (simp_all add: slack_channels_defs outcome_simps Let_def split: option.split)

lemma one_request_slack_channels:
  "sent (snd (run_slack_channels http c w)) = sent w
     \<or> (\<exists>r. sent (snd (run_slack_channels http c w)) = sent w @ [r])"
  by (cases c) (simp_all add: slack_channels_defs outcome_simps Let_def split: option.split)


subsection \<open>Slack: conversations\<close>

lemmas slack_conversations_defs = list_conversations_def open_conversation_def
  close_conversation_def invite_users_to_conversation_def kick_user_from_conversation_def

lemma outcome_slack_conversations:
  "sent (snd (run_slack_conversations http c w)) = sent w @ [r] \<longrightarrow>
     fst (run_slack_conversations http c w) = outcome (shape_of_slack_conversations c) w (http r)"
  by (cases c) (simp_all add: slack_conversations_defs outcome_simps Let_def split: option.split)

lemma one_request_slack_conversations:
  "sent (snd (run_slack_conversations http c w)) = sent w
     \<or> (\<exists>r. sent (snd (run_slack_conversations http c w)) = sent w @ [r])"
  by (cases c) (simp_all add: slack_conversations_defs outcome_simps Let_def split: option.split)


subsection \<open>Slack: files\<close>

lemmas slack_files_defs = upload_file_def share_file_def delete_file_def list_files_def

lemma outcome_slack_files:
  "sent (snd (run_slack_files http c w)) = sent w @ [r] \<longrightarrow>
     fst (run_slack_files http c w) = outcome (shape_of_slack_files c) w (http r)"
  by (cases c) (simp_all add: slack_files_defs outcome_simps Let_def split: option.split)

lemma one_request_slack_files:
  "sent (snd (run_slack_files http c w)) = sent w
     \<or> (\<exists>r. sent (snd (run_slack_files http c w)) = sent w @ [r])"
  by (cases c) (simp_all add: slack_files_defs outcome_simps Let_def split: option.split)



subsection \<open>Slack: groups\<close>

lemmas slack_groups_defs = create_user_group_def update_user_group_def disable_user_group_def
  enable_user_group_def list_user_groups_def

lemma outcome_slack_groups:
  "sent (snd (run_slack_groups http c w)) = sent w @ [r] \<longrightarrow>
     fst (run_slack_groups http c w) = outcome (shape_of_slack_groups c) w (http r)"
  by (cases c) (simp_all add: slack_groups_defs outcome_simps Let_def split: option.split)

lemma one_request_slack_groups:
  "sent (snd (run_slack_groups http c w)) = sent w
     \<or> (\<exists>r. sent (snd (run_slack_groups http c w)) = sent w @ [r])"
  by (cases c) (simp_all add: slack_groups_defs outcome_simps Let_def split: option.split)


subsection \<open>Slack: messages\<close>

lemmas slack_messages_defs = update_message_def slack_delete_message_def
  list_messages_in_channel_def react_to_message_def unreact_to_message_def

lemma outcome_slack_messages:
  "sent (snd (run_slack_messages http c w)) = sent w @ [r] \<longrightarrow>
     fst (run_slack_messages http c w) = outcome (shape_of_slack_messages c) w (http r)"
  by (cases c) (simp_all add: slack_messages_defs outcome_simps Let_def split: option.split)

lemma one_request_slack_messages:
  "sent (snd (run_slack_messages http c w)) = sent w
     \<or> (\<exists>r. sent (snd (run_slack_messages http c w)) = sent w @ [r])"
  by (cases c) (simp_all add: slack_messages_defs outcome_simps Let_def split: option.split)


subsection \<open>Slack: pins\<close>

lemmas slack_pins_defs = pin_item_def unpin_item_def list_pinned_items_def

lemma outcome_slack_pins:
  "sent (snd (run_slack_pins http c w)) = sent w @ [r] \<longrightarrow>
     fst (run_slack_pins http c w) = outcome (shape_of_slack_pins c) w (http r)"
  by (cases c) (simp_all add: slack_pins_defs outcome_simps Let_def split: option.split)

lemma one_request_slack_pins:
  "sent (snd (run_slack_pins http c w)) = sent w
     \<or> (\<exists>r. sent (snd (run_slack_pins http c w)) = sent w @ [r])"
  by (cases c) (simp_all add: slack_pins_defs outcome_simps Let_def split: option.split)


subsection \<open>Slack: reminders\<close>

lemmas slack_reminders_defs = create_reminder_def delete_reminder_def list_reminders_def

lemma outcome_slack_reminders:
  "sent (snd (run_slack_reminders http c w)) = sent w @ [r] \<longrightarrow>
     fst (run_slack_reminders http c w) = outcome (shape_of_slack_reminders c) w (http r)"
  by (cases c) (simp_all add: slack_reminders_defs outcome_simps Let_def split: option.split)

lemma one_request_slack_reminders:
  "sent (snd (run_slack_reminders http c w)) = sent w
     \<or> (\<exists>r. sent (snd (run_slack_reminders http c w)) = sent w @ [r])"
  by (cases c) (simp_all add: slack_reminders_defs outcome_simps Let_def split: option.split)


subsection \<open>Slack: search\<close>

lemmas slack_search_defs = search_messages_def search_files_def

lemma outcome_slack_search:
  "sent (snd (run_slack_search http c w)) = sent w @ [r] \<longrightarrow>
     fst (run_slack_search http c w) = outcome (shape_of_slack_search c) w (http r)"
  by (cases c) (simp_all add: slack_search_defs outcome_simps Let_def split: option.split)

lemma one_request_slack_search:
  "sent (snd (run_slack_search http c w)) = sent w
     \<or> (\<exists>r. sent (snd (run_slack_search http c w)) = sent w @ [r])"
  by (cases c) (simp_all add: slack_search_defs outcome_simps Let_def split: option.split)


subsection \<open>Slack: users\<close>

lemmas slack_users_defs = list_users_def get_user_info_def set_user_status_def
  set_user_presence_def

lemma outcome_slack_users:
  "sent (snd (run_slack_users http c w)) = sent w @ [r] \<longrightarrow>
     fst (run_slack_users http c w) = outcome (shape_of_slack_users c) w (http r)"
  by (cases c) (simp_all add: slack_users_defs outcome_simps Let_def split: option.split)

lemma one_request_slack_users:
  "sent (snd (run_slack_users http c w)) = sent w
     \<or> (\<exists>r. sent (snd (run_slack_users http c w)) = sent w @ [r])"
  by (cases c) (simp_all add: slack_users_defs outcome_simps Let_def split: option.split)


subsection \<open>All wrappers\<close>

lemmas outcome_modules = outcome_confluence_attachments outcome_confluence_comments
  outcome_confluence_groups outcome_confluence_labels outcome_confluence_pages
  outcome_confluence_permissions outcome_confluence_search outcome_confluence_spaces
  outcome_confluence_users outcome_confluence_webhooks outcome_discord_bans
  outcome_discord_channels outcome_discord_interactions outcome_discord_invites
  outcome_discord_messages outcome_discord_roles outcome_discord_servers outcome_discord_users
  outcome_discord_voice outcome_discord_webhooks outcome_github_gist outcome_github_org
  outcome_github_pr outcome_github_projects outcome_github_repo outcome_github_user
  outcome_github_webhooks outcome_github_workflows outcome_gitlab_group outcome_gitlab_hooks
  outcome_gitlab_issues outcome_gitlab_jobs outcome_gitlab_labels outcome_gitlab_misc
  outcome_gitlab_mr outcome_gitlab_projects outcome_gitlab_repo outcome_gitlab_runners
  outcome_gitlab_snippet outcome_gitlab_user outcome_gitlab_wiki outcome_jira_boards
  outcome_jira_components outcome_jira_filters outcome_jira_group outcome_jira_issues
  outcome_jira_sprint outcome_jira_users outcome_jira_webhooks outcome_jira_worklog
  outcome_slack_reactions outcome_slack_channels outcome_slack_conversations outcome_slack_files
  outcome_slack_groups outcome_slack_messages outcome_slack_pins outcome_slack_reminders
  outcome_slack_search outcome_slack_users

lemmas one_request_modules = one_request_confluence_attachments one_request_confluence_comments
  one_request_confluence_groups one_request_confluence_labels one_request_confluence_pages
  one_request_confluence_permissions one_request_confluence_search one_request_confluence_spaces
  one_request_confluence_users one_request_confluence_webhooks one_request_discord_bans
  one_request_discord_channels one_request_discord_interactions one_request_discord_invites
  one_request_discord_messages one_request_discord_roles one_request_discord_servers
  one_request_discord_users one_request_discord_voice one_request_discord_webhooks
  one_request_github_gist one_request_github_org one_request_github_pr one_request_github_projects
  one_request_github_repo one_request_github_user one_request_github_webhooks
  one_request_github_workflows one_request_gitlab_group one_request_gitlab_hooks
  one_request_gitlab_issues one_request_gitlab_jobs one_request_gitlab_labels
  one_request_gitlab_misc one_request_gitlab_mr one_request_gitlab_projects
  one_request_gitlab_repo one_request_gitlab_runners one_request_gitlab_snippet
  one_request_gitlab_user one_request_gitlab_wiki one_request_jira_boards
  one_request_jira_components one_request_jira_filters one_request_jira_group
  one_request_jira_issues one_request_jira_sprint one_request_jira_users one_request_jira_webhooks
  one_request_jira_worklog one_request_slack_reactions one_request_slack_channels
  one_request_slack_conversations one_request_slack_files one_request_slack_groups
  one_request_slack_messages one_request_slack_pins one_request_slack_reminders
  one_request_slack_search one_request_slack_users


lemma issues_outcome:
  assumes "issues http c w r"
  shows "fst (run http c w) = outcome (shape_of c) w (http r)"
  using assms
  by (cases c) (simp_all add: issues_def outcome_modules)

section \<open>Properties\<close>










text \<open>
  C4. For every \<open>base_url\<close>, \<open>auth\<close>, \<open>space_key\<close>, \<open>title\<close> and \<open>content\<close>, under every
  HTTP layer, \<open>create_page\<close> issues exactly one request: a POST to
  \<open>base_url + "/rest/api/content"\<close> with the header \<open>Content-Type: application/json\<close>,
  the JSON body \<open>{"type": "page", "title": title, "space": {"key": space_key},
  "body": {"storage": {"value": content, "representation": "storage"}}}\<close> and the
  given credential.
\<close>

theorem create_page_request:
  "sent (snd (create_page http base_url a space_key title c w)) =
     sent w @
     [\<lparr>meth = POST,
       url = base_url @ ''/rest/api/content'',
       headers = Some [(''Content-Type'', ''application/json'')],
       params = None,
       json = Some (PDict [
         (''type'', PStr ''page''),
         (''title'', PStr title),
         (''space'', PDict [(''key'', PStr space_key)]),
         (''body'', PDict [(''storage'',
            PDict [(''value'', PStr c), (''representation'', PStr ''storage'')])])]),
       data = None,
       upfiles = None,
       auth = Some a\<rparr>]"
  by (simp add: create_page_def sent_guarded sent_try_json bare_def Let_def)




text \<open>
  C6. A wrapper issues at most one HTTP request per invocation: after a call the trace of
  requests is the one before, or the one before with a single request added. There is
  no retry and no follow-up request.
\<close>

theorem one_request:
  "sent (snd (run http c w)) = sent w \<or> (\<exists>r. sent (snd (run http c w)) = sent w @ [r])"
  by (cases c) (simp_all add: one_request_modules)






text \<open>
  C8. \<open>update_page\<close> called with version \<open>v\<close> issues one PUT whose JSON body carries
  \<open>"version": {"number": v + 1}\<close>: the caller passes the current version of the page.
\<close>

theorem update_page_sends_next_version:
  "sent (snd (update_page http base_url a page_id v title c w)) =
     sent w @
     [\<lparr>meth = PUT,
       url = base_url @ ''/rest/api/content/'' @ page_id,
       headers = Some [(''Content-Type'', ''application/json'')],
       params = None,
       json = Some (PDict [
         (''version'', PDict [(''number'', PInt (v + 1))]),
         (''title'', PStr title),
         (''type'', PStr ''page''),
         (''body'', PDict [(''storage'',
            PDict [(''value'', PStr c), (''representation'', PStr ''storage'')])])]),
       data = None,
       upfiles = None,
       auth = Some a\<rparr>]"
  by (simp add: update_page_def sent_guarded sent_try_json bare_def Let_def)

text \<open>
  C9. The JSON body of the PATCH request of \<open>update_repository\<close> holds, in this order,
  \<open>name\<close>, \<open>description\<close> and \<open>private\<close>, each one exactly when its argument is not
  \<open>None\<close>, with the argument as its value, and nothing else.
\<close>

theorem update_repository_omits_none:
  "sent (snd (update_repository http auth_token owner repo name description priv w)) =
     sent w @
     [\<lparr>meth = PATCH,
       url = ''https://api.github.com/repos/'' @ owner @ ''/'' @ repo,
       headers = Some [(''Authorization'', ''token '' @ auth_token)],
       params = None,
       json = Some (PDict (
         (case name of None \<Rightarrow> [] | Some n \<Rightarrow> [(''name'', PStr n)]) @
         (case description of None \<Rightarrow> [] | Some d \<Rightarrow> [(''description'', PStr d)]) @
         (case priv of None \<Rightarrow> [] | Some p \<Rightarrow> [(''private'', PBool p)]))),
       data = None,
       upfiles = None,
       auth = None\<rparr>]"
  unfolding update_repository_call sent_unguarded
  by (rule refl)

text \<open>
  C10. Only \<open>requests.RequestException\<close> is turned into a string. An exception of
  another class leaves a \<open>try\<close> block as it is; a body that the decoder rejects with such
  an exception leaves the wrapper as that exception. \<open>upload_file\<close> with a file that
  cannot be opened raises \<open>OSError\<close> and issues no request, and a Jira wrapper whose
  \<open>auth\<close> dictionary lacks \<open>username\<close> or \<open>password\<close> raises \<open>KeyError\<close> and issues
  no request.
\<close>

theorem only_request_exception_caught:
  "((\<forall>msg. e \<noteq> RequestException msg) \<and> m w = (Inl e, w') \<longrightarrow>
      try_except m log_and_return_str w = (Inl e, w'))
   \<and> (shape_of c = Returns_body \<and> issues http c w r \<and> http r = Replied resp
        \<and> \<not> failure (http r) \<and> body_json resp = Inl e \<and> (\<forall>msg. e \<noteq> RequestException msg) \<longrightarrow>
      fst (run http c w) = Inl e)
   \<and> (map_of (fs w) file_path = None \<longrightarrow>
      upload_file http token channels file_path w = (Inl (OSError file_path), w))
   \<and> (map_of a ''username'' = None \<or> map_of a ''password'' = None \<longrightarrow>
      (\<exists>k. jira_create_issue http server_url a project_key issue_type summary description w =
             (Inl (KeyError k), w))
      \<and> (\<exists>k. jira_read_issue http server_url a issue_key w = (Inl (KeyError k), w)))"
proof (intro conjI impI)
  assume "(\<forall>msg. e \<noteq> RequestException msg) \<and> m w = (Inl e, w')"
  then show "try_except m log_and_return_str w = (Inl e, w')"
    by (cases e) (simp_all add: try_except_def)
next
  assume h: "shape_of c = Returns_body \<and> issues http c w r \<and> http r = Replied resp
        \<and> \<not> failure (http r) \<and> body_json resp = Inl e \<and> (\<forall>msg. e \<noteq> RequestException msg)"
  then have "decoded resp = Inl e"
    by (cases e) (simp_all add: decoded_def)
  with h issues_outcome [of http c w r] show "fst (run http c w) = Inl e"
    by (auto simp: outcome_def guarded_result_def)
next
  assume "map_of (fs w) file_path = None"
  then show "upload_file http token channels file_path w = (Inl (OSError file_path), w)"
    by (simp add: upload_file_def bind_open_rb Let_def)
next
  assume "map_of a ''username'' = None \<or> map_of a ''password'' = None"
  then show "\<exists>k. jira_create_issue http server_url a project_key issue_type summary
                    description w = (Inl (KeyError k), w)"
    by (auto simp: jira_create_issue_def try_subscript Let_def split: option.split)
next
  assume "map_of a ''username'' = None \<or> map_of a ''password'' = None"
  then show "\<exists>k. jira_read_issue http server_url a issue_key w = (Inl (KeyError k), w)"
    by (auto simp: jira_read_issue_def try_subscript Let_def split: option.split)
qed

theorem only_request_exception_caught_witness:
  "try_except (raise (KeyError ''id'')) log_and_return_str fresh = (Inl (KeyError ''id''), fresh)
   \<and> fst (run undecodable
         (Confluence_pages (Read_page ''https://wiki.example'' (''bot'', ''key'') ''42'')) fresh) =
       Inl (ValueError ''Expecting value'')
   \<and> upload_file undecodable ''tok'' ''C1'' ''/tmp/missing'' fresh =
       (Inl (OSError ''/tmp/missing''), fresh)
   \<and> (\<exists>k. jira_create_issue undecodable ''https://jira.example'' [(''username'', ''bot'')]
             ''PROJ'' ''Bug'' ''s'' ''d'' fresh = (Inl (KeyError k), fresh))
   \<and> (\<exists>k. jira_read_issue undecodable ''https://jira.example'' [(''username'', ''bot'')]
             ''PROJ-1'' fresh = (Inl (KeyError k), fresh))"
proof -
  let ?c = "Confluence_pages (Read_page ''https://wiki.example'' (''bot'', ''key'') ''42'')"
  let ?r = "(bare GET ''https://wiki.example/rest/api/content/42'')\<lparr>auth := Some (''bot'', ''key'')\<rparr>"
  let ?resp = "\<lparr>status_code = 200, error_text = [],
                body_json = Inl (ValueError ''Expecting value''), content = ''<html>''\<rparr>"
  have other: "\<forall>msg. ValueError ''Expecting value'' \<noteq> RequestException msg"
    and other': "\<forall>msg. KeyError ''id'' \<noteq> RequestException msg"
    by simp_all
  have raised: "raise (KeyError ''id'') fresh = (Inl (KeyError ''id'') :: exn + pyval, fresh)"
    by (simp add: raise_def)
  have shape: "shape_of ?c = Returns_body"
    by simp
  have sends: "issues undecodable ?c fresh ?r"
    by (simp add: issues_def read_page_def sent_guarded sent_try_json fresh_def)
  have answer: "undecodable ?r = Replied ?resp"
    by (simp add: undecodable_def)
  have passed: "\<not> failure (undecodable ?r)"
    by (simp add: undecodable_def)
  have body: "body_json ?resp = Inl (ValueError ''Expecting value'')"
    by simp
  have missing: "map_of (fs fresh) ''/tmp/missing'' = None"
    by (simp add: fresh_def)
  have lacks: "map_of [(''username'', ''bot'')] ''username'' = None
      \<or> map_of [(''username'', ''bot'')] ''password'' = None"
    by simp
  note inst = only_request_exception_caught [where e = "ValueError ''Expecting value''"
      and m = "raise (KeyError ''id'') :: pyval py" and w = fresh and w' = fresh and c = ?c
      and http = undecodable and r = ?r and resp = ?resp and file_path = "''/tmp/missing''"
      and token = "''tok''" and channels = "''C1''" and a = "[(''username'', ''bot'')]"
      and server_url = "''https://jira.example''" and project_key = "''PROJ''"
      and issue_type = "''Bug''" and summary = "''s''" and description = "''d''"
      and issue_key = "''PROJ-1''"]
  note inst' = only_request_exception_caught [where e = "KeyError ''id''"
      and m = "raise (KeyError ''id'') :: pyval py" and w = fresh and w' = fresh]
  from inst' other' raised
  have first: "try_except (raise (KeyError ''id'')) log_and_return_str fresh =
      (Inl (KeyError ''id''), fresh)"
    by blast
  from inst shape sends answer passed body other
  have second: "fst (run undecodable ?c fresh) = Inl (ValueError ''Expecting value'')"
    by blast
  from inst missing
  have third: "upload_file undecodable ''tok'' ''C1'' ''/tmp/missing'' fresh =
      (Inl (OSError ''/tmp/missing''), fresh)"
    by blast
  from inst lacks
  have fourth: "(\<exists>k. jira_create_issue undecodable ''https://jira.example''
        [(''username'', ''bot'')] ''PROJ'' ''Bug'' ''s'' ''d'' fresh = (Inl (KeyError k), fresh))
      \<and> (\<exists>k. jira_read_issue undecodable ''https://jira.example'' [(''username'', ''bot'')]
            ''PROJ-1'' fresh = (Inl (KeyError k), fresh))"
    by blast
  from first second third fourth show ?thesis
    by blast
qed


end
